(* ===== verification/Prelude.thy ===== *)
theory Prelude
  imports Main "HOL-Library.Word" "HOL-Library.AList" "HOL-Library.Multiset"
begin

text \<open>
  Shared vocabulary of the development.

  \<^item> Names for the machine integers of the Go and C sources.
  \<^item> Association lists for Go maps: \<open>m[k] = v\<close> is \<open>AList.update k v m\<close>, a lookup is
    \<open>map_of m k\<close>, and a lookup with Go's zero value is \<open>lookup0\<close>.
  \<^item> The locale \<open>keyed_fold\<close>: the contract shared by every loop of the program that groups a
    slice into a Go map (create the entry when the key is new, then merge the element in), with
    the closed form of the map after the loop.
  \<^item> Maximum and sum of a column, and their independence of the order of the elements.
\<close>

section \<open>Machine integers\<close>

type_synonym u8 = "8 word"
type_synonym u16 = "16 word"
type_synonym u32 = "32 word"
type_synonym u64 = "64 word"

named_theorems go_map_simps \<open>rewrite rules of Go maps as association lists\<close>
named_theorems column_simps \<open>rewrite rules of column maxima and sums\<close>

section \<open>Go maps as association lists\<close>

text \<open>\<open>m[k]\<close> on a map of numbers: the zero value when the key is absent.\<close>

definition lookup0 :: "('k \<times> ('n::zero)) list \<Rightarrow> 'k \<Rightarrow> 'n" where
  "lookup0 m k = (case map_of m k of None \<Rightarrow> 0 | Some v \<Rightarrow> v)"

lemma map_of_AList_update [go_map_simps, simp]:
  "map_of (AList.update k v m) k' = (if k' = k then Some v else map_of m k')"
  by (simp add: AList.update_conv')

lemma lookup0_update [go_map_simps, simp]:
  "lookup0 (AList.update k v m) k' = (if k' = k then v else lookup0 m k')"
  by (simp add: lookup0_def)

lemma lookup0_Nil [simp]: "lookup0 [] k = 0"
  by (simp add: lookup0_def)

lemma lookup0_Some: "map_of m k = Some v \<Longrightarrow> lookup0 m k = v"
  by (simp add: lookup0_def)

lemma distinct_AList_update [intro]:
  "distinct (map fst m) \<Longrightarrow> distinct (map fst (AList.update k v m))"
  by (rule AList.distinct_update)

lemma set_update_subset: "set (AList.update k v m) \<subseteq> insert (k, v) (set m)"
  by (induction m) auto

lemma distinct_filter_key:
  assumes "distinct (map fst m)"
  shows "filter (\<lambda>x. fst x = k) m = (case map_of m k of None \<Rightarrow> [] | Some v \<Rightarrow> [(k, v)])"
  using assms
proof (induction m)
  case Nil
  then show ?case by simp
next
  case (Cons p m)
  then have IH: "filter (\<lambda>x. fst x = k) m = (case map_of m k of None \<Rightarrow> [] | Some v \<Rightarrow> [(k, v)])"
    and notin: "fst p \<notin> fst ` set m" by simp_all
  show ?case
  proof (cases "fst p = k")
    case True
    with notin have "map_of m k = None" by (simp add: map_of_eq_None_iff)
    with True IH show ?thesis by (cases p) simp
  next
    case False
    with IH show ?thesis by (cases p) simp
  qed
qed

text \<open>
  A \<open>range\<close> loop over a map visits a permutation of its entries. \<open>is_range f\<close> is what Go
  specifies of the order \<open>f\<close> in which such a loop runs: every entry exactly once.
\<close>

definition is_range :: "('a list \<Rightarrow> 'a list) \<Rightarrow> bool" where
  "is_range f \<longleftrightarrow> (\<forall>xs. mset (f xs) = mset xs)"

lemma is_range_mset: "is_range f \<Longrightarrow> mset (f xs) = mset xs"
  by (simp add: is_range_def)

lemma is_range_set: "is_range f \<Longrightarrow> set (f xs) = set xs"
  by (metis is_range_mset set_mset_mset)

lemma is_range_length: "is_range f \<Longrightarrow> length (f xs) = length xs"
  by (metis is_range_mset size_mset)

lemma is_range_distinct_keys:
  assumes "is_range f"
  shows "distinct (map fst (f xs)) = distinct (map fst xs)"
proof -
  have "mset (map fst (f xs)) = mset (map fst xs)"
    using is_range_mset [OF assms] by simp
  then show ?thesis by (rule mset_eq_imp_distinct_iff)
qed

lemma is_range_filter:
  assumes "is_range f"
  shows "mset (filter P (f xs)) = mset (filter P xs)"
  using is_range_mset [OF assms] by simp

lemma map_of_mset:
  assumes "mset xs = mset ys" and "distinct (map fst xs)"
  shows "map_of xs = map_of ys"
proof -
  from assms(1) have "mset (map fst xs) = mset (map fst ys)" by simp
  with assms(2) have d: "distinct (map fst ys)"
    using mset_eq_imp_distinct_iff by blast
  have "set xs = set ys" using assms(1) by (metis set_mset_mset)
  then show ?thesis using assms(2) d by (metis map_of_inject_set)
qed

lemma is_range_map_of:
  assumes "is_range f" and "distinct (map fst xs)"
  shows "map_of (f xs) = map_of xs"
  using map_of_mset [of xs "f xs"] is_range_mset [OF assms(1)] assms(2) by simp

lemma is_range_id [simp, intro]: "is_range (\<lambda>xs. xs)" and is_range_rev [simp, intro]: "is_range rev"
  by (simp_all add: is_range_def)

section \<open>Indices as words\<close>

lemma of_nat_u32_eq: "m < 2 ^ 32 \<Longrightarrow> n < 2 ^ 32 \<Longrightarrow> (of_nat m :: u32) = of_nat n \<longleftrightarrow> m = n"
  by (simp add: word_of_nat_eq_iff take_bit_nat_eq_self)

lemma unat_of_nat_le: "unat (of_nat n :: 'l::len word) \<le> n"
  by (simp add: unat_of_nat)

lemma concat_single:
  "concat (map (\<lambda>i. if i = j then xs else []) [0..<n]) = (if j < n then xs else [])"
  by (induction n) auto

section \<open>Columns: maximum and sum over a slice\<close>

text \<open>
  \<open>maxcol f xs\<close> is the largest \<open>f x\<close>, and 0 on an empty slice, as a Go accumulator that starts
  at its zero value computes it; \<open>sumcol\<close> is the sum, wrapping at the width of the words.
\<close>

definition maxcol :: "('x \<Rightarrow> 'l::len word) \<Rightarrow> 'x list \<Rightarrow> 'l word" where
  "maxcol f xs = fold (\<lambda>x m. max (f x) m) xs 0"

definition sumcol :: "('x \<Rightarrow> 'l::len word) \<Rightarrow> 'x list \<Rightarrow> 'l word" where
  "sumcol f xs = (\<Sum>x\<leftarrow>xs. f x)"

lemma max_0_word [simp]: "max 0 v = (v :: 'l::len word)" "max v 0 = (v :: 'l::len word)"
  by (simp_all add: max_def)

lemma fold_max_word:
  fixes f :: "'x \<Rightarrow> 'l::len word"
  shows "fold (\<lambda>x m. max (f x) m) xs a = max a (maxcol f xs)"
proof (induction xs arbitrary: a)
  case Nil
  then show ?case by (simp add: maxcol_def max_def)
next
  case (Cons x xs)
  have "maxcol f (x # xs) = max (f x) (maxcol f xs)"
    using Cons.IH [of "max (f x) 0"] Cons.IH [of "f x"] by (simp add: maxcol_def max_def)
  with Cons.IH show ?case by (simp add: max.left_commute max.commute)
qed

lemma maxcol_Nil [column_simps, simp]: "maxcol f [] = 0"
  by (simp add: maxcol_def)

lemma maxcol_Cons [column_simps]: "maxcol f (x # xs) = max (f x) (maxcol f xs)"
  using fold_max_word [of f xs "max (f x) 0"] by (simp add: maxcol_def max_def)

lemma maxcol_append [column_simps]: "maxcol f (xs @ ys) = max (maxcol f xs) (maxcol f ys)"
  by (induction xs) (simp_all add: maxcol_Cons max.assoc)

lemma maxcol_ge: "x \<in> set xs \<Longrightarrow> f x \<le> maxcol f xs"
  by (induction xs) (auto simp: maxcol_Cons le_max_iff_disj)

lemma maxcol_attained: "xs \<noteq> [] \<Longrightarrow> \<exists>x \<in> set xs. maxcol f xs = f x"
proof (induction xs)
  case Nil
  then show ?case by simp
next
  case (Cons x xs)
  show ?case
  proof (cases "xs = []")
    case True
    then show ?thesis by (simp add: maxcol_Cons max_def)
  next
    case False
    with Cons.IH obtain y where "y \<in> set xs" "maxcol f xs = f y" by blast
    then show ?thesis by (auto simp: maxcol_Cons max_def)
  qed
qed

lemma maxcol_le: "(\<And>x. x \<in> set xs \<Longrightarrow> f x \<le> b) \<Longrightarrow> maxcol f xs \<le> b"
  by (induction xs) (auto simp: maxcol_Cons)

lemma maxcol_zero: "(\<And>x. x \<in> set xs \<Longrightarrow> f x = 0) \<Longrightarrow> maxcol f xs = 0"
  by (induction xs) (simp_all add: maxcol_Cons)

lemma maxcol_const: "xs \<noteq> [] \<Longrightarrow> (\<And>x. x \<in> set xs \<Longrightarrow> f x = c) \<Longrightarrow> maxcol f xs = c"
  using maxcol_attained by metis

lemma maxcol_mset: "mset xs = mset ys \<Longrightarrow> maxcol f xs = maxcol f ys"
proof -
  assume eq: "mset xs = mset ys"
  have "fold (\<lambda>x m. max (f x) m) xs = fold (\<lambda>x m. max (f x) m) ys"
    by (rule fold_multiset_equiv [OF _ eq])
       (simp add: fun_eq_iff max.left_commute)
  then show ?thesis by (simp add: maxcol_def)
qed

lemma sumcol_Nil [column_simps, simp]: "sumcol f [] = 0"
  and sumcol_Cons [column_simps]: "sumcol f (x # xs) = f x + sumcol f xs"
  by (simp_all add: sumcol_def)

lemma sumcol_mset: "mset xs = mset ys \<Longrightarrow> sumcol f xs = sumcol f ys"
  unfolding sumcol_def by (metis mset_map sum_mset_sum_list)

lemma if_greater_max [column_simps]: "(if b > a then b else a) = max a (b::'l::len word)"
  by (cases "b > a") (auto simp: max_def)

section \<open>Grouping loops\<close>

text \<open>
  The contract of a loop that groups a slice into a Go map. For an element that is kept, the loop
  looks up the entry of its key, creates it with \<open>new\<close> when it is absent, and merges the element
  in with \<open>upd\<close>; an element that is not kept leaves the map alone.
\<close>

locale keyed_fold =
  fixes step :: "'x \<Rightarrow> ('k \<times> 'a) list \<Rightarrow> ('k \<times> 'a) list"
    and keep :: "'x \<Rightarrow> bool"
    and key :: "'x \<Rightarrow> 'k"
    and new :: "'x \<Rightarrow> 'a"
    and upd :: "'x \<Rightarrow> 'a \<Rightarrow> 'a"
  assumes step_keep: "keep x \<Longrightarrow> step x m =
      AList.update (key x) (upd x (case map_of m (key x) of None \<Rightarrow> new x | Some a \<Rightarrow> a)) m"
    and step_skip: "\<not> keep x \<Longrightarrow> step x m = m"
begin

abbreviation mine :: "'k \<Rightarrow> 'x list \<Rightarrow> 'x list" where
  "mine k xs \<equiv> filter (\<lambda>x. keep x \<and> key x = k) xs"

lemma step_lookup:
  "map_of (step x m) k =
    (if keep x \<and> key x = k
     then Some (upd x (case map_of m k of None \<Rightarrow> new x | Some a \<Rightarrow> a))
     else map_of m k)"
  by (cases "keep x") (auto simp: step_keep step_skip)

lemma fold_lookup_Some:
  "map_of m k = Some a \<Longrightarrow> map_of (fold step xs m) k = Some (fold upd (mine k xs) a)"
  by (induction xs arbitrary: m a) (auto simp: step_lookup)

lemma fold_lookup_None:
  "map_of m k = None \<Longrightarrow>
    map_of (fold step xs m) k =
      (case mine k xs of [] \<Rightarrow> None | y # ys \<Rightarrow> Some (fold upd (y # ys) (new y)))"
proof (induction xs arbitrary: m)
  case Nil
  then show ?case by simp
next
  case (Cons x xs)
  show ?case
  proof (cases "keep x \<and> key x = k")
    case True
    with Cons.prems have "map_of (step x m) k = Some (upd x (new x))"
      by (simp add: step_lookup)
    with True show ?thesis by (simp add: fold_lookup_Some)
  next
    case False
    with Cons.prems have "map_of (step x m) k = None" by (simp add: step_lookup)
    moreover from False have "mine k (x # xs) = mine k xs" by auto
    ultimately show ?thesis using Cons.IH by simp
  qed
qed

lemma fold_lookup:
  "map_of (fold step xs []) k =
    (case mine k xs of [] \<Rightarrow> None | y # ys \<Rightarrow> Some (fold upd (y # ys) (new y)))"
  by (simp add: fold_lookup_None)

lemma step_distinct: "distinct (map fst m) \<Longrightarrow> distinct (map fst (step x m))"
  by (cases "keep x") (auto simp: step_keep step_skip)

lemma fold_distinct: "distinct (map fst m) \<Longrightarrow> distinct (map fst (fold step xs m))"
  by (induction xs arbitrary: m) (auto intro: step_distinct)

lemma fold_keys:
  "fst ` set (fold step xs m) = fst ` set m \<union> key ` set (filter keep xs)"
proof (induction xs arbitrary: m)
  case Nil
  then show ?case by simp
next
  case (Cons x xs)
  have "fst ` set (step x m) = fst ` set m \<union> (if keep x then {key x} else {})"
    by (cases "keep x") (auto simp: step_keep step_skip AList.dom_update)
  with Cons.IH show ?case by auto
qed

end

end
