(* ===== verification/CLayout.thy ===== *)
theory CLayout
  imports Prelude
begin

text \<open>
  Memory layout of C and Go aggregates. A type descriptor \<open>ctype\<close> says what a declaration says:
  integers of a number of bytes, pointers, arrays, structs and unions. \<open>csize\<close>, \<open>calign\<close> and
  \<open>field_slots\<close> compute the layout that the C ABI (and the Go compilers for the same targets) give
  it. The parameter \<open>ma\<close> is the largest alignment of the target and also its pointer size: 8 on
  amd64, arm64 and BPF, 4 on 386, whose \<open>uint64\<close> is 4-aligned.

  The second half lays values out in memory: a struct image is written slot by slot in little
  endian, and reading a slot back gives the value written, for every struct whose slots are laid
  out by \<open>field_slots\<close>.
\<close>

section \<open>Type descriptors\<close>

datatype ctype =
    TInt nat
  | TPtr
  | TArr ctype nat
  | TStruct "(string \<times> ctype) list"
  | TUnion "(string \<times> ctype) list"

type_synonym field = "string \<times> ctype"

definition pad_up :: "nat \<Rightarrow> nat \<Rightarrow> nat" where
  "pad_up n a = (if n mod a = 0 then n else n + (a - n mod a))"

fun calign :: "nat \<Rightarrow> ctype \<Rightarrow> nat" where
  "calign ma (TInt n) = (if n = 0 then 1 else min ma n)"
| "calign ma TPtr = ma"
| "calign ma (TArr t n) = calign ma t"
| "calign ma (TStruct fs) = foldr (\<lambda>f a. max (calign ma (snd f)) a) fs 1"
| "calign ma (TUnion fs) = foldr (\<lambda>f a. max (calign ma (snd f)) a) fs 1"

text \<open>
  \<open>place sz al off fs\<close> places the fields one after the other from \<open>off\<close>: each slot is the name, the
  offset and the size of a field. \<open>slots_end\<close> is the first byte after the last slot.
\<close>

fun place :: "(ctype \<Rightarrow> nat) \<Rightarrow> (ctype \<Rightarrow> nat) \<Rightarrow> nat \<Rightarrow> field list \<Rightarrow> (string \<times> nat \<times> nat) list" where
  "place sz al off [] = []"
| "place sz al off (f # fs) =
     (fst f, pad_up off (al (snd f)), sz (snd f)) #
       place sz al (pad_up off (al (snd f)) + sz (snd f)) fs"

fun place_end :: "(ctype \<Rightarrow> nat) \<Rightarrow> (ctype \<Rightarrow> nat) \<Rightarrow> nat \<Rightarrow> field list \<Rightarrow> nat" where
  "place_end sz al off [] = off"
| "place_end sz al off (f # fs) = place_end sz al (pad_up off (al (snd f)) + sz (snd f)) fs"

lemma place_end_cong [fundef_cong]:
  assumes "off = off'" and "fs = fs'"
    and "\<And>f. f \<in> set fs' \<Longrightarrow> sz (snd f) = sz' (snd f)"
    and "\<And>f. f \<in> set fs' \<Longrightarrow> al (snd f) = al' (snd f)"
  shows "place_end sz al off fs = place_end sz' al' off' fs'"
proof -
  have "place_end sz al off fs = place_end sz' al' off fs"
    if "\<And>f. f \<in> set fs \<Longrightarrow> sz (snd f) = sz' (snd f)" "\<And>f. f \<in> set fs \<Longrightarrow> al (snd f) = al' (snd f)"
    for off
    using that by (induction fs arbitrary: off) simp_all
  with assms show ?thesis by simp
qed

fun csize :: "nat \<Rightarrow> ctype \<Rightarrow> nat" where
  "csize ma (TInt n) = n"
| "csize ma TPtr = ma"
| "csize ma (TArr t n) = n * csize ma t"
| "csize ma (TStruct fs) =
     pad_up (place_end (\<lambda>t. csize ma t) (\<lambda>t. calign ma t) 0 fs) (calign ma (TStruct fs))"
| "csize ma (TUnion fs) =
     pad_up (foldr (\<lambda>f s. max (csize ma (snd f)) s) fs 0) (calign ma (TUnion fs))"

definition field_slots :: "nat \<Rightarrow> field list \<Rightarrow> (string \<times> nat \<times> nat) list" where
  "field_slots ma fs = place (csize ma) (calign ma) 0 fs"

section \<open>Well-formed layouts\<close>

text \<open>
  Slots are in bounds, increasing and disjoint: \<open>slots_ok lo hi ss\<close> says that the slots \<open>ss\<close> lie
  one after the other between \<open>lo\<close> and \<open>hi\<close>.
\<close>

fun slots_ok :: "nat \<Rightarrow> nat \<Rightarrow> (string \<times> nat \<times> nat) list \<Rightarrow> bool" where
  "slots_ok lo hi [] = (lo \<le> hi)"
| "slots_ok lo hi ((n, off, sz) # ss) = (lo \<le> off \<and> slots_ok (off + sz) hi ss)"

lemma pad_up_ge: "n \<le> pad_up n a"
  by (simp add: pad_up_def)

lemma pad_up_dvd: "0 < a \<Longrightarrow> a dvd pad_up n a"
proof -
  assume a: "0 < a"
  show ?thesis
  proof (cases "n mod a = 0")
    case True
    then show ?thesis by (simp add: pad_up_def mod_eq_0_iff_dvd)
  next
    case False
    have "n + (a - n mod a) = a * (n div a) + a"
      using a mod_less_divisor [OF a, of n] mult_div_mod_eq [of a n] by linarith
    with False show ?thesis by (simp add: pad_up_def)
  qed
qed

lemma pad_up_less: "0 < a \<Longrightarrow> pad_up n a < n + a"
  by (simp add: pad_up_def) 

lemma place_slots_ok:
  "place_end sz al off fs \<le> hi \<Longrightarrow> slots_ok off hi (place sz al off fs)"
proof (induction fs arbitrary: off)
  case Nil
  then show ?case by simp
next
  case (Cons f fs)
  then show ?case by (simp add: pad_up_ge)
qed

lemma field_slots_ok: "slots_ok 0 (csize ma (TStruct fs)) (field_slots ma fs)"
  unfolding field_slots_def by (rule place_slots_ok) (simp add: pad_up_ge)

lemma slots_ok_mono: "slots_ok lo hi ss \<Longrightarrow> lo' \<le> lo \<Longrightarrow> slots_ok lo' hi ss"
  by (cases ss) auto

lemma slots_ok_bounds:
  "slots_ok lo hi ss \<Longrightarrow> (n, off, sz) \<in> set ss \<Longrightarrow> lo \<le> off \<and> off + sz \<le> hi"
proof (induction ss arbitrary: lo)
  case Nil
  then show ?case by simp
next
  case (Cons s ss)
  obtain m o2 z where s: "s = (m, o2, z)" by (cases s) auto
  have end_le: "slots_ok l hi ss \<Longrightarrow> l \<le> hi" for l
  proof (induction ss arbitrary: l)
    case Nil
    then show ?case by simp
  next
    case (Cons t ts)
    then show ?case by (cases t) fastforce
  qed
  show ?case
  proof (cases "(n, off, sz) = s")
    case True
    with Cons.prems s end_le show ?thesis by auto
  next
    case False
    with Cons.prems s have "slots_ok (o2 + z) hi ss" "(n, off, sz) \<in> set ss" "lo \<le> o2" by auto
    with Cons.IH show ?thesis by fastforce
  qed
qed

lemma calign_pos: "0 < ma \<Longrightarrow> 0 < calign ma t"
proof (induction t)
  case (TStruct fs)
  have "0 < foldr (\<lambda>f a. max (calign ma (snd f)) a) fs (1::nat)"
    by (induction fs) (auto simp: max_def)
  then show ?case by simp
next
  case (TUnion fs)
  have "0 < foldr (\<lambda>f a. max (calign ma (snd f)) a) fs (1::nat)"
    by (induction fs) (auto simp: max_def)
  then show ?case by simp
qed auto

lemma place_aligned:
  assumes "\<And>t. 0 < al t"
  shows "(n, off', z) \<in> set (place sz al off fs) \<Longrightarrow> \<exists>t. (n, t) \<in> set fs \<and> al t dvd off' \<and> z = sz t"
proof (induction fs arbitrary: off)
  case Nil
  then show ?case by simp
next
  case (Cons f fs)
  then show ?case
    using pad_up_dvd [OF assms, of "snd f" off] by (cases f) auto
qed

section \<open>Bytes\<close>

type_synonym byte = u8

fun le_bytes :: "nat \<Rightarrow> nat \<Rightarrow> byte list" where
  "le_bytes 0 v = []"
| "le_bytes (Suc n) v = of_nat (v mod 256) # le_bytes n (v div 256)"

fun le_val :: "byte list \<Rightarrow> nat" where
  "le_val [] = 0"
| "le_val (b # bs) = unat b + 256 * le_val bs"

lemma length_le_bytes [simp]: "length (le_bytes n v) = n"
  by (induction n arbitrary: v) auto

lemma le_val_le_bytes: "le_val (le_bytes n v) = v mod 256 ^ n"
proof (induction n arbitrary: v)
  case 0
  then show ?case by simp
next
  case (Suc n)
  have "unat (of_nat (v mod 256) :: byte) = v mod 256"
    by (simp add: unat_of_nat)
  with Suc.IH show ?case by (simp add: mod_mult2_eq)
qed

definition store_le :: "nat \<Rightarrow> nat \<Rightarrow> nat \<Rightarrow> byte list \<Rightarrow> byte list" where
  "store_le off sz v bs = take off bs @ le_bytes sz v @ drop (off + sz) bs"

definition load_le :: "nat \<Rightarrow> nat \<Rightarrow> byte list \<Rightarrow> nat" where
  "load_le off sz bs = le_val (take sz (drop off bs))"

lemma length_store_le: "off + sz \<le> length bs \<Longrightarrow> length (store_le off sz v bs) = length bs"
  by (simp add: store_le_def)

lemma load_store_same:
  "off + sz \<le> length bs \<Longrightarrow> load_le off sz (store_le off sz v bs) = v mod 256 ^ sz"
  by (simp add: load_le_def store_le_def le_val_le_bytes)

lemma load_store_before:
  "off' + sz' \<le> off \<Longrightarrow> off + sz \<le> length bs \<Longrightarrow>
    load_le off' sz' (store_le off sz v bs) = load_le off' sz' bs"
proof -
  assume le: "off' + sz' \<le> off" and b: "off + sz \<le> length bs"
  from le have "sz' \<le> off - off'" by simp
  with le b show ?thesis by (simp add: load_le_def store_le_def drop_take min_def)
qed

text \<open>The image of a struct: its values stored slot by slot into zeroed memory.\<close>

fun store_slots :: "((string \<times> nat \<times> nat) \<times> nat) list \<Rightarrow> byte list \<Rightarrow> byte list" where
  "store_slots [] bs = bs"
| "store_slots (((n, off, sz), v) # svs) bs = store_slots svs (store_le off sz v bs)"

definition struct_image :: "nat \<Rightarrow> (string \<times> nat \<times> nat) list \<Rightarrow> nat list \<Rightarrow> byte list" where
  "struct_image len ss vs = store_slots (zip ss vs) (replicate len 0)"

definition read_slots :: "(string \<times> nat \<times> nat) list \<Rightarrow> byte list \<Rightarrow> nat list" where
  "read_slots ss bs = map (\<lambda>(n, off, sz). load_le off sz bs) ss"

fun vals_fit :: "(string \<times> nat \<times> nat) list \<Rightarrow> nat list \<Rightarrow> bool" where
  "vals_fit [] [] = True"
| "vals_fit ((n, off, sz) # ss) (v # vs) = (v < 256 ^ sz \<and> vals_fit ss vs)"
| "vals_fit _ _ = False"

lemma store_slots_before:
  "slots_ok lo (length bs) ss \<Longrightarrow> off' + sz' \<le> lo \<Longrightarrow>
    load_le off' sz' (store_slots (zip ss vs) bs) = load_le off' sz' bs"
proof (induction ss arbitrary: lo bs vs)
  case Nil
  then show ?case by simp
next
  case (Cons s ss)
  obtain n off sz where s: "s = (n, off, sz)" by (cases s) auto
  show ?case
  proof (cases vs)
    case Nil
    then show ?thesis by simp
  next
    case (Cons v vs')
    have b: "off + sz \<le> length bs"
      using slots_ok_bounds [OF Cons.prems(1), of n off sz] s by simp
    have ok: "slots_ok (off + sz) (length (store_le off sz v bs)) ss"
      using Cons.prems(1) s b by (simp add: length_store_le)
    have "load_le off' sz' (store_slots (zip ss vs') (store_le off sz v bs))
        = load_le off' sz' (store_le off sz v bs)"
      by (rule Cons.IH [OF ok]) (use Cons.prems s in auto)
    also have "\<dots> = load_le off' sz' bs"
      by (rule load_store_before [OF _ b]) (use Cons.prems s in auto)
    finally show ?thesis using Cons s by simp
  qed
qed

lemma read_store_slots:
  "slots_ok lo (length bs) ss \<Longrightarrow> vals_fit ss vs \<Longrightarrow> read_slots ss (store_slots (zip ss vs) bs) = vs"
proof (induction ss arbitrary: lo bs vs)
  case Nil
  then show ?case by (cases vs) (auto simp: read_slots_def)
next
  case (Cons s ss)
  obtain n off sz where s: "s = (n, off, sz)" by (cases s) auto
  from Cons.prems s obtain v vs' where vs: "vs = v # vs'" and v: "v < 256 ^ sz" and fit: "vals_fit ss vs'"
    by (cases vs) auto
  have b: "off + sz \<le> length bs"
    using slots_ok_bounds [OF Cons.prems(1), of n off sz] s by simp
  have ok: "slots_ok (off + sz) (length (store_le off sz v bs)) ss"
    using Cons.prems(1) s b by (simp add: length_store_le)
  have "load_le off sz (store_slots (zip ss vs') (store_le off sz v bs)) = v"
    using store_slots_before [OF ok, of off sz vs'] load_store_same [OF b] v by simp
  with Cons.IH [OF ok fit] show ?case by (simp add: vs s read_slots_def)
qed

lemma read_struct_image:
  "slots_ok 0 len ss \<Longrightarrow> vals_fit ss vs \<Longrightarrow> read_slots ss (struct_image len ss vs) = vs"
  unfolding struct_image_def by (rule read_store_slots [of 0]) simp_all

end
