(* ===== verification/GpuTypes.thy ===== *)
theory GpuTypes
  imports CLayout
begin

text \<open>
  The data contract of the bridge: \<open>include/gpu_types.h\<close>, its Go mirror generated by bpf2go
  (\<open>internal/maps/gputypes_x86_bpfel.go\<close>, the arm64 file has the same types) and the aliases and
  constants of \<open>internal/maps/types.go\<close>.

  Each C struct is modelled twice: as a \<^theory_text>\<open>record\<close> of machine words, which is what the rest of
  the model computes with, and as a layout descriptor (\<open>c_*\<close> for the C struct, \<open>go_*\<close> for the Go
  struct with its blank padding fields). The lemmas show that the two descriptors agree on every
  offset and on the size, on 64-bit targets and on 386, and that a record written with the Go
  layout is read back by a consumer that uses the C layout.
\<close>

section \<open>The structs\<close>

record gpu_meta =
  schema_version :: u32
  n_devices :: u32
  last_update_ns :: u64
  helper_pid :: u32
  meta_reserved :: u32

record gpu_device_metrics =
  dm_timestamp_ns :: u64
  dm_sm_util_pct :: u32
  dm_mem_util_pct :: u32
  dm_mem_total :: u64
  dm_mem_used :: u64
  dm_mem_reserved :: u64
  dm_temp_c :: u32
  dm_power_mw :: u32
  dm_sm_clock_mhz :: u32
  dm_mem_clock_mhz :: u32
  dm_throttle_reasons :: u64
  dm_pcie_tx_kbps :: u64
  dm_pcie_rx_kbps :: u64
  dm_enc_util_pct :: u32
  dm_dec_util_pct :: u32
  dm_nvlink_tx_kbps :: u64
  dm_nvlink_rx_kbps :: u64
  dm_ecc_corrected_total :: u64
  dm_ecc_uncorrected_total :: u64
  dm_fan_speed_pct :: u32
  dm_compute_mode :: u32

record gpu_pid_metrics =
  pm_timestamp_ns :: u64
  pm_used_gpu_memory :: u64
  pm_sm_util_pct :: u32
  pm_mem_util_pct :: u32
  pm_enc_util_pct :: u32
  pm_dec_util_pct :: u32
  pm_gpu_device :: u8
  pm_mig_instance :: u8
  pm_pad :: u16

record gpu_pid_metrics_aggregated =
  pa_timestamp_ns :: u64
  pa_used_gpu_memory_total :: u64
  pa_sm_util_pct_max :: u32
  pa_mem_util_pct_max :: u32
  pa_gpu_device_primary :: u8
  pa_device_count :: u8
  pa_pad :: u16

definition GPU_SCHEMA_VERSION :: u32 where "GPU_SCHEMA_VERSION = 1"
definition GPU_MAX_DEVICES :: nat where "GPU_MAX_DEVICES = 16"
definition GPU_DEVICE_PRIMARY_MULTI :: u8 where "GPU_DEVICE_PRIMARY_MULTI = 0xFF"

text \<open>The Go constants of \<open>types.go\<close>.\<close>

definition SchemaVersion :: u32 where "SchemaVersion = 1"
definition MaxDevices :: nat where "MaxDevices = 16"
definition DevicePrimaryMulti :: u8 where "DevicePrimaryMulti = 0xFF"

section \<open>Layout descriptors of the C structs\<close>

abbreviation "c_u8 \<equiv> TInt 1"
abbreviation "c_u16 \<equiv> TInt 2"
abbreviation "c_u32 \<equiv> TInt 4"
abbreviation "c_u64 \<equiv> TInt 8"

definition c_gpu_meta :: "field list" where
  "c_gpu_meta =
    [(''schema_version'', c_u32),
     (''n_devices'', c_u32),
     (''last_update_ns'', c_u64),
     (''helper_pid'', c_u32),
     (''_reserved'', c_u32)]"

definition c_gpu_device_metrics :: "field list" where
  "c_gpu_device_metrics =
    [(''timestamp_ns'', c_u64),
     (''sm_util_pct'', c_u32),
     (''mem_util_pct'', c_u32),
     (''mem_total'', c_u64),
     (''mem_used'', c_u64),
     (''mem_reserved'', c_u64),
     (''temp_c'', c_u32),
     (''power_mw'', c_u32),
     (''sm_clock_mhz'', c_u32),
     (''mem_clock_mhz'', c_u32),
     (''throttle_reasons'', c_u64),
     (''pcie_tx_kbps'', c_u64),
     (''pcie_rx_kbps'', c_u64),
     (''enc_util_pct'', c_u32),
     (''dec_util_pct'', c_u32),
     (''nvlink_tx_kbps'', c_u64),
     (''nvlink_rx_kbps'', c_u64),
     (''ecc_corrected_total'', c_u64),
     (''ecc_uncorrected_total'', c_u64),
     (''fan_speed_pct'', c_u32),
     (''compute_mode'', c_u32)]"

definition c_gpu_pid_metrics :: "field list" where
  "c_gpu_pid_metrics =
    [(''timestamp_ns'', c_u64),
     (''used_gpu_memory'', c_u64),
     (''sm_util_pct'', c_u32),
     (''mem_util_pct'', c_u32),
     (''enc_util_pct'', c_u32),
     (''dec_util_pct'', c_u32),
     (''gpu_device'', c_u8),
     (''mig_instance'', c_u8),
     (''_pad'', c_u16)]"

definition c_gpu_pid_metrics_aggregated :: "field list" where
  "c_gpu_pid_metrics_aggregated =
    [(''timestamp_ns'', c_u64),
     (''used_gpu_memory_total'', c_u64),
     (''sm_util_pct_max'', c_u32),
     (''mem_util_pct_max'', c_u32),
     (''gpu_device_primary'', c_u8),
     (''device_count'', c_u8),
     (''_pad'', c_u16)]"

section \<open>Layout descriptors of the Go structs\<close>

text \<open>
  Blank fields are named \<open>''_''\<close>; \<open>structs.HostLayout\<close> is an empty struct. Names of the other
  fields are the Go names.
\<close>

definition host_layout :: ctype where "host_layout = TStruct []"

definition go_GpuMeta :: "field list" where
  "go_GpuMeta =
    [(''_'', host_layout),
     (''SchemaVersion'', c_u32),
     (''N_devices'', c_u32),
     (''LastUpdateNs'', c_u64),
     (''HelperPid'', c_u32),
     (''Reserved'', c_u32)]"

definition go_GpuDeviceMetrics :: "field list" where
  "go_GpuDeviceMetrics =
    [(''_'', host_layout),
     (''TimestampNs'', c_u64),
     (''SmUtilPct'', c_u32),
     (''MemUtilPct'', c_u32),
     (''MemTotal'', c_u64),
     (''MemUsed'', c_u64),
     (''MemReserved'', c_u64),
     (''TempC'', c_u32),
     (''PowerMw'', c_u32),
     (''SmClockMhz'', c_u32),
     (''MemClockMhz'', c_u32),
     (''ThrottleReasons'', c_u64),
     (''PcieTxKbps'', c_u64),
     (''PcieRxKbps'', c_u64),
     (''EncUtilPct'', c_u32),
     (''DecUtilPct'', c_u32),
     (''NvlinkTxKbps'', c_u64),
     (''NvlinkRxKbps'', c_u64),
     (''EccCorrectedTotal'', c_u64),
     (''EccUncorrectedTotal'', c_u64),
     (''FanSpeedPct'', c_u32),
     (''ComputeMode'', c_u32)]"

definition go_GpuPidMetrics :: "field list" where
  "go_GpuPidMetrics =
    [(''_'', host_layout),
     (''TimestampNs'', c_u64),
     (''UsedGpuMemory'', c_u64),
     (''SmUtilPct'', c_u32),
     (''MemUtilPct'', c_u32),
     (''EncUtilPct'', c_u32),
     (''DecUtilPct'', c_u32),
     (''GpuDevice'', c_u8),
     (''MigInstance'', c_u8),
     (''Pad'', c_u16),
     (''_'', TArr c_u8 4)]"

definition go_GpuPidMetricsAggregated :: "field list" where
  "go_GpuPidMetricsAggregated =
    [(''_'', host_layout),
     (''TimestampNs'', c_u64),
     (''UsedGpuMemoryTotal'', c_u64),
     (''SmUtilPctMax'', c_u32),
     (''MemUtilPctMax'', c_u32),
     (''GpuDevicePrimary'', c_u8),
     (''DeviceCount'', c_u8),
     (''Pad'', c_u16),
     (''_'', TArr c_u8 4)]"

text \<open>The slots of the named fields, and the struct a Go or C program stores.\<close>

definition named_slots :: "nat \<Rightarrow> field list \<Rightarrow> (string \<times> nat \<times> nat) list" where
  "named_slots ma fs = filter (\<lambda>s. fst s \<noteq> ''_'') (field_slots ma fs)"

definition slots_only :: "(string \<times> nat \<times> nat) list \<Rightarrow> (nat \<times> nat) list" where
  "slots_only ss = map snd ss"

text \<open>
  Two declarations have the same memory layout for a target: the same slots in the same order and
  the same size.
\<close>

definition same_layout :: "nat \<Rightarrow> field list \<Rightarrow> nat \<Rightarrow> field list \<Rightarrow> bool" where
  "same_layout ma fs ma' gs \<longleftrightarrow>
     slots_only (named_slots ma fs) = slots_only (named_slots ma' gs) \<and>
     csize ma (TStruct fs) = csize ma' (TStruct gs)"

text \<open>
  The named values of a record: a Go program sets the fields of a struct by their Go names (\<open>GpuMeta_fields\<close> and so on), a
  C program reads them by their C names (\<open>gpu_meta_fields\<close> and so on). The fields of the records of the model are those of
  the C structs.
\<close>

definition GpuMeta_fields :: "gpu_meta \<Rightarrow> (string \<times> nat) list" where
  "GpuMeta_fields m =
    [(''SchemaVersion'', unat (schema_version m)),
     (''N_devices'', unat (n_devices m)),
     (''LastUpdateNs'', unat (last_update_ns m)),
     (''HelperPid'', unat (helper_pid m)),
     (''Reserved'', unat (meta_reserved m))]"

definition gpu_meta_fields :: "gpu_meta \<Rightarrow> (string \<times> nat) list" where
  "gpu_meta_fields m =
    [(''schema_version'', unat (schema_version m)),
     (''n_devices'', unat (n_devices m)),
     (''last_update_ns'', unat (last_update_ns m)),
     (''helper_pid'', unat (helper_pid m)),
     (''_reserved'', unat (meta_reserved m))]"

definition GpuDeviceMetrics_fields :: "gpu_device_metrics \<Rightarrow> (string \<times> nat) list" where
  "GpuDeviceMetrics_fields d =
    [(''TimestampNs'', unat (dm_timestamp_ns d)),
     (''SmUtilPct'', unat (dm_sm_util_pct d)),
     (''MemUtilPct'', unat (dm_mem_util_pct d)),
     (''MemTotal'', unat (dm_mem_total d)),
     (''MemUsed'', unat (dm_mem_used d)),
     (''MemReserved'', unat (dm_mem_reserved d)),
     (''TempC'', unat (dm_temp_c d)),
     (''PowerMw'', unat (dm_power_mw d)),
     (''SmClockMhz'', unat (dm_sm_clock_mhz d)),
     (''MemClockMhz'', unat (dm_mem_clock_mhz d)),
     (''ThrottleReasons'', unat (dm_throttle_reasons d)),
     (''PcieTxKbps'', unat (dm_pcie_tx_kbps d)),
     (''PcieRxKbps'', unat (dm_pcie_rx_kbps d)),
     (''EncUtilPct'', unat (dm_enc_util_pct d)),
     (''DecUtilPct'', unat (dm_dec_util_pct d)),
     (''NvlinkTxKbps'', unat (dm_nvlink_tx_kbps d)),
     (''NvlinkRxKbps'', unat (dm_nvlink_rx_kbps d)),
     (''EccCorrectedTotal'', unat (dm_ecc_corrected_total d)),
     (''EccUncorrectedTotal'', unat (dm_ecc_uncorrected_total d)),
     (''FanSpeedPct'', unat (dm_fan_speed_pct d)),
     (''ComputeMode'', unat (dm_compute_mode d))]"

definition gpu_device_metrics_fields :: "gpu_device_metrics \<Rightarrow> (string \<times> nat) list" where
  "gpu_device_metrics_fields d =
    [(''timestamp_ns'', unat (dm_timestamp_ns d)),
     (''sm_util_pct'', unat (dm_sm_util_pct d)),
     (''mem_util_pct'', unat (dm_mem_util_pct d)),
     (''mem_total'', unat (dm_mem_total d)),
     (''mem_used'', unat (dm_mem_used d)),
     (''mem_reserved'', unat (dm_mem_reserved d)),
     (''temp_c'', unat (dm_temp_c d)),
     (''power_mw'', unat (dm_power_mw d)),
     (''sm_clock_mhz'', unat (dm_sm_clock_mhz d)),
     (''mem_clock_mhz'', unat (dm_mem_clock_mhz d)),
     (''throttle_reasons'', unat (dm_throttle_reasons d)),
     (''pcie_tx_kbps'', unat (dm_pcie_tx_kbps d)),
     (''pcie_rx_kbps'', unat (dm_pcie_rx_kbps d)),
     (''enc_util_pct'', unat (dm_enc_util_pct d)),
     (''dec_util_pct'', unat (dm_dec_util_pct d)),
     (''nvlink_tx_kbps'', unat (dm_nvlink_tx_kbps d)),
     (''nvlink_rx_kbps'', unat (dm_nvlink_rx_kbps d)),
     (''ecc_corrected_total'', unat (dm_ecc_corrected_total d)),
     (''ecc_uncorrected_total'', unat (dm_ecc_uncorrected_total d)),
     (''fan_speed_pct'', unat (dm_fan_speed_pct d)),
     (''compute_mode'', unat (dm_compute_mode d))]"

definition GpuPidMetrics_fields :: "gpu_pid_metrics \<Rightarrow> (string \<times> nat) list" where
  "GpuPidMetrics_fields p =
    [(''TimestampNs'', unat (pm_timestamp_ns p)),
     (''UsedGpuMemory'', unat (pm_used_gpu_memory p)),
     (''SmUtilPct'', unat (pm_sm_util_pct p)),
     (''MemUtilPct'', unat (pm_mem_util_pct p)),
     (''EncUtilPct'', unat (pm_enc_util_pct p)),
     (''DecUtilPct'', unat (pm_dec_util_pct p)),
     (''GpuDevice'', unat (pm_gpu_device p)),
     (''MigInstance'', unat (pm_mig_instance p)),
     (''Pad'', unat (pm_pad p))]"

definition gpu_pid_metrics_fields :: "gpu_pid_metrics \<Rightarrow> (string \<times> nat) list" where
  "gpu_pid_metrics_fields p =
    [(''timestamp_ns'', unat (pm_timestamp_ns p)),
     (''used_gpu_memory'', unat (pm_used_gpu_memory p)),
     (''sm_util_pct'', unat (pm_sm_util_pct p)),
     (''mem_util_pct'', unat (pm_mem_util_pct p)),
     (''enc_util_pct'', unat (pm_enc_util_pct p)),
     (''dec_util_pct'', unat (pm_dec_util_pct p)),
     (''gpu_device'', unat (pm_gpu_device p)),
     (''mig_instance'', unat (pm_mig_instance p)),
     (''_pad'', unat (pm_pad p))]"

definition GpuPidMetricsAggregated_fields :: "gpu_pid_metrics_aggregated \<Rightarrow> (string \<times> nat) list" where
  "GpuPidMetricsAggregated_fields p =
    [(''TimestampNs'', unat (pa_timestamp_ns p)),
     (''UsedGpuMemoryTotal'', unat (pa_used_gpu_memory_total p)),
     (''SmUtilPctMax'', unat (pa_sm_util_pct_max p)),
     (''MemUtilPctMax'', unat (pa_mem_util_pct_max p)),
     (''GpuDevicePrimary'', unat (pa_gpu_device_primary p)),
     (''DeviceCount'', unat (pa_device_count p)),
     (''Pad'', unat (pa_pad p))]"

definition gpu_pid_metrics_aggregated_fields :: "gpu_pid_metrics_aggregated \<Rightarrow> (string \<times> nat) list" where
  "gpu_pid_metrics_aggregated_fields p =
    [(''timestamp_ns'', unat (pa_timestamp_ns p)),
     (''used_gpu_memory_total'', unat (pa_used_gpu_memory_total p)),
     (''sm_util_pct_max'', unat (pa_sm_util_pct_max p)),
     (''mem_util_pct_max'', unat (pa_mem_util_pct_max p)),
     (''gpu_device_primary'', unat (pa_gpu_device_primary p)),
     (''device_count'', unat (pa_device_count p)),
     (''_pad'', unat (pa_pad p))]"

text \<open>The value of a field of a Go composite literal: zero when the literal does not set it.\<close>

definition literal_value :: "(string \<times> nat) list \<Rightarrow> string \<Rightarrow> nat" where
  "literal_value nvs n = (case map_of nvs n of None \<Rightarrow> 0 | Some v \<Rightarrow> v)"

text \<open>
  The bytes a Go program hands to \<open>Map.Update\<close>: every field of the Go struct holds, in the slot of its
  name, the value set under that name; blank fields are zero. And the fields a C consumer reads from
  bytes, under their C names.
\<close>

definition go_image :: "nat \<Rightarrow> field list \<Rightarrow> (string \<times> nat) list \<Rightarrow> byte list" where
  "go_image ma gs nvs =
     struct_image (csize ma (TStruct gs)) (named_slots ma gs) (map (\<lambda>s. literal_value nvs (fst s)) (named_slots ma gs))"

definition c_read :: "field list \<Rightarrow> byte list \<Rightarrow> (string \<times> nat) list" where
  "c_read fs bs = map (\<lambda>(n, off, sz). (n, load_le off sz bs)) (named_slots 8 fs)"

section \<open>Reading back through the other declaration\<close>

lemma slots_ok_filter: "slots_ok lo hi ss \<Longrightarrow> slots_ok lo hi (filter P ss)"
proof (induction ss arbitrary: lo)
  case Nil
  then show ?case by simp
next
  case (Cons s ss)
  obtain n off sz where s: "s = (n, off, sz)" by (cases s) auto
  from Cons.prems s have "lo \<le> off" and "slots_ok (off + sz) hi (filter P ss)"
    using Cons.IH by auto
  then show ?case
    using s slots_ok_mono [of "off + sz" hi "filter P ss" lo] by auto
qed

lemma named_slots_ok: "slots_ok 0 (csize ma (TStruct fs)) (named_slots ma fs)"
  unfolding named_slots_def by (rule slots_ok_filter [OF field_slots_ok])

lemma c_read_zip: "c_read fs bs = zip (map fst (named_slots 8 fs)) (read_slots (named_slots 8 fs) bs)"
proof -
  have "map (\<lambda>(n, off, sz). (n, load_le off sz bs)) ss = zip (map fst ss) (read_slots ss bs)" for ss
    by (induction ss) (auto simp: read_slots_def)
  then show ?thesis by (simp add: c_read_def)
qed

lemma read_slots_only: "read_slots ss bs = map (\<lambda>(off, sz). load_le off sz bs) (slots_only ss)"
  by (simp add: read_slots_def slots_only_def split_beta)

text \<open>
  The contract between a C struct, the Go struct generated from it and the record of the model: the same
  memory layout, the C fields under the C names in their order, and in the slot of each the value the Go
  program sets under the Go name of that slot. A consumer that reads the Go image through the C layout then
  finds under every C name the value of the record.
\<close>

locale abi_mirror =
  fixes ma :: nat
    and cfs :: "field list"
    and gfs :: "field list"
    and go_fields :: "'r \<Rightarrow> (string \<times> nat) list"
    and c_fields :: "'r \<Rightarrow> (string \<times> nat) list"
  assumes layout: "same_layout 8 cfs ma gfs"
    and c_names: "map fst (c_fields r) = map fst (named_slots 8 cfs)"
    and go_values: "map (\<lambda>s. literal_value (go_fields r) (fst s)) (named_slots ma gfs) = map snd (c_fields r)"
    and fits: "vals_fit (named_slots ma gfs) (map snd (c_fields r))"
begin

lemma image: "go_image ma gfs (go_fields r) =
  struct_image (csize ma (TStruct gfs)) (named_slots ma gfs) (map snd (c_fields r))"
  by (simp add: go_image_def go_values)

lemma read_back: "c_read cfs (go_image ma gfs (go_fields r)) = c_fields r"
proof -
  let ?bs = "go_image ma gfs (go_fields r)"
  have "read_slots (named_slots 8 cfs) ?bs = read_slots (named_slots ma gfs) ?bs"
    using layout by (simp add: read_slots_only same_layout_def)
  also have "\<dots> = map snd (c_fields r)"
    unfolding image by (rule read_struct_image [OF named_slots_ok fits])
  finally have "c_read cfs ?bs = zip (map fst (c_fields r)) (map snd (c_fields r))"
    unfolding c_names by (simp add: c_read_zip)
  then show ?thesis by (simp add: zip_map_fst_snd)
qed

lemma read_field:
  assumes "(n, off, sz) \<in> set (named_slots 8 cfs)"
  shows "(n, load_le off sz (go_image ma gfs (go_fields r))) \<in> set (c_fields r)"
proof -
  have "(n, load_le off sz (go_image ma gfs (go_fields r))) \<in> set (c_read cfs (go_image ma gfs (go_fields r)))"
    using assms unfolding c_read_def set_map by (intro image_eqI [where x = "(n, off, sz)"]) simp_all
  then show ?thesis unfolding read_back .
qed

end

lemmas layout_eval = same_layout_def named_slots_def field_slots_def slots_only_def pad_up_def
  host_layout_def literal_value_def

lemma unat_fits [simp]:
  "unat (a :: u8) < 256"
  "unat (b :: u16) < 65536"
  "unat (c :: u32) < 4294967296"
  "unat (d :: u64) < 18446744073709551616"
  using unsigned_less [where 'a = nat, of a] unsigned_less [where 'a = nat, of b]
    unsigned_less [where 'a = nat, of c] unsigned_less [where 'a = nat, of d] by simp_all

interpretation meta_abi: abi_mirror 8 c_gpu_meta go_GpuMeta GpuMeta_fields gpu_meta_fields
  by unfold_locales
    (simp_all add: layout_eval c_gpu_meta_def go_GpuMeta_def GpuMeta_fields_def gpu_meta_fields_def)

interpretation meta_abi_386: abi_mirror 4 c_gpu_meta go_GpuMeta GpuMeta_fields gpu_meta_fields
  by unfold_locales
    (simp_all add: layout_eval c_gpu_meta_def go_GpuMeta_def GpuMeta_fields_def gpu_meta_fields_def)

interpretation device_abi: abi_mirror 8 c_gpu_device_metrics go_GpuDeviceMetrics GpuDeviceMetrics_fields gpu_device_metrics_fields
  by unfold_locales
    (simp_all add: layout_eval c_gpu_device_metrics_def go_GpuDeviceMetrics_def GpuDeviceMetrics_fields_def gpu_device_metrics_fields_def)

interpretation device_abi_386: abi_mirror 4 c_gpu_device_metrics go_GpuDeviceMetrics GpuDeviceMetrics_fields gpu_device_metrics_fields
  by unfold_locales
    (simp_all add: layout_eval c_gpu_device_metrics_def go_GpuDeviceMetrics_def GpuDeviceMetrics_fields_def gpu_device_metrics_fields_def)

interpretation pid_abi: abi_mirror 8 c_gpu_pid_metrics go_GpuPidMetrics GpuPidMetrics_fields gpu_pid_metrics_fields
  by unfold_locales
    (simp_all add: layout_eval c_gpu_pid_metrics_def go_GpuPidMetrics_def GpuPidMetrics_fields_def gpu_pid_metrics_fields_def)

interpretation pid_abi_386: abi_mirror 4 c_gpu_pid_metrics go_GpuPidMetrics GpuPidMetrics_fields gpu_pid_metrics_fields
  by unfold_locales
    (simp_all add: layout_eval c_gpu_pid_metrics_def go_GpuPidMetrics_def GpuPidMetrics_fields_def gpu_pid_metrics_fields_def)

interpretation agg_abi: abi_mirror 8 c_gpu_pid_metrics_aggregated go_GpuPidMetricsAggregated GpuPidMetricsAggregated_fields gpu_pid_metrics_aggregated_fields
  by unfold_locales
    (simp_all add: layout_eval c_gpu_pid_metrics_aggregated_def go_GpuPidMetricsAggregated_def GpuPidMetricsAggregated_fields_def gpu_pid_metrics_aggregated_fields_def)

interpretation agg_abi_386: abi_mirror 4 c_gpu_pid_metrics_aggregated go_GpuPidMetricsAggregated GpuPidMetricsAggregated_fields gpu_pid_metrics_aggregated_fields
  by unfold_locales
    (simp_all add: layout_eval c_gpu_pid_metrics_aggregated_def go_GpuPidMetricsAggregated_def GpuPidMetricsAggregated_fields_def gpu_pid_metrics_aggregated_fields_def)

end
