(* ===== verification/BpfObject.thy ===== *)
theory BpfObject
  imports GpuTypes
begin

text \<open>
  The BPF object \<open>internal/maps/bpf/gpu_types.bpf.c\<close>: no programs, four map declarations, each with
  its type, capacity, key and value types and the pin-by-name flag. The Go side names the maps
  again, in \<open>internal/maps/maps.go\<close> (pin file names) and in the generated bindings (names looked up
  in the object); the theorems below tie the three together.
\<close>

section \<open>Map declarations\<close>

datatype bpf_map_type = BPF_MAP_TYPE_ARRAY | BPF_MAP_TYPE_LRU_HASH

datatype pinning = LIBBPF_PIN_NONE | LIBBPF_PIN_BY_NAME

record map_spec =
  ms_name :: string
  ms_type :: bpf_map_type
  ms_max_entries :: nat
  ms_key :: ctype
  ms_value :: ctype
  ms_pinning :: pinning

definition gpu_meta_map :: map_spec where
  "gpu_meta_map = \<lparr>
     ms_name = ''gpu_meta'',
     ms_type = BPF_MAP_TYPE_ARRAY,
     ms_max_entries = 1,
     ms_key = c_u32,
     ms_value = TStruct c_gpu_meta,
     ms_pinning = LIBBPF_PIN_BY_NAME\<rparr>"

definition gpu_device_map :: map_spec where
  "gpu_device_map = \<lparr>
     ms_name = ''gpu_device'',
     ms_type = BPF_MAP_TYPE_ARRAY,
     ms_max_entries = GPU_MAX_DEVICES,
     ms_key = c_u32,
     ms_value = TStruct c_gpu_device_metrics,
     ms_pinning = LIBBPF_PIN_BY_NAME\<rparr>"

definition gpu_per_pid_map :: map_spec where
  "gpu_per_pid_map = \<lparr>
     ms_name = ''gpu_per_pid'',
     ms_type = BPF_MAP_TYPE_LRU_HASH,
     ms_max_entries = 4096,
     ms_key = c_u32,
     ms_value = TStruct c_gpu_pid_metrics_aggregated,
     ms_pinning = LIBBPF_PIN_BY_NAME\<rparr>"

definition gpu_per_pid_per_device_map :: map_spec where
  "gpu_per_pid_per_device_map = \<lparr>
     ms_name = ''gpu_per_pid_per_device'',
     ms_type = BPF_MAP_TYPE_LRU_HASH,
     ms_max_entries = 4096,
     ms_key = c_u64,
     ms_value = TStruct c_gpu_pid_metrics,
     ms_pinning = LIBBPF_PIN_BY_NAME\<rparr>"

definition bpf_object_maps :: "map_spec list" where
  "bpf_object_maps = [gpu_meta_map, gpu_device_map, gpu_per_pid_map, gpu_per_pid_per_device_map]"

lemmas map_spec_defs =
  gpu_meta_map_def gpu_device_map_def gpu_per_pid_map_def gpu_per_pid_per_device_map_def

section \<open>The names on the Go side\<close>

definition MapNameMeta :: string where "MapNameMeta = ''gpu_meta''"
definition MapNameDevice :: string where "MapNameDevice = ''gpu_device''"
definition MapNamePerPid :: string where "MapNamePerPid = ''gpu_per_pid''"
definition MapNamePerPidPerDevice :: string where
  "MapNamePerPidPerDevice = ''gpu_per_pid_per_device''"

lemmas map_name_defs =
  MapNameMeta_def MapNameDevice_def MapNamePerPid_def MapNamePerPidPerDevice_def

text \<open>
  The fields of the generated struct \<open>gputypesMaps\<close> and the \<open>ebpf:"..."\<close> tag each one is loaded by.
\<close>

datatype map_field = GpuDevice | GpuMeta | GpuPerPid | GpuPerPidPerDevice

definition gputypesMaps :: "(map_field \<times> string) list" where
  "gputypesMaps =
    [(GpuDevice, ''gpu_device''),
     (GpuMeta, ''gpu_meta''),
     (GpuPerPid, ''gpu_per_pid''),
     (GpuPerPidPerDevice, ''gpu_per_pid_per_device'')]"

text \<open>
  The Go key and value types each field is used with by the methods of \<open>maps.go\<close>: the pointer cast
  in \<open>Update*\<close> fixes the struct, the key variable the integer.
\<close>

fun go_key :: "map_field \<Rightarrow> ctype" where
  "go_key GpuMeta = c_u32"
| "go_key GpuDevice = c_u32"
| "go_key GpuPerPid = c_u32"
| "go_key GpuPerPidPerDevice = c_u64"

fun go_value :: "map_field \<Rightarrow> field list" where
  "go_value GpuMeta = go_GpuMeta"
| "go_value GpuDevice = go_GpuDeviceMetrics"
| "go_value GpuPerPid = go_GpuPidMetricsAggregated"
| "go_value GpuPerPidPerDevice = go_GpuPidMetrics"

text \<open>The map of the object a field is loaded from.\<close>

definition spec_of :: "map_field \<Rightarrow> map_spec option" where
  "spec_of f =
     (case map_of gputypesMaps f of
        None \<Rightarrow> None
      | Some n \<Rightarrow> List.find (\<lambda>m. ms_name m = n) bpf_object_maps)"

lemma spec_of_simps [simp]:
  "spec_of GpuMeta = Some gpu_meta_map"
  "spec_of GpuDevice = Some gpu_device_map"
  "spec_of GpuPerPid = Some gpu_per_pid_map"
  "spec_of GpuPerPidPerDevice = Some gpu_per_pid_per_device_map"
  by (simp_all add: spec_of_def gputypesMaps_def bpf_object_maps_def map_spec_defs)

text \<open>
  The kernel copies \<open>key_size\<close> and \<open>value_size\<close> bytes from the pointers that \<open>Update\<close> passes, so the
  Go types must have exactly the sizes the object declares.
\<close>

definition update_sizes_ok :: "nat \<Rightarrow> map_field \<Rightarrow> bool" where
  "update_sizes_ok ma f =
     (case spec_of f of
        None \<Rightarrow> False
      | Some m \<Rightarrow>
          csize ma (go_key f) = csize 8 (ms_key m) \<and>
          csize ma (TStruct (go_value f)) = csize 8 (ms_value m))"

end
