(* ===== verification/GoRuntime.thy ===== *)
theory GoRuntime
  imports Prelude
begin

text \<open>
  The parts of the Go standard library the bridge leans on: error values with \<open>errors.Is\<close>,
  \<open>errors.As\<close> and \<open>errors.Join\<close>, and \<open>filepath.Join\<close> with its lexical \<open>Clean\<close>. A Go function that
  returns only an \<open>error\<close> returns \<open>goerr option\<close> here (\<open>None\<close> is \<open>nil\<close>); one that returns a value
  or an error returns \<open>goerr + 'a\<close>.
\<close>

section \<open>Errors\<close>

text \<open>
  Return codes of NVML, with the constants the code names; every other code is \<open>NVML_OTHER\<close>.
\<close>

datatype nvml_return =
    SUCCESS
  | ERROR_NOT_SUPPORTED
  | ERROR_NOT_FOUND
  | ERROR_LIBRARY_NOT_FOUND
  | ERROR_DRIVER_NOT_LOADED
  | NVML_OTHER nat

text \<open>
  Go error values. The sentinels the code compares against are constructors of their own,
  \<open>Errorf s\<close> is a text error, \<open>Wrapf s e\<close> is \<open>fmt.Errorf("s: %w", e)\<close>, \<open>SoftErr\<close> is the struct
  \<open>softErr\<close> of the real backend, \<open>Joined\<close> the result of \<open>errors.Join\<close> and \<open>Sys n\<close> an error of the
  operating system or of a library the code does not look into.
\<close>

datatype goerr =
    ErrNotAvailable
  | ErrKeyNotExist
  | ErrNotExist
  | Sys nat
  | SoftErr nvml_return
  | Errorf string
  | Wrapf string goerr
  | Joined "goerr list"

fun errors_is :: "goerr \<Rightarrow> goerr \<Rightarrow> bool" where
  "errors_is (Wrapf s e) t = (Wrapf s e = t \<or> errors_is e t)"
| "errors_is (Joined es) t = (Joined es = t \<or> (\<exists>e \<in> set es. errors_is e t))"
| "errors_is e t = (e = t)"

fun errors_as_soft :: "goerr \<Rightarrow> bool" where
  "errors_as_soft (SoftErr r) = True"
| "errors_as_soft (Wrapf s e) = errors_as_soft e"
| "errors_as_soft (Joined es) = (\<exists>e \<in> set es. errors_as_soft e)"
| "errors_as_soft _ = False"

definition errors_join :: "goerr list \<Rightarrow> goerr option" where
  "errors_join es = (if es = [] then None else Some (Joined es))"

text \<open>\<open>if err != nil { return fmt.Errorf("s: %w", err) }\<close> for a function that returns an error.\<close>

definition wrap_err :: "string \<Rightarrow> goerr option \<Rightarrow> goerr option" where
  "wrap_err s = map_option (Wrapf s)"

lemma errors_is_refl [simp]: "errors_is e e"
  by (cases e) auto

lemma errors_is_Wrapf: "errors_is e t \<Longrightarrow> errors_is (Wrapf s e) t"
  by simp

lemma errors_join_None_iff [simp]: "errors_join es = None \<longleftrightarrow> es = []"
  by (simp add: errors_join_def)

lemma wrap_err_simps [simp]:
  "wrap_err s None = None" "wrap_err s (Some e) = Some (Wrapf s e)"
  "wrap_err s r = None \<longleftrightarrow> r = None"
  by (simp_all add: wrap_err_def)

section \<open>Paths\<close>

fun split_slash :: "string \<Rightarrow> string list" where
  "split_slash [] = [[]]"
| "split_slash (c # cs) =
     (if c = CHR ''/'' then [] # split_slash cs
      else (case split_slash cs of [] \<Rightarrow> [[c]] | w # ws \<Rightarrow> (c # w) # ws))"

fun join_slash :: "string list \<Rightarrow> string" where
  "join_slash [] = []"
| "join_slash [w] = w"
| "join_slash (w # ws) = w @ CHR ''/'' # join_slash ws"

text \<open>
  One element of \<open>filepath.Clean\<close>; the stack holds the elements kept so far, the last one first.
\<close>

definition clean_elem :: "bool \<Rightarrow> string \<Rightarrow> string list \<Rightarrow> string list" where
  "clean_elem rooted w st =
     (if w = [] \<or> w = ''.'' then st
      else if w = ''..'' then
        (case st of
           [] \<Rightarrow> if rooted then [] else [''..'']
         | u # us \<Rightarrow> if u = ''..'' then ''..'' # st else us)
      else w # st)"

definition file_clean :: "string \<Rightarrow> string" where
  "file_clean p =
     (if p = [] then ''.''
      else
        let rooted = (hd p = CHR ''/'');
            ws = rev (fold (clean_elem rooted) (split_slash p) [])
        in if rooted then CHR ''/'' # join_slash ws
           else if ws = [] then ''.'' else join_slash ws)"

definition file_join :: "string \<Rightarrow> string \<Rightarrow> string" where
  "file_join d n =
     (if d \<noteq> [] then file_clean (d @ CHR ''/'' # n)
      else if n \<noteq> [] then file_clean n
      else [])"

text \<open>An element that \<open>Clean\<close> keeps as it is.\<close>

definition plain_elem :: "string \<Rightarrow> bool" where
  "plain_elem w \<longleftrightarrow> w \<noteq> [] \<and> w \<noteq> ''.'' \<and> w \<noteq> ''..'' \<and> CHR ''/'' \<notin> set w"

lemma split_slash_nonempty [simp]: "split_slash cs \<noteq> []"
  by (induction cs) (auto split: list.splits)

lemma split_slash_noslash: "CHR ''/'' \<notin> set w \<Longrightarrow> split_slash w = [w]"
  by (induction w) auto

lemma split_slash_append: "split_slash (d @ CHR ''/'' # n) = split_slash d @ split_slash n"
proof (induction d)
  case Nil
  then show ?case by simp
next
  case (Cons c d)
  then show ?case
    by (cases "split_slash d") (auto split: list.splits)
qed

lemma join_slash_snoc:
  "ws \<noteq> [] \<Longrightarrow> join_slash (ws @ [w]) = join_slash ws @ CHR ''/'' # w"
proof (induction ws rule: join_slash.induct)
  case 1
  then show ?case by simp
next
  case (2 w)
  then show ?case by simp
next
  case (3 w v va)
  then show ?case by simp
qed

text \<open>
  Joining a directory with a plain name keeps the name as the last element, so the result is
  determined by a prefix that depends on the directory alone.
\<close>

lemma file_join_plain:
  "\<exists>pre. \<forall>n. plain_elem n \<longrightarrow> file_join d n = pre @ n"
proof (cases "d = []")
  case True
  have "file_join d n = [] @ n" if "plain_elem n" for n
    using that True
    by (cases n) (auto simp: file_join_def file_clean_def plain_elem_def split_slash_noslash clean_elem_def)
  then show ?thesis by blast
next
  case False
  let ?rooted = "hd d = CHR ''/''"
  let ?st = "rev (fold (clean_elem ?rooted) (split_slash d) [])"
  let ?pre = "(if ?rooted then ''/'' else []) @ (if ?st = [] then [] else join_slash ?st @ ''/'')"
  have "file_join d n = ?pre @ n" if n: "plain_elem n" for n
  proof -
    have sp: "split_slash (d @ CHR ''/'' # n) = split_slash d @ [n]"
      using n by (simp add: split_slash_append split_slash_noslash plain_elem_def)
    have ce: "clean_elem r n st = n # st" for r st
      using n by (simp add: clean_elem_def plain_elem_def)
    have hd: "hd (d @ CHR ''/'' # n) = hd d" using False by simp
    show ?thesis
      using False by (auto simp: file_join_def file_clean_def Let_def sp ce join_slash_snoc)
  qed
  then show ?thesis by blast
qed

lemma file_join_inj:
  assumes "plain_elem m" and "plain_elem n" and "file_join d m = file_join d n"
  shows "m = n"
  using file_join_plain [of d] assms by auto

end
