(* ===== verification/Kernel.thy ===== *)
theory Kernel
  imports BpfObject GoRuntime
begin

text \<open>
  What the bridge needs from the kernel, from bpffs and from the library that calls them
  (\<open>github.com/cilium/ebpf\<close>, \<open>os\<close>). None of this code is in the repository, so it is a parameter:
  a record \<open>'w kernel\<close> of the operations the program calls, over an unknown state \<open>'w\<close> of the
  machine. The locales state the documented behaviour the program relies on: an ARRAY map takes
  every index below \<open>max_entries\<close> and refuses the others; iterating over a map that nobody changes
  meanwhile visits its entries; an LRU_HASH map stores the pair it is
  given and may evict other pairs, but never changes the value of a pair that stays; an operation
  on one map leaves the other maps and the pins alone; loading the object reuses pinned maps.

  A file descriptor is identified with the map object it refers to. \<open>k_obj\<close> and \<open>k_pin\<close> are views of
  the state used to state the laws; no definition of the program reads them.
\<close>

section \<open>Operations\<close>

type_synonym fd = nat

datatype map_object =
    MetaObj "u32 \<Rightarrow> gpu_meta option"
  | DeviceObj "u32 \<Rightarrow> gpu_device_metrics option"
  | PidObj "u32 \<Rightarrow> gpu_pid_metrics_aggregated option"
  | PidDevObj "u64 \<Rightarrow> gpu_pid_metrics option"

record ('w, 'k, 'v) map_ops =
  m_update :: "'w \<Rightarrow> fd \<Rightarrow> 'k \<Rightarrow> 'v \<Rightarrow> goerr option \<times> 'w"
  m_delete :: "'w \<Rightarrow> fd \<Rightarrow> 'k \<Rightarrow> goerr option \<times> 'w"
  m_lookup :: "'w \<Rightarrow> fd \<Rightarrow> 'k \<Rightarrow> goerr + 'v"
  m_iterate :: "'w \<Rightarrow> fd \<Rightarrow> ('k \<times> 'v) list \<times> goerr option"

text \<open>The maps of \<open>gputypesObjects\<close>: one handle per field.\<close>

record map_fds =
  fd_GpuDevice :: fd
  fd_GpuMeta :: fd
  fd_GpuPerPid :: fd
  fd_GpuPerPidPerDevice :: fd

record 'w kernel =
  k_meta :: "('w, u32, gpu_meta) map_ops"
  k_device :: "('w, u32, gpu_device_metrics) map_ops"
  k_pid :: "('w, u32, gpu_pid_metrics_aggregated) map_ops"
  k_piddev :: "('w, u64, gpu_pid_metrics) map_ops"
  k_load_spec :: "goerr option"
  k_load_and_assign :: "'w \<Rightarrow> string \<Rightarrow> (goerr + map_fds) \<times> 'w"
  k_load_pinned :: "'w \<Rightarrow> string \<Rightarrow> goerr + fd"
  k_close :: "'w \<Rightarrow> fd \<Rightarrow> goerr option \<times> 'w"
  os_mkdir_all :: "'w \<Rightarrow> string \<Rightarrow> goerr option \<times> 'w"
  os_remove :: "'w \<Rightarrow> string \<Rightarrow> goerr option \<times> 'w"
  k_obj :: "'w \<Rightarrow> fd \<Rightarrow> map_object option"
  k_pin :: "'w \<Rightarrow> string \<Rightarrow> fd option"
  k_exists :: "'w \<Rightarrow> string \<Rightarrow> bool"

section \<open>Laws\<close>

locale bpf_map =
  fixes obj :: "'w \<Rightarrow> fd \<Rightarrow> map_object option"
    and fs :: "'w \<Rightarrow> (string \<Rightarrow> fd option) \<times> (string \<Rightarrow> bool)"
    and mk :: "('k \<Rightarrow> 'v option) \<Rightarrow> map_object"
    and ops :: "('w, 'k, 'v) map_ops"
  assumes mk_inj: "mk c = mk d \<Longrightarrow> c = d"
    and lookup_law: "obj w h = Some (mk c) \<Longrightarrow> m_lookup ops w h k = Inr v \<longleftrightarrow> c k = Some v"
    and iterate_law: "obj w h = Some (mk c) \<Longrightarrow> m_iterate ops w h = (es, None) \<Longrightarrow>
      (k, v) \<in> set es \<longleftrightarrow> c k = Some v"
    and update_frame: "m_update ops w h k v = (r, w') \<Longrightarrow> h' \<noteq> h \<Longrightarrow> obj w' h' = obj w h'"
    and update_fs: "m_update ops w h k v = (r, w') \<Longrightarrow> fs w' = fs w"
    and update_fail: "m_update ops w h k v = (Some e, w') \<Longrightarrow> obj w' h = obj w h"

locale array_map = bpf_map obj fs mk ops
  for obj :: "'w \<Rightarrow> fd \<Rightarrow> map_object option" and fs
    and mk :: "(u32 \<Rightarrow> 'v option) \<Rightarrow> map_object" and ops :: "('w, u32, 'v) map_ops" +
  fixes max_entries :: nat
  assumes update_in_range: "obj w h = Some (mk c) \<Longrightarrow> unat k < max_entries \<Longrightarrow>
      \<exists>w'. m_update ops w h k v = (None, w') \<and> obj w' h = Some (mk (c(k := Some v)))"
    and update_out_of_range: "obj w h = Some (mk c) \<Longrightarrow> max_entries \<le> unat k \<Longrightarrow>
      \<exists>e w'. m_update ops w h k v = (Some e, w')"

locale lru_map = bpf_map obj fs mk ops
  for obj :: "'w \<Rightarrow> fd \<Rightarrow> map_object option" and fs
    and mk :: "('k \<Rightarrow> 'v option) \<Rightarrow> map_object" and ops :: "('w, 'k, 'v) map_ops" +
  assumes update_ok: "obj w h = Some (mk c) \<Longrightarrow> m_update ops w h k v = (None, w') \<Longrightarrow>
      \<exists>c'. obj w' h = Some (mk c') \<and> c' k = Some v \<and> (\<forall>k'. k' \<noteq> k \<longrightarrow> c' k' = c k' \<or> c' k' = None)"
    and delete_ok: "obj w h = Some (mk c) \<Longrightarrow> m_delete ops w h k = (None, w') \<Longrightarrow>
      obj w' h = Some (mk (c(k := None)))"
    and delete_fail: "obj w h = Some (mk c) \<Longrightarrow> m_delete ops w h k = (Some e, w') \<Longrightarrow>
      obj w' h = Some (mk c) \<and> (errors_is e ErrKeyNotExist \<longleftrightarrow> c k = None)"
    and delete_frame: "m_delete ops w h k = (r, w') \<Longrightarrow> h' \<noteq> h \<Longrightarrow> obj w' h' = obj w h'"

text \<open>The view of a state that map operations leave alone.\<close>

definition k_fs :: "'w kernel \<Rightarrow> 'w \<Rightarrow> (string \<Rightarrow> fd option) \<times> (string \<Rightarrow> bool)" where
  "k_fs K w = (k_pin K w, k_exists K w)"

locale bpf_kernel =
  meta: array_map "k_obj K" "k_fs K" MetaObj "k_meta K" "ms_max_entries gpu_meta_map" +
  device: array_map "k_obj K" "k_fs K" DeviceObj "k_device K" "ms_max_entries gpu_device_map" +
  pid: lru_map "k_obj K" "k_fs K" PidObj "k_pid K" +
  piddev: lru_map "k_obj K" "k_fs K" PidDevObj "k_piddev K"
  for K :: "'w kernel" +
  assumes load_ok: "k_load_and_assign K w d = (Inr f, w') \<Longrightarrow>
      (\<exists>c. k_obj K w' (fd_GpuMeta f) = Some (MetaObj c)) \<and>
      (\<exists>c. k_obj K w' (fd_GpuDevice f) = Some (DeviceObj c)) \<and>
      (\<exists>c. k_obj K w' (fd_GpuPerPid f) = Some (PidObj c)) \<and>
      (\<exists>c. k_obj K w' (fd_GpuPerPidPerDevice f) = Some (PidDevObj c))"
    and load_pins: "k_load_and_assign K w d = (Inr f, w') \<Longrightarrow>
      k_pin K w' (file_join d (ms_name gpu_meta_map)) = Some (fd_GpuMeta f) \<and>
      k_pin K w' (file_join d (ms_name gpu_device_map)) = Some (fd_GpuDevice f) \<and>
      k_pin K w' (file_join d (ms_name gpu_per_pid_map)) = Some (fd_GpuPerPid f) \<and>
      k_pin K w' (file_join d (ms_name gpu_per_pid_per_device_map)) = Some (fd_GpuPerPidPerDevice f)"
    and load_reuse: "k_load_and_assign K w d = (Inr f, w') \<Longrightarrow> k_pin K w p = Some h \<Longrightarrow>
      k_obj K w h = Some x \<Longrightarrow> k_pin K w' p = Some h \<and> k_obj K w' h = Some x"
    and mkdir_pins: "os_mkdir_all K w d = (r, w') \<Longrightarrow> k_pin K w' = k_pin K w \<and> k_obj K w' = k_obj K w"
    and pin_exists: "k_pin K w p = Some h \<Longrightarrow> k_exists K w p"
    and load_pinned: "k_pin K w p = Some h \<Longrightarrow> k_obj K w h = Some x \<Longrightarrow> k_load_pinned K w p = Inr h"
    and load_missing: "\<not> k_exists K w p \<Longrightarrow>
      \<exists>e. k_load_pinned K w p = Inl e \<and> errors_is e ErrNotExist"
    and close_pins: "k_close K w h = (r, w') \<Longrightarrow> k_fs K w' = k_fs K w"
    and close_pinned: "k_close K w h = (r, w') \<Longrightarrow> k_pin K w p = Some h' \<Longrightarrow>
      k_obj K w' h' = k_obj K w h'"
    and remove_ok: "os_remove K w p = (None, w') \<Longrightarrow>
      k_fs K w' = ((k_pin K w)(p := None), (k_exists K w)(p := False))"
    and remove_fail: "os_remove K w p = (Some e, w') \<Longrightarrow>
      k_fs K w' = k_fs K w \<and> (errors_is e ErrNotExist \<longleftrightarrow> \<not> k_exists K w p)"
    and remove_absent: "\<not> k_exists K w p \<Longrightarrow> \<exists>e. os_remove K w p = (Some e, w)"

end
