(* ===== verification/RefKernel.thy ===== *)
theory RefKernel
  imports Kernel
begin

text \<open>
  A reference kernel that satisfies the laws of \<open>Kernel\<close>: arrays of the declared sizes, LRU hashes
  that keep the most recently written pairs up to the declared capacity, and pins that name
  objects. It shows that the laws can hold together, and the witnesses run the program on it.
\<close>

datatype ref_object =
    RMeta "u32 \<Rightarrow> gpu_meta"
  | RDevice "u32 \<Rightarrow> gpu_device_metrics"
  | RPid "(u32 \<times> gpu_pid_metrics_aggregated) list"
  | RPidDev "(u64 \<times> gpu_pid_metrics) list"

record ref_world =
  rw_objs :: "fd \<Rightarrow> ref_object option"
  rw_pins :: "string \<Rightarrow> fd option"
  rw_next :: fd

definition ref_array_get :: "nat \<Rightarrow> (u32 \<Rightarrow> 'v) \<Rightarrow> u32 \<Rightarrow> 'v option" where
  "ref_array_get n a k = (if unat k < n then Some (a k) else None)"

fun ref_abs :: "ref_object \<Rightarrow> map_object" where
  "ref_abs (RMeta a) = MetaObj (ref_array_get 1 a)"
| "ref_abs (RDevice a) = DeviceObj (ref_array_get 16 a)"
| "ref_abs (RPid l) = PidObj (map_of l)"
| "ref_abs (RPidDev l) = PidDevObj (map_of l)"

fun sel_meta where "sel_meta (RMeta a) = Some a" | "sel_meta _ = None"
fun sel_device where "sel_device (RDevice a) = Some a" | "sel_device _ = None"
fun sel_pid where "sel_pid (RPid l) = Some l" | "sel_pid _ = None"
fun sel_piddev where "sel_piddev (RPidDev l) = Some l" | "sel_piddev _ = None"

definition ref_get :: "(ref_object \<Rightarrow> 'a option) \<Rightarrow> ref_world \<Rightarrow> fd \<Rightarrow> 'a option" where
  "ref_get sel w h = (case rw_objs w h of None \<Rightarrow> None | Some x \<Rightarrow> sel x)"

definition ref_set :: "ref_world \<Rightarrow> fd \<Rightarrow> ref_object \<Rightarrow> ref_world" where
  "ref_set w h x = w\<lparr>rw_objs := (rw_objs w)(h := Some x)\<rparr>"

text \<open>An LRU write moves the pair to the front and drops the oldest pair beyond the capacity.\<close>

definition lru_put :: "nat \<Rightarrow> 'k \<Rightarrow> 'v \<Rightarrow> ('k \<times> 'v) list \<Rightarrow> ('k \<times> 'v) list" where
  "lru_put cap k v l = (k, v) # take (cap - 1) (filter (\<lambda>p. fst p \<noteq> k) l)"

definition ref_array_ops ::
  "nat \<Rightarrow> (ref_object \<Rightarrow> (u32 \<Rightarrow> 'v) option) \<Rightarrow> ((u32 \<Rightarrow> 'v) \<Rightarrow> ref_object)
    \<Rightarrow> (ref_world, u32, 'v) map_ops" where
  "ref_array_ops n sel mk = \<lparr>
     m_update = (\<lambda>w h k v. case ref_get sel w h of
         None \<Rightarrow> (Some (Sys 9), w)
       | Some a \<Rightarrow> if unat k < n then (None, ref_set w h (mk (a(k := v)))) else (Some (Sys 7), w)),
     m_delete = (\<lambda>w h k. (Some (Sys 22), w)),
     m_lookup = (\<lambda>w h k. case ref_get sel w h of
         None \<Rightarrow> Inl (Sys 9)
       | Some a \<Rightarrow> if unat k < n then Inr (a k) else Inl ErrKeyNotExist),
     m_iterate = (\<lambda>w h. case ref_get sel w h of
         None \<Rightarrow> ([], Some (Sys 9))
       | Some a \<Rightarrow> (map (\<lambda>i. (of_nat i, a (of_nat i))) [0..<n], None))\<rparr>"

definition ref_lru_ops ::
  "nat \<Rightarrow> (ref_object \<Rightarrow> ('k \<times> 'v) list option) \<Rightarrow> (('k \<times> 'v) list \<Rightarrow> ref_object)
    \<Rightarrow> (ref_world, 'k, 'v) map_ops" where
  "ref_lru_ops cap sel mk = \<lparr>
     m_update = (\<lambda>w h k v. case ref_get sel w h of
         None \<Rightarrow> (Some (Sys 9), w)
       | Some l \<Rightarrow> (None, ref_set w h (mk (lru_put cap k v l)))),
     m_delete = (\<lambda>w h k. case ref_get sel w h of
         None \<Rightarrow> (Some (Sys 9), w)
       | Some l \<Rightarrow> if map_of l k = None then (Some ErrKeyNotExist, w)
                  else (None, ref_set w h (mk (AList.delete k l)))),
     m_lookup = (\<lambda>w h k. case ref_get sel w h of
         None \<Rightarrow> Inl (Sys 9)
       | Some l \<Rightarrow> (case map_of l k of None \<Rightarrow> Inl ErrKeyNotExist | Some v \<Rightarrow> Inr v)),
     m_iterate = (\<lambda>w h. case ref_get sel w h of
         None \<Rightarrow> ([], Some (Sys 9))
       | Some l \<Rightarrow> (AList.clearjunk l, None))\<rparr>"

text \<open>Zeroed structs: the initial contents of the arrays.\<close>

definition zero_meta :: gpu_meta where
  "zero_meta = \<lparr>schema_version = 0, n_devices = 0, last_update_ns = 0, helper_pid = 0, meta_reserved = 0\<rparr>"

definition zero_device :: gpu_device_metrics where
  "zero_device = \<lparr>dm_timestamp_ns = 0, dm_sm_util_pct = 0, dm_mem_util_pct = 0, dm_mem_total = 0,
     dm_mem_used = 0, dm_mem_reserved = 0, dm_temp_c = 0, dm_power_mw = 0, dm_sm_clock_mhz = 0,
     dm_mem_clock_mhz = 0, dm_throttle_reasons = 0, dm_pcie_tx_kbps = 0, dm_pcie_rx_kbps = 0,
     dm_enc_util_pct = 0, dm_dec_util_pct = 0, dm_nvlink_tx_kbps = 0, dm_nvlink_rx_kbps = 0,
     dm_ecc_corrected_total = 0, dm_ecc_uncorrected_total = 0, dm_fan_speed_pct = 0,
     dm_compute_mode = 0\<rparr>"

text \<open>Open a pinned map of the right kind, or create a fresh one and pin it.\<close>

definition ref_open_map ::
  "(ref_object \<Rightarrow> 'a option) \<Rightarrow> ref_object \<Rightarrow> string \<Rightarrow> ref_world \<Rightarrow> (goerr + fd) \<times> ref_world" where
  "ref_open_map sel fresh p w =
     (case rw_pins w p of
        Some h \<Rightarrow> (if ref_get sel w h = None then Inl (Sys 22) else Inr h, w)
      | None \<Rightarrow>
          if rw_objs w (rw_next w) \<noteq> None then (Inl (Sys 12), w)
          else (Inr (rw_next w),
                w\<lparr>rw_objs := (rw_objs w)(rw_next w := Some fresh),
                  rw_pins := (rw_pins w)(p := Some (rw_next w)),
                  rw_next := Suc (rw_next w)\<rparr>))"

definition ref_load :: "ref_world \<Rightarrow> string \<Rightarrow> (goerr + map_fds) \<times> ref_world" where
  "ref_load w d =
     (case ref_open_map sel_device (RDevice (\<lambda>_. zero_device)) (file_join d (ms_name gpu_device_map)) w of
        (Inl e, w1) \<Rightarrow> (Inl e, w1)
      | (Inr h_dev, w1) \<Rightarrow>
     (case ref_open_map sel_meta (RMeta (\<lambda>_. zero_meta)) (file_join d (ms_name gpu_meta_map)) w1 of
        (Inl e, w2) \<Rightarrow> (Inl e, w2)
      | (Inr h_meta, w2) \<Rightarrow>
     (case ref_open_map sel_pid (RPid []) (file_join d (ms_name gpu_per_pid_map)) w2 of
        (Inl e, w3) \<Rightarrow> (Inl e, w3)
      | (Inr h_pid, w3) \<Rightarrow>
     (case ref_open_map sel_piddev (RPidDev []) (file_join d (ms_name gpu_per_pid_per_device_map)) w3 of
        (Inl e, w4) \<Rightarrow> (Inl e, w4)
      | (Inr h_pd, w4) \<Rightarrow>
          (Inr \<lparr>fd_GpuDevice = h_dev, fd_GpuMeta = h_meta, fd_GpuPerPid = h_pid, fd_GpuPerPidPerDevice = h_pd\<rparr>, w4)))))"

definition ref_kernel :: "ref_world kernel" where
  "ref_kernel = \<lparr>
     k_meta = ref_array_ops 1 sel_meta RMeta,
     k_device = ref_array_ops 16 sel_device RDevice,
     k_pid = ref_lru_ops 4096 sel_pid RPid,
     k_piddev = ref_lru_ops 4096 sel_piddev RPidDev,
     k_load_spec = None,
     k_load_and_assign = ref_load,
     k_load_pinned = (\<lambda>w p. case rw_pins w p of
         None \<Rightarrow> Inl ErrNotExist
       | Some h \<Rightarrow> if rw_objs w h = None then Inl (Sys 2) else Inr h),
     k_close = (\<lambda>w h. (None, w)),
     os_mkdir_all = (\<lambda>w d. (None, w)),
     os_remove = (\<lambda>w p. if rw_pins w p = None then (Some ErrNotExist, w)
                        else (None, w\<lparr>rw_pins := (rw_pins w)(p := None)\<rparr>)),
     k_obj = (\<lambda>w h. map_option ref_abs (rw_objs w h)),
     k_pin = rw_pins,
     k_exists = (\<lambda>w p. rw_pins w p \<noteq> None)\<rparr>"

definition empty_world :: ref_world where
  "empty_world = \<lparr>rw_objs = (\<lambda>_. None), rw_pins = (\<lambda>_. None), rw_next = 3\<rparr>"

section \<open>The reference kernel satisfies the laws\<close>

lemma ref_kernel_sel [simp]:
  "k_meta ref_kernel = ref_array_ops 1 sel_meta RMeta"
  "k_device ref_kernel = ref_array_ops 16 sel_device RDevice"
  "k_pid ref_kernel = ref_lru_ops 4096 sel_pid RPid"
  "k_piddev ref_kernel = ref_lru_ops 4096 sel_piddev RPidDev"
  "k_load_and_assign ref_kernel = ref_load"
  "k_obj ref_kernel w h = map_option ref_abs (rw_objs w h)"
  "k_pin ref_kernel = rw_pins"
  "k_exists ref_kernel w p \<longleftrightarrow> rw_pins w p \<noteq> None"
  by (simp_all add: ref_kernel_def)

lemma k_fs_ref: "k_fs ref_kernel w = (rw_pins w, \<lambda>p. rw_pins w p \<noteq> None)"
  by (simp add: k_fs_def ref_kernel_def)

lemma ref_set_simps [simp]:
  "rw_objs (ref_set w h x) = (rw_objs w)(h := Some x)"
  "rw_pins (ref_set w h x) = rw_pins w"
  by (simp_all add: ref_set_def)

lemma map_of_take: "map_of (take n l) k = Some v \<Longrightarrow> map_of l k = Some v"
  by (induction l arbitrary: n) (auto simp: take_Cons split: nat.splits if_splits)

lemma map_of_filter_neq: "k' \<noteq> k \<Longrightarrow> map_of (filter (\<lambda>p. fst p \<noteq> k) l) k' = map_of l k'"
  by (induction l) auto

lemma lru_put_same: "map_of (lru_put cap k v l) k = Some v"
  by (simp add: lru_put_def)

lemma lru_put_other:
  "k' \<noteq> k \<Longrightarrow> map_of (lru_put cap k v l) k' = map_of l k' \<or> map_of (lru_put cap k v l) k' = None"
  using map_of_take [of "cap - 1" "filter (\<lambda>p. fst p \<noteq> k) l" k'] map_of_filter_neq [of k' k l]
  by (cases "map_of (take (cap - 1) (filter (\<lambda>p. fst p \<noteq> k) l)) k'") (auto simp: lru_put_def)

lemma ref_array_iterate:
  "(k, v) \<in> set (map (\<lambda>i. (of_nat i, a (of_nat i))) [0..<n]) \<longleftrightarrow> ref_array_get n a k = Some v"
proof
  assume "(k, v) \<in> set (map (\<lambda>i. (of_nat i, a (of_nat i))) [0..<n])"
  then obtain i where "i < n" "k = of_nat i" "v = a k" by auto
  with unat_of_nat_le [where 'l = 32 and n = i] show "ref_array_get n a k = Some v"
    by (simp add: ref_array_get_def)
next
  assume "ref_array_get n a k = Some v"
  then have "unat k < n" "v = a k" by (auto simp: ref_array_get_def split: if_splits)
  then show "(k, v) \<in> set (map (\<lambda>i. (of_nat i, a (of_nat i))) [0..<n])"
    by (auto intro!: image_eqI [of _ _ "unat k"])
qed

lemma ref_array_map_laws:
  assumes sel_mk: "\<And>a. sel (mk a) = Some a"
    and mk_sel: "\<And>x a. sel x = Some a \<Longrightarrow> x = mk a"
    and abs_mk: "\<And>a. ref_abs (mk a) = MK (ref_array_get n a)"
    and kind: "\<And>x c. ref_abs x = MK c \<Longrightarrow> \<exists>a. sel x = Some a"
    and inj: "\<And>c d. MK c = MK d \<Longrightarrow> c = d"
  shows "array_map (k_obj ref_kernel) (k_fs ref_kernel) MK (ref_array_ops n sel mk) n"
proof -
  have get: "\<exists>a. ref_get sel w h = Some a \<and> c = ref_array_get n a"
    if "k_obj ref_kernel w h = Some (MK c)" for w h c
    using that kind abs_mk mk_sel inj by (fastforce simp: ref_get_def)
  show ?thesis
  proof unfold_locales
    fix w h c k v assume "k_obj ref_kernel w h = Some (MK c)" 
    from get [OF this] show "m_lookup (ref_array_ops n sel mk) w h k = Inr v \<longleftrightarrow> c k = Some v"
      by (auto simp: ref_array_ops_def ref_array_get_def split: if_splits)
  next
    fix w h c es k v assume "k_obj ref_kernel w h = Some (MK c)"
      "m_iterate (ref_array_ops n sel mk) w h = (es, None)"
    with get [OF this(1)] obtain a where a: "ref_get sel w h = Some a" "c = ref_array_get n a"
      and it: "m_iterate (ref_array_ops n sel mk) w h = (es, None)" by blast
    then have "es = map (\<lambda>i. (of_nat i, a (of_nat i))) [0..<n]" by (simp add: ref_array_ops_def)
    with a show "(k, v) \<in> set es \<longleftrightarrow> c k = Some v" by (simp only: ref_array_iterate)
  next
    fix w h c v and k :: u32 assume "k_obj ref_kernel w h = Some (MK c)" "unat k < n"
    with get [OF this(1)] show "\<exists>w'. m_update (ref_array_ops n sel mk) w h k v = (None, w') \<and>
        k_obj ref_kernel w' h = Some (MK (c(k := Some v)))"
      by (auto simp: ref_array_ops_def abs_mk intro!: arg_cong [where f = MK])
         (auto simp: ref_array_get_def fun_eq_iff)
  next
    fix w h c v and k :: u32 assume "k_obj ref_kernel w h = Some (MK c)" "n \<le> unat k"
    with get [OF this(1)] show "\<exists>e w'. m_update (ref_array_ops n sel mk) w h k v = (Some e, w')"
      by (auto simp: ref_array_ops_def)
  qed (auto simp: ref_array_ops_def k_fs_ref split: option.splits if_splits dest: inj)
qed

lemma ref_lru_map_laws:
  assumes mk_sel: "\<And>x l. sel x = Some l \<Longrightarrow> x = mk l"
    and abs_mk: "\<And>l. ref_abs (mk l) = MK (map_of l)"
    and kind: "\<And>x c. ref_abs x = MK c \<Longrightarrow> \<exists>l. sel x = Some l"
    and inj: "\<And>c d. MK c = MK d \<Longrightarrow> c = d"
  shows "lru_map (k_obj ref_kernel) (k_fs ref_kernel) MK (ref_lru_ops cap sel mk)"
proof -
  have get: "\<exists>l. ref_get sel w h = Some l \<and> c = map_of l"
    if "k_obj ref_kernel w h = Some (MK c)" for w h c
    using that kind abs_mk mk_sel inj by (fastforce simp: ref_get_def)
  show ?thesis
  proof unfold_locales
    fix w h c k v assume "k_obj ref_kernel w h = Some (MK c)" 
    from get [OF this] show "m_lookup (ref_lru_ops cap sel mk) w h k = Inr v \<longleftrightarrow> c k = Some v"
      by (auto simp: ref_lru_ops_def split: option.splits)
  next
    fix w h c es k v assume "k_obj ref_kernel w h = Some (MK c)"
      "m_iterate (ref_lru_ops cap sel mk) w h = (es, None)"
    with get [OF this(1)] obtain l where "es = AList.clearjunk l" "c = map_of l"
      by (auto simp: ref_lru_ops_def)
    then show "(k, v) \<in> set es \<longleftrightarrow> c k = Some v"
      using map_of_eq_Some_iff [OF distinct_clearjunk, of l k v] by (simp add: map_of_clearjunk)
  next
    fix w h c k v w' assume "k_obj ref_kernel w h = Some (MK c)"
      and up: "m_update (ref_lru_ops cap sel mk) w h k v = (None, w')"
    with get obtain l where l: "ref_get sel w h = Some l" "c = map_of l" by blast
    with up have "k_obj ref_kernel w' h = Some (MK (map_of (lru_put cap k v l)))"
      by (auto simp: ref_lru_ops_def abs_mk)
    then show "\<exists>c'. k_obj ref_kernel w' h = Some (MK c') \<and> c' k = Some v \<and>
        (\<forall>k'. k' \<noteq> k \<longrightarrow> c' k' = c k' \<or> c' k' = None)"
      using l lru_put_same [of cap k v l] lru_put_other [of _ k cap v l] by blast
  next
    fix w h c k w' assume "k_obj ref_kernel w h = Some (MK c)"
      "m_delete (ref_lru_ops cap sel mk) w h k = (None, w')"
    with get [OF this(1)] show "k_obj ref_kernel w' h = Some (MK (c(k := None)))"
      by (auto simp: ref_lru_ops_def abs_mk AList.delete_conv' split: if_splits option.splits)
  next
    fix w h c k w' e assume "k_obj ref_kernel w h = Some (MK c)"
      "m_delete (ref_lru_ops cap sel mk) w h k = (Some e, w')"
    with get [OF this(1)] show "k_obj ref_kernel w' h = Some (MK c) \<and>
        (errors_is e ErrKeyNotExist \<longleftrightarrow> c k = None)"
      by (auto simp: ref_lru_ops_def split: if_splits option.splits)
  qed (auto simp: ref_lru_ops_def k_fs_ref split: option.splits if_splits dest: inj)
qed

lemma sel_inv:
  "sel_meta x = Some a \<Longrightarrow> x = RMeta a"
  "sel_device x = Some b \<Longrightarrow> x = RDevice b"
  "sel_pid x = Some c \<Longrightarrow> x = RPid c"
  "sel_piddev x = Some d \<Longrightarrow> x = RPidDev d"
  by (cases x; simp)+

lemma abs_kind:
  "ref_abs x = MetaObj c1 \<Longrightarrow> \<exists>a. sel_meta x = Some a"
  "ref_abs x = DeviceObj c2 \<Longrightarrow> \<exists>a. sel_device x = Some a"
  "ref_abs x = PidObj c3 \<Longrightarrow> \<exists>a. sel_pid x = Some a"
  "ref_abs x = PidDevObj c4 \<Longrightarrow> \<exists>a. sel_piddev x = Some a"
  by (cases x; simp)+

lemma ref_open_map_pins:
  "ref_open_map sel fresh p w = (Inr h, w') \<Longrightarrow> rw_pins w' = (rw_pins w)(p := Some h)"
  by (auto simp: ref_open_map_def fun_eq_iff split: option.splits if_splits)

lemma ref_open_map_keep:
  "ref_open_map sel fresh p w = (Inr h, w') \<Longrightarrow> rw_objs w h' = Some x \<Longrightarrow> rw_objs w' h' = Some x"
  by (auto simp: ref_open_map_def split: option.splits if_splits)

lemma ref_open_map_keep_pin:
  "ref_open_map sel fresh p w = (Inr h, w') \<Longrightarrow> rw_pins w q = Some g \<Longrightarrow> rw_pins w' q = Some g"
  by (auto simp: ref_open_map_def split: option.splits if_splits)

lemma ref_open_map_get:
  "ref_open_map sel fresh p w = (Inr h, w') \<Longrightarrow> sel fresh \<noteq> None \<Longrightarrow> ref_get sel w' h \<noteq> None"
  by (auto simp: ref_open_map_def ref_get_def split: option.splits if_splits)

lemma ref_get_mono:
  "ref_get sel w h \<noteq> None \<Longrightarrow> (\<And>x. rw_objs w h = Some x \<Longrightarrow> rw_objs w' h = Some x) \<Longrightarrow>
    ref_get sel w' h \<noteq> None"
  by (auto simp: ref_get_def split: option.splits)

text \<open>The four steps of a successful load.\<close>

lemma ref_load_steps:
  assumes "ref_load w d = (Inr f, w')"
  obtains w1 w2 w3 where
    "ref_open_map sel_device (RDevice (\<lambda>_. zero_device)) (file_join d (ms_name gpu_device_map)) w
      = (Inr (fd_GpuDevice f), w1)"
    "ref_open_map sel_meta (RMeta (\<lambda>_. zero_meta)) (file_join d (ms_name gpu_meta_map)) w1
      = (Inr (fd_GpuMeta f), w2)"
    "ref_open_map sel_pid (RPid []) (file_join d (ms_name gpu_per_pid_map)) w2
      = (Inr (fd_GpuPerPid f), w3)"
    "ref_open_map sel_piddev (RPidDev []) (file_join d (ms_name gpu_per_pid_per_device_map)) w3
      = (Inr (fd_GpuPerPidPerDevice f), w')"
  using assms by (auto simp: ref_load_def split: prod.splits sum.splits)

lemma ref_load_objs:
  assumes "ref_load w d = (Inr f, w')"
  shows "ref_get sel_device w' (fd_GpuDevice f) \<noteq> None"
    and "ref_get sel_meta w' (fd_GpuMeta f) \<noteq> None"
    and "ref_get sel_pid w' (fd_GpuPerPid f) \<noteq> None"
    and "ref_get sel_piddev w' (fd_GpuPerPidPerDevice f) \<noteq> None"
    and "rw_objs w h = Some x \<Longrightarrow> rw_objs w' h = Some x"
proof -
  from assms obtain w1 w2 w3 where
    a: "ref_open_map sel_device (RDevice (\<lambda>_. zero_device)) (file_join d (ms_name gpu_device_map)) w
      = (Inr (fd_GpuDevice f), w1)" and
    b: "ref_open_map sel_meta (RMeta (\<lambda>_. zero_meta)) (file_join d (ms_name gpu_meta_map)) w1
      = (Inr (fd_GpuMeta f), w2)" and
    c: "ref_open_map sel_pid (RPid []) (file_join d (ms_name gpu_per_pid_map)) w2
      = (Inr (fd_GpuPerPid f), w3)" and
    e: "ref_open_map sel_piddev (RPidDev []) (file_join d (ms_name gpu_per_pid_per_device_map)) w3
      = (Inr (fd_GpuPerPidPerDevice f), w')"
    by (rule ref_load_steps)
  have keep: "rw_objs w1 h = Some x \<Longrightarrow> rw_objs w' h = Some x"
      "rw_objs w2 h = Some x \<Longrightarrow> rw_objs w' h = Some x"
      "rw_objs w3 h = Some x \<Longrightarrow> rw_objs w' h = Some x" for h x
    using ref_open_map_keep [OF b] ref_open_map_keep [OF c] ref_open_map_keep [OF e] by blast+
  show "ref_get sel_device w' (fd_GpuDevice f) \<noteq> None"
    by (rule ref_get_mono [OF ref_open_map_get [OF a] keep(1)]) simp_all
  show "ref_get sel_meta w' (fd_GpuMeta f) \<noteq> None"
    by (rule ref_get_mono [OF ref_open_map_get [OF b] keep(2)]) simp_all
  show "ref_get sel_pid w' (fd_GpuPerPid f) \<noteq> None"
    by (rule ref_get_mono [OF ref_open_map_get [OF c] keep(3)]) simp_all
  show "ref_get sel_piddev w' (fd_GpuPerPidPerDevice f) \<noteq> None"
    by (rule ref_open_map_get [OF e]) simp
  show "rw_objs w h = Some x \<Longrightarrow> rw_objs w' h = Some x"
    using ref_open_map_keep [OF a] keep(1) by blast
qed

lemma map_names_plain:
  "plain_elem (ms_name gpu_meta_map)" "plain_elem (ms_name gpu_device_map)"
  "plain_elem (ms_name gpu_per_pid_map)" "plain_elem (ms_name gpu_per_pid_per_device_map)"
  by (simp_all add: plain_elem_def map_spec_defs)

lemma pin_paths_distinct:
  "distinct [file_join d (ms_name gpu_device_map), file_join d (ms_name gpu_meta_map),
     file_join d (ms_name gpu_per_pid_map), file_join d (ms_name gpu_per_pid_per_device_map)]"
  using map_names_plain by (auto dest!: file_join_inj [rotated 2] simp: map_spec_defs)

lemma ref_load_pins:
  assumes "ref_load w d = (Inr f, w')"
  shows "rw_pins w' = (rw_pins w)
      (file_join d (ms_name gpu_device_map) := Some (fd_GpuDevice f),
       file_join d (ms_name gpu_meta_map) := Some (fd_GpuMeta f),
       file_join d (ms_name gpu_per_pid_map) := Some (fd_GpuPerPid f),
       file_join d (ms_name gpu_per_pid_per_device_map) := Some (fd_GpuPerPidPerDevice f))"
    and "rw_pins w q = Some g \<Longrightarrow> rw_pins w' q = Some g"
proof -
  from assms obtain w1 w2 w3 where
    a: "ref_open_map sel_device (RDevice (\<lambda>_. zero_device)) (file_join d (ms_name gpu_device_map)) w
      = (Inr (fd_GpuDevice f), w1)" and
    b: "ref_open_map sel_meta (RMeta (\<lambda>_. zero_meta)) (file_join d (ms_name gpu_meta_map)) w1
      = (Inr (fd_GpuMeta f), w2)" and
    c: "ref_open_map sel_pid (RPid []) (file_join d (ms_name gpu_per_pid_map)) w2
      = (Inr (fd_GpuPerPid f), w3)" and
    e: "ref_open_map sel_piddev (RPidDev []) (file_join d (ms_name gpu_per_pid_per_device_map)) w3
      = (Inr (fd_GpuPerPidPerDevice f), w')"
    by (rule ref_load_steps)
  show "rw_pins w' = (rw_pins w)
      (file_join d (ms_name gpu_device_map) := Some (fd_GpuDevice f),
       file_join d (ms_name gpu_meta_map) := Some (fd_GpuMeta f),
       file_join d (ms_name gpu_per_pid_map) := Some (fd_GpuPerPid f),
       file_join d (ms_name gpu_per_pid_per_device_map) := Some (fd_GpuPerPidPerDevice f))"
    by (simp only: ref_open_map_pins [OF a] ref_open_map_pins [OF b] ref_open_map_pins [OF c]
        ref_open_map_pins [OF e])
  show "rw_pins w q = Some g \<Longrightarrow> rw_pins w' q = Some g"
    using ref_open_map_keep_pin [OF a] ref_open_map_keep_pin [OF b]
      ref_open_map_keep_pin [OF c] ref_open_map_keep_pin [OF e] by blast
qed

lemma ref_get_abs:
  "ref_get sel_meta w h \<noteq> None \<Longrightarrow> \<exists>c. k_obj ref_kernel w h = Some (MetaObj c)"
  "ref_get sel_device w h \<noteq> None \<Longrightarrow> \<exists>c. k_obj ref_kernel w h = Some (DeviceObj c)"
  "ref_get sel_pid w h \<noteq> None \<Longrightarrow> \<exists>c. k_obj ref_kernel w h = Some (PidObj c)"
  "ref_get sel_piddev w h \<noteq> None \<Longrightarrow> \<exists>c. k_obj ref_kernel w h = Some (PidDevObj c)"
  by (auto simp: ref_get_def split: option.splits dest: sel_inv)

interpretation refk: bpf_kernel ref_kernel
proof (intro bpf_kernel.intro bpf_kernel_axioms.intro)
  show "array_map (k_obj ref_kernel) (k_fs ref_kernel) MetaObj (k_meta ref_kernel)
      (ms_max_entries gpu_meta_map)"
    using ref_array_map_laws [of sel_meta RMeta MetaObj 1] sel_inv abs_kind
    by (simp add: map_spec_defs)
  show "array_map (k_obj ref_kernel) (k_fs ref_kernel) DeviceObj (k_device ref_kernel)
      (ms_max_entries gpu_device_map)"
    using ref_array_map_laws [of sel_device RDevice DeviceObj 16] sel_inv abs_kind
    by (simp add: map_spec_defs GPU_MAX_DEVICES_def)
  show "lru_map (k_obj ref_kernel) (k_fs ref_kernel) PidObj (k_pid ref_kernel)"
    using ref_lru_map_laws [of sel_pid RPid PidObj 4096] sel_inv abs_kind by simp
  show "lru_map (k_obj ref_kernel) (k_fs ref_kernel) PidDevObj (k_piddev ref_kernel)"
    using ref_lru_map_laws [of sel_piddev RPidDev PidDevObj 4096] sel_inv abs_kind by simp
next
  fix w d f w' assume ld: "k_load_and_assign ref_kernel w d = (Inr f, w')"
  then have "ref_load w d = (Inr f, w')" by simp
  note O = ref_load_objs [OF this] and P = ref_load_pins [OF this]
  show "(\<exists>c. k_obj ref_kernel w' (fd_GpuMeta f) = Some (MetaObj c)) \<and>
      (\<exists>c. k_obj ref_kernel w' (fd_GpuDevice f) = Some (DeviceObj c)) \<and>
      (\<exists>c. k_obj ref_kernel w' (fd_GpuPerPid f) = Some (PidObj c)) \<and>
      (\<exists>c. k_obj ref_kernel w' (fd_GpuPerPidPerDevice f) = Some (PidDevObj c))"
    using O(1-4) ref_get_abs by blast
  show "k_pin ref_kernel w' (file_join d (ms_name gpu_meta_map)) = Some (fd_GpuMeta f) \<and>
      k_pin ref_kernel w' (file_join d (ms_name gpu_device_map)) = Some (fd_GpuDevice f) \<and>
      k_pin ref_kernel w' (file_join d (ms_name gpu_per_pid_map)) = Some (fd_GpuPerPid f) \<and>
      k_pin ref_kernel w' (file_join d (ms_name gpu_per_pid_per_device_map)) = Some (fd_GpuPerPidPerDevice f)"
    using pin_paths_distinct [of d] by (simp add: P(1))
  show "k_pin ref_kernel w p = Some h \<Longrightarrow> k_obj ref_kernel w h = Some x \<Longrightarrow>
      k_pin ref_kernel w' p = Some h \<and> k_obj ref_kernel w' h = Some x" for p h x
    using O(5) P(2) by (auto split: option.splits)
qed (auto simp: ref_kernel_def k_fs_def split: if_splits option.splits)

end
