(* ===== verification/Nvml.thy ===== *)
theory Nvml
  imports GoRuntime
begin

text \<open>
  \<open>internal/nvml/nvml.go\<close>: the data the bridge takes from a telemetry backend, and the interface
  \<open>Poller\<close> the main loop uses. The interface is a record of its four methods over the state \<open>'s\<close> of
  a backend; the locale \<open>nvml_backend\<close> states what the loop relies on, and both backends of the
  repository (\<open>MockNvml\<close>, \<open>RealNvml\<close>) are interpretations of it.
\<close>

record DeviceSnapshot =
  ds_Index :: u32
  ds_UUID :: string
  ds_Name :: string
  ds_TimestampNs :: u64
  ds_SmUtilPct :: u32
  ds_MemUtilPct :: u32
  ds_MemTotal :: u64
  ds_MemUsed :: u64
  ds_MemReserved :: u64
  ds_TempC :: u32
  ds_PowerMw :: u32
  ds_SmClockMhz :: u32
  ds_MemClockMhz :: u32
  ds_ThrottleReasons :: u64
  ds_PcieTxKbps :: u64
  ds_PcieRxKbps :: u64
  ds_EncUtilPct :: u32
  ds_DecUtilPct :: u32
  ds_NvlinkTxKbps :: u64
  ds_NvlinkRxKbps :: u64
  ds_EccCorrectedTotal :: u64
  ds_EccUncorrectedTotal :: u64
  ds_FanSpeedPct :: u32
  ds_ComputeMode :: u32

text \<open>The Go zero value: what a composite literal starts from.\<close>

definition zero_snapshot :: DeviceSnapshot where
  "zero_snapshot = \<lparr>ds_Index = 0, ds_UUID = [], ds_Name = [], ds_TimestampNs = 0,
     ds_SmUtilPct = 0, ds_MemUtilPct = 0, ds_MemTotal = 0, ds_MemUsed = 0, ds_MemReserved = 0,
     ds_TempC = 0, ds_PowerMw = 0, ds_SmClockMhz = 0, ds_MemClockMhz = 0, ds_ThrottleReasons = 0,
     ds_PcieTxKbps = 0, ds_PcieRxKbps = 0, ds_EncUtilPct = 0, ds_DecUtilPct = 0,
     ds_NvlinkTxKbps = 0, ds_NvlinkRxKbps = 0, ds_EccCorrectedTotal = 0,
     ds_EccUncorrectedTotal = 0, ds_FanSpeedPct = 0, ds_ComputeMode = 0\<rparr>"

record ProcessSample =
  ps_Pid :: u32
  ps_DeviceIndex :: u32
  ps_TimestampNs :: u64
  ps_UsedGpuMemory :: u64
  ps_SmUtilPct :: u32
  ps_MemUtilPct :: u32
  ps_EncUtilPct :: u32
  ps_DecUtilPct :: u32
  ps_MigInstance :: u8

definition zero_sample :: ProcessSample where
  "zero_sample = \<lparr>ps_Pid = 0, ps_DeviceIndex = 0, ps_TimestampNs = 0, ps_UsedGpuMemory = 0,
     ps_SmUtilPct = 0, ps_MemUtilPct = 0, ps_EncUtilPct = 0, ps_DecUtilPct = 0, ps_MigInstance = 0\<rparr>"

text \<open>
  A method that returns a slice and an error returns both here; the slice next to an error is
  whatever the method returned.
\<close>

record 's nvml_poller =
  np_Init :: "'s \<Rightarrow> goerr option \<times> 's"
  np_Devices :: "'s \<Rightarrow> (DeviceSnapshot list \<times> goerr option) \<times> 's"
  np_ProcessSamples :: "'s \<Rightarrow> u64 \<Rightarrow> (ProcessSample list \<times> goerr option) \<times> 's"
  np_Close :: "'s \<Rightarrow> goerr option \<times> 's"

text \<open>
  The contract of a backend. Once initialised (\<open>inv\<close>) with \<open>ndev\<close> devices, \<open>Devices\<close> returns one
  snapshot per device, indexed from 0, samples name only those devices and no MIG instance, the
  queries keep the backend initialised, and \<open>Close\<close> is idempotent.
\<close>

locale nvml_backend =
  fixes P :: "'s nvml_poller"
    and inv :: "'s \<Rightarrow> bool"
    and ndev :: "'s \<Rightarrow> nat"
  assumes init_inv: "np_Init P s = (None, s') \<Longrightarrow> inv s'"
    and devices_inv: "inv s \<Longrightarrow> np_Devices P s = (r, s') \<Longrightarrow> inv s' \<and> ndev s' = ndev s"
    and devices_index: "inv s \<Longrightarrow> np_Devices P s = ((ds, None), s') \<Longrightarrow>
      map ds_Index ds = map of_nat [0..<ndev s]"
    and samples_inv: "inv s \<Longrightarrow> np_ProcessSamples P s t = (q, s') \<Longrightarrow> inv s' \<and> ndev s' = ndev s"
    and samples_device: "inv s \<Longrightarrow> np_ProcessSamples P s t = ((ss, e), s') \<Longrightarrow> x \<in> set ss \<Longrightarrow>
      unat (ps_DeviceIndex x) < ndev s \<and> ps_MigInstance x = 0"
    and close_idem: "np_Close P s = (cr, s') \<Longrightarrow> np_Close P s' = (None, s')"
begin

lemma devices_length: "inv s \<Longrightarrow> np_Devices P s = ((ds, None), s') \<Longrightarrow> length ds = ndev s"
  using devices_index [of s ds s'] by (metis length_map length_upt diff_zero)

lemma devices_nth:
  assumes "inv s" and "np_Devices P s = ((ds, None), s')" and "i < ndev s"
  shows "ds_Index (ds ! i) = of_nat i"
proof -
  have len: "length ds = ndev s" by (rule devices_length [OF assms(1,2)])
  have "map ds_Index ds ! i = map of_nat [0..<ndev s] ! i"
    by (simp only: devices_index [OF assms(1,2)])
  with assms(3) len show ?thesis by simp
qed

end

end
