(* ===== verification/PollerAgg.thy ===== *)
theory PollerAgg
  imports Nvml GpuTypes
begin

text \<open>
  The data part of \<open>tick\<close> in \<open>internal/poller/poller.go\<close>: the watermark of the newest sample seen per
  device, the per-(pid, device) aggregation of the samples of one tick, the per-pid aggregation of
  those, and the map records built from them. The state part (calls of the backend and of the
  bridge) is in \<open>Poller\<close>.
\<close>

section \<open>Watermarks\<close>

definition advanceLastSeen :: "u32 \<Rightarrow> u64 \<Rightarrow> (u32 \<times> u64) list \<Rightarrow> (u32 \<times> u64) list" where
  "advanceLastSeen dev ts m = (if ts > lookup0 m dev then AList.update dev ts m else m)"

definition advance_all :: "ProcessSample list \<Rightarrow> (u32 \<times> u64) list \<Rightarrow> (u32 \<times> u64) list" where
  "advance_all samples = fold (\<lambda>s. advanceLastSeen (ps_DeviceIndex s) (ps_TimestampNs s)) samples"

text \<open>The loop of \<open>minLastSeen\<close> keeps the minimum so far and the flag \<open>first\<close>.\<close>

definition min_step :: "u32 \<times> u64 \<Rightarrow> u64 \<times> bool \<Rightarrow> u64 \<times> bool" where
  "min_step e s =
     (let ts = snd e; mn = fst s; first = snd s
      in if first \<or> ts < mn then (ts, False) else (mn, first))"

definition minLastSeen ::
  "((u32 \<times> u64) list \<Rightarrow> (u32 \<times> u64) list) \<Rightarrow> (u32 \<times> u64) list \<Rightarrow> u64" where
  "minLastSeen rng m = (if m = [] then 0 else fst (fold min_step (rng m) (0, True)))"

section \<open>Per-(pid, device) aggregation\<close>

type_synonym pidDevKey = "u32 \<times> u32"

record perDevAgg =
  a_ts :: u64
  a_usedMem :: u64
  a_smMax :: u32
  a_memMax :: u32
  a_encMax :: u32
  a_decMax :: u32
  a_migInst :: u8

definition new_perDevAgg :: "ProcessSample \<Rightarrow> perDevAgg" where
  "new_perDevAgg s = \<lparr>a_ts = ps_TimestampNs s, a_usedMem = ps_UsedGpuMemory s, a_smMax = 0,
     a_memMax = 0, a_encMax = 0, a_decMax = 0, a_migInst = ps_MigInstance s\<rparr>"

definition merge_sample :: "ProcessSample \<Rightarrow> perDevAgg \<Rightarrow> perDevAgg" where
  "merge_sample s a0 =
     (let a1 = (if ps_UsedGpuMemory s > a_usedMem a0 then a0\<lparr>a_usedMem := ps_UsedGpuMemory s\<rparr> else a0);
          a2 = (if ps_SmUtilPct s > a_smMax a1 then a1\<lparr>a_smMax := ps_SmUtilPct s\<rparr> else a1);
          a3 = (if ps_MemUtilPct s > a_memMax a2 then a2\<lparr>a_memMax := ps_MemUtilPct s\<rparr> else a2);
          a4 = (if ps_EncUtilPct s > a_encMax a3 then a3\<lparr>a_encMax := ps_EncUtilPct s\<rparr> else a3);
          a5 = (if ps_DecUtilPct s > a_decMax a4 then a4\<lparr>a_decMax := ps_DecUtilPct s\<rparr> else a4)
      in if ps_TimestampNs s > a_ts a5 then a5\<lparr>a_ts := ps_TimestampNs s\<rparr> else a5)"

definition sample_step ::
  "ProcessSample \<Rightarrow> (pidDevKey \<times> perDevAgg) list \<Rightarrow> (pidDevKey \<times> perDevAgg) list" where
  "sample_step s perDev =
     (if ps_Pid s = 0 then perDev
      else
        let key = (ps_Pid s, ps_DeviceIndex s);
            a = (case map_of perDev key of None \<Rightarrow> new_perDevAgg s | Some a \<Rightarrow> a)
        in AList.update key (merge_sample s a) perDev)"

definition aggregate_samples :: "ProcessSample list \<Rightarrow> (pidDevKey \<times> perDevAgg) list" where
  "aggregate_samples samples = fold sample_step samples []"

definition detail_record :: "pidDevKey \<Rightarrow> perDevAgg \<Rightarrow> gpu_pid_metrics" where
  "detail_record key a = \<lparr>
     pm_timestamp_ns = a_ts a,
     pm_used_gpu_memory = a_usedMem a,
     pm_sm_util_pct = a_smMax a,
     pm_mem_util_pct = a_memMax a,
     pm_enc_util_pct = a_encMax a,
     pm_dec_util_pct = a_decMax a,
     pm_gpu_device = ucast (snd key),
     pm_mig_instance = a_migInst a,
     pm_pad = 0\<rparr>"

section \<open>Per-pid aggregation\<close>

text \<open>\<open>devSet\<close> is Go's \<open>map[uint8]struct{}\<close>.\<close>

record aggBuilder =
  b_ts :: u64
  b_usedTotal :: u64
  b_smMax :: u32
  b_memMax :: u32
  b_firstDev :: u8
  b_devSet :: "(u8 \<times> unit) list"

definition new_aggBuilder :: "pidDevKey \<Rightarrow> perDevAgg \<Rightarrow> aggBuilder" where
  "new_aggBuilder key a = \<lparr>b_ts = a_ts a, b_usedTotal = 0, b_smMax = 0, b_memMax = 0,
     b_firstDev = ucast (snd key), b_devSet = []\<rparr>"

definition merge_dev :: "pidDevKey \<Rightarrow> perDevAgg \<Rightarrow> aggBuilder \<Rightarrow> aggBuilder" where
  "merge_dev key a b0 =
     (let b1 = b0\<lparr>b_usedTotal := b_usedTotal b0 + a_usedMem a\<rparr>;
          b2 = (if a_smMax a > b_smMax b1 then b1\<lparr>b_smMax := a_smMax a\<rparr> else b1);
          b3 = (if a_memMax a > b_memMax b2 then b2\<lparr>b_memMax := a_memMax a\<rparr> else b2);
          b4 = b3\<lparr>b_devSet := AList.update (ucast (snd key)) () (b_devSet b3)\<rparr>
      in if a_ts a > b_ts b4 then b4\<lparr>b_ts := a_ts a\<rparr> else b4)"

definition agg_step ::
  "pidDevKey \<times> perDevAgg \<Rightarrow> (u32 \<times> aggBuilder) list \<Rightarrow> (u32 \<times> aggBuilder) list" where
  "agg_step e agg =
     (let key = fst e; a = snd e;
          b = (case map_of agg (fst key) of None \<Rightarrow> new_aggBuilder key a | Some b \<Rightarrow> b)
      in AList.update (fst key) (merge_dev key a b) agg)"

definition agg_record :: "aggBuilder \<Rightarrow> gpu_pid_metrics_aggregated" where
  "agg_record b =
     (let devCount0 = of_nat (length (b_devSet b)) :: u8;
          devCount = (if devCount0 = 0 then 1 else devCount0);
          mapVal = \<lparr>
            pa_timestamp_ns = b_ts b,
            pa_used_gpu_memory_total = b_usedTotal b,
            pa_sm_util_pct_max = b_smMax b,
            pa_mem_util_pct_max = b_memMax b,
            pa_gpu_device_primary = b_firstDev b,
            pa_device_count = devCount,
            pa_pad = 0\<rparr>
      in if devCount > 1 then mapVal\<lparr>pa_gpu_device_primary := DevicePrimaryMulti\<rparr> else mapVal)"

section \<open>Device records\<close>

definition deviceSnapshotToMap :: "DeviceSnapshot \<Rightarrow> gpu_device_metrics" where
  "deviceSnapshotToMap d = \<lparr>
     dm_timestamp_ns = ds_TimestampNs d,
     dm_sm_util_pct = ds_SmUtilPct d,
     dm_mem_util_pct = ds_MemUtilPct d,
     dm_mem_total = ds_MemTotal d,
     dm_mem_used = ds_MemUsed d,
     dm_mem_reserved = ds_MemReserved d,
     dm_temp_c = ds_TempC d,
     dm_power_mw = ds_PowerMw d,
     dm_sm_clock_mhz = ds_SmClockMhz d,
     dm_mem_clock_mhz = ds_MemClockMhz d,
     dm_throttle_reasons = ds_ThrottleReasons d,
     dm_pcie_tx_kbps = ds_PcieTxKbps d,
     dm_pcie_rx_kbps = ds_PcieRxKbps d,
     dm_enc_util_pct = ds_EncUtilPct d,
     dm_dec_util_pct = ds_DecUtilPct d,
     dm_nvlink_tx_kbps = ds_NvlinkTxKbps d,
     dm_nvlink_rx_kbps = ds_NvlinkRxKbps d,
     dm_ecc_corrected_total = ds_EccCorrectedTotal d,
     dm_ecc_uncorrected_total = ds_EccUncorrectedTotal d,
     dm_fan_speed_pct = ds_FanSpeedPct d,
     dm_compute_mode = ds_ComputeMode d\<rparr>"

section \<open>What the aggregation means\<close>

text \<open>
  The specification, over the samples of the tick and with no mention of a loop or of an order: a
  detail record holds the maximum of every column over the samples of its (pid, device) pair, an
  aggregated record the sum of the memory over the devices and the maxima over all samples of the
  pid.
\<close>

definition samples_on :: "ProcessSample list \<Rightarrow> u32 \<Rightarrow> u32 \<Rightarrow> ProcessSample list" where
  "samples_on ss p d = filter (\<lambda>s. ps_Pid s = p \<and> ps_DeviceIndex s = d) ss"

definition samples_of :: "ProcessSample list \<Rightarrow> u32 \<Rightarrow> ProcessSample list" where
  "samples_of ss p = filter (\<lambda>s. ps_Pid s = p) ss"

definition devices_of :: "ProcessSample list \<Rightarrow> u32 \<Rightarrow> u32 list" where
  "devices_of ss p = remdups (map ps_DeviceIndex (samples_of ss p))"

definition spec_detail :: "ProcessSample list \<Rightarrow> u32 \<Rightarrow> u32 \<Rightarrow> gpu_pid_metrics option" where
  "spec_detail ss p d =
     (let xs = samples_on ss p d
      in if p = 0 \<or> xs = [] then None
         else Some \<lparr>
           pm_timestamp_ns = maxcol ps_TimestampNs xs,
           pm_used_gpu_memory = maxcol ps_UsedGpuMemory xs,
           pm_sm_util_pct = maxcol ps_SmUtilPct xs,
           pm_mem_util_pct = maxcol ps_MemUtilPct xs,
           pm_enc_util_pct = maxcol ps_EncUtilPct xs,
           pm_dec_util_pct = maxcol ps_DecUtilPct xs,
           pm_gpu_device = ucast d,
           pm_mig_instance = ps_MigInstance (hd xs),
           pm_pad = 0\<rparr>)"

definition device_bytes :: "ProcessSample list \<Rightarrow> u32 \<Rightarrow> u8 set" where
  "device_bytes ss p = ucast ` set (devices_of ss p)"

definition spec_aggregated :: "ProcessSample list \<Rightarrow> u32 \<Rightarrow> gpu_pid_metrics_aggregated option" where
  "spec_aggregated ss p =
     (let xs = samples_of ss p; n = card (device_bytes ss p)
      in if p = 0 \<or> xs = [] then None
         else Some \<lparr>
           pa_timestamp_ns = maxcol ps_TimestampNs xs,
           pa_used_gpu_memory_total =
             (\<Sum>d\<leftarrow>devices_of ss p. maxcol ps_UsedGpuMemory (samples_on ss p d)),
           pa_sm_util_pct_max = maxcol ps_SmUtilPct xs,
           pa_mem_util_pct_max = maxcol ps_MemUtilPct xs,
           pa_gpu_device_primary =
             (if n = 1 then ucast (ps_DeviceIndex (hd xs)) else DevicePrimaryMulti),
           pa_device_count = of_nat n,
           pa_pad = 0\<rparr>)"

section \<open>The per-(pid, device) loop computes the specification\<close>

lemma if_greater_update:
  "(if v1 > a_usedMem a then a\<lparr>a_usedMem := v1\<rparr> else a) = a\<lparr>a_usedMem := max (a_usedMem a) v1\<rparr>"
  "(if v2 > a_smMax a then a\<lparr>a_smMax := v2\<rparr> else a) = a\<lparr>a_smMax := max (a_smMax a) v2\<rparr>"
  "(if v2 > a_memMax a then a\<lparr>a_memMax := v2\<rparr> else a) = a\<lparr>a_memMax := max (a_memMax a) v2\<rparr>"
  "(if v2 > a_encMax a then a\<lparr>a_encMax := v2\<rparr> else a) = a\<lparr>a_encMax := max (a_encMax a) v2\<rparr>"
  "(if v2 > a_decMax a then a\<lparr>a_decMax := v2\<rparr> else a) = a\<lparr>a_decMax := max (a_decMax a) v2\<rparr>"
  "(if v1 > a_ts a then a\<lparr>a_ts := v1\<rparr> else a) = a\<lparr>a_ts := max (a_ts a) v1\<rparr>"
  "(if v2 > b_smMax b then b\<lparr>b_smMax := v2\<rparr> else b) = b\<lparr>b_smMax := max (b_smMax b) v2\<rparr>"
  "(if v2 > b_memMax b then b\<lparr>b_memMax := v2\<rparr> else b) = b\<lparr>b_memMax := max (b_memMax b) v2\<rparr>"
  "(if v1 > b_ts b then b\<lparr>b_ts := v1\<rparr> else b) = b\<lparr>b_ts := max (b_ts b) v1\<rparr>"
  by (cases a, cases b, auto simp: max_def)+

lemma merge_sample_eq:
  "merge_sample s a = \<lparr>
     a_ts = max (a_ts a) (ps_TimestampNs s),
     a_usedMem = max (a_usedMem a) (ps_UsedGpuMemory s),
     a_smMax = max (a_smMax a) (ps_SmUtilPct s),
     a_memMax = max (a_memMax a) (ps_MemUtilPct s),
     a_encMax = max (a_encMax a) (ps_EncUtilPct s),
     a_decMax = max (a_decMax a) (ps_DecUtilPct s),
     a_migInst = a_migInst a\<rparr>"
  unfolding merge_sample_def if_greater_update unfolding Let_def by simp

interpretation perdev: keyed_fold sample_step "\<lambda>s. ps_Pid s \<noteq> 0"
  "\<lambda>s. (ps_Pid s, ps_DeviceIndex s)" new_perDevAgg merge_sample
  by unfold_locales (simp_all add: sample_step_def Let_def)

lemma fold_merge_sample:
  "fold merge_sample xs a = \<lparr>
     a_ts = max (a_ts a) (maxcol ps_TimestampNs xs),
     a_usedMem = max (a_usedMem a) (maxcol ps_UsedGpuMemory xs),
     a_smMax = max (a_smMax a) (maxcol ps_SmUtilPct xs),
     a_memMax = max (a_memMax a) (maxcol ps_MemUtilPct xs),
     a_encMax = max (a_encMax a) (maxcol ps_EncUtilPct xs),
     a_decMax = max (a_decMax a) (maxcol ps_DecUtilPct xs),
     a_migInst = a_migInst a\<rparr>"
proof (induction xs arbitrary: a)
  case Nil
  then show ?case by (cases a) (simp add: max_def)
next
  case (Cons x xs)
  then show ?case by (simp add: merge_sample_eq maxcol_Cons max.assoc)
qed

lemma mine_samples_on:
  "perdev.mine (p, d) ss = (if p = 0 then [] else samples_on ss p d)"
  by (auto simp: samples_on_def intro!: filter_cong)

lemma aggregate_lookup:
  "map_of (aggregate_samples ss) (p, d) =
     (let xs = samples_on ss p d
      in if p = 0 \<or> xs = [] then None
         else Some \<lparr>
           a_ts = maxcol ps_TimestampNs xs,
           a_usedMem = maxcol ps_UsedGpuMemory xs,
           a_smMax = maxcol ps_SmUtilPct xs,
           a_memMax = maxcol ps_MemUtilPct xs,
           a_encMax = maxcol ps_EncUtilPct xs,
           a_decMax = maxcol ps_DecUtilPct xs,
           a_migInst = ps_MigInstance (hd xs)\<rparr>)"
proof -
  have "map_of (aggregate_samples ss) (p, d) =
      (case if p = 0 then [] else samples_on ss p d of [] \<Rightarrow> None
       | y # ys \<Rightarrow> Some (fold merge_sample (y # ys) (new_perDevAgg y)))"
    unfolding aggregate_samples_def perdev.fold_lookup mine_samples_on ..
  then show ?thesis
    by (cases "samples_on ss p d")
       (simp_all add: fold_merge_sample merge_sample_eq new_perDevAgg_def maxcol_Cons)
qed

lemma aggregate_detail:
  "map_option (detail_record (p, d)) (map_of (aggregate_samples ss) (p, d)) = spec_detail ss p d"
  by (simp add: aggregate_lookup spec_detail_def detail_record_def Let_def)

lemma aggregate_distinct: "distinct (map fst (aggregate_samples ss))"
  unfolding aggregate_samples_def by (rule perdev.fold_distinct) simp

lemma aggregate_keys:
  "fst ` set (aggregate_samples ss) =
     {(ps_Pid s, ps_DeviceIndex s) | s. s \<in> set ss \<and> ps_Pid s \<noteq> 0}"
  unfolding aggregate_samples_def perdev.fold_keys by auto

section \<open>The per-pid loop computes the specification\<close>

lemma merge_dev_eq:
  "merge_dev key a b = \<lparr>
     b_ts = max (b_ts b) (a_ts a),
     b_usedTotal = b_usedTotal b + a_usedMem a,
     b_smMax = max (b_smMax b) (a_smMax a),
     b_memMax = max (b_memMax b) (a_memMax a),
     b_firstDev = b_firstDev b,
     b_devSet = AList.update (ucast (snd key)) () (b_devSet b)\<rparr>"
  unfolding merge_dev_def if_greater_update unfolding Let_def by simp

interpretation peragg: keyed_fold agg_step "\<lambda>_. True" "\<lambda>e. fst (fst e)"
  "\<lambda>e. new_aggBuilder (fst e) (snd e)" "\<lambda>e. merge_dev (fst e) (snd e)"
  by unfold_locales (simp_all add: agg_step_def Let_def)

lemma fold_merge_dev:
  "fold (\<lambda>e. merge_dev (fst e) (snd e)) es b = \<lparr>
     b_ts = max (b_ts b) (maxcol (\<lambda>e. a_ts (snd e)) es),
     b_usedTotal = b_usedTotal b + sumcol (\<lambda>e. a_usedMem (snd e)) es,
     b_smMax = max (b_smMax b) (maxcol (\<lambda>e. a_smMax (snd e)) es),
     b_memMax = max (b_memMax b) (maxcol (\<lambda>e. a_memMax (snd e)) es),
     b_firstDev = b_firstDev b,
     b_devSet = fold (\<lambda>e. AList.update (ucast (snd (fst e))) ()) es (b_devSet b)\<rparr>"
proof (induction es arbitrary: b)
  case Nil
  then show ?case by (cases b) (simp add: max_def)
next
  case (Cons e es)
  then show ?case
    by (simp add: merge_dev_eq maxcol_Cons sumcol_Cons max.assoc add.assoc)
qed

lemma devSet_length:
  "distinct (map fst m) \<Longrightarrow>
    length (fold (\<lambda>e. AList.update (f e) ()) es m) = card (fst ` set m \<union> f ` set es)"
proof (induction es arbitrary: m)
  case Nil
  then show ?case by (metis List.finite_set Un_empty_right distinct_card image_empty length_map
        list.set(1) list.set_map fold_simps(1))
next
  case (Cons e es)
  have "distinct (map fst (AList.update (f e) () m))" using Cons.prems by auto
  from Cons.IH [OF this] show ?case by (simp add: AList.dom_update)
qed

text \<open>The entries of one pid, in the order \<open>f\<close> of the loop, for the samples \<open>ss\<close> of a tick.\<close>

definition entries_of ::
  "((pidDevKey \<times> perDevAgg) list \<Rightarrow> (pidDevKey \<times> perDevAgg) list) \<Rightarrow> ProcessSample list \<Rightarrow> u32
    \<Rightarrow> (pidDevKey \<times> perDevAgg) list" where
  "entries_of f ss p = filter (\<lambda>e. fst (fst e) = p) (f (aggregate_samples ss))"

lemma entries_of_set:
  assumes "is_range f"
  shows "((q, d), a) \<in> set (entries_of f ss p) \<longleftrightarrow> q = p \<and> map_of (aggregate_samples ss) (p, d) = Some a"
  using is_range_set [OF assms] aggregate_distinct [of ss] by (auto simp: entries_of_def)

lemma entries_of_setD:
  assumes "is_range f" and "e \<in> set (entries_of f ss p)"
  obtains d a where "e = ((p, d), a)" and "map_of (aggregate_samples ss) (p, d) = Some a"
proof -
  obtain q d a where "e = ((q, d), a)" by (metis prod.exhaust)
  with assms that show thesis by (simp add: entries_of_set)
qed

lemma entries_of_distinct: "is_range f \<Longrightarrow> distinct (map fst (entries_of f ss p))"
  using is_range_distinct_keys [of f "aggregate_samples ss"] aggregate_distinct [of ss]
  by (simp add: entries_of_def distinct_map_filter)

lemma samples_on_subset: "set (samples_on ss p d) \<subseteq> set (samples_of ss p)"
  by (auto simp: samples_on_def samples_of_def)

lemma maxcol_subset: "set xs \<subseteq> set ys \<Longrightarrow> maxcol f xs \<le> maxcol f ys"
  by (rule maxcol_le) (auto intro: maxcol_ge)

lemma entries_maxcol:
  assumes f: "is_range f" and p: "p \<noteq> 0"
    and col: "\<And>d a. map_of (aggregate_samples ss) (p, d) = Some a \<Longrightarrow> c a = maxcol g (samples_on ss p d)"
  shows "maxcol (\<lambda>e. c (snd e)) (entries_of f ss p) = maxcol g (samples_of ss p)"
proof (rule antisym)
  show "maxcol (\<lambda>e. c (snd e)) (entries_of f ss p) \<le> maxcol g (samples_of ss p)"
  proof (rule maxcol_le)
    fix e assume "e \<in> set (entries_of f ss p)"
    then obtain d a where "e = ((p, d), a)" "map_of (aggregate_samples ss) (p, d) = Some a"
      by (rule entries_of_setD [OF f])
    with col maxcol_subset [OF samples_on_subset] show "c (snd e) \<le> maxcol g (samples_of ss p)"
      by fastforce
  qed
  show "maxcol g (samples_of ss p) \<le> maxcol (\<lambda>e. c (snd e)) (entries_of f ss p)"
  proof (rule maxcol_le)
    fix s assume s: "s \<in> set (samples_of ss p)"
    let ?d = "ps_DeviceIndex s"
    from s have on: "s \<in> set (samples_on ss p ?d)" by (simp add: samples_on_def samples_of_def)
    then have "samples_on ss p ?d \<noteq> []" by auto
    then obtain a where a: "map_of (aggregate_samples ss) (p, ?d) = Some a"
      using p by (auto simp: aggregate_lookup Let_def)
    have "g s \<le> maxcol g (samples_on ss p ?d)" by (rule maxcol_ge [OF on])
    also have "\<dots> = c a" using col [OF a] by simp
    also have "\<dots> \<le> maxcol (\<lambda>e. c (snd e)) (entries_of f ss p)"
      using maxcol_ge [of "((p, ?d), a)" "entries_of f ss p" "\<lambda>e. c (snd e)"] a entries_of_set [OF f]
      by simp
    finally show "g s \<le> maxcol (\<lambda>e. c (snd e)) (entries_of f ss p)" .
  qed
qed

lemma entries_devices:
  assumes "is_range f" and "p \<noteq> 0"
  shows "(\<lambda>e. snd (fst e)) ` set (entries_of f ss p) = set (devices_of ss p)"
proof -
  have "d \<in> (\<lambda>e. snd (fst e)) ` set (entries_of f ss p) \<longleftrightarrow> samples_on ss p d \<noteq> []" for d
  proof -
    have "d \<in> (\<lambda>e. snd (fst e)) ` set (entries_of f ss p) \<longleftrightarrow>
        (\<exists>q a. ((q, d), a) \<in> set (entries_of f ss p))" by force
    also have "\<dots> \<longleftrightarrow> samples_on ss p d \<noteq> []"
      using assms(2) by (auto simp: entries_of_set [OF assms(1)] aggregate_lookup Let_def)
    finally show ?thesis .
  qed
  moreover have "d \<in> set (devices_of ss p) \<longleftrightarrow> samples_on ss p d \<noteq> []" for d
    by (auto simp: devices_of_def samples_of_def samples_on_def filter_empty_conv)
  ultimately show ?thesis by blast
qed

lemma entries_sumcol:
  assumes f: "is_range f" and p: "p \<noteq> 0"
  shows "sumcol (\<lambda>e. a_usedMem (snd e)) (entries_of f ss p) =
    (\<Sum>d\<leftarrow>devices_of ss p. maxcol ps_UsedGpuMemory (samples_on ss p d))"
proof -
  let ?es = "entries_of f ss p" and ?g = "\<lambda>d. maxcol ps_UsedGpuMemory (samples_on ss p d)"
  have inj: "inj_on (\<lambda>e. snd (fst e)) (set ?es)"
  proof (rule inj_onI)
    fix e e' assume "e \<in> set ?es" "e' \<in> set ?es" "snd (fst e) = snd (fst e')"
    then show "e = e'" by (auto elim!: entries_of_setD [OF f])
  qed
  have val: "a_usedMem (snd e) = ?g (snd (fst e))" if "e \<in> set ?es" for e
    using that p by (auto elim!: entries_of_setD [OF f] simp: aggregate_lookup Let_def split: if_splits)
  have "distinct ?es" using entries_of_distinct [OF f] by (simp add: distinct_map)
  then have "sumcol (\<lambda>e. a_usedMem (snd e)) ?es = (\<Sum>e\<in>set ?es. a_usedMem (snd e))"
    by (simp add: sumcol_def sum_list_distinct_conv_sum_set)
  also have "\<dots> = (\<Sum>e\<in>set ?es. ?g (snd (fst e)))" using val by simp
  also have "\<dots> = (\<Sum>d\<in>set (devices_of ss p). ?g d)"
    using sum.reindex [OF inj, of ?g] entries_devices [OF f p] by simp
  also have "\<dots> = (\<Sum>d\<leftarrow>devices_of ss p. ?g d)"
    by (simp add: devices_of_def sum_list_distinct_conv_sum_set)
  finally show ?thesis .
qed

lemma entries_Nil_iff:
  "is_range f \<Longrightarrow> p \<noteq> 0 \<Longrightarrow> entries_of f ss p = [] \<longleftrightarrow> samples_of ss p = []"
  using entries_devices [of f p ss] by (auto simp: devices_of_def)

text \<open>The count of devices is exact while fewer than 256 device bytes occur.\<close>

lemma of_nat_u8:
  assumes "0 < n" and "n < 256"
  shows "(of_nat n :: u8) \<noteq> 0" and "(of_nat n :: u8) > 1 \<longleftrightarrow> n > 1"
proof -
  have u: "unat (of_nat n :: u8) = n" using assms by (simp add: unat_of_nat)
  then show "(of_nat n :: u8) \<noteq> 0" using assms by auto
  show "(of_nat n :: u8) > 1 \<longleftrightarrow> n > 1" using u by (simp add: word_less_nat_alt)
qed

lemma agg_builder_entries:
  assumes f: "is_range f" and p: "p \<noteq> 0"
  shows "map_of (fold agg_step (f (aggregate_samples ss)) []) p =
    (case entries_of f ss p of [] \<Rightarrow> None
     | y # ys \<Rightarrow> Some \<lparr>
         b_ts = maxcol ps_TimestampNs (samples_of ss p),
         b_usedTotal = (\<Sum>d\<leftarrow>devices_of ss p. maxcol ps_UsedGpuMemory (samples_on ss p d)),
         b_smMax = maxcol ps_SmUtilPct (samples_of ss p),
         b_memMax = maxcol ps_MemUtilPct (samples_of ss p),
         b_firstDev = ucast (snd (fst y)),
         b_devSet = fold (\<lambda>e. AList.update (ucast (snd (fst e))) ()) (entries_of f ss p) []\<rparr>)"
proof -
  have look: "map_of (aggregate_samples ss) (p, d) = Some a \<Longrightarrow> a_ts a = maxcol ps_TimestampNs (samples_on ss p d)"
    "map_of (aggregate_samples ss) (p, d) = Some a \<Longrightarrow> a_smMax a = maxcol ps_SmUtilPct (samples_on ss p d)"
    "map_of (aggregate_samples ss) (p, d) = Some a \<Longrightarrow> a_memMax a = maxcol ps_MemUtilPct (samples_on ss p d)"
    for d a by (auto simp: aggregate_lookup Let_def split: if_splits)
  note cols = entries_maxcol [where c = a_ts, OF f p look(1)]
    entries_maxcol [where c = a_smMax, OF f p look(2)]
    entries_maxcol [where c = a_memMax, OF f p look(3)] entries_sumcol [OF f p, of ss]
  have mine: "peragg.mine p (f (aggregate_samples ss)) = entries_of f ss p"
    by (simp add: entries_of_def)
  show ?thesis
  proof (cases "entries_of f ss p")
    case Nil
    then show ?thesis by (simp only: peragg.fold_lookup mine list.case)
  next
    case (Cons y ys)
    have "a_ts (snd y) \<le> maxcol (\<lambda>e. a_ts (snd e)) (entries_of f ss p)"
      by (rule maxcol_ge) (simp add: Cons)
    then have "max (a_ts (snd y)) (maxcol (\<lambda>e. a_ts (snd e)) (y # ys)) =
        maxcol ps_TimestampNs (samples_of ss p)"
      using cols(1) Cons by (simp add: max_def)
    with cols [unfolded Cons] show ?thesis
      by (simp only: peragg.fold_lookup mine Cons list.case fold_merge_dev new_aggBuilder_def)
         simp
  qed
qed

lemma agg_record_spec:
  assumes f: "is_range f" and n: "card (device_bytes ss p) < 256"
  shows "p \<noteq> 0 \<Longrightarrow> map_option agg_record (map_of (fold agg_step (f (aggregate_samples ss)) []) p) =
    spec_aggregated ss p"
proof -
  assume p: "p \<noteq> 0"
  show ?thesis
  proof (cases "entries_of f ss p")
    case Nil
    with entries_Nil_iff [OF f p, of ss] have "samples_of ss p = []" by simp
    with Nil show ?thesis by (simp add: agg_builder_entries [OF f p] spec_aggregated_def)
  next
    case (Cons y ys)
    let ?n = "card (device_bytes ss p)"
    from Cons entries_Nil_iff [OF f p, of ss] have ne: "samples_of ss p \<noteq> []" by auto
    have bytes: "device_bytes ss p = (\<lambda>e. ucast (snd (fst e))) ` set (entries_of f ss p)"
      unfolding device_bytes_def entries_devices [OF f p, symmetric] by (simp add: image_image)
    have fin: "finite (device_bytes ss p)" by (simp add: device_bytes_def)
    have y: "ucast (snd (fst y)) \<in> device_bytes ss p" unfolding bytes Cons by simp
    have h: "ucast (ps_DeviceIndex (hd (samples_of ss p))) \<in> device_bytes ss p"
      using ne by (simp add: device_bytes_def devices_of_def)
    have len: "length (fold (\<lambda>e. AList.update (ucast (snd (fst e)) :: u8) ()) (entries_of f ss p) []) = ?n"
      using devSet_length [of "[]" "\<lambda>e. ucast (snd (fst e)) :: u8" "entries_of f ss p"] bytes by simp
    have pos: "0 < ?n" using y fin by (auto simp: card_gt_0_iff)
    have one: "?n = 1 \<Longrightarrow> (ucast (snd (fst y)) :: u8) = ucast (ps_DeviceIndex (hd (samples_of ss p)))"
      using y h by (auto simp: card_1_singleton_iff)
    show ?thesis
      using ne p one of_nat_u8 [OF pos n] pos len
      by (auto simp: agg_builder_entries [OF f p] Cons spec_aggregated_def agg_record_def Let_def)
  qed
qed

lemma agg_step_zero:
  assumes "is_range f"
  shows "map_of (fold agg_step (f (aggregate_samples ss)) []) 0 = None"
proof -
  have "fst (fst e) \<noteq> 0" if "e \<in> set (f (aggregate_samples ss))" for e
  proof -
    from that have "fst e \<in> fst ` set (aggregate_samples ss)" using is_range_set [OF assms] by auto
    then show ?thesis unfolding aggregate_keys by auto
  qed
  then have "peragg.mine 0 (f (aggregate_samples ss)) = []" by (auto simp: filter_empty_conv)
  then show ?thesis by (simp only: peragg.fold_lookup list.case)
qed

section \<open>Watermarks advance and the request never skips a device\<close>

lemma advance_lookup:
  "lookup0 (advanceLastSeen d ts m) d' = (if d' = d then max (lookup0 m d) ts else lookup0 m d')"
  by (auto simp: advanceLastSeen_def max_def)

lemma advance_all_lookup:
  "lookup0 (advance_all ss m) d =
     max (lookup0 m d) (maxcol ps_TimestampNs (filter (\<lambda>s. ps_DeviceIndex s = d) ss))"
proof (induction ss arbitrary: m)
  case Nil
  then show ?case by (simp add: advance_all_def)
next
  case (Cons s ss)
  have "advance_all (s # ss) m
      = advance_all ss (advanceLastSeen (ps_DeviceIndex s) (ps_TimestampNs s) m)"
    by (simp add: advance_all_def)
  then show ?case by (simp add: Cons.IH advance_lookup maxcol_Cons max.assoc)
qed

lemma advance_all_distinct: "distinct (map fst m) \<Longrightarrow> distinct (map fst (advance_all ss m))"
  unfolding advance_all_def by (induction ss arbitrary: m) (auto simp: advanceLastSeen_def)

lemma fold_min_step:
  "fold min_step xs (a, False) = (fold (\<lambda>e. min (snd e)) xs a, False)"
  by (induction xs arbitrary: a) (auto simp: min_step_def Let_def min_def)

lemma fold_min_Min:
  fixes a :: "'l::len word"
  shows "fold (\<lambda>e. min (snd e)) xs a = Min (insert a (snd ` set xs))"
proof -
  have "fold (\<lambda>e. min (snd e)) xs a = fold min (map snd xs) a" by (simp add: fold_map comp_def)
  also have "\<dots> = Min (set (a # map snd xs))" by (rule Min.set_eq_fold [symmetric])
  finally show ?thesis by simp
qed

lemma minLastSeen_Min:
  assumes f: "is_range f" and m: "m \<noteq> []"
  shows "minLastSeen f m = Min (snd ` set m)"
proof -
  have "f m \<noteq> []" using is_range_length [OF f, of m] m by auto
  then obtain x xs where fm: "f m = x # xs" by (cases "f m") auto
  have "minLastSeen f m = Min (insert (snd x) (snd ` set xs))"
    using m by (simp add: minLastSeen_def fm fold_min_step fold_min_Min) 
       (simp add: min_step_def fold_min_step fold_min_Min)
  also have "insert (snd x) (snd ` set xs) = snd ` set m"
    using is_range_set [OF f, of m] fm by (metis image_insert list.simps(15))
  finally show ?thesis .
qed

text \<open>A device that has no watermark yet does not enter the minimum: the time asked for is past its 0.\<close>

lemma new_device_not_in_min:
  assumes "is_range f" and "m \<noteq> []" and "\<forall>e \<in> set m. snd e > 0" and "d \<notin> fst ` set m"
  shows "lookup0 m d < minLastSeen f m"
proof -
  have "lookup0 m d = 0" using assms(4) by (simp add: lookup0_def map_of_eq_None_iff [THEN iffD2])
  moreover have "0 < Min (snd ` set m)" using assms(2,3) by simp
  ultimately show ?thesis by (simp add: minLastSeen_Min [OF assms(1,2)])
qed

section \<open>A pid on all device bytes\<close>

text \<open>An order that visits a given entry first.\<close>

definition first_of :: "'a \<Rightarrow> 'a list \<Rightarrow> 'a list" where
  "first_of e xs = (if e \<in> set xs then e # remove1 e xs else xs)"

lemma is_range_first_of: "is_range (first_of e)"
  by (simp add: is_range_def first_of_def)

lemma agg_record_wraps:
  assumes f: "is_range f" and p: "p \<noteq> 0" and n: "card (device_bytes ss p) = 256"
  shows "\<exists>r. map_option agg_record (map_of (fold agg_step (f (aggregate_samples ss)) []) p) = Some r \<and>
    pa_device_count r = 1 \<and> pa_gpu_device_primary r = ucast (snd (fst (hd (entries_of f ss p))))"
proof -
  have "samples_of ss p \<noteq> []" using n by (auto simp: device_bytes_def devices_of_def)
  then obtain y ys where e: "entries_of f ss p = y # ys"
    using entries_Nil_iff [OF f p, of ss] by (meson neq_Nil_conv)
  have "length (fold (\<lambda>e. AList.update (ucast (snd (fst e)) :: u8) ()) (entries_of f ss p) []) = 256"
    using devSet_length [of "[]" "\<lambda>e. ucast (snd (fst e)) :: u8" "entries_of f ss p"] n
    unfolding device_bytes_def entries_devices [OF f p, symmetric] by (simp add: image_image)
  then show ?thesis using e
    by (simp add: agg_builder_entries [OF f p] agg_record_def Let_def del: fold_simps)
qed

end
