(* ===== verification/Bridge.thy ===== *)
theory Bridge
  imports Kernel
begin

unbundle bit_operations_syntax

text \<open>
  \<open>internal/maps/maps.go\<close>: the \<open>Bridge\<close> that owns the four pinned maps. Every method is a function
  of the kernel \<open>K\<close> (a parameter, see \<open>Kernel\<close>), of the bridge and of the state \<open>w\<close> of the machine, and
  returns the Go results with the new state.

  The abstract view of a bridge (\<open>bview\<close>) is the contents of its four maps. The lemmas in the
  context of \<open>bpf_kernel\<close> show what every method does to that view: the update of an array entry, the
  LRU update with its possible evictions, and that a failed update changes nothing.
\<close>

section \<open>Opening\<close>

record bridge =
  br_pinDir :: string
  br_objs :: map_fds

definition DefaultPinDir :: string where "DefaultPinDir = ''/sys/fs/bpf''"

definition loadGputypes :: "'w kernel \<Rightarrow> goerr option" where
  "loadGputypes K =
     (case k_load_spec K of
        Some e \<Rightarrow> Some (Wrapf ''can't load gputypes'' e)
      | None \<Rightarrow> None)"

definition loadGputypesObjects :: "'w kernel \<Rightarrow> string \<Rightarrow> 'w \<Rightarrow> (goerr + map_fds) \<times> 'w" where
  "loadGputypesObjects K pinPath w =
     (case loadGputypes K of
        Some e \<Rightarrow> (Inl e, w)
      | None \<Rightarrow> k_load_and_assign K w pinPath)"

definition Open :: "'w kernel \<Rightarrow> string \<Rightarrow> 'w \<Rightarrow> (goerr + bridge) \<times> 'w" where
  "Open K pinDir0 w =
     (let pinDir = (if pinDir0 = '''' then DefaultPinDir else pinDir0)
      in case os_mkdir_all K w pinDir of
           (Some e, w1) \<Rightarrow> (Inl (Wrapf (''ensuring pin dir '' @ pinDir) e), w1)
         | (None, w1) \<Rightarrow>
             (case loadGputypesObjects K pinDir w1 of
                (Inl e, w2) \<Rightarrow>
                  (Inl (Wrapf (''loading BPF object and pinning maps in '' @ pinDir) e), w2)
              | (Inr objs, w2) \<Rightarrow> (Inr \<lparr>br_pinDir = pinDir, br_objs = objs\<rparr>, w2)))"

section \<open>Closing and unpinning\<close>

text \<open>\<open>_GputypesClose\<close>: closes in order and stops at the first error.\<close>

fun GputypesClose :: "'w kernel \<Rightarrow> fd list \<Rightarrow> 'w \<Rightarrow> goerr option \<times> 'w" where
  "GputypesClose K [] w = (None, w)"
| "GputypesClose K (h # hs) w =
     (case k_close K w h of
        (Some e, w') \<Rightarrow> (Some e, w')
      | (None, w') \<Rightarrow> GputypesClose K hs w')"

definition gputypesMaps_Close :: "'w kernel \<Rightarrow> map_fds \<Rightarrow> 'w \<Rightarrow> goerr option \<times> 'w" where
  "gputypesMaps_Close K m w =
     GputypesClose K [fd_GpuDevice m, fd_GpuMeta m, fd_GpuPerPid m, fd_GpuPerPidPerDevice m] w"

definition gputypesPrograms_Close :: "'w kernel \<Rightarrow> 'w \<Rightarrow> goerr option \<times> 'w" where
  "gputypesPrograms_Close K w = GputypesClose K [] w"

definition gputypesObjects_Close :: "'w kernel \<Rightarrow> map_fds \<Rightarrow> 'w \<Rightarrow> goerr option \<times> 'w" where
  "gputypesObjects_Close K o1 w =
     (case gputypesPrograms_Close K w of
        (Some e, w') \<Rightarrow> (Some e, w')
      | (None, w') \<Rightarrow> gputypesMaps_Close K o1 w')"

definition Bridge_Close :: "'w kernel \<Rightarrow> bridge \<Rightarrow> 'w \<Rightarrow> goerr option \<times> 'w" where
  "Bridge_Close K b w = gputypesObjects_Close K (br_objs b) w"

fun unpin_loop :: "'w kernel \<Rightarrow> string \<Rightarrow> string list \<Rightarrow> goerr list \<Rightarrow> 'w \<Rightarrow> goerr list \<times> 'w" where
  "unpin_loop K pinDir [] errs w = (errs, w)"
| "unpin_loop K pinDir (name # names) errs w =
     (let path = file_join pinDir name
      in case os_remove K w path of
           (Some e, w') \<Rightarrow>
             if \<not> errors_is e ErrNotExist
             then unpin_loop K pinDir names (errs @ [Wrapf (''removing '' @ path) e]) w'
             else unpin_loop K pinDir names errs w'
         | (None, w') \<Rightarrow> unpin_loop K pinDir names errs w')"

definition Unpin :: "'w kernel \<Rightarrow> bridge \<Rightarrow> 'w \<Rightarrow> goerr option \<times> 'w" where
  "Unpin K b w =
     (case unpin_loop K (br_pinDir b)
             [MapNameMeta, MapNameDevice, MapNamePerPid, MapNamePerPidPerDevice] [] w of
        (errs, w') \<Rightarrow> (errors_join errs, w'))"

section \<open>Updates and deletes\<close>

definition PerPidPerDeviceKey :: "u32 \<Rightarrow> u32 \<Rightarrow> u64" where
  "PerPidPerDeviceKey pid devIdx = push_bit 32 (ucast pid) OR ucast devIdx"

definition UpdateMeta :: "'w kernel \<Rightarrow> bridge \<Rightarrow> gpu_meta \<Rightarrow> 'w \<Rightarrow> goerr option \<times> 'w" where
  "UpdateMeta K b m w = m_update (k_meta K) w (fd_GpuMeta (br_objs b)) 0 m"

definition UpdateDevice :: "'w kernel \<Rightarrow> bridge \<Rightarrow> u32 \<Rightarrow> gpu_device_metrics \<Rightarrow> 'w \<Rightarrow> goerr option \<times> 'w" where
  "UpdateDevice K b idx d w = m_update (k_device K) w (fd_GpuDevice (br_objs b)) idx d"

definition UpdatePerPid ::
  "'w kernel \<Rightarrow> bridge \<Rightarrow> u32 \<Rightarrow> gpu_pid_metrics_aggregated \<Rightarrow> 'w \<Rightarrow> goerr option \<times> 'w" where
  "UpdatePerPid K b pid p w = m_update (k_pid K) w (fd_GpuPerPid (br_objs b)) pid p"

definition UpdatePerPidPerDevice ::
  "'w kernel \<Rightarrow> bridge \<Rightarrow> u32 \<Rightarrow> u32 \<Rightarrow> gpu_pid_metrics \<Rightarrow> 'w \<Rightarrow> goerr option \<times> 'w" where
  "UpdatePerPidPerDevice K b pid devIdx p w =
     (let key = PerPidPerDeviceKey pid devIdx
      in m_update (k_piddev K) w (fd_GpuPerPidPerDevice (br_objs b)) key p)"

definition DeletePerPid :: "'w kernel \<Rightarrow> bridge \<Rightarrow> u32 \<Rightarrow> 'w \<Rightarrow> goerr option \<times> 'w" where
  "DeletePerPid K b pid w =
     (case m_delete (k_pid K) w (fd_GpuPerPid (br_objs b)) pid of
        (Some e, w') \<Rightarrow> if \<not> errors_is e ErrKeyNotExist then (Some e, w') else (None, w')
      | (None, w') \<Rightarrow> (None, w'))"

definition DeletePerPidPerDevice :: "'w kernel \<Rightarrow> bridge \<Rightarrow> u32 \<Rightarrow> u32 \<Rightarrow> 'w \<Rightarrow> goerr option \<times> 'w" where
  "DeletePerPidPerDevice K b pid devIdx w =
     (let key = PerPidPerDeviceKey pid devIdx
      in case m_delete (k_piddev K) w (fd_GpuPerPidPerDevice (br_objs b)) key of
           (Some e, w') \<Rightarrow> if \<not> errors_is e ErrKeyNotExist then (Some e, w') else (None, w')
         | (None, w') \<Rightarrow> (None, w'))"

section \<open>The composite key\<close>

lemma key_high: "drop_bit 32 (PerPidPerDeviceKey pid dev) = ucast pid"
  by (rule bit_word_eqI)
     (auto simp: PerPidPerDeviceKey_def bit_simps dest: bit_imp_le_length)

lemma key_low: "PerPidPerDeviceKey pid dev AND 0xFFFFFFFF = ucast dev"
proof (rule bit_word_eqI)
  fix n :: nat assume n: "n < LENGTH(64)"
  have m: "(0xFFFFFFFF :: u64) = mask 32" by (simp add: mask_eq_exp_minus_1)
  show "bit (PerPidPerDeviceKey pid dev AND 0xFFFFFFFF) n = bit (ucast dev :: u64) n"
    unfolding m using n
    by (auto simp: PerPidPerDeviceKey_def bit_simps dest: bit_imp_le_length)
qed

lemma ucast_32_64_inj: "(ucast (a :: u32) :: u64) = ucast b \<longleftrightarrow> a = b"
proof
  assume "(ucast a :: u64) = ucast b"
  then have "(ucast (ucast a :: u64) :: u32) = ucast (ucast b :: u64)" by simp
  then show "a = b" by (simp add: ucast_down_ucast_id is_down)
qed simp

lemma key_inj [simp]:
  "PerPidPerDeviceKey p d = PerPidPerDeviceKey p' d' \<longleftrightarrow> p = p' \<and> d = d'"
proof
  assume eq: "PerPidPerDeviceKey p d = PerPidPerDeviceKey p' d'"
  then have "(ucast p :: u64) = ucast p'" using key_high by metis
  moreover from eq have "(ucast d :: u64) = ucast d'" using key_low by metis
  ultimately show "p = p' \<and> d = d'" by (simp add: ucast_32_64_inj)
qed simp

section \<open>The abstract view\<close>

record bridge_view =
  v_meta :: "u32 \<Rightarrow> gpu_meta option"
  v_device :: "u32 \<Rightarrow> gpu_device_metrics option"
  v_pid :: "u32 \<Rightarrow> gpu_pid_metrics_aggregated option"
  v_piddev :: "u64 \<Rightarrow> gpu_pid_metrics option"

text \<open>\<open>bview K b w\<close> is the view, \<open>None\<close> when a handle of the bridge is not a map of its kind.\<close>

definition bview :: "'w kernel \<Rightarrow> bridge \<Rightarrow> 'w \<Rightarrow> bridge_view option" where
  "bview K b w =
     (case (k_obj K w (fd_GpuMeta (br_objs b)), k_obj K w (fd_GpuDevice (br_objs b)),
            k_obj K w (fd_GpuPerPid (br_objs b)), k_obj K w (fd_GpuPerPidPerDevice (br_objs b))) of
        (Some (MetaObj m), Some (DeviceObj d), Some (PidObj p), Some (PidDevObj q)) \<Rightarrow>
          Some \<lparr>v_meta = m, v_device = d, v_pid = p, v_piddev = q\<rparr>
      | _ \<Rightarrow> None)"

definition lru_after :: "('k \<Rightarrow> 'v option) \<Rightarrow> 'k \<Rightarrow> 'v \<Rightarrow> ('k \<Rightarrow> 'v option) \<Rightarrow> bool" where
  "lru_after c k v c' \<longleftrightarrow> c' k = Some v \<and> (\<forall>k'. k' \<noteq> k \<longrightarrow> c' k' = c k' \<or> c' k' = None)"

lemma bview_Some_iff:
  "bview K b w = Some v \<longleftrightarrow>
     k_obj K w (fd_GpuMeta (br_objs b)) = Some (MetaObj (v_meta v)) \<and>
     k_obj K w (fd_GpuDevice (br_objs b)) = Some (DeviceObj (v_device v)) \<and>
     k_obj K w (fd_GpuPerPid (br_objs b)) = Some (PidObj (v_pid v)) \<and>
     k_obj K w (fd_GpuPerPidPerDevice (br_objs b)) = Some (PidDevObj (v_piddev v))"
  by (cases v) (auto simp: bview_def split: option.splits map_object.splits)

lemma bview_handles_distinct:
  assumes "bview K b w = Some v"
  shows "distinct [fd_GpuMeta (br_objs b), fd_GpuDevice (br_objs b), fd_GpuPerPid (br_objs b),
    fd_GpuPerPidPerDevice (br_objs b)]"
  using assms by (auto simp: bview_Some_iff)

section \<open>What the methods do to the view\<close>

lemma max_entries [simp]:
  "ms_max_entries gpu_meta_map = 1" "ms_max_entries gpu_device_map = GPU_MAX_DEVICES"
  by (simp_all add: map_spec_defs)

context bpf_kernel
begin

lemma UpdateMeta_view:
  assumes v: "bview K b w = Some v"
  shows "\<exists>w'. UpdateMeta K b m w = (None, w') \<and> k_fs K w' = k_fs K w \<and>
    bview K b w' = Some (v\<lparr>v_meta := (v_meta v)(0 := Some m)\<rparr>)"
proof -
  let ?h = "fd_GpuMeta (br_objs b)"
  from v have h: "k_obj K w ?h = Some (MetaObj (v_meta v))" by (simp add: bview_Some_iff)
  from meta.update_in_range [OF h, of 0 m] obtain w' where
    u: "m_update (k_meta K) w ?h 0 m = (None, w')" and
    o': "k_obj K w' ?h = Some (MetaObj ((v_meta v)(0 := Some m)))" by auto
  from meta.update_frame [OF u] meta.update_fs [OF u] o' v bview_handles_distinct [OF v] u
  show ?thesis by (auto simp: UpdateMeta_def bview_Some_iff)
qed

lemma UpdateDevice_view:
  assumes v: "bview K b w = Some v" and i: "unat idx < GPU_MAX_DEVICES"
  shows "\<exists>w'. UpdateDevice K b idx d w = (None, w') \<and> k_fs K w' = k_fs K w \<and>
    bview K b w' = Some (v\<lparr>v_device := (v_device v)(idx := Some d)\<rparr>)"
proof -
  let ?h = "fd_GpuDevice (br_objs b)"
  from v have h: "k_obj K w ?h = Some (DeviceObj (v_device v))" by (simp add: bview_Some_iff)
  from device.update_in_range [OF h, of idx d] i obtain w' where
    u: "m_update (k_device K) w ?h idx d = (None, w')" and
    o': "k_obj K w' ?h = Some (DeviceObj ((v_device v)(idx := Some d)))" by auto
  from device.update_frame [OF u] device.update_fs [OF u] o' v bview_handles_distinct [OF v] u
  show ?thesis by (auto simp: UpdateDevice_def bview_Some_iff)
qed

lemma UpdateDevice_out_of_range:
  assumes v: "bview K b w = Some v" and i: "GPU_MAX_DEVICES \<le> unat idx"
  shows "\<exists>e w'. UpdateDevice K b idx d w = (Some e, w') \<and> k_fs K w' = k_fs K w \<and>
    bview K b w' = Some v"
proof -
  let ?h = "fd_GpuDevice (br_objs b)"
  from v have h: "k_obj K w ?h = Some (DeviceObj (v_device v))" by (simp add: bview_Some_iff)
  from device.update_out_of_range [OF h, of idx d] i obtain e w' where
    u: "m_update (k_device K) w ?h idx d = (Some e, w')" by auto
  from device.update_frame [OF u] device.update_fs [OF u] device.update_fail [OF u] v
    bview_handles_distinct [OF v] u
  show ?thesis by (auto simp: UpdateDevice_def bview_Some_iff)
qed

text \<open>One update of an LRU map: stored with possible evictions, or refused with no change.\<close>

lemma UpdatePerPid_view:
  assumes v: "bview K b w = Some v" and u: "UpdatePerPid K b pid p w = (r, w')"
  shows "\<exists>c'. bview K b w' = Some (v\<lparr>v_pid := c'\<rparr>) \<and> k_fs K w' = k_fs K w \<and>
    (if r = None then lru_after (v_pid v) pid p c' else c' = v_pid v)"
proof -
  let ?h = "fd_GpuPerPid (br_objs b)"
  from v have h: "k_obj K w ?h = Some (PidObj (v_pid v))" by (simp add: bview_Some_iff)
  note u = u [unfolded UpdatePerPid_def]
  have "\<exists>c'. k_obj K w' ?h = Some (PidObj c') \<and>
      (if r = None then lru_after (v_pid v) pid p c' else c' = v_pid v)"
    using pid.update_ok [OF h] pid.update_fail h u by (cases r) (force simp: lru_after_def)+
  then obtain c' where "k_obj K w' ?h = Some (PidObj c')"
    "if r = None then lru_after (v_pid v) pid p c' else c' = v_pid v" by blast
  with pid.update_frame [OF u] pid.update_fs [OF u] v bview_handles_distinct [OF v]
  show ?thesis by (intro exI [of _ c']) (auto simp: bview_Some_iff)
qed

lemma UpdatePerPidPerDevice_view:
  assumes v: "bview K b w = Some v" and u: "UpdatePerPidPerDevice K b pid dev p w = (r, w')"
  shows "\<exists>c'. bview K b w' = Some (v\<lparr>v_piddev := c'\<rparr>) \<and> k_fs K w' = k_fs K w \<and>
    (if r = None then lru_after (v_piddev v) (PerPidPerDeviceKey pid dev) p c' else c' = v_piddev v)"
proof -
  let ?h = "fd_GpuPerPidPerDevice (br_objs b)" and ?k = "PerPidPerDeviceKey pid dev"
  from v have h: "k_obj K w ?h = Some (PidDevObj (v_piddev v))" by (simp add: bview_Some_iff)
  note u = u [unfolded UpdatePerPidPerDevice_def Let_def]
  have "\<exists>c'. k_obj K w' ?h = Some (PidDevObj c') \<and>
      (if r = None then lru_after (v_piddev v) ?k p c' else c' = v_piddev v)"
    using piddev.update_ok [OF h] piddev.update_fail h u by (cases r) (force simp: lru_after_def)+
  then obtain c' where "k_obj K w' ?h = Some (PidDevObj c')"
    "if r = None then lru_after (v_piddev v) ?k p c' else c' = v_piddev v" by blast
  with piddev.update_frame [OF u] piddev.update_fs [OF u] v bview_handles_distinct [OF v]
  show ?thesis by (intro exI [of _ c']) (auto simp: bview_Some_iff)
qed

text \<open>Deleting: an absent entry is no error, and a delete that returns \<open>nil\<close> leaves no entry.\<close>

lemma DeletePerPid_view:
  assumes v: "bview K b w = Some v" and u: "DeletePerPid K b pid w = (r, w')"
  shows "bview K b w' = Some (v\<lparr>v_pid := if r = None then (v_pid v)(pid := None) else v_pid v\<rparr>) \<and>
    (v_pid v pid = None \<longrightarrow> r = None)"
proof -
  let ?h = "fd_GpuPerPid (br_objs b)"
  from v have h: "k_obj K w ?h = Some (PidObj (v_pid v))" by (simp add: bview_Some_iff)
  obtain r0 where d: "m_delete (k_pid K) w ?h pid = (r0, w')"
    using u by (auto simp: DeletePerPid_def split: prod.splits option.splits if_splits)
  note fr = pid.delete_frame [OF d]
  have "k_obj K w' ?h = Some (PidObj (if r = None then (v_pid v)(pid := None) else v_pid v)) \<and>
      (v_pid v pid = None \<longrightarrow> r = None)"
  proof (cases r0)
    case None
    with pid.delete_ok [OF h] d u show ?thesis by (auto simp: DeletePerPid_def)
  next
    case (Some e)
    with pid.delete_fail [OF h] d u show ?thesis
      by (auto simp: DeletePerPid_def fun_upd_idem split: if_splits)
  qed
  with fr v bview_handles_distinct [OF v] show ?thesis by (auto simp: bview_Some_iff)
qed

lemma DeletePerPidPerDevice_view:
  assumes v: "bview K b w = Some v" and u: "DeletePerPidPerDevice K b pid dev w = (r, w')"
  shows "bview K b w' = Some (v\<lparr>v_piddev :=
      if r = None then (v_piddev v)(PerPidPerDeviceKey pid dev := None) else v_piddev v\<rparr>) \<and>
    (v_piddev v (PerPidPerDeviceKey pid dev) = None \<longrightarrow> r = None)"
proof -
  let ?h = "fd_GpuPerPidPerDevice (br_objs b)" and ?k = "PerPidPerDeviceKey pid dev"
  from v have h: "k_obj K w ?h = Some (PidDevObj (v_piddev v))" by (simp add: bview_Some_iff)
  obtain r0 where d: "m_delete (k_piddev K) w ?h ?k = (r0, w')"
    using u by (auto simp: DeletePerPidPerDevice_def Let_def split: prod.splits option.splits if_splits)
  note fr = piddev.delete_frame [OF d]
  have "k_obj K w' ?h = Some (PidDevObj (if r = None then (v_piddev v)(?k := None) else v_piddev v)) \<and>
      (v_piddev v ?k = None \<longrightarrow> r = None)"
  proof (cases r0)
    case None
    with piddev.delete_ok [OF h] d u show ?thesis by (auto simp: DeletePerPidPerDevice_def)
  next
    case (Some e)
    with piddev.delete_fail [OF h] d u show ?thesis
      by (auto simp: DeletePerPidPerDevice_def fun_upd_idem split: if_splits)
  qed
  with fr v bview_handles_distinct [OF v] show ?thesis by (auto simp: bview_Some_iff)
qed

text \<open>A bridge that \<open>Open\<close> returns has a view, and its four maps are pinned in its directory.\<close>

lemma Open_view:
  assumes op: "Open K d w = (Inr b, w')"
  shows "bview K b w' \<noteq> None" and "br_pinDir b = (if d = '''' then DefaultPinDir else d)"
    and "k_pin K w' (file_join (br_pinDir b) MapNameMeta) = Some (fd_GpuMeta (br_objs b))"
    and "k_pin K w' (file_join (br_pinDir b) MapNameDevice) = Some (fd_GpuDevice (br_objs b))"
    and "k_pin K w' (file_join (br_pinDir b) MapNamePerPid) = Some (fd_GpuPerPid (br_objs b))"
    and "k_pin K w' (file_join (br_pinDir b) MapNamePerPidPerDevice)
      = Some (fd_GpuPerPidPerDevice (br_objs b))"
    and "k_pin K w p = Some h \<Longrightarrow> k_obj K w h = Some x \<Longrightarrow> k_pin K w' p = Some h \<and> k_obj K w' h = Some x"
proof -
  let ?d = "if d = '''' then DefaultPinDir else d"
  from op obtain w1 where mk: "os_mkdir_all K w ?d = (None, w1)"
    and ld: "k_load_and_assign K w1 ?d = (Inr (br_objs b), w')" and pd: "br_pinDir b = ?d"
    by (auto simp: Open_def Let_def loadGputypesObjects_def split: prod.splits option.splits sum.splits)
  from load_ok [OF ld] show "bview K b w' \<noteq> None"
    by (auto simp: bview_def)
  show "br_pinDir b = ?d" by (rule pd)
  show "k_pin K w' (file_join (br_pinDir b) MapNameMeta) = Some (fd_GpuMeta (br_objs b))"
    and "k_pin K w' (file_join (br_pinDir b) MapNameDevice) = Some (fd_GpuDevice (br_objs b))"
    and "k_pin K w' (file_join (br_pinDir b) MapNamePerPid) = Some (fd_GpuPerPid (br_objs b))"
    and "k_pin K w' (file_join (br_pinDir b) MapNamePerPidPerDevice)
      = Some (fd_GpuPerPidPerDevice (br_objs b))"
    using load_pins [OF ld] by (simp_all add: pd map_name_defs map_spec_defs)
  show "k_pin K w p = Some h \<Longrightarrow> k_obj K w h = Some x \<Longrightarrow> k_pin K w' p = Some h \<and> k_obj K w' h = Some x"
    using load_reuse [OF ld] mkdir_pins [OF mk] by simp
qed

lemma GputypesClose_fs: "GputypesClose K hs w = (r, w') \<Longrightarrow> k_fs K w' = k_fs K w"
  by (induction hs arbitrary: w) (auto split: prod.splits option.splits dest: close_pins)

lemma GputypesClose_pinned:
  "GputypesClose K hs w = (r, w') \<Longrightarrow> k_pin K w p = Some h \<Longrightarrow> k_obj K w' h = k_obj K w h"
proof (induction hs arbitrary: w)
  case Nil
  then show ?case by simp
next
  case (Cons g hs)
  obtain r1 w1 where c: "k_close K w g = (r1, w1)" by fastforce
  from close_pins [OF c] Cons.prems(2) have "k_pin K w1 p = Some h" by (simp add: k_fs_def)
  with Cons c close_pinned [OF c Cons.prems(2)] show ?case by (auto split: option.splits)
qed

lemma Bridge_Close_eq:
  "Bridge_Close K b w = GputypesClose K
     [fd_GpuDevice (br_objs b), fd_GpuMeta (br_objs b), fd_GpuPerPid (br_objs b),
      fd_GpuPerPidPerDevice (br_objs b)] w"
  by (simp add: Bridge_Close_def gputypesObjects_Close_def gputypesPrograms_Close_def
      gputypesMaps_Close_def)

text \<open>
  The unpin loop: every path it goes over is gone afterwards unless its removal is reported, and
  no other path is touched.
\<close>

lemma unpin_loop_fs:
  assumes "unpin_loop K d names errs w = (errs', w')"
  shows "\<exists>es. errs' = errs @ es \<and>
    (es = [] \<longrightarrow> (\<forall>n \<in> set names. \<not> k_exists K w' (file_join d n))) \<and>
    (\<forall>p. k_exists K w' p \<longrightarrow> k_exists K w p) \<and>
    (\<forall>p. p \<notin> file_join d ` set names \<longrightarrow> k_exists K w' p = k_exists K w p \<and> k_pin K w' p = k_pin K w p)"
  using assms
proof (induction names arbitrary: errs w)
  case Nil
  then show ?case by simp
next
  case (Cons n names)
  let ?p = "file_join d n"
  obtain r w1 where rm: "os_remove K w ?p = (r, w1)" by fastforce
  define es1 where "es1 = (case r of None \<Rightarrow> [] | Some e \<Rightarrow>
    if errors_is e ErrNotExist then [] else [Wrapf (''removing '' @ ?p) e])"
  have rest: "unpin_loop K d names (errs @ es1) w1 = (errs', w')"
    using Cons.prems rm by (auto simp: es1_def Let_def split: option.splits if_splits)
  have step: "(es1 = [] \<longrightarrow> \<not> k_exists K w1 ?p) \<and> (\<forall>p. k_exists K w1 p \<longrightarrow> k_exists K w p) \<and>
      (\<forall>p. p \<noteq> ?p \<longrightarrow> k_exists K w1 p = k_exists K w p \<and> k_pin K w1 p = k_pin K w p)"
  proof (cases r)
    case None
    with remove_ok rm show ?thesis by (auto simp: es1_def k_fs_def)
  next
    case (Some e)
    with remove_fail rm show ?thesis by (auto simp: es1_def k_fs_def split: if_splits)
  qed
  from Cons.IH [OF rest] obtain es where "errs' = errs @ es1 @ es"
    "es = [] \<longrightarrow> (\<forall>n \<in> set names. \<not> k_exists K w' (file_join d n))"
    "\<forall>p. k_exists K w' p \<longrightarrow> k_exists K w1 p"
    "\<forall>p. p \<notin> file_join d ` set names \<longrightarrow> k_exists K w' p = k_exists K w1 p \<and> k_pin K w' p = k_pin K w1 p"
    by auto
  with step show ?case by (intro exI [of _ "es1 @ es"]) auto
qed

lemma unpin_loop_absent:
  assumes "\<forall>n \<in> set names. \<not> k_exists K w (file_join d n)"
  shows "unpin_loop K d names errs w = (errs, w)"
  using assms
proof (induction names)
  case Nil
  then show ?case by simp
next
  case (Cons n names)
  then obtain e where rm: "os_remove K w (file_join d n) = (Some e, w)"
    using remove_absent by fastforce
  with remove_fail [OF rm] Cons show ?case by (simp add: Let_def)
qed

end


section \<open>Loops that publish into an LRU map\<close>

text \<open>
  \<open>entry_after old new cur\<close>: the entry \<open>cur\<close> left by such a loop is evicted, or what the loop wrote
  for its key, or the old entry when the loop wrote nothing for it.
\<close>

definition entry_after :: "'v option \<Rightarrow> 'v option \<Rightarrow> 'v option \<Rightarrow> bool" where
  "entry_after old new cur \<longleftrightarrow>
     cur = None \<or> (case new of None \<Rightarrow> cur = old | Some x \<Rightarrow> cur = Some x)"

text \<open>
  The contract of a loop that writes one pair per element into an LRU map: a step either stores its
  pair, possibly evicting others, or counts a failure and changes nothing. After the loop an entry
  is absent, has its old value, or has the value the loop wrote for it; with no failure and distinct
  keys, a key the loop wrote does not keep its old value.
\<close>

locale lru_publish =
  fixes step :: "'e \<Rightarrow> 's \<Rightarrow> 's"
    and good :: "'s \<Rightarrow> bool"
    and cont :: "'s \<Rightarrow> 'k \<Rightarrow> 'v option"
    and fails :: "'s \<Rightarrow> nat"
    and key :: "'e \<Rightarrow> 'k"
    and val :: "'e \<Rightarrow> 'v"
  assumes good_step: "good s \<Longrightarrow> good (step e s)"
    and step_fails: "fails s \<le> fails (step e s)"
    and step_ok: "good s \<Longrightarrow> fails (step e s) = fails s \<Longrightarrow>
      lru_after (cont s) (key e) (val e) (cont (step e s))"
    and step_fail: "good s \<Longrightarrow> fails (step e s) \<noteq> fails s \<Longrightarrow> cont (step e s) = cont s"
begin

lemma fold_good: "good s \<Longrightarrow> good (fold step es s)"
  by (induction es arbitrary: s) (auto intro: good_step)

lemma fold_fails: "fails s \<le> fails (fold step es s)"
proof (induction es arbitrary: s)
  case Nil
  then show ?case by simp
next
  case (Cons e es)
  have "fails s \<le> fails (step e s)" by (rule step_fails)
  also have "\<dots> \<le> fails (fold step es (step e s))" by (rule Cons.IH)
  finally show ?case by simp
qed

lemma step_any:
  "good s \<Longrightarrow> cont (step e s) k = None \<or> cont (step e s) k = cont s k \<or>
    key e = k \<and> cont (step e s) k = Some (val e)"
  using step_ok [of s e] step_fail [of s e]
  by (cases "fails (step e s) = fails s") (metis lru_after_def)+

lemma publish_any:
  "good s \<Longrightarrow> cont (fold step es s) k = None \<or> cont (fold step es s) k = cont s k \<or>
    (\<exists>e \<in> set es. key e = k \<and> cont (fold step es s) k = Some (val e))"
proof (induction es arbitrary: s)
  case Nil
  then show ?case by simp
next
  case (Cons e es)
  then show ?case
    using step_any [OF Cons.prems, of e k] Cons.IH [OF good_step [OF Cons.prems], of e]
    by auto
qed

lemma publish_other:
  assumes "good s" and "k \<notin> key ` set es"
  shows "cont (fold step es s) k = None \<or> cont (fold step es s) k = cont s k"
  using publish_any [OF assms(1), of es k] assms(2) by auto

lemma publish_exact:
  assumes "good s" and "fails (fold step es s) = fails s" and "distinct (map key es)" and "e \<in> set es"
  shows "cont (fold step es s) (key e) = None \<or> cont (fold step es s) (key e) = Some (val e)"
  using assms
proof (induction es arbitrary: s)
  case Nil
  then show ?case by simp
next
  case (Cons x es)
  let ?s = "step x s"
  have f: "fails ?s = fails s" "fails (fold step es ?s) = fails ?s"
    using step_fails [of s x] fold_fails [of ?s es] Cons.prems(2) by auto
  have g: "good ?s" by (rule good_step [OF Cons.prems(1)])
  show ?case
  proof (cases "e \<in> set es")
    case True
    with Cons.IH [OF g f(2)] Cons.prems(3) show ?thesis by simp
  next
    case False
    with Cons.prems(4) have e: "e = x" by simp
    have "cont ?s (key x) = Some (val x)"
      using step_ok [OF Cons.prems(1) f(1)] by (simp add: lru_after_def)
    moreover have "key x \<notin> key ` set es" using Cons.prems(3) by simp
    ultimately show ?thesis using publish_other [OF g, of "key x" es] e by simp
  qed
qed

lemma publish_lookup:
  assumes "good s" and "fails (fold step es s) = fails s" and "distinct (map key es)"
  shows "entry_after (cont s k) (map_of (map (\<lambda>e. (key e, val e)) es) k) (cont (fold step es s) k)"
proof (cases "map_of (map (\<lambda>e. (key e, val e)) es) k")
  case None
  then have "k \<notin> key ` set es" by (force simp: map_of_eq_None_iff)
  from publish_other [OF assms(1) this] None show ?thesis by (auto simp: entry_after_def)
next
  case (Some x)
  then obtain e where "e \<in> set es" "k = key e" "x = val e" by (auto dest!: map_of_SomeD)
  with publish_exact [OF assms \<open>e \<in> set es\<close>] Some show ?thesis by (auto simp: entry_after_def)
qed

text \<open>Whatever fails, an entry is evicted, old, or the one the loop computed for its key.\<close>

lemma publish_lookup_any:
  assumes "good s" and "distinct (map key es)"
  shows "cont (fold step es s) k \<in> {None, cont s k, map_of (map (\<lambda>e. (key e, val e)) es) k}"
proof -
  have "map_of (map (\<lambda>e. (key e, val e)) es) (key e) = Some (val e)" if "e \<in> set es" for e
    using that assms(2) by (intro map_of_is_SomeI) (auto simp: comp_def)
  with publish_any [OF assms(1), of es k] show ?thesis by auto
qed

end

end
