(* ===== verification/Poller.thy ===== *)
theory Poller
  imports PollerAgg Bridge
begin

text \<open>
  The main loop, \<open>internal/poller/poller.go\<close>: \<open>New\<close>, \<open>tick\<close> and \<open>Run\<close>. A tick is a function of the
  kernel, of the backend, of the order in which Go's \<open>range\<close> visits each map, of the wall clock at
  the write of \<open>gpu_meta\<close>, of the poller and of the world. The world holds the kernel's state, the
  backend's state and the trace of the calls made so far; the trace is not in the code, it is what
  ordering properties talk about.
\<close>

section \<open>State\<close>

datatype event =
    EvInit "goerr option"
  | EvClose
  | EvDevice u32 gpu_device_metrics "goerr option"
  | EvPerPidPerDevice u32 u32 gpu_pid_metrics "goerr option"
  | EvPerPid u32 gpu_pid_metrics_aggregated "goerr option"
  | EvMeta gpu_meta "goerr option"
  | EvWarn string goerr

record ('w, 's) world =
  wd_kern :: 'w
  wd_src :: 's
  wd_log :: "event list"

record 's config =
  cfg_PollInterval :: int
  cfg_Source :: "'s nvml_poller option"
  cfg_Bridge :: "bridge option"
  cfg_Logger :: "nat option"

record 's poller =
  pl_interval :: int
  pl_source :: "'s nvml_poller"
  pl_bridge :: bridge
  pl_logger :: nat
  pl_helper :: u32
  pl_lastSeen :: "(u32 \<times> u64) list"

text \<open>The orders in which the three \<open>range\<close> loops over maps run, and what Go promises of them.\<close>

record range_orders =
  ro_seen :: "(u32 \<times> u64) list \<Rightarrow> (u32 \<times> u64) list"
  ro_dev :: "(pidDevKey \<times> perDevAgg) list \<Rightarrow> (pidDevKey \<times> perDevAgg) list"
  ro_pid :: "(u32 \<times> aggBuilder) list \<Rightarrow> (u32 \<times> aggBuilder) list"

definition orders_ok :: "range_orders \<Rightarrow> bool" where
  "orders_ok r \<longleftrightarrow> is_range (ro_seen r) \<and> is_range (ro_dev r) \<and> is_range (ro_pid r)"

section \<open>Construction\<close>

text \<open>\<open>slog.Default()\<close> and \<open>os.Getpid()\<close> are arguments.\<close>

definition New :: "nat \<Rightarrow> int \<Rightarrow> 's config \<Rightarrow> goerr + 's poller" where
  "New default_logger getpid cfg =
     (case cfg_Source cfg of
        None \<Rightarrow> Inl (Errorf ''poller: Config.Source is required'')
      | Some src \<Rightarrow>
          (case cfg_Bridge cfg of
             None \<Rightarrow> Inl (Errorf ''poller: Config.Bridge is required'')
           | Some br \<Rightarrow>
               Inr \<lparr>
                 pl_interval =
                   (if cfg_PollInterval cfg \<le> 0 then 100 * 1000000 else cfg_PollInterval cfg),
                 pl_source = src,
                 pl_bridge = br,
                 pl_logger = (case cfg_Logger cfg of None \<Rightarrow> default_logger | Some l \<Rightarrow> l),
                 pl_helper = word_of_int getpid,
                 pl_lastSeen = []\<rparr>))"

section \<open>One tick\<close>

text \<open>Warnings go to the log after the call they report.\<close>

definition warn_on :: "string \<Rightarrow> goerr option \<Rightarrow> event list" where
  "warn_on s r = (case r of None \<Rightarrow> [] | Some e \<Rightarrow> [EvWarn s e])"

definition write_device ::
  "'w kernel \<Rightarrow> bridge \<Rightarrow> DeviceSnapshot \<Rightarrow> ('w, 's) world \<Rightarrow> ('w, 's) world" where
  "write_device K b d wd =
     (let mapVal = deviceSnapshotToMap d;
          res = UpdateDevice K b (ds_Index d) mapVal (wd_kern wd)
      in wd\<lparr>wd_kern := snd res,
            wd_log := wd_log wd @ EvDevice (ds_Index d) mapVal (fst res)
              # warn_on ''UpdateDevice failed'' (fst res)\<rparr>)"

definition write_detail ::
  "'w kernel \<Rightarrow> bridge \<Rightarrow> pidDevKey \<times> perDevAgg \<Rightarrow> ('w, 's) world \<Rightarrow> ('w, 's) world" where
  "write_detail K b e wd =
     (let key = fst e; a = snd e;
          detail = detail_record key a;
          res = UpdatePerPidPerDevice K b (fst key) (snd key) detail (wd_kern wd)
      in wd\<lparr>wd_kern := snd res,
            wd_log := wd_log wd @ EvPerPidPerDevice (fst key) (snd key) detail (fst res)
              # warn_on ''UpdatePerPidPerDevice failed'' (fst res)\<rparr>)"

text \<open>The body of the loop over \<open>perDev\<close>: write the detail record, then feed the per-pid builder.\<close>

definition detail_step ::
  "'w kernel \<Rightarrow> bridge \<Rightarrow> pidDevKey \<times> perDevAgg
    \<Rightarrow> ('w, 's) world \<times> (u32 \<times> aggBuilder) list \<Rightarrow> ('w, 's) world \<times> (u32 \<times> aggBuilder) list" where
  "detail_step K b e s = (write_detail K b e (fst s), agg_step e (snd s))"

definition write_pid ::
  "'w kernel \<Rightarrow> bridge \<Rightarrow> u32 \<times> aggBuilder \<Rightarrow> ('w, 's) world \<Rightarrow> ('w, 's) world" where
  "write_pid K b e wd =
     (let mapVal = agg_record (snd e);
          res = UpdatePerPid K b (fst e) mapVal (wd_kern wd)
      in wd\<lparr>wd_kern := snd res,
            wd_log := wd_log wd @ EvPerPid (fst e) mapVal (fst res)
              # warn_on ''UpdatePerPid failed'' (fst res)\<rparr>)"

definition meta_record :: "DeviceSnapshot list \<Rightarrow> int \<Rightarrow> u32 \<Rightarrow> gpu_meta" where
  "meta_record devs now helper = \<lparr>
     schema_version = SchemaVersion,
     n_devices = of_nat (length devs),
     last_update_ns = word_of_int now,
     helper_pid = helper,
     meta_reserved = 0\<rparr>"

definition write_meta ::
  "'w kernel \<Rightarrow> bridge \<Rightarrow> gpu_meta \<Rightarrow> ('w, 's) world \<Rightarrow> goerr option \<times> ('w, 's) world" where
  "write_meta K b m wd =
     (let res = UpdateMeta K b m (wd_kern wd)
      in (wrap_err ''UpdateMeta'' (fst res),
          wd\<lparr>wd_kern := snd res, wd_log := wd_log wd @ [EvMeta m (fst res)]\<rparr>))"

definition tick ::
  "'w kernel \<Rightarrow> range_orders \<Rightarrow> int \<Rightarrow> 's poller \<Rightarrow> ('w, 's) world
    \<Rightarrow> goerr option \<times> 's poller \<times> ('w, 's) world" where
  "tick K ro now p wd0 =
     (case np_Devices (pl_source p) (wd_src wd0) of
        ((devs, Some e), src1) \<Rightarrow> (Some (Wrapf ''devices'' e), p, wd0\<lparr>wd_src := src1\<rparr>)
      | ((devs, None), src1) \<Rightarrow>
          let wd1 = fold (write_device K (pl_bridge p)) devs (wd0\<lparr>wd_src := src1\<rparr>);
              lastSeen = minLastSeen (ro_seen ro) (pl_lastSeen p)
          in case np_ProcessSamples (pl_source p) (wd_src wd1) lastSeen of
               ((samples, sampErr), src2) \<Rightarrow>
                 let wd2 = wd1\<lparr>wd_src := src2,
                       wd_log := wd_log wd1 @ warn_on ''ProcessSamples failed'' sampErr\<rparr>;
                     p' = p\<lparr>pl_lastSeen := advance_all samples (pl_lastSeen p)\<rparr>;
                     perDev = aggregate_samples samples;
                     s3 = fold (detail_step K (pl_bridge p)) (ro_dev ro perDev) (wd2, []);
                     wd4 = fold (write_pid K (pl_bridge p)) (ro_pid ro (snd s3)) (fst s3);
                     res = write_meta K (pl_bridge p) (meta_record devs now (pl_helper p)) wd4
                 in (fst res, p', snd res))"

section \<open>The loop\<close>

text \<open>
  \<open>select\<close> waits for the cancellation of the context or for the ticker; which one fires, and when,
  is not determined by the program, so a run is a function of the list of events it sees. A tick
  event carries the range orders and the clock of that tick. \<open>None\<close> is a run that is still waiting.
\<close>

datatype select = CtxDone | TickerC range_orders int

definition logged :: "string \<Rightarrow> goerr option \<Rightarrow> ('w, 's) world \<Rightarrow> ('w, 's) world" where
  "logged s r wd = wd\<lparr>wd_log := wd_log wd @ warn_on s r\<rparr>"

fun run_loop ::
  "'w kernel \<Rightarrow> select list \<Rightarrow> 's poller \<Rightarrow> ('w, 's) world \<Rightarrow> ('s poller \<times> ('w, 's) world) option" where
  "run_loop K [] p wd = None"
| "run_loop K (CtxDone # evs) p wd = Some (p, wd)"
| "run_loop K (TickerC ro now # evs) p wd =
     (case tick K ro now p wd of
        (r, p', wd') \<Rightarrow> run_loop K evs p' (logged ''tick failed'' r wd'))"

definition Run ::
  "'w kernel \<Rightarrow> range_orders \<Rightarrow> int \<Rightarrow> select list \<Rightarrow> 's poller \<Rightarrow> ('w, 's) world
    \<Rightarrow> (goerr option \<times> 's poller \<times> ('w, 's) world) option" where
  "Run K ro now evs p wd =
     (case np_Init (pl_source p) (wd_src wd) of
        (Some e, src') \<Rightarrow>
          Some (Some (Wrapf ''nvml init'' e), p,
                wd\<lparr>wd_src := src', wd_log := wd_log wd @ [EvInit (Some e)]\<rparr>)
      | (None, src') \<Rightarrow>
          (case tick K ro now p (wd\<lparr>wd_src := src', wd_log := wd_log wd @ [EvInit None]\<rparr>) of
             (r, p1, wd1) \<Rightarrow>
               (case run_loop K evs p1 (logged ''initial tick failed'' r wd1) of
                  None \<Rightarrow> None
                | Some (p2, wd2) \<Rightarrow>
                    Some (None, p2,
                      wd2\<lparr>wd_src := snd (np_Close (pl_source p) (wd_src wd2)),
                          wd_log := wd_log wd2 @ [EvClose]\<rparr>))))"

section \<open>The trace\<close>

fun is_warn :: "event \<Rightarrow> bool" where
  "is_warn (EvWarn s e) = True"
| "is_warn _ = False"

definition warnings :: "('w, 's) world \<Rightarrow> nat" where
  "warnings wd = length (filter is_warn (wd_log wd))"

lemma warn_on_simps [simp]:
  "warn_on s None = []" "warn_on s (Some e) = [EvWarn s e]"
  by (simp_all add: warn_on_def)

lemma filter_warn_on [simp]: "filter is_warn (warn_on s r) = warn_on s r"
  by (cases r) simp_all

lemma write_device_simps [simp]:
  "wd_src (write_device K b d wd) = wd_src wd"
  "warnings wd \<le> warnings (write_device K b d wd)"
  by (simp_all add: write_device_def warnings_def Let_def)

lemma write_detail_simps [simp]:
  "wd_src (write_detail K b e wd) = wd_src wd"
  "warnings wd \<le> warnings (write_detail K b e wd)"
  by (simp_all add: write_detail_def warnings_def Let_def)

lemma write_pid_simps [simp]:
  "wd_src (write_pid K b x wd) = wd_src wd"
  "warnings wd \<le> warnings (write_pid K b x wd)"
  by (simp_all add: write_pid_def warnings_def Let_def)

lemma fold_write_src [simp]:
  "wd_src (fold (write_device K b) ds wd) = wd_src wd"
  "wd_src (fold (write_detail K b) es wd) = wd_src wd"
  "wd_src (fold (write_pid K b) xs wd) = wd_src wd"
proof -
  show "wd_src (fold (write_device K b) ds wd) = wd_src wd" by (induction ds arbitrary: wd) simp_all
  show "wd_src (fold (write_detail K b) es wd) = wd_src wd" by (induction es arbitrary: wd) simp_all
  show "wd_src (fold (write_pid K b) xs wd) = wd_src wd" by (induction xs arbitrary: wd) simp_all
qed

lemma fold_write_warnings:
  "warnings wd \<le> warnings (fold (write_device K b) ds wd)"
  "warnings wd \<le> warnings (fold (write_detail K b) es wd)"
  "warnings wd \<le> warnings (fold (write_pid K b) xs wd)"
proof -
  show "warnings wd \<le> warnings (fold (write_device K b) ds wd)"
    by (induction ds arbitrary: wd) (auto intro: order_trans [OF write_device_simps(2)])
  show "warnings wd \<le> warnings (fold (write_detail K b) es wd)"
    by (induction es arbitrary: wd) (auto intro: order_trans [OF write_detail_simps(2)])
  show "warnings wd \<le> warnings (fold (write_pid K b) xs wd)"
    by (induction xs arbitrary: wd) (auto intro: order_trans [OF write_pid_simps(2)])
qed

text \<open>The two jobs of the loop over \<open>perDev\<close> do not depend on each other.\<close>

lemma fold_detail_step:
  "fold (detail_step K b) es (wd, agg) = (fold (write_detail K b) es wd, fold agg_step es agg)"
  by (induction es arbitrary: wd agg) (simp_all add: detail_step_def)

section \<open>The loops publish into the maps\<close>

text \<open>A device with a slot of its own in the array map.\<close>

definition in_slots :: "DeviceSnapshot \<Rightarrow> bool" where
  "in_slots d \<longleftrightarrow> unat (ds_Index d) < GPU_MAX_DEVICES"

definition wview :: "'w kernel \<Rightarrow> bridge \<Rightarrow> ('w, 's) world \<Rightarrow> bridge_view option" where
  "wview K b wd = bview K b (wd_kern wd)"

definition pid_cont where
  "pid_cont K b wd = (case wview K b wd of None \<Rightarrow> (\<lambda>_. None) | Some v \<Rightarrow> v_pid v)"

definition piddev_cont where
  "piddev_cont K b wd = (case wview K b wd of None \<Rightarrow> (\<lambda>_. None) | Some v \<Rightarrow> v_piddev v)"

text \<open>The bridge is open, and the maps other than the one the loop writes are those of \<open>v\<close>.\<close>

definition pid_good where
  "pid_good K b v fs wd \<longleftrightarrow>
     (\<exists>c. wview K b wd = Some (v\<lparr>v_pid := c\<rparr>)) \<and> k_fs K (wd_kern wd) = fs"

definition piddev_good where
  "piddev_good K b v fs wd \<longleftrightarrow>
     (\<exists>c. wview K b wd = Some (v\<lparr>v_piddev := c\<rparr>)) \<and> k_fs K (wd_kern wd) = fs"

context bpf_kernel
begin

lemma write_pid_step:
  assumes "wview K b wd = Some v"
  shows "\<exists>c'. wview K b (write_pid K b x wd) = Some (v\<lparr>v_pid := c'\<rparr>) \<and>
    k_fs K (wd_kern (write_pid K b x wd)) = k_fs K (wd_kern wd) \<and>
    (if warnings (write_pid K b x wd) = warnings wd
     then lru_after (v_pid v) (fst x) (agg_record (snd x)) c' else c' = v_pid v)"
proof -
  obtain r w' where u: "UpdatePerPid K b (fst x) (agg_record (snd x)) (wd_kern wd) = (r, w')"
    by fastforce
  with UpdatePerPid_view [OF assms [unfolded wview_def] u] show ?thesis
    by (cases r) (auto simp: write_pid_def wview_def warnings_def)
qed

lemma write_detail_step:
  assumes "wview K b wd = Some v"
  shows "\<exists>c'. wview K b (write_detail K b e wd) = Some (v\<lparr>v_piddev := c'\<rparr>) \<and>
    k_fs K (wd_kern (write_detail K b e wd)) = k_fs K (wd_kern wd) \<and>
    (if warnings (write_detail K b e wd) = warnings wd
     then lru_after (v_piddev v) (PerPidPerDeviceKey (fst (fst e)) (snd (fst e)))
            (detail_record (fst e) (snd e)) c'
     else c' = v_piddev v)"
proof -
  obtain r w' where u: "UpdatePerPidPerDevice K b (fst (fst e)) (snd (fst e))
      (detail_record (fst e) (snd e)) (wd_kern wd) = (r, w')"
    by fastforce
  with UpdatePerPidPerDevice_view [OF assms [unfolded wview_def] u] show ?thesis
    by (cases r) (auto simp: write_detail_def wview_def warnings_def Let_def)
qed

lemma write_device_step:
  assumes v: "wview K b wd = Some v"
  shows "wview K b (write_device K b d wd) =
      Some (v\<lparr>v_device := (if in_slots d then (v_device v)(ds_Index d := Some (deviceSnapshotToMap d))
                            else v_device v)\<rparr>) \<and>
    k_fs K (wd_kern (write_device K b d wd)) = k_fs K (wd_kern wd) \<and>
    (warnings (write_device K b d wd) = warnings wd \<longleftrightarrow> in_slots d)"
proof (cases "in_slots d")
  case True
  then have "unat (ds_Index d) < GPU_MAX_DEVICES" by (simp add: in_slots_def)
  from UpdateDevice_view [OF v [unfolded wview_def] this, of "deviceSnapshotToMap d"] True
  show ?thesis by (auto simp: write_device_def wview_def warnings_def Let_def)
next
  case False
  then have "GPU_MAX_DEVICES \<le> unat (ds_Index d)" by (simp add: in_slots_def)
  from UpdateDevice_out_of_range [OF v [unfolded wview_def] this, of "deviceSnapshotToMap d"] False
  show ?thesis by (auto simp: write_device_def wview_def warnings_def Let_def)
qed

end

sublocale bpf_kernel \<subseteq> pid_loop: lru_publish
  "write_pid K b :: _ \<Rightarrow> ('w, 's) world \<Rightarrow> ('w, 's) world" "pid_good K b v fs" "pid_cont K b"
  warnings fst "\<lambda>x. agg_record (snd x)" for b v fs
proof unfold_locales
  fix s :: "('w, 's) world" and e
  show "warnings s \<le> warnings (write_pid K b e s)" by simp
  assume "pid_good K b v fs s"
  then obtain c where c: "wview K b s = Some (v\<lparr>v_pid := c\<rparr>)" "k_fs K (wd_kern s) = fs"
    by (auto simp: pid_good_def)
  from write_pid_step [OF c(1), of e] c(2) show "pid_good K b v fs (write_pid K b e s)"
    by (auto simp: pid_good_def)
  from write_pid_step [OF c(1), of e] c(1)
  show "warnings (write_pid K b e s) = warnings s \<Longrightarrow>
      lru_after (pid_cont K b s) (fst e) (agg_record (snd e)) (pid_cont K b (write_pid K b e s))"
    and "warnings (write_pid K b e s) \<noteq> warnings s \<Longrightarrow> pid_cont K b (write_pid K b e s) = pid_cont K b s"
    by (auto simp: pid_cont_def)
qed

sublocale bpf_kernel \<subseteq> detail_loop: lru_publish
  "write_detail K b :: _ \<Rightarrow> ('w, 's) world \<Rightarrow> ('w, 's) world" "piddev_good K b v fs"
  "piddev_cont K b" warnings "\<lambda>e. PerPidPerDeviceKey (fst (fst e)) (snd (fst e))"
  "\<lambda>e. detail_record (fst e) (snd e)" for b v fs
proof unfold_locales
  fix s :: "('w, 's) world" and e
  show "warnings s \<le> warnings (write_detail K b e s)" by simp
  assume "piddev_good K b v fs s"
  then obtain c where c: "wview K b s = Some (v\<lparr>v_piddev := c\<rparr>)" "k_fs K (wd_kern s) = fs"
    by (auto simp: piddev_good_def)
  from write_detail_step [OF c(1), of e] c(2) show "piddev_good K b v fs (write_detail K b e s)"
    by (auto simp: piddev_good_def)
  from write_detail_step [OF c(1), of e] c(1)
  show "warnings (write_detail K b e s) = warnings s \<Longrightarrow>
      lru_after (piddev_cont K b s) (PerPidPerDeviceKey (fst (fst e)) (snd (fst e)))
        (detail_record (fst e) (snd e)) (piddev_cont K b (write_detail K b e s))"
    and "warnings (write_detail K b e s) \<noteq> warnings s \<Longrightarrow>
      piddev_cont K b (write_detail K b e s) = piddev_cont K b s"
    by (auto simp: piddev_cont_def)
qed

section \<open>What a tick publishes\<close>

definition device_table ::
  "DeviceSnapshot list \<Rightarrow> (u32 \<Rightarrow> gpu_device_metrics option) \<Rightarrow> u32 \<Rightarrow> gpu_device_metrics option" where
  "device_table devs = fold (\<lambda>d f. f(ds_Index d := Some (deviceSnapshotToMap d))) devs"

definition tick_devices where
  "tick_devices K b devs src1 wd0 = fold (write_device K b) devs (wd0\<lparr>wd_src := src1\<rparr>)"

definition tick_sampled where
  "tick_sampled src2 sampErr wd1 =
     wd1\<lparr>wd_src := src2, wd_log := wd_log wd1 @ warn_on ''ProcessSamples failed'' sampErr\<rparr>"

definition tick_details where
  "tick_details K b ro ss wd2 = fold (write_detail K b) (ro_dev ro (aggregate_samples ss)) wd2"

definition tick_pids where
  "tick_pids K b ro ss wd3 =
     fold (write_pid K b) (ro_pid ro (fold agg_step (ro_dev ro (aggregate_samples ss)) [])) wd3"

text \<open>A tick whose device query succeeds is the composition of its phases.\<close>

lemma tick_phases:
  assumes "np_Devices (pl_source p) (wd_src wd0) = ((devs, None), src1)"
    and "np_ProcessSamples (pl_source p) src1 (minLastSeen (ro_seen ro) (pl_lastSeen p)) = ((ss, se), src2)"
  shows "tick K ro now p wd0 =
    (let b = pl_bridge p;
         res = write_meta K b (meta_record devs now (pl_helper p))
                 (tick_pids K b ro ss (tick_details K b ro ss (tick_sampled src2 se
                   (tick_devices K b devs src1 wd0))))
     in (fst res, p\<lparr>pl_lastSeen := advance_all ss (pl_lastSeen p)\<rparr>, snd res))"
  using assms
  by (simp add: tick_def Let_def fold_detail_step tick_pids_def tick_details_def tick_sampled_def
      tick_devices_def)

lemma tick_devices_fail:
  assumes "np_Devices (pl_source p) (wd_src wd0) = ((devs, Some e), src1)"
  shows "tick K ro now p wd0 = (Some (Wrapf ''devices'' e), p, wd0\<lparr>wd_src := src1\<rparr>)"
  using assms by (simp add: tick_def)

lemma wview_upd [simp]:
  "wview K b (wd\<lparr>wd_src := s\<rparr>) = wview K b wd"
  "wview K b (wd\<lparr>wd_log := l\<rparr>) = wview K b wd"
  "wview K b (wd\<lparr>wd_src := s, wd_log := l\<rparr>) = wview K b wd"
  by (simp_all add: wview_def)

lemma tick_devices_warnings: "warnings wd0 \<le> warnings (tick_devices K b devs src1 wd0)"
  using fold_write_warnings(1) [of "wd0\<lparr>wd_src := src1\<rparr>" K b devs]
  by (simp add: tick_devices_def warnings_def)

lemma tick_sampled_warnings [simp]:
  "warnings (tick_sampled src2 se wd) = warnings wd + (if se = None then 0 else 1)"
  by (cases se) (simp_all add: tick_sampled_def warnings_def)

lemma write_meta_warnings [simp]: "warnings (snd (write_meta K b m wd)) = warnings wd"
  by (simp add: write_meta_def warnings_def Let_def)

lemma tick_warnings:
  assumes "warnings (snd (write_meta K b m (tick_pids K b ro ss (tick_details K b ro ss
      (tick_sampled src2 se wd1))))) = n" and "n \<le> warnings wd1"
  shows "warnings wd1 = n" and "se = None"
    and "warnings (tick_details K b ro ss (tick_sampled src2 se wd1)) = n"
    and "warnings (tick_pids K b ro ss (tick_details K b ro ss (tick_sampled src2 se wd1))) = n"
proof -
  let ?wd2 = "tick_sampled src2 se wd1"
  let ?wd3 = "tick_details K b ro ss ?wd2"
  have "warnings ?wd2 \<le> warnings ?wd3" "warnings ?wd3 \<le> warnings (tick_pids K b ro ss ?wd3)"
    by (simp_all only: tick_details_def tick_pids_def fold_write_warnings)
  with assms show "warnings wd1 = n" and "se = None"
    and "warnings (tick_details K b ro ss (tick_sampled src2 se wd1)) = n"
    and "warnings (tick_pids K b ro ss (tick_details K b ro ss (tick_sampled src2 se wd1))) = n"
    by (simp_all split: if_splits)
qed

lemma detail_entries:
  "map_of (map (\<lambda>e. (PerPidPerDeviceKey (fst (fst e)) (snd (fst e)), detail_record (fst e) (snd e))) es)
     (PerPidPerDeviceKey q d) = map_option (detail_record (q, d)) (map_of es (q, d))"
  by (induction es) auto

text \<open>What holds of every per-pid record, whatever the samples were.\<close>

definition pid_record_ok :: "gpu_pid_metrics_aggregated \<Rightarrow> bool" where
  "pid_record_ok r \<longleftrightarrow> 1 \<le> pa_device_count r \<and>
     (1 < pa_device_count r \<longrightarrow> pa_gpu_device_primary r = DevicePrimaryMulti) \<and> pa_pad r = 0"

lemma agg_record_ok: "pid_record_ok (agg_record b)"
proof -
  have "1 \<le> n" if "n \<noteq> 0" for n :: u8
    using that by (simp add: word_le_nat_alt Suc_le_eq unat_gt_0)
  then show ?thesis by (simp add: pid_record_ok_def agg_record_def Let_def)
qed

lemma pid_entries:
  "map_of (map (\<lambda>x. (fst x, agg_record (snd x))) es) q = map_option agg_record (map_of es q)"
  by (induction es) auto

context bpf_kernel
begin

lemma fold_write_device:
  assumes "wview K b wd = Some v"
  shows "wview K b (fold (write_device K b) devs wd) =
      Some (v\<lparr>v_device := device_table (filter in_slots devs) (v_device v)\<rparr>) \<and>
    k_fs K (wd_kern (fold (write_device K b) devs wd)) = k_fs K (wd_kern wd) \<and>
    (warnings (fold (write_device K b) devs wd) = warnings wd \<longleftrightarrow> list_all in_slots devs)"
  using assms
proof (induction devs arbitrary: wd v)
  case Nil
  then show ?case by (simp add: device_table_def)
next
  case (Cons d devs)
  let ?wd = "write_device K b d wd"
  note step = write_device_step [OF Cons.prems, of d]
  note rest = Cons.IH [OF conjunct1 [OF step]]
  have "warnings wd \<le> warnings ?wd" "warnings ?wd \<le> warnings (fold (write_device K b) devs ?wd)"
    by (simp, rule fold_write_warnings(1))
  then have w: "warnings (fold (write_device K b) devs ?wd) = warnings wd \<longleftrightarrow>
      warnings ?wd = warnings wd \<and> warnings (fold (write_device K b) devs ?wd) = warnings ?wd"
    by linarith
  have "device_table (filter in_slots devs) (if in_slots d
        then (v_device v)(ds_Index d := Some (deviceSnapshotToMap d)) else v_device v) =
      device_table (filter in_slots (d # devs)) (v_device v)"
    by (simp add: device_table_def)
  with conjunct1 [OF rest] have "wview K b (fold (write_device K b) (d # devs) wd) =
      Some (v\<lparr>v_device := device_table (filter in_slots (d # devs)) (v_device v)\<rparr>)"
    by simp
  moreover have "k_fs K (wd_kern (fold (write_device K b) (d # devs) wd)) = k_fs K (wd_kern wd)"
    using step rest by (simp only: fold_simps)
  moreover have "warnings (fold (write_device K b) (d # devs) wd) = warnings wd \<longleftrightarrow>
      list_all in_slots (d # devs)"
    unfolding fold_simps list.pred_inject w using step rest by blast
  ultimately show ?case by blast
qed

lemma details_published:
  assumes ro: "orders_ok ro" and v: "wview K b wd = Some v"
  shows "\<exists>c. wview K b (tick_details K b ro ss wd) = Some (v\<lparr>v_piddev := c\<rparr>) \<and>
    k_fs K (wd_kern (tick_details K b ro ss wd)) = k_fs K (wd_kern wd) \<and>
    (\<forall>q d. c (PerPidPerDeviceKey q d) \<in>
       {None, v_piddev v (PerPidPerDeviceKey q d), spec_detail ss q d}) \<and>
    (warnings (tick_details K b ro ss wd) = warnings wd \<longrightarrow>
      (\<forall>q d. entry_after (v_piddev v (PerPidPerDeviceKey q d)) (spec_detail ss q d)
               (c (PerPidPerDeviceKey q d))))"
proof -
  let ?es = "ro_dev ro (aggregate_samples ss)" and ?fs = "k_fs K (wd_kern wd)"
  let ?key = "\<lambda>e :: pidDevKey \<times> perDevAgg. PerPidPerDeviceKey (fst (fst e)) (snd (fst e))"
  from ro have f: "is_range (ro_dev ro)" by (simp add: orders_ok_def)
  have good: "piddev_good K b v ?fs wd" using v by (auto simp: piddev_good_def intro: exI [of _ "v_piddev v"])
  have cont: "piddev_cont K b wd = v_piddev v" using v by (simp add: piddev_cont_def)
  from detail_loop.fold_good [OF good, of ?es] obtain c where
    c: "wview K b (tick_details K b ro ss wd) = Some (v\<lparr>v_piddev := c\<rparr>)"
    and fs: "k_fs K (wd_kern (tick_details K b ro ss wd)) = ?fs"
    by (auto simp: piddev_good_def tick_details_def)
  have cc: "piddev_cont K b (fold (write_detail K b) ?es wd) = c"
    using c by (simp add: piddev_cont_def tick_details_def)
  have keys: "distinct (map fst ?es)"
    using is_range_distinct_keys [OF f] aggregate_distinct by blast
  have "map ?key ?es = map (\<lambda>k. PerPidPerDeviceKey (fst k) (snd k)) (map fst ?es)" by simp
  with keys have dist: "distinct (map ?key ?es)"
    by (simp only: distinct_map) (auto simp: inj_on_def prod_eq_iff)
  note simps = detail_entries is_range_map_of [OF f aggregate_distinct] aggregate_detail
  have "c (PerPidPerDeviceKey q d) \<in>
      {None, v_piddev v (PerPidPerDeviceKey q d), spec_detail ss q d}" for q d
    using detail_loop.publish_lookup_any [OF good dist, unfolded cc cont, of "PerPidPerDeviceKey q d"]
    by (simp only: simps)
  moreover have "entry_after (v_piddev v (PerPidPerDeviceKey q d)) (spec_detail ss q d)
      (c (PerPidPerDeviceKey q d))" if "warnings (tick_details K b ro ss wd) = warnings wd" for q d
    using detail_loop.publish_lookup [OF good that [unfolded tick_details_def] dist,
        unfolded cc cont, of "PerPidPerDeviceKey q d"]
    by (simp only: simps)
  ultimately show ?thesis using c fs by blast
qed

lemma pids_published:
  assumes ro: "orders_ok ro" and v: "wview K b wd = Some v"
  shows "\<exists>c. wview K b (tick_pids K b ro ss wd) = Some (v\<lparr>v_pid := c\<rparr>) \<and>
    k_fs K (wd_kern (tick_pids K b ro ss wd)) = k_fs K (wd_kern wd) \<and>
    (\<forall>q. card (device_bytes ss q) < 256 \<longrightarrow>
      c q \<in> {None, v_pid v q, spec_aggregated ss q} \<and>
      (warnings (tick_pids K b ro ss wd) = warnings wd \<longrightarrow>
        entry_after (v_pid v q) (spec_aggregated ss q) (c q))) \<and>
    (\<forall>q. c q \<in> {None, v_pid v q} \<or> q \<noteq> 0 \<and> (\<exists>r. c q = Some r \<and> pid_record_ok r))"
proof -
  let ?m = "fold agg_step (ro_dev ro (aggregate_samples ss)) []"
  let ?es = "ro_pid ro ?m" and ?fs = "k_fs K (wd_kern wd)"
  from ro have f: "is_range (ro_pid ro)" "is_range (ro_dev ro)" by (simp_all add: orders_ok_def)
  have good: "pid_good K b v ?fs wd" using v by (auto simp: pid_good_def intro: exI [of _ "v_pid v"])
  have cont: "pid_cont K b wd = v_pid v" using v by (simp add: pid_cont_def)
  from pid_loop.fold_good [OF good, of ?es] obtain c where
    c: "wview K b (tick_pids K b ro ss wd) = Some (v\<lparr>v_pid := c\<rparr>)"
    and fs: "k_fs K (wd_kern (tick_pids K b ro ss wd)) = ?fs"
    by (auto simp: pid_good_def tick_pids_def)
  have cc: "pid_cont K b (fold (write_pid K b) ?es wd) = c"
    using c by (simp add: pid_cont_def tick_pids_def)
  have dm: "distinct (map fst ?m)" by (rule peragg.fold_distinct) simp
  then have keys: "distinct (map fst ?es)" using is_range_distinct_keys [OF f(1)] by blast
  have spec: "map_of (map (\<lambda>x. (fst x, agg_record (snd x))) ?es) q = spec_aggregated ss q"
    if "card (device_bytes ss q) < 256" for q
    using agg_record_spec [OF f(2) that] agg_step_zero [OF f(2)] is_range_map_of [OF f(1) dm]
    by (cases "q = 0") (auto simp: spec_aggregated_def Let_def pid_entries)
  have "c q \<in> {None, v_pid v q, spec_aggregated ss q}" if "card (device_bytes ss q) < 256" for q
    using pid_loop.publish_lookup_any [OF good keys, unfolded cc cont, of q] by (simp only: spec [OF that])
  moreover have "entry_after (v_pid v q) (spec_aggregated ss q) (c q)"
    if "card (device_bytes ss q) < 256" "warnings (tick_pids K b ro ss wd) = warnings wd" for q
    using pid_loop.publish_lookup [OF good that(2) [unfolded tick_pids_def] keys, unfolded cc cont, of q]
    by (simp only: spec [OF that(1)])
  moreover have "c q \<in> {None, v_pid v q} \<or> q \<noteq> 0 \<and> (\<exists>r. c q = Some r \<and> pid_record_ok r)" for q
    using pid_loop.publish_lookup_any [OF good keys, unfolded cc cont, of q] agg_record_ok
      agg_step_zero [OF f(2)] is_range_map_of [OF f(1) dm]
    by (cases "map_of ?m q") (auto simp: pid_entries)
  ultimately show ?thesis using c fs by blast
qed

end

end
