(* ===== verification/PollerSpec.thy ===== *)
theory PollerSpec
  imports Poller
begin

text \<open>
  What a tick promises, stated on the abstract view of the four maps and on the samples of the tick,
  with no loop, no order and no kernel state: \<open>tick_result\<close>. The lemmas show that \<open>tick\<close> implements
  it for every kernel that obeys the laws of \<open>bpf_kernel\<close>, every backend and every order of the
  \<open>range\<close> loops.
\<close>

section \<open>The specification of a tick\<close>

text \<open>
  \<open>tick_result lossy\<close> relates the maps before and after a tick that saw the devices \<open>devs\<close> and the
  samples \<open>ss\<close> and wrote the metadata \<open>m\<close>. Without failures (\<open>lossy = False\<close>) an entry is the one
  specified for its key, unless the kernel evicted it; with failures it may also be the old one. A
  pid that ran on 256 or more device bytes has a well-formed record and is otherwise outside the
  specification: the device count of its record is a \<open>uint8\<close>.
\<close>

definition tick_result ::
  "bool \<Rightarrow> DeviceSnapshot list \<Rightarrow> ProcessSample list \<Rightarrow> gpu_meta \<Rightarrow> bridge_view \<Rightarrow> bridge_view \<Rightarrow> bool" where
  "tick_result lossy devs ss m v v' \<longleftrightarrow>
     v_meta v' = (v_meta v)(0 := Some m) \<and>
     v_device v' = device_table (filter in_slots devs) (v_device v) \<and>
     (\<forall>q d. let k = PerPidPerDeviceKey q d in
        if lossy then v_piddev v' k \<in> {None, v_piddev v k, spec_detail ss q d}
        else entry_after (v_piddev v k) (spec_detail ss q d) (v_piddev v' k)) \<and>
     (\<forall>q. card (device_bytes ss q) < 256 \<longrightarrow>
        (if lossy then v_pid v' q \<in> {None, v_pid v q, spec_aggregated ss q}
         else entry_after (v_pid v q) (spec_aggregated ss q) (v_pid v' q))) \<and>
     (\<forall>q. v_pid v' q \<in> {None, v_pid v q} \<or> q \<noteq> 0 \<and> (\<exists>r. v_pid v' q = Some r \<and> pid_record_ok r))"

text \<open>
  The invariant of the four maps: the metadata is the zero entry of a fresh array or was written by
  this helper, no record belongs to pid 0, a detail record carries the device byte of its key, and a
  per-pid record is well formed.
\<close>

definition view_ok :: "u32 \<Rightarrow> bridge_view \<Rightarrow> bool" where
  "view_ok helper v \<longleftrightarrow>
     (\<forall>m. v_meta v 0 = Some m \<longrightarrow>
        (schema_version m = 0 \<and> helper_pid m = 0 \<or> schema_version m = SchemaVersion \<and> helper_pid m = helper) \<and>
        meta_reserved m = 0) \<and>
     (\<forall>q r. v_pid v q = Some r \<longrightarrow> q \<noteq> 0 \<and> pid_record_ok r) \<and>
     (\<forall>q d r. v_piddev v (PerPidPerDeviceKey q d) = Some r \<longrightarrow>
        q \<noteq> 0 \<and> pm_gpu_device r = ucast d \<and> pm_pad r = 0)"

lemma spec_detail_ok:
  "spec_detail ss q d = Some r \<Longrightarrow> q \<noteq> 0 \<and> pm_gpu_device r = ucast d \<and> pm_pad r = 0"
  by (auto simp: spec_detail_def Let_def split: if_splits)

text \<open>Whatever fails, an entry is evicted, old, or the one specified for the samples of the tick.\<close>

lemma tick_result_entries:
  assumes "tick_result lossy devs ss m v v'"
  shows "v_piddev v' (PerPidPerDeviceKey q d) \<in>
      {None, v_piddev v (PerPidPerDeviceKey q d), spec_detail ss q d}"
    and "card (device_bytes ss q) < 256 \<Longrightarrow> v_pid v' q \<in> {None, v_pid v q, spec_aggregated ss q}"
proof -
  have "if lossy then v_piddev v' (PerPidPerDeviceKey q d) \<in>
        {None, v_piddev v (PerPidPerDeviceKey q d), spec_detail ss q d}
      else entry_after (v_piddev v (PerPidPerDeviceKey q d)) (spec_detail ss q d)
        (v_piddev v' (PerPidPerDeviceKey q d))"
    using assms unfolding tick_result_def Let_def by blast
  then show "v_piddev v' (PerPidPerDeviceKey q d) \<in>
      {None, v_piddev v (PerPidPerDeviceKey q d), spec_detail ss q d}" by (auto simp: entry_after_def split: if_splits option.splits)
  assume "card (device_bytes ss q) < 256"
  then have "if lossy then v_pid v' q \<in> {None, v_pid v q, spec_aggregated ss q}
      else entry_after (v_pid v q) (spec_aggregated ss q) (v_pid v' q)"
    using assms unfolding tick_result_def by blast
  then show "v_pid v' q \<in> {None, v_pid v q, spec_aggregated ss q}"
    by (auto simp: entry_after_def split: if_splits option.splits)
qed

lemma tick_result_view_ok:
  assumes ok: "view_ok h v" and t: "tick_result lossy devs ss (meta_record devs now h) v v'"
  shows "view_ok h v'"
proof -
  note pd = tick_result_entries(1) [OF t]
  have "q \<noteq> 0 \<and> pm_gpu_device r = ucast d \<and> pm_pad r = 0"
    if "v_piddev v' (PerPidPerDeviceKey q d) = Some r" for q d r
  proof -
    from pd [of q d] that have "v_piddev v (PerPidPerDeviceKey q d) = Some r \<or> spec_detail ss q d = Some r"
      by auto
    with ok spec_detail_ok show ?thesis unfolding view_ok_def by blast
  qed
  moreover have "q \<noteq> 0 \<and> pid_record_ok r" if "v_pid v' q = Some r" for q r
  proof -
    from t have "v_pid v' q \<in> {None, v_pid v q} \<or> q \<noteq> 0 \<and> (\<exists>r. v_pid v' q = Some r \<and> pid_record_ok r)"
      by (simp only: tick_result_def)
    with that have "v_pid v q = Some r \<or> q \<noteq> 0 \<and> pid_record_ok r" by auto
    with ok show ?thesis unfolding view_ok_def by blast
  qed
  moreover have "v_meta v' 0 = Some (meta_record devs now h)" using t by (simp add: tick_result_def)
  ultimately show ?thesis by (auto simp: view_ok_def meta_record_def)
qed

section \<open>The two per-pid maps agree\<close>

lemma devices_of_iff: "d \<in> set (devices_of ss q) \<longleftrightarrow> samples_on ss q d \<noteq> []"
  by (auto simp: devices_of_def samples_of_def samples_on_def filter_empty_conv)

lemma maxcol_devices:
  "maxcol (\<lambda>d. maxcol f (samples_on ss q d)) (devices_of ss q) = maxcol f (samples_of ss q)"
proof (rule antisym)
  show "maxcol (\<lambda>d. maxcol f (samples_on ss q d)) (devices_of ss q) \<le> maxcol f (samples_of ss q)"
    by (rule maxcol_le) (rule maxcol_subset [OF samples_on_subset])
  show "maxcol f (samples_of ss q) \<le> maxcol (\<lambda>d. maxcol f (samples_on ss q d)) (devices_of ss q)"
  proof (rule maxcol_le)
    fix s assume s: "s \<in> set (samples_of ss q)"
    then have "s \<in> set (samples_on ss q (ps_DeviceIndex s))"
      and d: "ps_DeviceIndex s \<in> set (devices_of ss q)"
      by (simp_all add: samples_on_def samples_of_def devices_of_def)
    from maxcol_ge [OF this(1), of f] maxcol_ge [OF d, of "\<lambda>d. maxcol f (samples_on ss q d)"]
    show "f s \<le> maxcol (\<lambda>d. maxcol f (samples_on ss q d)) (devices_of ss q)" by (rule order_trans)
  qed
qed

lemma column_map:
  "maxcol f (map g xs) = maxcol (\<lambda>x. f (g x)) xs" "sumcol h (map g xs) = sumcol (\<lambda>x. h (g x)) xs"
  by (induction xs) (simp_all add: column_simps)

lemma column_cong:
  "(\<And>x. x \<in> set xs \<Longrightarrow> f x = g x) \<Longrightarrow> maxcol f xs = maxcol g xs"
  "(\<And>x. x \<in> set xs \<Longrightarrow> h x = k x) \<Longrightarrow> sumcol h xs = sumcol k xs"
  by (induction xs) (simp_all add: column_simps)

text \<open>\<open>summary_of r ds\<close>: the aggregated record \<open>r\<close> summarises the detail records \<open>ds\<close>.\<close>

definition summary_of :: "gpu_pid_metrics_aggregated \<Rightarrow> gpu_pid_metrics list \<Rightarrow> bool" where
  "summary_of r ds \<longleftrightarrow>
     pa_timestamp_ns r = maxcol pm_timestamp_ns ds \<and>
     pa_used_gpu_memory_total r = sumcol pm_used_gpu_memory ds \<and>
     pa_sm_util_pct_max r = maxcol pm_sm_util_pct ds \<and>
     pa_mem_util_pct_max r = maxcol pm_mem_util_pct ds \<and>
     pa_device_count r = of_nat (card (pm_gpu_device ` set ds)) \<and>
     (pa_device_count r = 1 \<longrightarrow> (\<forall>x \<in> set ds. pa_gpu_device_primary r = pm_gpu_device x)) \<and>
     (pa_device_count r \<noteq> 1 \<longrightarrow> pa_gpu_device_primary r = DevicePrimaryMulti)"

lemma spec_summary:
  assumes q: "q \<noteq> 0" and ne: "samples_of ss q \<noteq> []" and n: "card (device_bytes ss q) < 256"
  shows "\<exists>r. spec_aggregated ss q = Some r \<and>
    summary_of r (map (\<lambda>d. the (spec_detail ss q d)) (devices_of ss q))"
proof -
  let ?ds = "map (\<lambda>d. the (spec_detail ss q d)) (devices_of ss q)"
  let ?n = "card (device_bytes ss q)"
  obtain r where r: "spec_aggregated ss q = Some r" using q ne by (simp add: spec_aggregated_def Let_def)
  have det: "the (spec_detail ss q d) = \<lparr>pm_timestamp_ns = maxcol ps_TimestampNs (samples_on ss q d),
      pm_used_gpu_memory = maxcol ps_UsedGpuMemory (samples_on ss q d),
      pm_sm_util_pct = maxcol ps_SmUtilPct (samples_on ss q d),
      pm_mem_util_pct = maxcol ps_MemUtilPct (samples_on ss q d),
      pm_enc_util_pct = maxcol ps_EncUtilPct (samples_on ss q d),
      pm_dec_util_pct = maxcol ps_DecUtilPct (samples_on ss q d),
      pm_gpu_device = ucast d, pm_mig_instance = ps_MigInstance (hd (samples_on ss q d)), pm_pad = 0\<rparr>"
    if "d \<in> set (devices_of ss q)" for d
    using that q by (simp add: devices_of_iff spec_detail_def Let_def)
  have cols: "maxcol pm_timestamp_ns ?ds = maxcol ps_TimestampNs (samples_of ss q)"
    "maxcol pm_sm_util_pct ?ds = maxcol ps_SmUtilPct (samples_of ss q)"
    "maxcol pm_mem_util_pct ?ds = maxcol ps_MemUtilPct (samples_of ss q)"
    unfolding column_map maxcol_devices [symmetric] by (rule column_cong(1), simp add: det)+
  have sum: "sumcol pm_used_gpu_memory ?ds =
      (\<Sum>d\<leftarrow>devices_of ss q. maxcol ps_UsedGpuMemory (samples_on ss q d))"
    unfolding column_map sumcol_def [symmetric] by (rule column_cong(2)) (simp add: det)
  have bytes: "pm_gpu_device ` set ?ds = device_bytes ss q"
    unfolding device_bytes_def set_map image_image by (rule image_cong) (simp_all add: det)
  have h: "ucast (ps_DeviceIndex (hd (samples_of ss q))) \<in> device_bytes ss q"
    using ne by (simp add: device_bytes_def devices_of_def)
  then have pos: "0 < ?n" by (auto simp: card_gt_0_iff device_bytes_def)
  have one: "(of_nat ?n :: u8) = 1 \<longleftrightarrow> ?n = 1"
    using n by (simp add: word_of_nat_eq_iff [where n = 1, simplified] take_bit_nat_eq_self)
  have "pm_gpu_device x = ucast (ps_DeviceIndex (hd (samples_of ss q)))" if "?n = 1" "x \<in> set ?ds" for x
    using that h bytes by (auto simp: card_1_singleton_iff)
  then have "summary_of r ?ds"
    using r q ne cols sum bytes one pos by (auto simp: summary_of_def spec_aggregated_def Let_def)
  with r show ?thesis by blast
qed

text \<open>After a tick without failures, the entry of a pid summarises the detail entries of the pid, as long as
  the kernel evicted none of them.\<close>

lemma tick_result_agree:
  assumes t: "tick_result False devs ss m v v'" and q: "q \<noteq> 0" and ne: "samples_of ss q \<noteq> []"
    and n: "card (device_bytes ss q) < 256" and r: "v_pid v' q = Some r"
    and det: "\<And>d. d \<in> set (devices_of ss q) \<Longrightarrow> v_piddev v' (PerPidPerDeviceKey q d) \<noteq> None"
  shows "summary_of r (map (\<lambda>d. the (v_piddev v' (PerPidPerDeviceKey q d))) (devices_of ss q))"
proof -
  obtain r' where r': "spec_aggregated ss q = Some r'"
    and s: "summary_of r' (map (\<lambda>d. the (spec_detail ss q d)) (devices_of ss q))"
    using spec_summary [OF q ne n] by blast
  from t n have "entry_after (v_pid v q) (spec_aggregated ss q) (v_pid v' q)"
    by (simp add: tick_result_def)
  with r r' have "r = r'" by (simp add: entry_after_def)
  moreover have "v_piddev v' (PerPidPerDeviceKey q d) = spec_detail ss q d" if d: "d \<in> set (devices_of ss q)" for d
  proof -
    from t have "entry_after (v_piddev v (PerPidPerDeviceKey q d)) (spec_detail ss q d)
        (v_piddev v' (PerPidPerDeviceKey q d))" by (simp add: tick_result_def Let_def)
    moreover obtain x where "spec_detail ss q d = Some x"
      using d q by (simp add: devices_of_iff spec_detail_def Let_def)
    ultimately show ?thesis using det [OF d] by (simp add: entry_after_def)
  qed
  ultimately show ?thesis using s by (simp cong: map_cong)
qed

lemma wview_write_meta [simp]: "fst (write_meta K b m wd) = wrap_err ''UpdateMeta'' (fst (UpdateMeta K b m (wd_kern wd)))"
  by (simp add: write_meta_def Let_def)

context bpf_kernel
begin

lemma write_meta_step:
  assumes "wview K b wd = Some v"
  shows "fst (write_meta K b m wd) = None \<and>
    wview K b (snd (write_meta K b m wd)) = Some (v\<lparr>v_meta := (v_meta v)(0 := Some m)\<rparr>) \<and>
    k_fs K (wd_kern (snd (write_meta K b m wd))) = k_fs K (wd_kern wd)"
  using UpdateMeta_view [OF assms [unfolded wview_def], of m]
  by (auto simp: write_meta_def wview_def Let_def)

lemma tick_implements:
  fixes wd0 :: "('w, 's) world"
  assumes ro: "orders_ok ro"
    and devs: "np_Devices (pl_source p) (wd_src wd0) = ((devs, None), src1)"
    and samp: "np_ProcessSamples (pl_source p) src1 (minLastSeen (ro_seen ro) (pl_lastSeen p)) =
      ((ss, se), src2)"
    and v: "wview K (pl_bridge p) wd0 = Some v"
    and t: "tick K ro now p wd0 = (r, p', wd')"
  shows "r = None \<and> k_fs K (wd_kern wd') = k_fs K (wd_kern wd0) \<and>
    (\<exists>v'. wview K (pl_bridge p) wd' = Some v' \<and>
       tick_result (warnings wd' \<noteq> warnings wd0) devs ss (meta_record devs now (pl_helper p)) v v')"
proof -
  let ?b = "pl_bridge p" and ?m = "meta_record devs now (pl_helper p)"
  let ?wd1 = "tick_devices K ?b devs src1 wd0"
  let ?wd2 = "tick_sampled src2 se ?wd1"
  let ?wd3 = "tick_details K ?b ro ss ?wd2"
  let ?wd4 = "tick_pids K ?b ro ss ?wd3"
  from t tick_phases [OF devs samp] have r: "r = fst (write_meta K ?b ?m ?wd4)"
    and wd': "wd' = snd (write_meta K ?b ?m ?wd4)" by (simp_all add: Let_def)
  define v1 where "v1 = v\<lparr>v_device := device_table (filter in_slots devs) (v_device v)\<rparr>"
  have s2: "wview K ?b ?wd2 = Some v1" "k_fs K (wd_kern ?wd2) = k_fs K (wd_kern wd0)"
    using fold_write_device [of ?b "wd0\<lparr>wd_src := src1\<rparr>" v devs] v
    by (simp_all add: tick_sampled_def tick_devices_def v1_def)
  from details_published [OF ro s2(1), of ss] obtain c3 where
    s3: "wview K ?b ?wd3 = Some (v1\<lparr>v_piddev := c3\<rparr>)" "k_fs K (wd_kern ?wd3) = k_fs K (wd_kern ?wd2)"
    and d3: "\<forall>q d. c3 (PerPidPerDeviceKey q d) \<in>
        {None, v_piddev v1 (PerPidPerDeviceKey q d), spec_detail ss q d}"
      "warnings ?wd3 = warnings ?wd2 \<longrightarrow> (\<forall>q d. entry_after (v_piddev v1 (PerPidPerDeviceKey q d))
        (spec_detail ss q d) (c3 (PerPidPerDeviceKey q d)))" by blast
  from pids_published [OF ro s3(1), of ss] obtain c4 where
    s4: "wview K ?b ?wd4 = Some (v1\<lparr>v_piddev := c3, v_pid := c4\<rparr>)"
      "k_fs K (wd_kern ?wd4) = k_fs K (wd_kern ?wd3)"
    and d4: "\<forall>q. card (device_bytes ss q) < 256 \<longrightarrow> c4 q \<in> {None, v_pid v1 q, spec_aggregated ss q} \<and>
      (warnings ?wd4 = warnings ?wd3 \<longrightarrow> entry_after (v_pid v1 q) (spec_aggregated ss q) (c4 q))"
      "\<forall>q. c4 q \<in> {None, v_pid v1 q} \<or> q \<noteq> 0 \<and> (\<exists>r. c4 q = Some r \<and> pid_record_ok r)"
    by auto
  have w: "warnings wd' = warnings wd0 \<Longrightarrow>
      warnings ?wd3 = warnings ?wd2 \<and> warnings ?wd4 = warnings ?wd3"
    using tick_warnings [of K ?b ?m ro ss src2 se ?wd1 "warnings wd0"] tick_devices_warnings
    unfolding wd' by (simp add: tick_devices_warnings)
  define v' where "v' = v1\<lparr>v_piddev := c3, v_pid := c4, v_meta := (v_meta v1)(0 := Some ?m)\<rparr>"
  have "wview K ?b wd' = Some v'" "r = None" "k_fs K (wd_kern wd') = k_fs K (wd_kern wd0)"
    using write_meta_step [OF s4(1), of ?m] s4 s3 s2 unfolding wd' r v'_def by simp_all
  moreover have "tick_result (warnings wd' \<noteq> warnings wd0) devs ss ?m v v'"
    unfolding tick_result_def v'_def v1_def Let_def using d3 d4 w by (auto simp: v1_def)
  ultimately show ?thesis by blast
qed

lemma tick_fails_cleanly:
  assumes "np_Devices (pl_source p) (wd_src wd0) = ((devs, Some e), src1)"
    and "tick K ro now p wd0 = (r, p', wd')"
  shows "wview K b wd' = wview K b wd0 \<and> k_fs K (wd_kern wd') = k_fs K (wd_kern wd0)"
  using tick_devices_fail [OF assms(1), of K ro now] assms(2) by (auto simp: wview_def)

text \<open>Every tick keeps the bridge open, the pins in place and the records well formed.\<close>

lemma tick_keeps:
  assumes ro: "orders_ok ro" and v: "wview K (pl_bridge p) wd0 = Some v" and ok: "view_ok (pl_helper p) v"
    and t: "tick K ro now p wd0 = (r, p', wd')"
  shows "k_fs K (wd_kern wd') = k_fs K (wd_kern wd0) \<and>
    (\<exists>v'. wview K (pl_bridge p) wd' = Some v' \<and> view_ok (pl_helper p) v')"
proof -
  obtain devs de src1 where d: "np_Devices (pl_source p) (wd_src wd0) = ((devs, de), src1)"
    by (metis prod.exhaust)
  obtain ss se src2 where s: "np_ProcessSamples (pl_source p) src1
      (minLastSeen (ro_seen ro) (pl_lastSeen p)) = ((ss, se), src2)"
    by (metis prod.exhaust)
  show ?thesis
  proof (cases de)
    case (Some e)
    from tick_fails_cleanly [OF d [unfolded Some] t] v ok show ?thesis by auto
  next
    case None
    from tick_implements [OF ro d [unfolded None] s v t] tick_result_view_ok [OF ok]
    show ?thesis by blast
  qed
qed

end

end
