(* ===== verification/PollerTrace.thy ===== *)
theory PollerTrace
  imports Poller
begin

text \<open>
  The calls a tick and a run make, in order, whatever the kernel answers: no law of the kernel is
  used here. \<open>calls\<close> reads them off the trace of the world, without their results and without the
  log messages.
\<close>

section \<open>Calls\<close>

fun erase :: "event \<Rightarrow> event list" where
  "erase (EvInit r) = [EvInit None]"
| "erase EvClose = [EvClose]"
| "erase (EvDevice i m r) = [EvDevice i m None]"
| "erase (EvPerPidPerDevice q d m r) = [EvPerPidPerDevice q d m None]"
| "erase (EvPerPid q m r) = [EvPerPid q m None]"
| "erase (EvMeta m r) = [EvMeta m None]"
| "erase (EvWarn s e) = []"

definition calls :: "('w, 's) world \<Rightarrow> event list" where
  "calls wd = concat (map erase (wd_log wd))"

definition device_call :: "DeviceSnapshot \<Rightarrow> event" where
  "device_call d = EvDevice (ds_Index d) (deviceSnapshotToMap d) None"

definition detail_call :: "pidDevKey \<times> perDevAgg \<Rightarrow> event" where
  "detail_call e = EvPerPidPerDevice (fst (fst e)) (snd (fst e)) (detail_record (fst e) (snd e)) None"

definition pid_call :: "u32 \<times> aggBuilder \<Rightarrow> event" where
  "pid_call x = EvPerPid (fst x) (agg_record (snd x)) None"

text \<open>The calls of one tick that saw the devices \<open>devs\<close> and the samples \<open>ss\<close>.\<close>

definition tick_calls ::
  "range_orders \<Rightarrow> DeviceSnapshot list \<Rightarrow> ProcessSample list \<Rightarrow> gpu_meta \<Rightarrow> event list" where
  "tick_calls ro devs ss m =
     (let perDev = ro_dev ro (aggregate_samples ss)
      in map device_call devs @ map detail_call perDev @
         map pid_call (ro_pid ro (fold agg_step perDev [])) @ [EvMeta m None])"

lemma erase_warn_on [simp]: "concat (map erase (warn_on s r)) = []"
  by (cases r) simp_all

lemma calls_upd [simp]:
  "calls (wd\<lparr>wd_src := s\<rparr>) = calls wd" "calls (wd\<lparr>wd_kern := k\<rparr>) = calls wd"
  "calls (wd\<lparr>wd_src := s, wd_log := l\<rparr>) = concat (map erase l)"
  "calls (wd\<lparr>wd_kern := k, wd_log := l\<rparr>) = concat (map erase l)"
  "calls (logged s' r wd) = calls wd"
  by (simp_all add: calls_def logged_def)

lemma calls_write [simp]:
  "calls (write_device K b d wd) = calls wd @ [device_call d]"
  "calls (write_detail K b e wd) = calls wd @ [detail_call e]"
  "calls (write_pid K b x wd) = calls wd @ [pid_call x]"
  "calls (snd (write_meta K b m wd)) = calls wd @ [EvMeta m None]"
  by (simp_all add: write_device_def write_detail_def write_pid_def write_meta_def calls_def
      device_call_def detail_call_def pid_call_def Let_def)

lemma calls_fold_write [simp]:
  "calls (fold (write_device K b) ds wd) = calls wd @ map device_call ds"
  "calls (fold (write_detail K b) es wd) = calls wd @ map detail_call es"
  "calls (fold (write_pid K b) xs wd) = calls wd @ map pid_call xs"
proof -
  show "calls (fold (write_device K b) ds wd) = calls wd @ map device_call ds"
    by (induction ds arbitrary: wd) simp_all
  show "calls (fold (write_detail K b) es wd) = calls wd @ map detail_call es"
    by (induction es arbitrary: wd) simp_all
  show "calls (fold (write_pid K b) xs wd) = calls wd @ map pid_call xs"
    by (induction xs arbitrary: wd) simp_all
qed

lemma calls_phases [simp]:
  "calls (tick_devices K b devs src1 wd) = calls wd @ map device_call devs"
  "calls (tick_sampled src2 se wd) = calls wd"
  "calls (tick_details K b ro ss wd) = calls wd @ map detail_call (ro_dev ro (aggregate_samples ss))"
  "calls (tick_pids K b ro ss wd) =
     calls wd @ map pid_call (ro_pid ro (fold agg_step (ro_dev ro (aggregate_samples ss)) []))"
proof -
  show "calls (tick_sampled src2 se wd) = calls wd"
    unfolding tick_sampled_def calls_upd by (simp add: calls_def)
qed (simp_all add: tick_devices_def tick_details_def tick_pids_def)

lemma src_phases [simp]:
  "wd_src (tick_sampled src2 se wd) = src2"
  "wd_src (tick_details K b ro ss wd) = wd_src wd"
  "wd_src (tick_pids K b ro ss wd) = wd_src wd"
  "wd_src (snd (write_meta K b m wd)) = wd_src wd"
  by (simp_all add: tick_sampled_def tick_details_def tick_pids_def write_meta_def Let_def)

lemma tick_calls_eq:
  assumes "np_Devices (pl_source p) (wd_src wd0) = ((devs, None), src1)"
    and "np_ProcessSamples (pl_source p) src1 (minLastSeen (ro_seen ro) (pl_lastSeen p)) = ((ss, se), src2)"
    and "tick K ro now p wd0 = (r, p', wd')"
  shows "calls wd' = calls wd0 @ tick_calls ro devs ss (meta_record devs now (pl_helper p))"
    and "pl_lastSeen p' = advance_all ss (pl_lastSeen p)"
    and "wd_src wd' = src2"
  using tick_phases [OF assms(1,2), of K now] assms(3) by (auto simp: Let_def tick_calls_def)

text \<open>Case analysis of a tick, with what it leaves alone.\<close>

lemma tick_cases:
  assumes "tick K ro now p wd = (r, p', wd')"
  obtains (fail) devs e src1 where "np_Devices (pl_source p) (wd_src wd) = ((devs, Some e), src1)"
      "r = Some (Wrapf ''devices'' e)" "p' = p" "wd' = wd\<lparr>wd_src := src1\<rparr>"
  | (ok) devs src1 ss se src2 where "np_Devices (pl_source p) (wd_src wd) = ((devs, None), src1)"
      "np_ProcessSamples (pl_source p) src1 (minLastSeen (ro_seen ro) (pl_lastSeen p)) = ((ss, se), src2)"
      "p' = p\<lparr>pl_lastSeen := advance_all ss (pl_lastSeen p)\<rparr>" "wd_src wd' = src2"
      "calls wd' = calls wd @ tick_calls ro devs ss (meta_record devs now (pl_helper p))"
proof -
  obtain devs de src1 where d: "np_Devices (pl_source p) (wd_src wd) = ((devs, de), src1)"
    by (metis prod.exhaust)
  obtain ss se src2 where s: "np_ProcessSamples (pl_source p) src1
      (minLastSeen (ro_seen ro) (pl_lastSeen p)) = ((ss, se), src2)"
    by (metis prod.exhaust)
  show thesis
  proof (cases de)
    case (Some e)
    with d tick_devices_fail [of p wd devs e src1 K ro now] assms show thesis by (auto intro: fail)
  next
    case None
    note d = d [unfolded None]
    from tick_calls_eq [OF d s assms] tick_phases [OF d s, of K now] assms
    show thesis by (intro ok [OF d s]) (simp_all add: Let_def)
  qed
qed

section \<open>Watermarks\<close>

lemma advance_all_mono: "lookup0 m d \<le> lookup0 (advance_all ss m) d"
  by (simp add: advance_all_lookup)

end
