(* ===== verification/PollerRun.thy ===== *)
theory PollerRun
  imports PollerSpec PollerTrace
begin

text \<open>
  The loop of \<open>Run\<close> as a state machine. \<open>loop_step\<close> is one round of the \<open>select\<close> loop on a ticker event,
  \<open>loop_steps\<close> a sequence of rounds; \<open>run_loop_steps\<close> shows that the executable loop takes exactly
  these steps up to the first cancellation. Invariants are proved by rule induction on the steps.
\<close>

section \<open>The state machine\<close>

type_synonym ('w, 's) loop_state = "'s poller \<times> ('w, 's) world"

inductive loop_step ::
  "'w kernel \<Rightarrow> ('w, 's) loop_state \<Rightarrow> select \<Rightarrow> ('w, 's) loop_state \<Rightarrow> bool" for K where
  ticker: "tick K ro now p wd = (r, p', wd') \<Longrightarrow>
    loop_step K (p, wd) (TickerC ro now) (p', logged ''tick failed'' r wd')"

inductive loop_steps ::
  "'w kernel \<Rightarrow> ('w, 's) loop_state \<Rightarrow> select list \<Rightarrow> ('w, 's) loop_state \<Rightarrow> bool" for K where
  none: "loop_steps K s [] s"
| more: "loop_step K s e s' \<Longrightarrow> loop_steps K s' es s'' \<Longrightarrow> loop_steps K s (e # es) s''"

inductive_cases loop_stepE: "loop_step K s e s'"
inductive_cases loop_steps_NilE: "loop_steps K s [] s'"
inductive_cases loop_steps_ConsE: "loop_steps K s (e # es) s'"
inductive_simps loop_step_ticker: "loop_step K (p, wd) (TickerC ro now) s'"
inductive_simps loop_steps_Nil: "loop_steps K s [] s'"
inductive_simps loop_steps_Cons: "loop_steps K s (e # es) s''"

lemma Cons_split_at:
  "(\<exists>es rest. e # evs = es @ d # rest \<and> P es) \<longleftrightarrow>
     (e = d \<and> P []) \<or> (\<exists>es rest. evs = es @ d # rest \<and> P (e # es))"
  by (auto simp: Cons_eq_append_conv)

lemma run_loop_steps:
  "run_loop K evs p wd = Some s \<longleftrightarrow>
     (\<exists>es rest. evs = es @ CtxDone # rest \<and> loop_steps K (p, wd) es s)"
proof (induction evs arbitrary: p wd)
  case Nil
  then show ?case by simp
next
  case (Cons e evs)
  show ?case
  proof (cases e)
    case CtxDone
    have "\<not> loop_steps K (p, wd) (CtxDone # es) s" for es
      by (auto elim!: loop_steps_ConsE loop_stepE)
    with CtxDone show ?thesis
      by (auto simp: Cons_eq_append_conv loop_steps_Nil)
  next
    case (TickerC ro now)
    obtain r p' wd' where t: "tick K ro now p wd = (r, p', wd')" by (metis prod.exhaust)
    have "loop_steps K (p, wd) (TickerC ro now # es) s \<longleftrightarrow>
        loop_steps K (p', logged ''tick failed'' r wd') es s" for es
      using t by (auto simp: loop_steps_Cons loop_step_ticker)
    moreover have "(\<exists>es rest. e # evs = es @ CtxDone # rest \<and> loop_steps K (p, wd) es s) \<longleftrightarrow>
        (\<exists>es rest. evs = es @ CtxDone # rest \<and> loop_steps K (p, wd) (e # es) s)"
      using TickerC by (subst Cons_split_at) simp
    ultimately show ?thesis using TickerC t Cons.IH by simp
  qed
qed

lemma run_loop_stops: "(\<exists>s. run_loop K evs p wd = Some s) \<longleftrightarrow> CtxDone \<in> set evs"
proof (induction evs arbitrary: p wd)
  case Nil
  then show ?case by simp
next
  case (Cons e evs)
  then show ?case by (cases e) (simp_all split: prod.split)
qed

text \<open>A property of one tick that composes carries over to every run of the loop.\<close>

lemma loop_steps_invariant:
  assumes "loop_steps K s es s'" and "R s s"
    and "\<And>t e t'. R s t \<Longrightarrow> loop_step K t e t' \<Longrightarrow> R s t'"
  shows "R s s'"
  using assms(1,2,3)
proof -
  have "R s0 t \<Longrightarrow> (\<And>t e t'. R s0 t \<Longrightarrow> loop_step K t e t' \<Longrightarrow> R s0 t') \<Longrightarrow> R s0 t'"
    if "loop_steps K t es t'" for s0 t t'
    using that by (induction rule: loop_steps.induct) blast+
  with assms show ?thesis by blast
qed

section \<open>Invariants\<close>

text \<open>What no step changes, and how the watermarks move.\<close>

definition same_config :: "'s poller \<Rightarrow> 's poller \<Rightarrow> bool" where
  "same_config p p' \<longleftrightarrow> p' = p\<lparr>pl_lastSeen := pl_lastSeen p'\<rparr>"

definition watermarks_grow :: "'s poller \<Rightarrow> 's poller \<Rightarrow> bool" where
  "watermarks_grow p p' \<longleftrightarrow> (\<forall>d. lookup0 (pl_lastSeen p) d \<le> lookup0 (pl_lastSeen p') d)"

lemma same_config_refl [simp]: "same_config p p"
  by (simp add: same_config_def)

lemma same_config_trans: "same_config p q \<Longrightarrow> same_config q r \<Longrightarrow> same_config p r"
  unfolding same_config_def by (cases p, cases q, cases r) simp

lemma tick_config:
  assumes "tick K ro now p wd = (r, p', wd')"
  shows "same_config p p'" and "watermarks_grow p p'"
  using assms by (cases rule: tick_cases; simp add: same_config_def watermarks_grow_def advance_all_mono)+

lemma tick_fields:
  assumes "tick K ro now p wd = (r, p', wd')"
  shows "pl_source p' = pl_source p" and "pl_bridge p' = pl_bridge p" and "pl_helper p' = pl_helper p"
  using tick_config(1) [OF assms] by (cases p; cases p'; simp add: same_config_def)+

definition not_lifecycle :: "event \<Rightarrow> bool" where
  "not_lifecycle e \<longleftrightarrow> e \<noteq> EvClose \<and> e \<noteq> EvInit None"

lemma tick_calls_lifecycle: "list_all not_lifecycle (tick_calls ro devs ss m)"
  by (auto simp: tick_calls_def Let_def list_all_iff not_lifecycle_def device_call_def
      detail_call_def pid_call_def)

lemma tick_lifecycle:
  assumes "tick K ro now p wd = (r, p', wd')"
  shows "\<exists>es. calls wd' = calls wd @ es \<and> list_all not_lifecycle es"
  using assms
proof (cases rule: tick_cases)
  case fail
  then show ?thesis by (intro exI [of _ "[]"]) simp
next
  case ok
  with tick_calls_lifecycle show ?thesis by blast
qed

lemma loop_steps_config:
  assumes "loop_steps K (p, wd) es (p', wd')"
  shows "same_config p p'" and "watermarks_grow p p'"
    and "\<exists>cs. calls wd' = calls wd @ cs \<and> list_all not_lifecycle cs"
proof -
  let ?R = "\<lambda>s t. same_config (fst s) (fst t) \<and> watermarks_grow (fst s) (fst t) \<and>
    (\<exists>cs. calls (snd t) = calls (snd s) @ cs \<and> list_all not_lifecycle cs)"
  have "?R s t'" if R: "?R s t" and st: "loop_step K t e t'" for s t t' :: "('a, 'b) loop_state" and e
    using st
  proof cases
    case (ticker ro now q w r q' w')
    from tick_config [OF ticker(4)] tick_lifecycle [OF ticker(4)] R ticker(1,3) show ?thesis
      by (auto simp: watermarks_grow_def intro: same_config_trans order_trans)
  qed
  from loop_steps_invariant [where R = ?R, OF assms _ this]
  show "same_config p p'" and "watermarks_grow p p'"
    and "\<exists>cs. calls wd' = calls wd @ cs \<and> list_all not_lifecycle cs"
    by (simp_all add: watermarks_grow_def)
qed

lemma Run_calls:
  assumes "Run K ro now evs p wd = Some (r, p', wd')"
  shows "case np_Init (pl_source p) (wd_src wd) of
      (Some e, src') \<Rightarrow> r = Some (Wrapf ''nvml init'' e) \<and> p' = p \<and> wd_kern wd' = wd_kern wd \<and>
        calls wd' = calls wd @ [EvInit None]
    | (None, src') \<Rightarrow> r = None \<and> same_config p p' \<and> watermarks_grow p p' \<and>
        (\<exists>cs. calls wd' = calls wd @ EvInit None # cs @ [EvClose] \<and> list_all not_lifecycle cs)"
proof (cases "np_Init (pl_source p) (wd_src wd)")
  case (Pair i src')
  show ?thesis
  proof (cases i)
    case (Some e)
    with Pair assms show ?thesis by (auto simp: Run_def calls_def)
  next
    case None
    let ?w0 = "wd\<lparr>wd_src := src', wd_log := wd_log wd @ [EvInit None]\<rparr>"
    obtain r1 p1 wd1 where t: "tick K ro now p ?w0 = (r1, p1, wd1)" by (metis prod.exhaust)
    from assms Pair None t obtain p2 wd2 where
      l: "run_loop K evs p1 (logged ''initial tick failed'' r1 wd1) = Some (p2, wd2)" and
      res: "r = None" "p' = p2" "wd' = wd2\<lparr>wd_src := snd (np_Close (pl_source p) (wd_src wd2)),
        wd_log := wd_log wd2 @ [EvClose]\<rparr>"
      by (auto simp: Run_def split: option.splits)
    from l obtain es where st: "loop_steps K (p1, logged ''initial tick failed'' r1 wd1) es (p2, wd2)"
      by (auto simp: run_loop_steps)
    from tick_lifecycle [OF t] obtain c1 where c1: "calls wd1 = calls wd @ [EvInit None] @ c1"
      "list_all not_lifecycle c1" by (auto simp: calls_def)
    from loop_steps_config(3) [OF st] obtain c2 where c2: "calls wd2 = calls wd1 @ c2"
      "list_all not_lifecycle c2" by auto
    have "calls wd' = calls wd @ EvInit None # (c1 @ c2) @ [EvClose]"
      using c1 c2 res(3) by (simp add: calls_def)
    moreover have "list_all not_lifecycle (c1 @ c2)" using c1 c2 by simp
    moreover have "same_config p p'" "watermarks_grow p p'"
      using loop_steps_config(1,2) [OF st] tick_config [OF t] res(2)
      by (auto simp: watermarks_grow_def intro: same_config_trans order_trans)
    ultimately show ?thesis using Pair None res(1) by auto
  qed
qed

lemma Run_stops:
  "(\<exists>res. Run K ro now evs p wd = Some res) \<longleftrightarrow>
     CtxDone \<in> set evs \<or> fst (np_Init (pl_source p) (wd_src wd)) \<noteq> None"
proof (cases "np_Init (pl_source p) (wd_src wd)")
  case (Pair i src')
  show ?thesis
  proof (cases i)
    case (Some e)
    with Pair show ?thesis by (simp add: Run_def)
  next
    case None
    obtain r1 p1 wd1 where t: "tick K ro now p (wd\<lparr>wd_src := src', wd_log := wd_log wd @ [EvInit None]\<rparr>)
      = (r1, p1, wd1)" by (metis prod.exhaust)
    have "(\<exists>res. Run K ro now evs p wd = Some res) \<longleftrightarrow>
        (\<exists>s. run_loop K evs p1 (logged ''initial tick failed'' r1 wd1) = Some s)"
      using Pair None t by (auto simp: Run_def split: option.splits)
    with Pair None run_loop_stops [of K evs p1 "logged ''initial tick failed'' r1 wd1"]
    show ?thesis by (simp only: fst_conv not_False_eq_True simp_thms)
  qed
qed

section \<open>The maps during a run\<close>

fun ev_ok :: "select \<Rightarrow> bool" where
  "ev_ok CtxDone = True"
| "ev_ok (TickerC ro now) = orders_ok ro"

text \<open>The bridge is open with the pins \<open>fs\<close>, and its records are well formed.\<close>

definition open_ok :: "'w kernel \<Rightarrow> bridge \<Rightarrow> u32 \<Rightarrow> (string \<Rightarrow> fd option) \<times> (string \<Rightarrow> bool)
    \<Rightarrow> ('w, 's) world \<Rightarrow> bool" where
  "open_ok K b h fs wd \<longleftrightarrow> k_fs K (wd_kern wd) = fs \<and> (\<exists>v. wview K b wd = Some v \<and> view_ok h v)"

lemma open_ok_upd [simp]:
  "open_ok K b h fs (wd\<lparr>wd_src := s, wd_log := l\<rparr>) = open_ok K b h fs wd"
  "open_ok K b h fs (logged s' r wd) = open_ok K b h fs wd"
  by (simp_all add: open_ok_def logged_def)

context bpf_kernel
begin

lemma tick_open_ok:
  assumes "tick K ro now p wd = (r, p', wd')" and "orders_ok ro"
    and "open_ok K (pl_bridge p) (pl_helper p) fs wd"
  shows "open_ok K (pl_bridge p) (pl_helper p) fs wd'"
  using tick_keeps [OF assms(2) _ _ assms(1)] assms(3) by (auto simp: open_ok_def)

lemma loop_steps_open_ok:
  assumes "loop_steps K s es s'" and "list_all ev_ok es"
    and "open_ok K (pl_bridge (fst s)) (pl_helper (fst s)) fs (snd s)"
  shows "open_ok K (pl_bridge (fst s)) (pl_helper (fst s)) fs (snd s')"
  using assms
proof (induction rule: loop_steps.induct)
  case (none s)
  then show ?case by simp
next
  case (more s e s' es s'')
  from more.hyps(1) show ?case
  proof cases
    case (ticker ro now p wd r p' wd')
    with more tick_fields [OF ticker(4)] tick_open_ok [OF ticker(4)] show ?thesis by simp
  qed
qed

lemma Run_open_ok:
  assumes run: "Run K ro now evs p wd = Some (r, p', wd')"
    and ro: "orders_ok ro" "list_all ev_ok evs"
    and ok: "open_ok K (pl_bridge p) (pl_helper p) fs wd"
  shows "open_ok K (pl_bridge p) (pl_helper p) fs wd'"
proof (cases "np_Init (pl_source p) (wd_src wd)")
  case (Pair i src')
  show ?thesis
  proof (cases i)
    case (Some e)
    with Pair run ok show ?thesis by (auto simp: Run_def)
  next
    case None
    let ?w0 = "wd\<lparr>wd_src := src', wd_log := wd_log wd @ [EvInit None]\<rparr>"
    obtain r1 p1 wd1 where t: "tick K ro now p ?w0 = (r1, p1, wd1)" by (metis prod.exhaust)
    from run Pair None t obtain p2 wd2 where
      l: "run_loop K evs p1 (logged ''initial tick failed'' r1 wd1) = Some (p2, wd2)" and
      res: "wd' = wd2\<lparr>wd_src := snd (np_Close (pl_source p) (wd_src wd2)),
        wd_log := wd_log wd2 @ [EvClose]\<rparr>"
      by (auto simp: Run_def split: option.splits)
    from l obtain es rest where st: "loop_steps K (p1, logged ''initial tick failed'' r1 wd1) es (p2, wd2)"
      and es: "evs = es @ CtxDone # rest" by (auto simp: run_loop_steps)
    have "pl_bridge p1 = pl_bridge p \<and> pl_helper p1 = pl_helper p"
      using tick_config(1) [OF t] by (cases p, cases p1) (auto simp: same_config_def)
    with tick_open_ok [OF t ro(1)] loop_steps_open_ok [OF st] ok ro(2) es res show ?thesis by simp
  qed
qed

end

end
