(* ===== verification/Demo.thy ===== *)
theory Demo
  imports RefKernel PollerRun
begin

text \<open>
  A concrete machine and a concrete backend for the witnesses: the reference kernel after \<open>Open\<close> on
  an empty machine, and a backend that always sees one device with two processes on it.
\<close>

definition demo_fds :: map_fds where
  "demo_fds = \<lparr>fd_GpuDevice = 3, fd_GpuMeta = 4, fd_GpuPerPid = 5, fd_GpuPerPidPerDevice = 6\<rparr>"

definition demo_bridge :: bridge where
  "demo_bridge = \<lparr>br_pinDir = ''/sys/fs/bpf'', br_objs = demo_fds\<rparr>"

definition demo_machine :: ref_world where
  "demo_machine = \<lparr>
     rw_objs = (\<lambda>_. None)(3 := Some (RDevice (\<lambda>_. zero_device)), 4 := Some (RMeta (\<lambda>_. zero_meta)),
       5 := Some (RPid []), 6 := Some (RPidDev [])),
     rw_pins = (\<lambda>_. None)(''/sys/fs/bpf/gpu_device'' := Some 3, ''/sys/fs/bpf/gpu_meta'' := Some 4,
       ''/sys/fs/bpf/gpu_per_pid'' := Some 5, ''/sys/fs/bpf/gpu_per_pid_per_device'' := Some 6),
     rw_next = 7\<rparr>"

lemma demo_join:
  "file_join ''/sys/fs/bpf'' ''gpu_device'' = ''/sys/fs/bpf/gpu_device''"
  "file_join ''/sys/fs/bpf'' ''gpu_meta'' = ''/sys/fs/bpf/gpu_meta''"
  "file_join ''/sys/fs/bpf'' ''gpu_per_pid'' = ''/sys/fs/bpf/gpu_per_pid''"
  "file_join ''/sys/fs/bpf'' ''gpu_per_pid_per_device'' = ''/sys/fs/bpf/gpu_per_pid_per_device''"
  by (simp_all add: file_join_def file_clean_def clean_elem_def Let_def)

lemma demo_open: "Open ref_kernel '''' empty_world = (Inr demo_bridge, demo_machine)"
  by (simp add: Open_def DefaultPinDir_def loadGputypesObjects_def loadGputypes_def ref_load_def
      ref_open_map_def ref_get_def empty_world_def map_spec_defs demo_join demo_bridge_def demo_fds_def
      demo_machine_def Let_def ref_kernel_def)

definition demo_view :: bridge_view where
  "demo_view = \<lparr>v_meta = ref_array_get 1 (\<lambda>_. zero_meta), v_device = ref_array_get 16 (\<lambda>_. zero_device),
     v_pid = Map.empty, v_piddev = Map.empty\<rparr>"

lemma demo_bview: "bview ref_kernel demo_bridge demo_machine = Some demo_view"
  by (simp add: bview_Some_iff demo_bridge_def demo_fds_def demo_machine_def demo_view_def)

definition demo_device :: DeviceSnapshot where
  "demo_device = zero_snapshot\<lparr>ds_TimestampNs := 7, ds_SmUtilPct := 40\<rparr>"

definition demo_samples :: "ProcessSample list" where
  "demo_samples =
     [zero_sample\<lparr>ps_Pid := 42, ps_TimestampNs := 7, ps_UsedGpuMemory := 100, ps_SmUtilPct := 30\<rparr>,
      zero_sample\<lparr>ps_Pid := 43, ps_TimestampNs := 7, ps_UsedGpuMemory := 200, ps_SmUtilPct := 10\<rparr>]"

definition demo_source :: "unit nvml_poller" where
  "demo_source = \<lparr>np_Init = (\<lambda>s. (None, s)), np_Devices = (\<lambda>s. (([demo_device], None), s)),
     np_ProcessSamples = (\<lambda>s t. ((demo_samples, None), s)), np_Close = (\<lambda>s. (None, s))\<rparr>"

definition demo_poller :: "unit poller" where
  "demo_poller = \<lparr>pl_interval = 100000000, pl_source = demo_source, pl_bridge = demo_bridge,
     pl_logger = 0, pl_helper = 99, pl_lastSeen = []\<rparr>"

definition demo_world :: "(ref_world, unit) world" where
  "demo_world = \<lparr>wd_kern = demo_machine, wd_src = (), wd_log = []\<rparr>"

definition demo_orders :: range_orders where
  "demo_orders = \<lparr>ro_seen = rev, ro_dev = (\<lambda>xs. xs), ro_pid = rev\<rparr>"

lemma demo_orders_ok: "orders_ok demo_orders"
  by (simp add: orders_ok_def demo_orders_def is_range_id)

lemma demo_wview: "wview ref_kernel demo_bridge demo_world = Some demo_view"
  by (simp add: wview_def demo_world_def demo_bview)

lemma demo_poller_simps [simp]:
  "pl_source demo_poller = demo_source" "pl_bridge demo_poller = demo_bridge"
  "pl_lastSeen demo_poller = []" "pl_helper demo_poller = 99"
  "np_Devices demo_source s = (([demo_device], None), s)"
  "np_ProcessSamples demo_source s t = ((demo_samples, None), s)"
  "np_Init demo_source s = (None, s)"
  by (simp_all add: demo_poller_def demo_source_def)

lemma demo_view_ok: "view_ok 99 demo_view"
  by (auto simp: view_ok_def demo_view_def ref_array_get_def zero_meta_def)

lemma demo_open_ok: "open_ok ref_kernel demo_bridge 99 (k_fs ref_kernel demo_machine) demo_world"
  using demo_wview demo_view_ok by (auto simp: open_ok_def demo_world_def)

text \<open>The tick of the demo, with its outcome left symbolic.\<close>

definition demo_after :: "goerr option \<times> unit poller \<times> (ref_world, unit) world" where
  "demo_after = tick ref_kernel demo_orders 5 demo_poller demo_world"

lemma demo_tick:
  "tick ref_kernel demo_orders 5 demo_poller demo_world =
     (fst demo_after, fst (snd demo_after), snd (snd demo_after))"
  by (simp add: demo_after_def)

lemma demo_agg: "aggregate_samples demo_samples =
  [((42, 0), \<lparr>a_ts = 7, a_usedMem = 100, a_smMax = 30, a_memMax = 0, a_encMax = 0, a_decMax = 0, a_migInst = 0\<rparr>),
   ((43, 0), \<lparr>a_ts = 7, a_usedMem = 200, a_smMax = 10, a_memMax = 0, a_encMax = 0, a_decMax = 0, a_migInst = 0\<rparr>)]"
  by (simp add: aggregate_samples_def demo_samples_def sample_step_def merge_sample_def new_perDevAgg_def
      zero_sample_def)

lemma demo_no_warnings: "warnings (snd (snd demo_after)) = warnings demo_world"
  by (simp add: demo_after_def tick_def Let_def fold_detail_step demo_orders_def demo_agg agg_step_def
      merge_dev_def new_aggBuilder_def write_device_def write_detail_def write_pid_def write_meta_def
      UpdateDevice_def UpdatePerPid_def UpdatePerPidPerDevice_def UpdateMeta_def ref_array_ops_def
      ref_lru_ops_def ref_get_def demo_world_def demo_machine_def demo_bridge_def demo_fds_def
      demo_device_def zero_snapshot_def warnings_def)

text \<open>The maps after that tick have the records of pid 42.\<close>

lemma demo_after_entries:
  "\<exists>v'. wview ref_kernel demo_bridge (snd (snd demo_after)) = Some v' \<and>
     v_pid v' 42 \<noteq> None \<and> v_piddev v' (PerPidPerDeviceKey 42 0) \<noteq> None"
  by (simp add: demo_after_def tick_def Let_def fold_detail_step demo_orders_def demo_agg agg_step_def
      merge_dev_def new_aggBuilder_def write_device_def write_detail_def write_pid_def write_meta_def
      UpdateDevice_def UpdatePerPid_def UpdatePerPidPerDevice_def UpdateMeta_def ref_array_ops_def
      ref_lru_ops_def ref_get_def demo_world_def demo_machine_def demo_bridge_def demo_fds_def
      demo_device_def zero_snapshot_def wview_def bview_def PerPidPerDeviceKey_def
      lru_put_def)

lemma demo_run:
  "\<exists>r p' wd'. Run ref_kernel demo_orders 5 [TickerC demo_orders 6, CtxDone] demo_poller demo_world
     = Some (r, p', wd')"
  using Run_stops [of ref_kernel demo_orders 5 "[TickerC demo_orders 6, CtxDone]" demo_poller demo_world]
  by auto

end
