(* ===== verification/PollerLive.thy ===== *)
theory PollerLive
  imports PollerRun
begin

text \<open>
  The loop that is never cancelled: an infinite sequence of states, one tick after the other. What the
  metadata entry shows at any time, and that it becomes and stays fresh when the backend keeps answering.
\<close>

section \<open>Endless runs\<close>

text \<open>State \<open>i + 1\<close> is reached from state \<open>i\<close> by a tick at the time \<open>clk i\<close>.\<close>

definition endless :: "'w kernel \<Rightarrow> (nat \<Rightarrow> int) \<Rightarrow> (nat \<Rightarrow> ('w, 's) loop_state) \<Rightarrow> bool" where
  "endless K clk tr \<longleftrightarrow> (\<forall>i. \<exists>ro. orders_ok ro \<and> loop_step K (tr i) (TickerC ro (clk i)) (tr (Suc i)))"

text \<open>The backend answers the query for its devices in this state.\<close>

definition answers :: "('w, 's) loop_state \<Rightarrow> bool" where
  "answers s \<longleftrightarrow> (\<exists>devs src1. np_Devices (pl_source (fst s)) (wd_src (snd s)) = ((devs, None), src1))"

definition meta_of :: "'w kernel \<Rightarrow> ('w, 's) loop_state \<Rightarrow> gpu_meta option" where
  "meta_of K s = (case wview K (pl_bridge (fst s)) (snd s) of None \<Rightarrow> None | Some v \<Rightarrow> v_meta v 0)"

lemma endless_tick:
  assumes "endless K clk tr"
  obtains ro r p' wd' where "orders_ok ro" and "tick K ro (clk i) (fst (tr i)) (snd (tr i)) = (r, p', wd')"
    and "tr (Suc i) = (p', logged ''tick failed'' r wd')"
proof -
  from assms obtain ro where ro: "orders_ok ro" and "loop_step K (tr i) (TickerC ro (clk i)) (tr (Suc i))"
    unfolding endless_def by blast
  from this(2) show thesis
  proof cases
    case (ticker p wd r p' wd')
    then show thesis by (intro that [OF ro, of r p' wd']) simp_all
  qed
qed

lemma endless_config:
  assumes "endless K clk tr"
  shows "pl_bridge (fst (tr i)) = pl_bridge (fst (tr 0)) \<and> pl_helper (fst (tr i)) = pl_helper (fst (tr 0))"
proof (induction i)
  case (Suc i)
  obtain ro r p' wd' where "orders_ok ro" and tk: "tick K ro (clk i) (fst (tr i)) (snd (tr i)) = (r, p', wd')"
    and t: "tr (Suc i) = (p', logged ''tick failed'' r wd')" using endless_tick [OF assms] by blast
  from tick_fields [OF tk] have "pl_bridge p' = pl_bridge (fst (tr i)) \<and> pl_helper p' = pl_helper (fst (tr i))"
    by simp
  with Suc t show ?case by simp
qed simp

context bpf_kernel
begin

lemma endless_open_ok:
  assumes e: "endless K clk tr" and ok: "open_ok K (pl_bridge (fst (tr 0))) (pl_helper (fst (tr 0))) fs (snd (tr 0))"
  shows "open_ok K (pl_bridge (fst (tr i))) (pl_helper (fst (tr i))) fs (snd (tr i))"
proof (induction i)
  case 0
  show ?case by (rule ok)
next
  case (Suc i)
  obtain ro r p' wd' where ro: "orders_ok ro" and t: "tick K ro (clk i) (fst (tr i)) (snd (tr i)) = (r, p', wd')"
    and s: "tr (Suc i) = (p', logged ''tick failed'' r wd')" using endless_tick [OF e] by blast
  from tick_open_ok [OF t ro Suc] tick_fields [OF t] s show ?case by simp
qed

text \<open>A tick replaces the metadata when the backend answers and leaves it alone otherwise.\<close>

lemma endless_meta:
  assumes e: "endless K clk tr" and ok: "open_ok K (pl_bridge (fst (tr 0))) (pl_helper (fst (tr 0))) fs (snd (tr 0))"
  shows "if answers (tr i)
    then \<exists>devs. meta_of K (tr (Suc i)) = Some (meta_record devs (clk i) (pl_helper (fst (tr 0))))
    else meta_of K (tr (Suc i)) = meta_of K (tr i)"
proof -
  obtain ro r p' wd' where ro: "orders_ok ro" and t: "tick K ro (clk i) (fst (tr i)) (snd (tr i)) = (r, p', wd')"
    and s: "tr (Suc i) = (p', logged ''tick failed'' r wd')" using endless_tick [OF e] by blast
  from endless_open_ok [OF e ok, of i] obtain v where
    v: "wview K (pl_bridge (fst (tr i))) (snd (tr i)) = Some v" by (auto simp: open_ok_def)
  note b = tick_fields(2) [OF t]
  have l: "wview K b' (logged s' x w') = wview K b' w'" for b' s' x w' by (simp add: wview_def logged_def)
  from t show ?thesis
  proof (cases rule: tick_cases)
    case (fail devs err src1)
    then have "\<not> answers (tr i)" by (auto simp: answers_def)
    moreover have "wview K b' (snd (tr i)\<lparr>wd_src := src1\<rparr>) = wview K b' (snd (tr i))" for b'
      by (simp add: wview_def)
    ultimately show ?thesis using fail s b by (simp add: meta_of_def l)
  next
    case (ok devs src1 ss se src2)
    then have "answers (tr i)" by (auto simp: answers_def)
    moreover from tick_implements [OF ro ok(1,2) v t] obtain v' where
      "wview K (pl_bridge (fst (tr i))) wd' = Some v'"
      and "v_meta v' = (v_meta v)(0 := Some (meta_record devs (clk i) (pl_helper (fst (tr i)))))"
      by (auto simp: tick_result_def)
    ultimately show ?thesis using s b endless_config [OF e, of i] by (auto simp: meta_of_def l)
  qed
qed

text \<open>After the first answer, the metadata is that of the latest tick the backend answered.\<close>

lemma endless_latest:
  assumes e: "endless K clk tr" and ok: "open_ok K (pl_bridge (fst (tr 0))) (pl_helper (fst (tr 0))) fs (snd (tr 0))"
    and a: "answers (tr i)" and k: "i < k"
  shows "\<exists>j devs. i \<le> j \<and> j < k \<and> answers (tr j) \<and> (\<forall>m. j < m \<longrightarrow> m < k \<longrightarrow> \<not> answers (tr m)) \<and>
    meta_of K (tr k) = Some (meta_record devs (clk j) (pl_helper (fst (tr 0))))"
  using k
proof (induction k)
  case (Suc k)
  show ?case
  proof (cases "answers (tr k)")
    case True
    with endless_meta [OF e ok, of k] Suc.prems show ?thesis by (intro exI [of _ k]) auto
  next
    case False
    with Suc.prems a have "i < k" by (metis less_SucE)
    with Suc.IH obtain j devs where "i \<le> j" "j < k" "answers (tr j)" "\<forall>m. j < m \<longrightarrow> m < k \<longrightarrow> \<not> answers (tr m)"
      "meta_of K (tr k) = Some (meta_record devs (clk j) (pl_helper (fst (tr 0))))" by blast
    with False endless_meta [OF e ok, of k] show ?thesis
      by (intro exI [of _ j] exI [of _ devs]) (auto simp: less_Suc_eq)
  qed
qed simp

text \<open>With a clock that does not go back, the metadata passes every time the clock reaches and stays there.\<close>

lemma endless_fresh:
  assumes e: "endless K clk tr" and ok: "open_ok K (pl_bridge (fst (tr 0))) (pl_helper (fst (tr 0))) fs (snd (tr 0))"
    and fair: "\<And>i. \<exists>j \<ge> i. answers (tr j)" and clk: "mono clk" "\<And>i. 0 \<le> clk i \<and> clk i < 2 ^ 64"
    and T: "T \<le> clk i0"
  shows "\<exists>n. \<forall>k \<ge> n. \<exists>m. meta_of K (tr k) = Some m \<and> T \<le> uint (last_update_ns m)"
proof -
  from fair obtain i where i: "i0 \<le> i" "answers (tr i)" by blast
  have "\<exists>m. meta_of K (tr k) = Some m \<and> T \<le> uint (last_update_ns m)" if "Suc i \<le> k" for k
  proof -
    from endless_latest [OF e ok i(2), of k] that obtain j devs where "i \<le> j"
      and m: "meta_of K (tr k) = Some (meta_record devs (clk j) (pl_helper (fst (tr 0))))" by auto
    with i T monoD [OF clk(1), of i0 j] have "T \<le> clk j" by linarith
    moreover have "uint (word_of_int (clk j) :: u64) = clk j"
      using clk(2) [of j] by (simp add: uint_word_of_int)
    ultimately show ?thesis using m by (simp add: meta_record_def)
  qed
  then show ?thesis by blast
qed

end

end
