(* ===== verification/PollerOrigin.thy ===== *)
theory PollerOrigin
  imports PollerRun
begin

text \<open>
  Where the per-pid records in the maps come from. \<open>Run_reports\<close> collects the samples the backend
  reported in each tick of a run; the lemmas show that a record in the maps after the run is one that
  was there before it or the one specified for the samples of one of its ticks.
\<close>

section \<open>The samples of a run\<close>

text \<open>What the backend reports in a tick: one list of samples, or none when the query for the devices fails.\<close>

definition tick_reports :: "range_orders \<Rightarrow> 's poller \<Rightarrow> ('w, 's) world \<Rightarrow> ProcessSample list list" where
  "tick_reports ro p wd =
     (case np_Devices (pl_source p) (wd_src wd) of
        ((devs, Some e), src1) \<Rightarrow> []
      | ((devs, None), src1) \<Rightarrow>
          [fst (fst (np_ProcessSamples (pl_source p) src1 (minLastSeen (ro_seen ro) (pl_lastSeen p))))])"

fun loop_reports :: "'w kernel \<Rightarrow> select list \<Rightarrow> 's poller \<Rightarrow> ('w, 's) world \<Rightarrow> ProcessSample list list" where
  "loop_reports K [] p wd = []"
| "loop_reports K (CtxDone # evs) p wd = []"
| "loop_reports K (TickerC ro now # evs) p wd =
     tick_reports ro p wd @
     (case tick K ro now p wd of (r, p', wd') \<Rightarrow> loop_reports K evs p' (logged ''tick failed'' r wd'))"

definition Run_reports ::
  "'w kernel \<Rightarrow> range_orders \<Rightarrow> int \<Rightarrow> select list \<Rightarrow> 's poller \<Rightarrow> ('w, 's) world \<Rightarrow> ProcessSample list list" where
  "Run_reports K ro now evs p wd =
     (case np_Init (pl_source p) (wd_src wd) of
        (Some e, src') \<Rightarrow> []
      | (None, src') \<Rightarrow>
          let wd0 = wd\<lparr>wd_src := src', wd_log := wd_log wd @ [EvInit None]\<rparr>
          in tick_reports ro p wd0 @
             (case tick K ro now p wd0 of
                (r, p1, wd1) \<Rightarrow> loop_reports K evs p1 (logged ''initial tick failed'' r wd1)))"

section \<open>Records and their origin\<close>

text \<open>Every record of \<open>v'\<close> is in \<open>v\<close> or is the one specified for one of the batches of samples \<open>sss\<close>.\<close>

definition derives :: "ProcessSample list list \<Rightarrow> bridge_view \<Rightarrow> bridge_view \<Rightarrow> bool" where
  "derives sss v v' \<longleftrightarrow>
     (\<forall>q d r. v_piddev v' (PerPidPerDeviceKey q d) = Some r \<longrightarrow>
        v_piddev v (PerPidPerDeviceKey q d) = Some r \<or> (\<exists>ss \<in> set sss. spec_detail ss q d = Some r)) \<and>
     (\<forall>q r. v_pid v' q = Some r \<longrightarrow> (\<forall>ss \<in> set sss. card (device_bytes ss q) < 256) \<longrightarrow>
        v_pid v q = Some r \<or> (\<exists>ss \<in> set sss. spec_aggregated ss q = Some r))"

lemma derives_refl [simp]: "derives [] v v"
  by (simp add: derives_def)

lemma derives_trans: "derives xs u v \<Longrightarrow> derives ys v w \<Longrightarrow> derives (xs @ ys) u w"
  unfolding derives_def by (simp add: ball_Un bex_Un) blast

lemma tick_result_derives:
  assumes "tick_result lossy devs ss m v v'"
  shows "derives [ss] v v'"
proof -
  have "v_piddev v (PerPidPerDeviceKey q d) = Some r \<or> spec_detail ss q d = Some r"
    if "v_piddev v' (PerPidPerDeviceKey q d) = Some r" for q d r
    using tick_result_entries(1) [OF assms, of q d] that by auto
  moreover have "v_pid v q = Some r \<or> spec_aggregated ss q = Some r"
    if "v_pid v' q = Some r" "card (device_bytes ss q) < 256" for q r
    using tick_result_entries(2) [OF assms that(2)] that(1) by auto
  ultimately show ?thesis by (simp add: derives_def)
qed

lemma wview_logged [simp]: "wview K b (logged s r wd) = wview K b wd"
  by (simp add: wview_def logged_def)

context bpf_kernel
begin

lemma tick_derives:
  assumes t: "tick K ro now p wd = (r, p', wd')" and ro: "orders_ok ro"
    and v: "wview K (pl_bridge p) wd = Some v"
  shows "\<exists>v'. wview K (pl_bridge p') wd' = Some v' \<and> derives (tick_reports ro p wd) v v'"
  using t
proof (cases rule: tick_cases)
  case (fail devs e src1)
  then show ?thesis using v by (simp add: tick_reports_def)
next
  case (ok devs src1 ss se src2)
  from tick_implements [OF ro ok(1,2) v t] tick_result_derives ok(1,2) tick_fields(2) [OF t]
  show ?thesis by (fastforce simp: tick_reports_def)
qed

lemma run_loop_derives:
  assumes "run_loop K evs p wd = Some (p', wd')" and "list_all ev_ok evs"
    and "wview K (pl_bridge p) wd = Some v"
  shows "\<exists>v'. wview K (pl_bridge p') wd' = Some v' \<and> derives (loop_reports K evs p wd) v v'"
  using assms
proof (induction evs arbitrary: p wd v)
  case Nil
  then show ?case by simp
next
  case (Cons e evs)
  show ?case
  proof (cases e)
    case CtxDone
    with Cons.prems show ?thesis by simp
  next
    case (TickerC ro now)
    obtain r p1 wd1 where t: "tick K ro now p wd = (r, p1, wd1)" by (metis prod.exhaust)
    from tick_derives [OF t _ Cons.prems(3)] Cons.prems(2) TickerC obtain v1 where
      v1: "wview K (pl_bridge p1) wd1 = Some v1" "derives (tick_reports ro p wd) v v1" by auto
    from Cons.IH [of p1 "logged ''tick failed'' r wd1" v1] Cons.prems v1(1) t TickerC obtain v' where
      "wview K (pl_bridge p') wd' = Some v'"
      "derives (loop_reports K evs p1 (logged ''tick failed'' r wd1)) v1 v'" by auto
    with derives_trans [OF v1(2)] t TickerC show ?thesis by auto
  qed
qed

lemma Run_derives:
  assumes run: "Run K ro now evs p wd = Some (r, p', wd')"
    and ro: "orders_ok ro" "list_all ev_ok evs" and v: "wview K (pl_bridge p) wd = Some v"
  shows "\<exists>v'. wview K (pl_bridge p') wd' = Some v' \<and> derives (Run_reports K ro now evs p wd) v v'"
proof (cases "np_Init (pl_source p) (wd_src wd)")
  case (Pair i src')
  show ?thesis
  proof (cases i)
    case (Some e)
    with Pair run v show ?thesis by (auto simp: Run_def Run_reports_def)
  next
    case None
    let ?w0 = "wd\<lparr>wd_src := src', wd_log := wd_log wd @ [EvInit None]\<rparr>"
    obtain r1 p1 wd1 where t: "tick K ro now p ?w0 = (r1, p1, wd1)" by (metis prod.exhaust)
    from run Pair None t obtain p2 wd2 where
      l: "run_loop K evs p1 (logged ''initial tick failed'' r1 wd1) = Some (p2, wd2)" and
      res: "p' = p2" "wd' = wd2\<lparr>wd_src := snd (np_Close (pl_source p) (wd_src wd2)),
        wd_log := wd_log wd2 @ [EvClose]\<rparr>"
      by (auto simp: Run_def split: option.splits)
    from tick_derives [OF t ro(1)] v obtain v1 where
      v1: "wview K (pl_bridge p1) wd1 = Some v1" "derives (tick_reports ro p ?w0) v v1" by auto
    from run_loop_derives [OF l ro(2)] v1(1) obtain v' where
      "wview K (pl_bridge p2) wd2 = Some v'"
      "derives (loop_reports K evs p1 (logged ''initial tick failed'' r1 wd1)) v1 v'" by auto
    with derives_trans [OF v1(2)] Pair None t res show ?thesis by (auto simp: Run_reports_def)
  qed
qed

end

end
