(* ===== verification/PollerProps.thy ===== *)
theory PollerProps
  imports Demo PollerLive PollerOrigin
begin

text \<open>The properties of the main loop (\<open>internal/poller/poller.go\<close>), with their witnesses.\<close>

section \<open>One tick\<close>

text \<open>C1: A tick whose device query succeeds and in which nothing fails returns \<open>nil\<close> and leaves the four
  maps as specified: the metadata of this tick at index 0, every reported device in its slot, and for
  every (pid, device) and every pid the record computed from the samples of the tick, unless the
  kernel evicted it. Entries the tick computed nothing for keep their value or are evicted; the pins
  do not change.\<close>

theorem tick_publishes:
  assumes "bpf_kernel K" and "orders_ok ro"
    and "np_Devices (pl_source p) (wd_src wd0) = ((devs, None), src1)"
    and "np_ProcessSamples (pl_source p) src1 (minLastSeen (ro_seen ro) (pl_lastSeen p)) = ((ss, se), src2)"
    and "wview K (pl_bridge p) wd0 = Some v"
    and "tick K ro now p wd0 = (r, p', wd')"
    and "warnings wd' = warnings wd0"
  shows "r = None \<and> k_fs K (wd_kern wd') = k_fs K (wd_kern wd0) \<and>
    (\<exists>v'. wview K (pl_bridge p) wd' = Some v' \<and>
       tick_result False devs ss (meta_record devs now (pl_helper p)) v v')"
  using bpf_kernel.tick_implements [OF assms(1-6)] assms(7) by simp

theorem tick_publishes_witness:
  "\<exists>v'. wview ref_kernel demo_bridge (snd (snd demo_after)) = Some v' \<and>
     tick_result False [demo_device] demo_samples (meta_record [demo_device] 5 99) demo_view v'"
  using tick_publishes [OF refk.bpf_kernel_axioms demo_orders_ok _ _ _ demo_tick demo_no_warnings,
      of "[demo_device]" "()" demo_samples None "()" demo_view] demo_wview
  by simp

text \<open>C5: Failures are contained. Whatever updates fail in a tick whose device query succeeds, the tick
  still publishes the metadata and every device that has a slot, and an entry of a per-pid map is
  the old one, the one computed for its key from the samples of the tick, or evicted; never
  anything else. Pins and other maps are not touched.\<close>

theorem tick_contains_failures:
  assumes "bpf_kernel K" and "orders_ok ro"
    and "np_Devices (pl_source p) (wd_src wd0) = ((devs, None), src1)"
    and "np_ProcessSamples (pl_source p) src1 (minLastSeen (ro_seen ro) (pl_lastSeen p)) = ((ss, se), src2)"
    and "wview K (pl_bridge p) wd0 = Some v"
    and "tick K ro now p wd0 = (r, p', wd')"
  shows "r = None \<and> k_fs K (wd_kern wd') = k_fs K (wd_kern wd0) \<and>
    (\<exists>v' lossy. wview K (pl_bridge p) wd' = Some v' \<and>
       tick_result lossy devs ss (meta_record devs now (pl_helper p)) v v')"
  using bpf_kernel.tick_implements [OF assms] by blast

theorem tick_contains_failures_witness:
  "fst demo_after = None \<and>
   (\<exists>v' lossy. wview ref_kernel demo_bridge (snd (snd demo_after)) = Some v' \<and>
     tick_result lossy [demo_device] demo_samples (meta_record [demo_device] 5 99) demo_view v')"
  using tick_contains_failures [OF refk.bpf_kernel_axioms demo_orders_ok _ _ _ demo_tick,
      of "[demo_device]" "()" demo_samples None "()" demo_view] demo_wview
  by simp

text \<open>C23: The order of the calls of a tick is fixed: every device in the order of the query, then one
  detail update per (pid, device), then one aggregated update per pid, and the metadata last; no
  failed update is retried and none stops the rest.\<close>

theorem tick_call_order:
  assumes "np_Devices (pl_source p) (wd_src wd0) = ((devs, None), src1)"
    and "np_ProcessSamples (pl_source p) src1 (minLastSeen (ro_seen ro) (pl_lastSeen p)) = ((ss, se), src2)"
    and "tick K ro now p wd0 = (r, p', wd')"
  shows "calls wd' = calls wd0 @ map device_call devs @
    map detail_call (ro_dev ro (aggregate_samples ss)) @
    map pid_call (ro_pid ro (fold agg_step (ro_dev ro (aggregate_samples ss)) [])) @
    [EvMeta (meta_record devs now (pl_helper p)) None]"
  using tick_calls_eq(1) [OF assms] by (simp add: tick_calls_def Let_def)

theorem tick_call_order_witness:
  "last (calls (snd (snd demo_after))) = EvMeta (meta_record [demo_device] 5 99) None \<and>
   hd (calls (snd (snd demo_after))) = device_call demo_device"
  using tick_call_order [OF _ _ demo_tick, of "[demo_device]" "()" demo_samples None "()"]
  by (simp add: calls_def demo_world_def)

section \<open>Aggregation\<close>

text \<open>C4: The loop over the samples computes, for every pid and device, exactly the specified detail
  record: absent for pid 0 and for pairs without a sample, else the maximum of every column over the
  samples of the pair, with the MIG instance of its first sample.\<close>

theorem detail_is_spec:
  "map_option (detail_record (p, d)) (map_of (aggregate_samples ss) (p, d)) = spec_detail ss p d"
  by (rule aggregate_detail)

text \<open>C3: The per-pid loop computes the specified aggregated record whatever the order in which Go
  ranges over the map of pairs: the memory summed over the devices, the maxima over all samples of
  the pid, the number of devices, and the primary device, 255 when there are several. The pid must
  use fewer than 256 distinct device bytes, because the count is a \<open>uint8\<close>.\<close>

theorem aggregated_is_spec:
  assumes "is_range f" and "card (device_bytes ss q) < 256"
  shows "map_option agg_record (map_of (fold agg_step (f (aggregate_samples ss)) []) q) = spec_aggregated ss q"
  using agg_record_spec [OF assms] agg_step_zero [OF assms(1)]
  by (cases "q = 0") (auto simp: spec_aggregated_def Let_def)

theorem aggregated_is_spec_witness:
  "map_option agg_record (map_of (fold agg_step (rev (aggregate_samples demo_samples)) []) 42)
     = spec_aggregated demo_samples 42"
proof -
  have "device_bytes demo_samples 42 = {0}"
    by (simp add: device_bytes_def devices_of_def samples_of_def demo_samples_def zero_sample_def)
  then show ?thesis using aggregated_is_spec [OF is_range_rev, of demo_samples 42] by simp
qed

lemma spec_aggregated_mset:
  assumes "mset ss = mset ts"
  shows "spec_aggregated ss q = spec_aggregated ts q"
proof -
  let ?xs = "samples_of ss q" and ?ys = "samples_of ts q"
  have xs: "mset ?xs = mset ?ys" using assms by (simp add: samples_of_def)
  then have sets: "set ?xs = set ?ys" and nil: "?xs = [] \<longleftrightarrow> ?ys = []" by (metis set_mset_mset, auto)
  have on: "mset (samples_on ss q d) = mset (samples_on ts q d)" for d using assms by (simp add: samples_on_def)
  have "set (map ps_DeviceIndex ?xs) = set (map ps_DeviceIndex ?ys)" using sets by simp
  then have dev: "mset (devices_of ss q) = mset (devices_of ts q)"
    unfolding devices_of_def by (simp only: set_eq_iff_mset_remdups_eq [symmetric])
  then have bytes: "device_bytes ss q = device_bytes ts q"
    unfolding device_bytes_def by (metis set_mset_mset)
  have sum: "(\<Sum>d\<leftarrow>devices_of ss q. maxcol ps_UsedGpuMemory (samples_on ss q d)) =
      (\<Sum>d\<leftarrow>devices_of ts q. maxcol ps_UsedGpuMemory (samples_on ts q d))"
    using sumcol_mset [OF dev, of "\<lambda>d. maxcol ps_UsedGpuMemory (samples_on ts q d)"]
    by (simp add: sumcol_def maxcol_mset [OF on])
  have prim: "ucast (ps_DeviceIndex (hd ?xs)) = (ucast (ps_DeviceIndex (hd ?ys)) :: u8)"
    if "card (device_bytes ts q) = 1" "?xs \<noteq> []"
  proof -
    have "ucast (ps_DeviceIndex (hd ?xs)) \<in> device_bytes ss q" "ucast (ps_DeviceIndex (hd ?ys)) \<in> device_bytes ts q"
      using that(2) nil by (auto simp: device_bytes_def devices_of_def)
    with that(1) bytes show ?thesis by (auto simp: card_1_singleton_iff)
  qed
  show ?thesis
    using nil sum prim bytes by (auto simp: spec_aggregated_def Let_def maxcol_mset [OF xs])
qed

text \<open>C32: A defect of the \<open>uint8\<close> device count: a pid seen on devices of all 256 device bytes is published
  with a device count of 1, whatever the order in which Go ranges over the map of pairs, and with a
  single primary device instead of 255; which one it is is up to that order, and every device byte can
  be the one.\<close>

theorem device_count_wraps:
  assumes "q \<noteq> 0" and "card (device_bytes ss q) = 256"
  shows "(\<forall>f. is_range f \<longrightarrow>
      map_option (pa_device_count \<circ> agg_record) (map_of (fold agg_step (f (aggregate_samples ss)) []) q) = Some 1) \<and>
    (\<exists>f. is_range f \<and>
      map_option (pa_gpu_device_primary \<circ> agg_record) (map_of (fold agg_step (f (aggregate_samples ss)) []) q) = Some d)"
proof -
  have "d \<in> device_bytes ss q"
    using assms(2) card_subset_eq [of "UNIV :: u8 set" "device_bytes ss q"] by (simp add: card_word)
  then obtain dev where dev: "dev \<in> set (devices_of ss q)" and d: "d = ucast dev"
    by (auto simp: device_bytes_def)
  have "dev \<in> (\<lambda>e. snd (fst e)) ` set (entries_of (\<lambda>xs. xs) ss q)"
    using dev entries_devices [OF is_range_id assms(1), of ss] by simp
  then obtain e where e: "e \<in> set (entries_of (\<lambda>xs. xs) ss q)" "snd (fst e) = dev" by blast
  then have "hd (entries_of (first_of e) ss q) = e"
    by (auto simp: entries_of_def first_of_def)
  with agg_record_wraps [OF is_range_first_of assms, of e] e d is_range_first_of show ?thesis
    using agg_record_wraps [OF _ assms] by (force simp: option.map_comp)
qed

definition everywhere :: "ProcessSample list" where
  "everywhere = map (\<lambda>n. zero_sample\<lparr>ps_Pid := 42, ps_DeviceIndex := of_nat n\<rparr>) [0..<256]"

theorem device_count_wraps_witness:
  "\<exists>f. is_range f \<and>
     map_option (pa_gpu_device_primary \<circ> agg_record) (map_of (fold agg_step (f (aggregate_samples everywhere)) []) 42)
       = Some 17"
proof -
  have "devices_of everywhere 42 = remdups (map of_nat [0..<256])"
    by (simp add: devices_of_def samples_of_def everywhere_def comp_def)
  then have "device_bytes everywhere 42 = (\<lambda>n. ucast (of_nat n :: u32) :: u8) ` {0..<256}"
    by (simp add: device_bytes_def image_image)
  also have "\<dots> = of_nat ` {0..<256}"
    by (simp add: unsigned_of_nat take_bit_nat_eq_self image_def)
  also have "\<dots> = UNIV" using UNIV_word_eq_word_of_nat [where ?'a = 8] by (simp add: atLeast0LessThan)
  finally have "card (device_bytes everywhere 42) = 256" by (simp add: card_word)
  from device_count_wraps [OF _ this, of 17] show ?thesis by simp
qed

text \<open>C7: The two per-pid maps agree: after a tick in which nothing fails, the record of a pid with samples
  summarises the records of its (pid, device) pairs, as long as the kernel evicted none of them: the
  newest time stamp, the sum of the memory, the largest utilisations, the number of different device
  bytes, and that byte as the primary device when there is only one, 255 otherwise.\<close>

theorem maps_agree:
  assumes "bpf_kernel K" and "orders_ok ro"
    and "np_Devices (pl_source p) (wd_src wd0) = ((devs, None), src1)"
    and "np_ProcessSamples (pl_source p) src1 (minLastSeen (ro_seen ro) (pl_lastSeen p)) = ((ss, se), src2)"
    and "wview K (pl_bridge p) wd0 = Some v"
    and "tick K ro now p wd0 = (res, p', wd')"
    and "warnings wd' = warnings wd0" and "wview K (pl_bridge p) wd' = Some v'"
    and "q \<noteq> 0" and "samples_of ss q \<noteq> []" and "card (device_bytes ss q) < 256"
    and "v_pid v' q = Some r"
    and "\<And>d. d \<in> set (devices_of ss q) \<Longrightarrow> v_piddev v' (PerPidPerDeviceKey q d) \<noteq> None"
  shows "summary_of r (map (\<lambda>d. the (v_piddev v' (PerPidPerDeviceKey q d))) (devices_of ss q))"
proof -
  from bpf_kernel.tick_implements [OF assms(1-6)] assms(7,8)
  have "tick_result False devs ss (meta_record devs now (pl_helper p)) v v'" by auto
  from tick_result_agree [OF this assms(9-13)] show ?thesis .
qed

lemma demo_bytes: "samples_of demo_samples 42 \<noteq> []" "devices_of demo_samples 42 = [0]"
  "device_bytes demo_samples 42 = {0}"
  by (simp_all add: device_bytes_def devices_of_def samples_of_def demo_samples_def zero_sample_def)

theorem maps_agree_witness:
  "\<exists>v' r x. wview ref_kernel demo_bridge (snd (snd demo_after)) = Some v' \<and>
     v_pid v' 42 = Some r \<and> v_piddev v' (PerPidPerDeviceKey 42 0) = Some x \<and> summary_of r [x]"
proof -
  from demo_after_entries obtain v' r x where
    v': "wview ref_kernel demo_bridge (snd (snd demo_after)) = Some v'"
    and r: "v_pid v' 42 = Some r" and x: "v_piddev v' (PerPidPerDeviceKey 42 0) = Some x" by auto
  have "summary_of r (map (\<lambda>d. the (v_piddev v' (PerPidPerDeviceKey 42 d))) (devices_of demo_samples 42))"
    by (rule maps_agree [OF refk.bpf_kernel_axioms demo_orders_ok _ _ _ demo_tick demo_no_warnings])
      (use v' r x demo_wview in \<open>simp_all add: demo_bytes demo_world_def\<close>)
  with v' r x show ?thesis by (simp add: demo_bytes)
qed

text \<open>Two ticks that see the same samples publish the same per-pid records, in whatever order the
  runtime visits its maps and in whatever order the backend lists the samples.\<close>

lemma aggregated_order_free:
  assumes "is_range f" and "is_range g" and "mset ss = mset ts" and "card (device_bytes ss q) < 256"
  shows "map_option agg_record (map_of (fold agg_step (f (aggregate_samples ss)) []) q) =
    map_option agg_record (map_of (fold agg_step (g (aggregate_samples ts)) []) q)"
proof -
  have "device_bytes ts q = device_bytes ss q"
    using mset_eq_setD [OF assms(3)] by (auto simp: device_bytes_def devices_of_def samples_of_def)
  with assms(4) have "card (device_bytes ts q) < 256" by simp
  note a = agg_record_spec [OF assms(1,4)] agg_record_spec [OF assms(2) this]
  show ?thesis
  proof (cases "q = 0")
    case True
    with agg_step_zero [OF assms(1), of ss] agg_step_zero [OF assms(2), of ts] show ?thesis by simp
  next
    case False
    with a spec_aggregated_mset [OF assms(3)] show ?thesis by simp
  qed
qed

lemma aggregated_order_free_witness:
  "map_option agg_record (map_of (fold agg_step (rev (aggregate_samples demo_samples)) []) 42) =
   map_option agg_record (map_of (fold agg_step (aggregate_samples (rev demo_samples)) []) 42)"
proof -
  have "device_bytes demo_samples 42 = {0}"
    by (simp add: device_bytes_def devices_of_def samples_of_def demo_samples_def zero_sample_def)
  then show ?thesis
    using aggregated_order_free [OF is_range_rev is_range_id, of demo_samples "rev demo_samples" 42] by simp
qed

section \<open>Watermarks\<close>

text \<open>C18: After a tick that gets its devices the watermark of every device, which decides what samples the next
  tick asks for, is the newest time stamp ever seen for it: the old watermark or the newest sample of the
  tick, whichever is later. So it never goes back, in whatever order the samples come.\<close>

theorem tick_watermark:
  assumes "tick K ro now p wd = (r, p', wd')"
    and "np_Devices (pl_source p) (wd_src wd) = ((devs, None), src1)"
    and "np_ProcessSamples (pl_source p) src1 (minLastSeen (ro_seen ro) (pl_lastSeen p)) = ((ss, se), src2)"
  shows "lookup0 (pl_lastSeen p') d = max (lookup0 (pl_lastSeen p) d)
    (maxcol ps_TimestampNs (filter (\<lambda>s. ps_DeviceIndex s = d) ss))"
  using tick_calls_eq(2) [OF assms(2,3,1)] by (simp add: advance_all_lookup)

theorem tick_watermark_witness:
  "lookup0 (pl_lastSeen (fst (snd demo_after))) 0 = 7"
  using tick_watermark [OF demo_tick, of "[demo_device]" "()" demo_samples None "()" 0]
  by (simp add: demo_samples_def zero_sample_def maxcol_Cons max_def)

section \<open>The loop\<close>

text \<open>C22: \<open>Run\<close> returns exactly when it has something to return on: after the first cancellation among the
  events it sees, or at once when the backend does not initialise. Failing ticks do not end it.\<close>

theorem Run_returns:
  "(\<exists>res. Run K ro now evs p wd = Some res) \<longleftrightarrow>
     CtxDone \<in> set evs \<or> fst (np_Init (pl_source p) (wd_src wd)) \<noteq> None"
  by (rule Run_stops)

theorem Run_returns_witness: "\<exists>res. Run ref_kernel demo_orders 5 [CtxDone] demo_poller demo_world = Some res"
  using Run_returns [of ref_kernel demo_orders 5 "[CtxDone]" demo_poller demo_world] by simp

text \<open>C20: The life cycle of the backend: \<open>Init\<close> is called first and once; if it fails, \<open>Run\<close> returns its error
  wrapped and calls nothing else; otherwise \<open>Run\<close> returns \<open>nil\<close> and \<open>Close\<close> is called once, last. The
  configuration never changes and no watermark goes back.\<close>

theorem Run_life_cycle:
  assumes "Run K ro now evs p wd = Some (r, p', wd')"
  shows "case np_Init (pl_source p) (wd_src wd) of
      (Some e, src') \<Rightarrow> r = Some (Wrapf ''nvml init'' e) \<and> p' = p \<and> wd_kern wd' = wd_kern wd \<and>
        calls wd' = calls wd @ [EvInit None]
    | (None, src') \<Rightarrow> r = None \<and> same_config p p' \<and> watermarks_grow p p' \<and>
        (\<exists>cs. calls wd' = calls wd @ EvInit None # cs @ [EvClose] \<and> list_all not_lifecycle cs)"
  by (rule Run_calls [OF assms])

theorem Run_life_cycle_witness:
  "\<exists>r p' wd'. Run ref_kernel demo_orders 5 [TickerC demo_orders 6, CtxDone] demo_poller demo_world
     = Some (r, p', wd') \<and> r = None \<and> last (calls wd') = EvClose"
proof -
  obtain r p' wd' where "Run ref_kernel demo_orders 5 [TickerC demo_orders 6, CtxDone] demo_poller demo_world
      = Some (r, p', wd')"
    using demo_run by blast
  with Run_life_cycle [OF this] show ?thesis by auto
qed

text \<open>C8: Every run, with any schedule of ticks and cancellation, keeps the bridge open, its pins in place
  and its maps well formed: the metadata is the zero entry or this helper's, no record belongs to
  pid 0, a detail record carries the device of its key, and a per-pid record has a device count of
  at least 1 and the multi-device mark whenever the count is more than 1.\<close>

theorem Run_keeps_maps:
  assumes "bpf_kernel K" and "Run K ro now evs p wd = Some (r, p', wd')"
    and "orders_ok ro" and "list_all ev_ok evs"
    and "open_ok K (pl_bridge p) (pl_helper p) fs wd"
  shows "open_ok K (pl_bridge p) (pl_helper p) fs wd'"
  by (rule bpf_kernel.Run_open_ok [OF assms])

theorem Run_keeps_maps_witness:
  "\<exists>r p' wd'. Run ref_kernel demo_orders 5 [TickerC demo_orders 6, CtxDone] demo_poller demo_world
     = Some (r, p', wd') \<and> open_ok ref_kernel demo_bridge 99 (k_fs ref_kernel demo_machine) wd'"
proof -
  obtain r p' wd' where run: "Run ref_kernel demo_orders 5 [TickerC demo_orders 6, CtxDone] demo_poller demo_world
      = Some (r, p', wd')"
    using demo_run by blast
  with Run_keeps_maps [OF refk.bpf_kernel_axioms this demo_orders_ok] demo_open_ok demo_orders_ok
  show ?thesis by simp
qed

text \<open>C9: No record appears from nowhere: after any run, a detail record in the maps was there before the run or
  is the one specified for the samples the backend reported in one of its ticks, and so is a per-pid
  record, provided no batch has the pid on all device bytes.\<close>

theorem Run_records_have_origin:
  assumes "bpf_kernel K" and "Run K ro now evs p wd = Some (res, p', wd')"
    and "orders_ok ro" and "list_all ev_ok evs" and "wview K (pl_bridge p) wd = Some v"
  shows "\<exists>v'. wview K (pl_bridge p') wd' = Some v' \<and>
    (\<forall>q d r. v_piddev v' (PerPidPerDeviceKey q d) = Some r \<longrightarrow>
       v_piddev v (PerPidPerDeviceKey q d) = Some r \<or>
       (\<exists>ss \<in> set (Run_reports K ro now evs p wd). spec_detail ss q d = Some r)) \<and>
    (\<forall>q r. v_pid v' q = Some r \<longrightarrow>
       (\<forall>ss \<in> set (Run_reports K ro now evs p wd). card (device_bytes ss q) < 256) \<longrightarrow>
       v_pid v q = Some r \<or> (\<exists>ss \<in> set (Run_reports K ro now evs p wd). spec_aggregated ss q = Some r))"
  using bpf_kernel.Run_derives [OF assms] unfolding derives_def .

theorem Run_records_have_origin_witness:
  "\<exists>res p' wd' v'. Run ref_kernel demo_orders 5 [CtxDone] demo_poller demo_world = Some (res, p', wd') \<and>
     wview ref_kernel (pl_bridge p') wd' = Some v' \<and>
     (\<forall>r. v_pid v' 42 = Some r \<longrightarrow> spec_aggregated demo_samples 42 = Some r)"
proof -
  obtain res p' wd' where run: "Run ref_kernel demo_orders 5 [CtxDone] demo_poller demo_world = Some (res, p', wd')"
    using Run_stops [of ref_kernel demo_orders 5 "[CtxDone]" demo_poller demo_world] by auto
  have rep: "Run_reports ref_kernel demo_orders 5 [CtxDone] demo_poller demo_world = [demo_samples]"
    by (simp add: Run_reports_def tick_reports_def split: prod.split)
  from Run_records_have_origin [OF refk.bpf_kernel_axioms run demo_orders_ok _, of demo_view] demo_wview
  obtain v' where v': "wview ref_kernel (pl_bridge p') wd' = Some v'"
    and o: "\<forall>q r. v_pid v' q = Some r \<longrightarrow> card (device_bytes demo_samples q) < 256 \<longrightarrow>
      v_pid demo_view q = Some r \<or> spec_aggregated demo_samples q = Some r" by (auto simp: rep)
  have "card (device_bytes demo_samples 42) < 256" and "v_pid demo_view 42 = None"
    by (simp_all add: demo_bytes demo_view_def)
  with o have "\<forall>r. v_pid v' 42 = Some r \<longrightarrow> spec_aggregated demo_samples 42 = Some r" by fastforce
  with run v' show ?thesis by blast
qed

section \<open>Runs that are not cancelled\<close>

text \<open>C10: Liveness: in a run that is never cancelled, with a backend that keeps answering and a clock that does not go
  back, the metadata entry passes every time the clock reaches and stays past it. At any time after the
  first answer it is the entry of the latest tick the backend answered: failing ticks in between leave it
  alone.\<close>

theorem metadata_becomes_and_stays_fresh:
  assumes "bpf_kernel K" and "endless K clk tr"
    and "open_ok K (pl_bridge (fst (tr 0))) (pl_helper (fst (tr 0))) fs (snd (tr 0))"
    and "\<And>i. \<exists>j \<ge> i. answers (tr j)" and "mono clk" and "\<And>i. 0 \<le> clk i \<and> clk i < 2 ^ 64"
    and "T \<le> clk i0"
  shows "(\<exists>n. \<forall>k \<ge> n. \<exists>m. meta_of K (tr k) = Some m \<and> T \<le> uint (last_update_ns m)) \<and>
    (\<forall>i k. answers (tr i) \<longrightarrow> i < k \<longrightarrow> (\<exists>j devs. i \<le> j \<and> j < k \<and> answers (tr j) \<and>
       (\<forall>m. j < m \<longrightarrow> m < k \<longrightarrow> \<not> answers (tr m)) \<and>
       meta_of K (tr k) = Some (meta_record devs (clk j) (pl_helper (fst (tr 0))))))"
  using bpf_kernel.endless_fresh [OF assms] bpf_kernel.endless_latest [OF assms(1-3)] by blast

text \<open>The endless run of the demo with the clock \<open>clk\<close>.\<close>

primrec demo_trace :: "(nat \<Rightarrow> int) \<Rightarrow> nat \<Rightarrow> (ref_world, unit) loop_state" where
  "demo_trace clk 0 = (demo_poller, demo_world)"
| "demo_trace clk (Suc i) =
     (case tick ref_kernel demo_orders (clk i) (fst (demo_trace clk i)) (snd (demo_trace clk i)) of
        (r, p', wd') \<Rightarrow> (p', logged ''tick failed'' r wd'))"

lemma demo_endless: "endless ref_kernel clk (demo_trace clk)"
  unfolding endless_def
proof
  fix i
  obtain p wd where s: "demo_trace clk i = (p, wd)" by fastforce
  obtain r p' wd' where "tick ref_kernel demo_orders (clk i) p wd = (r, p', wd')" by (metis prod.exhaust)
  with s demo_orders_ok show "\<exists>ro. orders_ok ro \<and>
      loop_step ref_kernel (demo_trace clk i) (TickerC ro (clk i)) (demo_trace clk (Suc i))"
    by (intro exI [of _ demo_orders]) (simp add: loop_step_ticker)
qed

lemma demo_answers: "answers (demo_trace clk i)"
proof -
  have "pl_source (fst (demo_trace clk i)) = demo_source"
  proof (induction i)
    case (Suc i)
    obtain r p' wd' where "tick ref_kernel demo_orders (clk i) (fst (demo_trace clk i)) (snd (demo_trace clk i)) =
        (r, p', wd')" by (metis prod.exhaust)
    with Suc tick_fields(1) [OF this] show ?case by simp
  qed simp
  then show ?thesis by (simp add: answers_def)
qed

lemma demo_trace_open_ok: "open_ok ref_kernel (pl_bridge (fst (demo_trace clk 0)))
    (pl_helper (fst (demo_trace clk 0))) (k_fs ref_kernel demo_machine) (snd (demo_trace clk 0))"
  using demo_open_ok by simp

theorem metadata_becomes_and_stays_fresh_witness:
  "\<exists>n. \<forall>k \<ge> n. \<exists>m. meta_of ref_kernel (demo_trace (\<lambda>i. min (int i) 100) k) = Some m \<and>
     50 \<le> uint (last_update_ns m)"
proof -
  let ?clk = "\<lambda>i. min (int i) 100"
  have "mono ?clk" by (auto simp: mono_def)
  moreover have "\<exists>j \<ge> i. answers (demo_trace ?clk j)" for i using demo_answers by blast
  ultimately show ?thesis
    using metadata_becomes_and_stays_fresh [OF refk.bpf_kernel_axioms demo_endless demo_trace_open_ok, of ?clk 50 50]
    by simp
qed

end
