(* ===== verification/Consumer.thy ===== *)
theory Consumer
  imports PollerLive
begin

text \<open>
  The other side of the API: the consumer that \<open>README.md\<close> gives for a gadget, \<open>enrich_with_gpu\<close>. It
  reads the bytes of the pinned maps through libbpf's CO-RE macros, which are not part of the repository:
  they are a parameter, with what libbpf documents of them as the hypothesis \<open>core_laws\<close>. The lemmas say what
  the function makes of the maps of the bridge.
\<close>

section \<open>The documented consumer\<close>

text \<open>\<open>struct event\<close> belongs to the gadget; it is extensible and has the two fields the function sets.\<close>

record gpu_event =
  ev_gpu_sm :: u32
  ev_gpu_mem :: u64

text \<open>
  The macros of libbpf, for a program that has been loaded: \<open>co_exists s n\<close> is \<open>bpf_core_field_exists\<close> for the
  field \<open>n\<close> of a pointer to \<open>struct s\<close>, \<open>co_read s n\<close> is \<open>BPF_CORE_READ\<close> on the bytes the pointer points to.
\<close>

record core_ops =
  co_exists :: "string \<Rightarrow> string \<Rightarrow> bool"
  co_read :: "string \<Rightarrow> string \<Rightarrow> byte list \<Rightarrow> nat"

text \<open>The lookups \<open>gpu_meta\<close> and \<open>gpu_per_pid\<close> give the bytes of an entry; \<open>ktime\<close> is
  \<open>bpf_ktime_get_ns()\<close>.\<close>

definition enrich_with_gpu ::
  "core_ops \<Rightarrow> (u32 \<Rightarrow> byte list option) \<Rightarrow> (u32 \<Rightarrow> byte list option) \<Rightarrow> u64
    \<Rightarrow> 'e gpu_event_scheme \<Rightarrow> u32 \<Rightarrow> 'e gpu_event_scheme" where
  "enrich_with_gpu co gpu_meta gpu_per_pid ktime e pid =
     (case gpu_meta 0 of
        None \<Rightarrow> e
      | Some m \<Rightarrow>
          if \<not> co_exists co ''gpu_meta'' ''last_update_ns'' then e
          else if ktime - of_nat (co_read co ''gpu_meta'' ''last_update_ns'' m) > 200000000 then e
          else
            (case gpu_per_pid pid of
               None \<Rightarrow> e
             | Some p \<Rightarrow>
                 let T = ''gpu_pid_metrics_aggregated'';
                     e1 = (if co_exists co T ''sm_util_pct_max''
                           then e\<lparr>ev_gpu_sm := of_nat (co_read co T ''sm_util_pct_max'' p)\<rparr> else e)
                 in if co_exists co T ''used_gpu_memory_total''
                    then e1\<lparr>ev_gpu_mem := of_nat (co_read co T ''used_gpu_memory_total'' p)\<rparr>
                    else e1))"

section \<open>Relocated reads\<close>

text \<open>
  What libbpf documents: the accesses are relocated by name against type information (\<open>btf\<close>, the fields of a
  struct). A field exists when the declaration there has it, and reading it loads its bytes from where that
  declaration puts it.
\<close>

definition core_laws :: "core_ops \<Rightarrow> (string \<Rightarrow> field list option) \<Rightarrow> bool" where
  "core_laws co btf \<longleftrightarrow>
     (\<forall>s T. btf s = Some T \<longrightarrow>
        (\<forall>n. co_exists co s n \<longleftrightarrow> n \<in> fst ` set T) \<and>
        (\<forall>n off sz bs. (n, off, sz) \<in> set (field_slots 8 T) \<longrightarrow> co_read co s n bs = load_le off sz bs))"

text \<open>The type information of the bridge: the four structs of its contract as \<open>gpu_types.h\<close> declares them.\<close>

definition bridge_btf :: "string \<Rightarrow> field list option" where
  "bridge_btf = map_of
    [(''gpu_meta'', c_gpu_meta), (''gpu_device_metrics'', c_gpu_device_metrics),
     (''gpu_pid_metrics'', c_gpu_pid_metrics), (''gpu_pid_metrics_aggregated'', c_gpu_pid_metrics_aggregated)]"

text \<open>Operations that satisfy the laws, for witnesses.\<close>

definition ref_core :: "(string \<Rightarrow> field list option) \<Rightarrow> core_ops" where
  "ref_core btf = \<lparr>
     co_exists = (\<lambda>s n. case btf s of None \<Rightarrow> False | Some T \<Rightarrow> n \<in> fst ` set T),
     co_read = (\<lambda>s n bs. case btf s of None \<Rightarrow> 0 | Some T \<Rightarrow>
       (case map_of (field_slots 8 T) n of None \<Rightarrow> 0 | Some (off, sz) \<Rightarrow> load_le off sz bs))\<rparr>"

lemma place_names: "map fst (place sz al off fs) = map fst fs"
  by (induction fs arbitrary: off) simp_all

lemma field_slots_names: "map fst (field_slots ma T) = map fst T"
  by (simp add: field_slots_def place_names)

lemma ref_core_laws:
  assumes "\<And>s T. btf s = Some T \<Longrightarrow> distinct (map fst T)"
  shows "core_laws (ref_core btf) btf"
  unfolding core_laws_def
proof (intro allI impI conjI)
  fix s T n
  assume "btf s = Some T"
  then show "co_exists (ref_core btf) s n \<longleftrightarrow> n \<in> fst ` set T" by (simp add: ref_core_def)
next
  fix s T n off sz bs
  assume T: "btf s = Some T" and "(n, off, sz) \<in> set (field_slots 8 T)"
  moreover have "distinct (map fst (field_slots 8 T))" using assms [OF T] by (simp only: field_slots_names)
  ultimately have "map_of (field_slots 8 T) n = Some (off, sz)" by (metis map_of_eq_Some_iff)
  with T show "co_read (ref_core btf) s n bs = load_le off sz bs" by (simp add: ref_core_def)
qed

lemma ref_core_bridge: "core_laws (ref_core bridge_btf) bridge_btf"
  by (rule ref_core_laws)
    (auto simp: bridge_btf_def c_gpu_meta_def c_gpu_device_metrics_def c_gpu_pid_metrics_def
      c_gpu_pid_metrics_aggregated_def split: if_splits)

section \<open>The maps of the bridge as the consumer sees them\<close>

text \<open>The entries of the two maps as the bridge stored them, with the memory image of the Go structs on a
  machine whose \<open>uint64\<close> is aligned to \<open>ma\<close>.\<close>

definition meta_bytes :: "nat \<Rightarrow> bridge_view \<Rightarrow> u32 \<Rightarrow> byte list option" where
  "meta_bytes ma v k = map_option (\<lambda>m. go_image ma go_GpuMeta (GpuMeta_fields m)) (v_meta v k)"

definition pid_bytes :: "nat \<Rightarrow> bridge_view \<Rightarrow> u32 \<Rightarrow> byte list option" where
  "pid_bytes ma v k =
     map_option (\<lambda>p. go_image ma go_GpuPidMetricsAggregated (GpuPidMetricsAggregated_fields p)) (v_pid v k)"

definition consume ::
  "core_ops \<Rightarrow> nat \<Rightarrow> bridge_view \<Rightarrow> u64 \<Rightarrow> 'e gpu_event_scheme \<Rightarrow> u32 \<Rightarrow> 'e gpu_event_scheme" where
  "consume co ma v = enrich_with_gpu co (meta_bytes ma v) (pid_bytes ma v)"

lemma consumed_slots:
  "(''last_update_ns'', 8, 8) \<in> set (named_slots 8 c_gpu_meta)"
  "(''sm_util_pct_max'', 16, 4) \<in> set (named_slots 8 c_gpu_pid_metrics_aggregated)"
  "(''used_gpu_memory_total'', 8, 8) \<in> set (named_slots 8 c_gpu_pid_metrics_aggregated)"
  by (simp_all add: named_slots_def field_slots_def pad_up_def c_gpu_meta_def c_gpu_pid_metrics_aggregated_def)

lemma bridge_core_exists:
  assumes "core_laws co bridge_btf"
  shows "co_exists co ''gpu_meta'' n \<longleftrightarrow> n \<in> fst ` set c_gpu_meta"
    and "co_exists co ''gpu_pid_metrics_aggregated'' n \<longleftrightarrow> n \<in> fst ` set c_gpu_pid_metrics_aggregated"
  using assms by (simp_all add: core_laws_def bridge_btf_def)

lemma bridge_core_read:
  assumes "core_laws co bridge_btf"
  shows "(n, off, sz) \<in> set (named_slots 8 c_gpu_meta) \<Longrightarrow> co_read co ''gpu_meta'' n bs = load_le off sz bs"
    and "(n, off, sz) \<in> set (named_slots 8 c_gpu_pid_metrics_aggregated) \<Longrightarrow>
      co_read co ''gpu_pid_metrics_aggregated'' n bs = load_le off sz bs"
  using assms by (simp_all add: core_laws_def bridge_btf_def named_slots_def)

lemma meta_read:
  assumes "core_laws co bridge_btf" and "ma \<in> {4, 8}"
  shows "co_read co ''gpu_meta'' ''last_update_ns'' (go_image ma go_GpuMeta (GpuMeta_fields m)) =
    unat (last_update_ns m)"
proof -
  from assms(2) consider "ma = 4" | "ma = 8" by blast
  then have "(''last_update_ns'', load_le 8 8 (go_image ma go_GpuMeta (GpuMeta_fields m))) \<in>
      set (gpu_meta_fields m)"
    using meta_abi.read_field [OF consumed_slots(1)] meta_abi_386.read_field [OF consumed_slots(1)] by cases simp_all
  then show ?thesis by (simp add: bridge_core_read(1) [OF assms(1) consumed_slots(1)] gpu_meta_fields_def)
qed

lemma pid_read:
  assumes "core_laws co bridge_btf" and "ma \<in> {4, 8}"
  defines "bs p \<equiv> go_image ma go_GpuPidMetricsAggregated (GpuPidMetricsAggregated_fields p)"
  shows "co_read co ''gpu_pid_metrics_aggregated'' ''sm_util_pct_max'' (bs p) = unat (pa_sm_util_pct_max p)"
    and "co_read co ''gpu_pid_metrics_aggregated'' ''used_gpu_memory_total'' (bs p) =
      unat (pa_used_gpu_memory_total p)"
proof -
  have r: "(n, load_le off sz (bs p)) \<in> set (gpu_pid_metrics_aggregated_fields p)"
    if "(n, off, sz) \<in> set (named_slots 8 c_gpu_pid_metrics_aggregated)" for n off sz
  proof -
    from assms(2) consider "ma = 4" | "ma = 8" by blast
    then show ?thesis
      using agg_abi.read_field [OF that] agg_abi_386.read_field [OF that] unfolding bs_def by cases simp_all
  qed
  note read = bridge_core_read(2) [OF assms(1)]
  show "co_read co ''gpu_pid_metrics_aggregated'' ''sm_util_pct_max'' (bs p) = unat (pa_sm_util_pct_max p)"
    using r [OF consumed_slots(2)] unfolding read [OF consumed_slots(2)]
    by (simp add: gpu_pid_metrics_aggregated_fields_def)
  show "co_read co ''gpu_pid_metrics_aggregated'' ''used_gpu_memory_total'' (bs p) =
      unat (pa_used_gpu_memory_total p)"
    using r [OF consumed_slots(3)] unfolding read [OF consumed_slots(3)]
    by (simp add: gpu_pid_metrics_aggregated_fields_def)
qed

text \<open>What the consumer makes of the maps.\<close>

lemma consume_eq:
  assumes "core_laws co bridge_btf" and "ma \<in> {4, 8}"
  shows "consume co ma v ktime e pid =
    (case v_meta v 0 of
       None \<Rightarrow> e
     | Some m \<Rightarrow>
         if ktime - last_update_ns m > 200000000 then e
         else (case v_pid v pid of
                 None \<Rightarrow> e
               | Some p \<Rightarrow> e\<lparr>ev_gpu_sm := pa_sm_util_pct_max p, ev_gpu_mem := pa_used_gpu_memory_total p\<rparr>))"
proof -
  note ex = bridge_core_exists [OF assms(1)]
  have "co_exists co ''gpu_meta'' ''last_update_ns''"
    "co_exists co ''gpu_pid_metrics_aggregated'' ''sm_util_pct_max''"
    "co_exists co ''gpu_pid_metrics_aggregated'' ''used_gpu_memory_total''"
    by (simp_all add: ex c_gpu_meta_def c_gpu_pid_metrics_aggregated_def)
  then show ?thesis
    by (simp add: consume_def enrich_with_gpu_def meta_bytes_def pid_bytes_def
        meta_read [OF assms] pid_read [OF assms] Let_def split: option.split)
qed

end
