(* ===== verification/ConsumerProps.thy ===== *)
theory ConsumerProps
  imports PollerProps Consumer
begin

text \<open>The properties of the documented consumer (\<open>enrich_with_gpu\<close> of \<open>README.md\<close>), alone and on the maps
  of the daemon, with their witnesses.\<close>

section \<open>What the consumer gets from the daemon\<close>

text \<open>C2: End to end, from the samples of a tick to an event of a consumer: after a tick in which nothing fails, the
  consumer leaves the event alone when the metadata looks old to it or the kernel evicted the entry of the
  pid. Otherwise it sets the largest SM utilisation over all samples of the pid and the memory of the pid
  summed over its devices; for a pid without samples in this tick it sets the values of the entry left from
  earlier, since nothing removes the entry of a process that has gone.\<close>

theorem consumer_after_tick:
  assumes "bpf_kernel K" and "orders_ok ro"
    and "np_Devices (pl_source p) (wd_src wd0) = ((devs, None), src1)"
    and "np_ProcessSamples (pl_source p) src1 (minLastSeen (ro_seen ro) (pl_lastSeen p)) = ((ss, se), src2)"
    and "wview K (pl_bridge p) wd0 = Some v"
    and "tick K ro now p wd0 = (res, p', wd')"
    and "warnings wd' = warnings wd0" and "wview K (pl_bridge p) wd' = Some v'"
    and "core_laws co bridge_btf" and "ma \<in> {4, 8}" and "card (device_bytes ss q) < 256"
  shows "consume co ma v' ktime e q =
    (if ktime - word_of_int now > 200000000 \<or> v_pid v' q = None then e
     else if q \<noteq> 0 \<and> samples_of ss q \<noteq> []
     then e\<lparr>ev_gpu_sm := maxcol ps_SmUtilPct (samples_of ss q),
            ev_gpu_mem := (\<Sum>d\<leftarrow>devices_of ss q. maxcol ps_UsedGpuMemory (samples_on ss q d))\<rparr>
     else (case v_pid v q of
             None \<Rightarrow> e
           | Some r \<Rightarrow> e\<lparr>ev_gpu_sm := pa_sm_util_pct_max r, ev_gpu_mem := pa_used_gpu_memory_total r\<rparr>))"
proof -
  from bpf_kernel.tick_implements [OF assms(1-6)] assms(7,8)
  have t: "tick_result False devs ss (meta_record devs now (pl_helper p)) v v'" by auto
  then have m: "v_meta v' 0 = Some (meta_record devs now (pl_helper p))"
    and en: "entry_after (v_pid v q) (spec_aggregated ss q) (v_pid v' q)"
    using assms(11) by (simp_all add: tick_result_def)
  show ?thesis
  proof (cases "q \<noteq> 0 \<and> samples_of ss q \<noteq> []")
    case True
    with en show ?thesis
      by (auto simp: consume_eq [OF assms(9,10)] m meta_record_def entry_after_def spec_aggregated_def Let_def)
  next
    case False
    then have "spec_aggregated ss q = None" by (auto simp: spec_aggregated_def Let_def)
    with en False show ?thesis
      by (auto simp: consume_eq [OF assms(9,10)] m meta_record_def entry_after_def split: option.splits)
  qed
qed

theorem consumer_after_tick_witness:
  "\<exists>v'. wview ref_kernel demo_bridge (snd (snd demo_after)) = Some v' \<and>
     consume (ref_core bridge_btf) 8 v' 1000 \<lparr>ev_gpu_sm = 0, ev_gpu_mem = 0\<rparr> 42 = \<lparr>ev_gpu_sm = 30, ev_gpu_mem = 100\<rparr>"
proof -
  from demo_after_entries obtain v' where
    v': "wview ref_kernel demo_bridge (snd (snd demo_after)) = Some v'" and r: "v_pid v' 42 \<noteq> None" by auto
  have "consume (ref_core bridge_btf) 8 v' 1000 e 42 =
    (if (1000 :: u64) - word_of_int 5 > 200000000 \<or> v_pid v' 42 = None then e
     else if (42 :: u32) \<noteq> 0 \<and> samples_of demo_samples 42 \<noteq> []
     then e\<lparr>ev_gpu_sm := maxcol ps_SmUtilPct (samples_of demo_samples 42),
            ev_gpu_mem := (\<Sum>d\<leftarrow>devices_of demo_samples 42.
              maxcol ps_UsedGpuMemory (samples_on demo_samples 42 d))\<rparr>
     else (case v_pid demo_view 42 of
             None \<Rightarrow> e
           | Some r \<Rightarrow> e\<lparr>ev_gpu_sm := pa_sm_util_pct_max r, ev_gpu_mem := pa_used_gpu_memory_total r\<rparr>))"
    for e :: gpu_event
    by (rule consumer_after_tick [OF refk.bpf_kernel_axioms demo_orders_ok _ _ _ demo_tick demo_no_warnings _ ref_core_bridge])
      (use v' demo_wview in \<open>simp_all add: demo_bytes demo_world_def\<close>)
  moreover have "maxcol ps_SmUtilPct (samples_of demo_samples 42) = 30"
    "maxcol ps_UsedGpuMemory (samples_on demo_samples 42 0) = 100"
    by (simp_all add: samples_of_def samples_on_def demo_samples_def zero_sample_def maxcol_Cons)
  ultimately show ?thesis using v' r by (simp add: demo_bytes)
qed

section \<open>The clocks do not match\<close>

lemma late_difference:
  fixes a :: u64
  assumes "uint a < c" and "c < 2 ^ 63"
  shows "a - word_of_int c > 200000000"
proof -
  have b: "uint a < c" "c < 9223372036854775808" "0 \<le> uint a" using assms by simp_all
  have "uint (a - word_of_int c) = (uint a - c) mod 18446744073709551616"
    by (simp add: uint_word_ariths uint_word_of_int mod_diff_right_eq)
  also have "\<dots> = (uint a - c + 18446744073709551616) mod 18446744073709551616" by simp
  also have "\<dots> = uint a - c + 18446744073709551616"
    using b by (intro mod_pos_pos_trivial) linarith+
  finally have "200000000 < uint (a - word_of_int c)" using b by linarith
  then show ?thesis by (simp add: word_less_def)
qed

text \<open>C11: A defect: the daemon stamps the metadata with the wall clock, while the documented consumer subtracts the stamp
  from the time since boot. As the wall clock is ahead of that (and both are below \<open>2 ^ 63\<close> ns), the unsigned
  difference is enormous: in an endless run, at any time after the backend first answered, the consumer
  takes the data for stale and never enriches an event, however fresh the data is.\<close>

theorem consumer_never_trusts_daemon:
  assumes "bpf_kernel K" and "endless K clk tr"
    and "open_ok K (pl_bridge (fst (tr 0))) (pl_helper (fst (tr 0))) fs (snd (tr 0))"
    and "answers (tr i)" and "i < k" and "wview K (pl_bridge (fst (tr k))) (snd (tr k)) = Some v"
    and "core_laws co bridge_btf" and "ma \<in> {4, 8}" and "\<And>j. uint ktime < clk j \<and> clk j < 2 ^ 63"
  shows "consume co ma v ktime e q = e"
proof -
  from bpf_kernel.endless_latest [OF assms(1-5)] obtain j devs where
    "meta_of K (tr k) = Some (meta_record devs (clk j) (pl_helper (fst (tr 0))))" by blast
  with assms(6) have "v_meta v 0 = Some (meta_record devs (clk j) (pl_helper (fst (tr 0))))"
    by (simp add: meta_of_def)
  with late_difference [of ktime "clk j"] assms(9) [of j] show ?thesis
    by (simp add: consume_eq [OF assms(7,8)] meta_record_def)
qed

text \<open>The endless run of the demo, with a boot time of 4 ns and a wall clock from 5 to 100.\<close>

theorem consumer_never_trusts_daemon_witness:
  "\<exists>v. wview ref_kernel (pl_bridge (fst (demo_trace (\<lambda>i. 5 + min (int i) 95) 3)))
       (snd (demo_trace (\<lambda>i. 5 + min (int i) 95) 3)) = Some v \<and>
     consume (ref_core bridge_btf) 8 v 4 \<lparr>ev_gpu_sm = 0, ev_gpu_mem = 0\<rparr> 42 = \<lparr>ev_gpu_sm = 0, ev_gpu_mem = 0\<rparr>"
proof -
  let ?clk = "\<lambda>i. 5 + min (int i) 95"
  from bpf_kernel.endless_open_ok [OF refk.bpf_kernel_axioms demo_endless demo_trace_open_ok, of ?clk 3] obtain v where
    v: "wview ref_kernel (pl_bridge (fst (demo_trace ?clk 3))) (snd (demo_trace ?clk 3)) = Some v"
    by (auto simp: open_ok_def)
  have c: "uint (4 :: u64) < ?clk j \<and> ?clk j < 2 ^ 63" for j by auto
  from consumer_never_trusts_daemon [OF refk.bpf_kernel_axioms demo_endless demo_trace_open_ok demo_answers _ v ref_core_bridge _ c,
      of 0 8] v
  show ?thesis by simp
qed

end
