(* ===== verification/Dump.thy ===== *)
theory Dump
  imports Bridge
begin

text \<open>
  \<open>cmd/gpu-ebpf-bridge/dump.go\<close>: the \<open>--dump\<close> mode, which opens the pinned maps and prints them. The
  output is a list of lines, one constructor per \<open>Fprint\<close> statement; how \<open>%+v\<close> renders a struct is
  left out. The maps are only read; closing a map is the one operation that changes the state.
\<close>

section \<open>Operations\<close>

datatype dump_line =
    Header string
  | MetaLine gpu_meta
  | DeviceLine u32 gpu_device_metrics
  | PidLine u32 gpu_pid_metrics_aggregated
  | PidDevLine u32 u32 gpu_pid_metrics
  | BlankLine

definition dumpMeta :: "'w kernel \<Rightarrow> string \<Rightarrow> 'w \<Rightarrow> dump_line list \<times> goerr option \<times> 'w" where
  "dumpMeta K path w =
     (case k_load_pinned K w path of
        Inl e \<Rightarrow> ([], Some (Wrapf (''open '' @ path) e), w)
      | Inr m \<Rightarrow>
          (case m_lookup (k_meta K) w m 0 of
             Inl e \<Rightarrow> ([], Some (Wrapf (''lookup '' @ path) e), snd (k_close K w m))
           | Inr v \<Rightarrow> ([Header ''# gpu_meta'', MetaLine v, BlankLine], None, snd (k_close K w m))))"

definition dumpDevice :: "'w kernel \<Rightarrow> string \<Rightarrow> 'w \<Rightarrow> dump_line list \<times> goerr option \<times> 'w" where
  "dumpDevice K path w =
     (case k_load_pinned K w path of
        Inl e \<Rightarrow> ([], Some (Wrapf (''open '' @ path) e), w)
      | Inr m \<Rightarrow>
          (case m_iterate (k_device K) w m of
             (es, err) \<Rightarrow>
               (Header ''# gpu_device'' #
                concat (map (\<lambda>(key, val). if dm_timestamp_ns val = 0 then [] else [DeviceLine key val]) es) @
                [BlankLine], err, snd (k_close K w m))))"

definition dumpPerPid :: "'w kernel \<Rightarrow> string \<Rightarrow> 'w \<Rightarrow> dump_line list \<times> goerr option \<times> 'w" where
  "dumpPerPid K path w =
     (case k_load_pinned K w path of
        Inl e \<Rightarrow> ([], Some (Wrapf (''open '' @ path) e), w)
      | Inr m \<Rightarrow>
          (case m_iterate (k_pid K) w m of
             (es, err) \<Rightarrow>
               (Header ''# gpu_per_pid'' # map (\<lambda>(key, val). PidLine key val) es @ [BlankLine],
                err, snd (k_close K w m))))"

definition dumpPerPidPerDevice :: "'w kernel \<Rightarrow> string \<Rightarrow> 'w \<Rightarrow> dump_line list \<times> goerr option \<times> 'w" where
  "dumpPerPidPerDevice K path w =
     (case k_load_pinned K w path of
        Inl e \<Rightarrow> ([], Some (Wrapf (''open '' @ path) e), w)
      | Inr m \<Rightarrow>
          (case m_iterate (k_piddev K) w m of
             (es, err) \<Rightarrow>
               (Header ''# gpu_per_pid_per_device'' #
                map (\<lambda>(key, val). let pid = ucast (drop_bit 32 key); dev = ucast (key AND 0xFFFFFFFF)
                                   in PidDevLine pid dev val) es @
                [BlankLine], err, snd (k_close K w m))))"

definition runDump :: "'w kernel \<Rightarrow> string \<Rightarrow> 'w \<Rightarrow> dump_line list \<times> goerr option \<times> 'w" where
  "runDump K pinDir w =
     (case dumpMeta K (file_join pinDir MapNameMeta) w of
        (o1, Some e, w1) \<Rightarrow> (o1, Some e, w1)
      | (o1, None, w1) \<Rightarrow>
     (case dumpDevice K (file_join pinDir MapNameDevice) w1 of
        (o2, Some e, w2) \<Rightarrow> (o1 @ o2, Some e, w2)
      | (o2, None, w2) \<Rightarrow>
     (case dumpPerPid K (file_join pinDir MapNamePerPid) w2 of
        (o3, Some e, w3) \<Rightarrow> (o1 @ o2 @ o3, Some e, w3)
      | (o3, None, w3) \<Rightarrow>
     (case dumpPerPidPerDevice K (file_join pinDir MapNamePerPidPerDevice) w3 of
        (o4, err, w4) \<Rightarrow> (o1 @ o2 @ o3 @ o4, err, w4)))))"

section \<open>The dump decodes the composite key\<close>

lemma ucast_u32_u64_u32: "ucast (ucast (p :: u32) :: u64) = p"
  by (simp add: ucast_down_ucast_id is_down)

lemma key_decode:
  "ucast (drop_bit 32 (PerPidPerDeviceKey pid dev)) = pid"
  "ucast (PerPidPerDeviceKey pid dev AND 0xFFFFFFFF) = dev"
  by (simp_all only: key_high key_low ucast_u32_u64_u32)

lemma key_encode: "PerPidPerDeviceKey (ucast (drop_bit 32 k)) (ucast (k AND 0xFFFFFFFF)) = (k :: u64)"
proof (rule bit_word_eqI)
  fix n :: nat assume n: "n < LENGTH(64)"
  have m: "(0xFFFFFFFF :: u64) = mask 32" by (simp add: mask_eq_exp_minus_1)
  show "bit (PerPidPerDeviceKey (ucast (drop_bit 32 k)) (ucast (k AND 0xFFFFFFFF))) n = bit k n"
    unfolding m using n
    by (cases "n < 32") (auto simp: PerPidPerDeviceKey_def bit_simps)
qed

section \<open>What a dump prints\<close>

text \<open>The lines a dump of the view \<open>v\<close> has to contain, and the only ones beside headers.\<close>

definition dump_spec :: "bridge_view \<Rightarrow> dump_line set" where
  "dump_spec v =
     {MetaLine m | m. v_meta v 0 = Some m} \<union>
     {DeviceLine i d | i d. v_device v i = Some d \<and> dm_timestamp_ns d \<noteq> 0} \<union>
     {PidLine q r | q r. v_pid v q = Some r} \<union>
     {PidDevLine q d r | q d r. v_piddev v (PerPidPerDeviceKey q d) = Some r}"

definition data_lines :: "dump_line list \<Rightarrow> dump_line set" where
  "data_lines ls = {l \<in> set ls. l \<noteq> BlankLine \<and> (\<forall>s. l \<noteq> Header s)}"

lemma data_lines_append [simp]: "data_lines (xs @ ys) = data_lines xs \<union> data_lines ys"
  by (auto simp: data_lines_def)

lemma data_lines_rows:
  assumes "\<And>e l. e \<in> set es \<Longrightarrow> l \<in> set (f e) \<Longrightarrow> l \<noteq> BlankLine \<and> (\<forall>s. l \<noteq> Header s)"
  shows "data_lines (Header h # concat (map f es) @ [BlankLine]) = {l. \<exists>e \<in> set es. l \<in> set (f e)}"
  using assms by (auto simp: data_lines_def)

lemma data_lines_map:
  assumes "\<And>e. g e \<noteq> BlankLine \<and> (\<forall>s. g e \<noteq> Header s)"
  shows "data_lines (Header h # map g es @ [BlankLine]) = g ` set es"
  using data_lines_rows [of es "\<lambda>e. [g e]" h] assms by auto

text \<open>The bridge \<open>b\<close> is open with the view \<open>v\<close>, and its maps are pinned in the directory \<open>d\<close>.\<close>

definition pinned_in :: "'w kernel \<Rightarrow> bridge \<Rightarrow> string \<Rightarrow> bridge_view \<Rightarrow> 'w \<Rightarrow> bool" where
  "pinned_in K b d v w \<longleftrightarrow> bview K b w = Some v \<and>
     k_pin K w (file_join d MapNameMeta) = Some (fd_GpuMeta (br_objs b)) \<and>
     k_pin K w (file_join d MapNameDevice) = Some (fd_GpuDevice (br_objs b)) \<and>
     k_pin K w (file_join d MapNamePerPid) = Some (fd_GpuPerPid (br_objs b)) \<and>
     k_pin K w (file_join d MapNamePerPidPerDevice) = Some (fd_GpuPerPidPerDevice (br_objs b))"

context bpf_kernel
begin

lemma close_pinned_in: "pinned_in K b d v w \<Longrightarrow> pinned_in K b d v (snd (k_close K w h))"
proof -
  assume a: "pinned_in K b d v w"
  obtain r w' where c: "k_close K w h = (r, w')" by fastforce
  have "k_pin K w' = k_pin K w" using close_pins [OF c] by (simp add: k_fs_def)
  with a c close_pinned [OF c] show ?thesis by (auto simp: pinned_in_def bview_Some_iff)
qed

text \<open>A later start on the same directory finds the maps again, with what they hold.\<close>

lemma reopen_view:
  assumes p: "pinned_in K b (br_pinDir b) v w" and b: "br_pinDir b = (if d = '''' then DefaultPinDir else d)"
    and op: "Open K d w = (Inr b2, w2)"
  shows "bview K b2 w2 = Some v \<and> pinned_in K b2 (br_pinDir b) v w2"
proof -
  note o = Open_view [OF op]
  have d: "br_pinDir b2 = br_pinDir b" using o(2) b by simp
  from p have "br_objs b2 = br_objs b" and "bview K b w2 = Some v"
    using o(3-6) o(7) unfolding d pinned_in_def bview_Some_iff by (auto intro!: map_fds.equality)
  then have "bview K b2 w2 = Some v" by (simp add: bview_Some_iff)
  with o(3-6) show ?thesis unfolding d by (simp add: pinned_in_def)
qed

lemma dumpMeta_spec:
  assumes p: "pinned_in K b d v w" and r: "dumpMeta K (file_join d MapNameMeta) w = (out, err, w')"
  shows "pinned_in K b d v w' \<and> (err = None \<longrightarrow> data_lines out = {MetaLine m | m. v_meta v 0 = Some m})"
proof -
  let ?h = "fd_GpuMeta (br_objs b)"
  from p have h: "k_obj K w ?h = Some (MetaObj (v_meta v))" "k_pin K w (file_join d MapNameMeta) = Some ?h"
    by (auto simp: pinned_in_def bview_Some_iff)
  note ld = load_pinned [OF h(2,1)]
  show ?thesis
  proof (cases "m_lookup (k_meta K) w ?h 0")
    case (Inl e)
    with r ld close_pinned_in [OF p] show ?thesis by (auto simp: dumpMeta_def)
  next
    case (Inr m)
    with meta.lookup_law [OF h(1)] have "v_meta v 0 = Some m" by blast
    with Inr r ld close_pinned_in [OF p] show ?thesis by (auto simp: dumpMeta_def data_lines_def)
  qed
qed

lemma dumpDevice_spec:
  assumes p: "pinned_in K b d v w" and r: "dumpDevice K (file_join d MapNameDevice) w = (out, err, w')"
  shows "pinned_in K b d v w' \<and> (err = None \<longrightarrow>
    data_lines out = {DeviceLine i x | i x. v_device v i = Some x \<and> dm_timestamp_ns x \<noteq> 0})"
proof -
  let ?h = "fd_GpuDevice (br_objs b)"
  from p have h: "k_obj K w ?h = Some (DeviceObj (v_device v))"
    "k_pin K w (file_join d MapNameDevice) = Some ?h" by (auto simp: pinned_in_def bview_Some_iff)
  obtain es e where it: "m_iterate (k_device K) w ?h = (es, e)" by fastforce
  let ?row = "\<lambda>(key, val). if dm_timestamp_ns val = 0 then [] else [DeviceLine key val]"
  have es: "(i, x) \<in> set es \<longleftrightarrow> v_device v i = Some x" if "e = None" for i x
    using device.iterate_law [OF h(1)] it that by blast
  have "{l. \<exists>e \<in> set es. l \<in> set (?row e)} =
      {DeviceLine i x | i x. (i, x) \<in> set es \<and> dm_timestamp_ns x \<noteq> 0}"
    by (force split: if_splits)
  moreover have out: "out = Header ''# gpu_device'' # concat (map ?row es) @ [BlankLine]"
    and "e = err" "w' = snd (k_close K w ?h)"
    using r it load_pinned [OF h(2,1)] by (auto simp: dumpDevice_def)
  moreover have "data_lines out = {l. \<exists>e \<in> set es. l \<in> set (?row e)}"
    unfolding out by (rule data_lines_rows) (auto split: if_splits)
  ultimately show ?thesis using close_pinned_in [OF p] es by simp
qed

lemma dumpPerPid_spec:
  assumes p: "pinned_in K b d v w" and r: "dumpPerPid K (file_join d MapNamePerPid) w = (out, err, w')"
  shows "pinned_in K b d v w' \<and>
    (err = None \<longrightarrow> data_lines out = {PidLine q x | q x. v_pid v q = Some x})"
proof -
  let ?h = "fd_GpuPerPid (br_objs b)"
  from p have h: "k_obj K w ?h = Some (PidObj (v_pid v))"
    "k_pin K w (file_join d MapNamePerPid) = Some ?h" by (auto simp: pinned_in_def bview_Some_iff)
  obtain es e where it: "m_iterate (k_pid K) w ?h = (es, e)" by fastforce
  let ?line = "\<lambda>(key, val). PidLine key val"
  have es: "(i, x) \<in> set es \<longleftrightarrow> v_pid v i = Some x" if "e = None" for i x
    using pid.iterate_law [OF h(1)] it that by blast
  have "?line ` set es = {PidLine q x | q x. (q, x) \<in> set es}" by force
  moreover have "data_lines out = ?line ` set es" "e = err" "w' = snd (k_close K w ?h)"
    using r it load_pinned [OF h(2,1)] data_lines_map [of ?line "''# gpu_per_pid''" es]
    by (auto simp: dumpPerPid_def)
  ultimately show ?thesis using close_pinned_in [OF p] es by simp
qed

lemma dumpPerPidPerDevice_spec:
  assumes p: "pinned_in K b d v w"
    and r: "dumpPerPidPerDevice K (file_join d MapNamePerPidPerDevice) w = (out, err, w')"
  shows "pinned_in K b d v w' \<and> (err = None \<longrightarrow>
    data_lines out = {PidDevLine q i x | q i x. v_piddev v (PerPidPerDeviceKey q i) = Some x})"
proof -
  let ?h = "fd_GpuPerPidPerDevice (br_objs b)"
  let ?line = "\<lambda>(key, val). PidDevLine (ucast (drop_bit 32 key)) (ucast (key AND 0xFFFFFFFF)) val"
  from p have h: "k_obj K w ?h = Some (PidDevObj (v_piddev v))"
    "k_pin K w (file_join d MapNamePerPidPerDevice) = Some ?h" by (auto simp: pinned_in_def bview_Some_iff)
  obtain es e where it: "m_iterate (k_piddev K) w ?h = (es, e)" by fastforce
  have es: "(i, x) \<in> set es \<longleftrightarrow> v_piddev v i = Some x" if "e = None" for i x
    using piddev.iterate_law [OF h(1)] it that by blast
  have "?line ` set es = {PidDevLine q i x | q i x. v_piddev v (PerPidPerDeviceKey q i) = Some x}"
    if "e = None"
  proof (intro equalityI subsetI)
    fix l assume "l \<in> ?line ` set es"
    then obtain k x where "(k, x) \<in> set es" "l = ?line (k, x)" by auto
    with es [OF that] key_encode [of k]
    show "l \<in> {PidDevLine q i x | q i x. v_piddev v (PerPidPerDeviceKey q i) = Some x}" by force
  next
    fix l assume "l \<in> {PidDevLine q i x | q i x. v_piddev v (PerPidPerDeviceKey q i) = Some x}"
    then obtain q i x where "v_piddev v (PerPidPerDeviceKey q i) = Some x" "l = PidDevLine q i x" by auto
    with es [OF that] show "l \<in> ?line ` set es"
      by (intro image_eqI [of _ _ "(PerPidPerDeviceKey q i, x)"]) (auto simp: key_decode)
  qed
  moreover have "data_lines out = ?line ` set es" and "e = err" and "w' = snd (k_close K w ?h)"
    using r it load_pinned [OF h(2,1)] data_lines_map [of ?line "''# gpu_per_pid_per_device''" es]
    by (auto simp: dumpPerPidPerDevice_def Let_def)
  ultimately show ?thesis using close_pinned_in [OF p] by simp
qed

lemma runDump_view:
  assumes p: "pinned_in K b d v w" and r: "runDump K d w = (out, None, w')"
  shows "data_lines out = dump_spec v \<and> pinned_in K b d v w'"
proof -
  obtain o1 e1 w1 where 1: "dumpMeta K (file_join d MapNameMeta) w = (o1, e1, w1)" by (metis prod.exhaust)
  obtain o2 e2 w2 where 2: "dumpDevice K (file_join d MapNameDevice) w1 = (o2, e2, w2)"
    by (metis prod.exhaust)
  obtain o3 e3 w3 where 3: "dumpPerPid K (file_join d MapNamePerPid) w2 = (o3, e3, w3)"
    by (metis prod.exhaust)
  obtain o4 e4 w4 where 4: "dumpPerPidPerDevice K (file_join d MapNamePerPidPerDevice) w3 = (o4, e4, w4)"
    by (metis prod.exhaust)
  from r 1 2 3 4 have none: "e1 = None" "e2 = None" "e3 = None" "e4 = None"
    and out: "out = o1 @ o2 @ o3 @ o4" "w' = w4"
    by (auto simp: runDump_def split: option.splits)
  note s1 = dumpMeta_spec [OF p 1]
  note s2 = dumpDevice_spec [OF conjunct1 [OF s1] 2]
  note s3 = dumpPerPid_spec [OF conjunct1 [OF s2] 3]
  note s4 = dumpPerPidPerDevice_spec [OF conjunct1 [OF s3] 4]
  from s1 s2 s3 s4 none out show ?thesis by (simp add: dump_spec_def Un_assoc)
qed

lemma runDump_missing:
  assumes "\<not> k_exists K w (file_join d MapNameMeta)"
  shows "\<exists>e. runDump K d w = ([], Some e, w) \<and> errors_is e ErrNotExist"
  using load_missing [OF assms] by (auto simp: runDump_def dumpMeta_def)

end

end
