(* ===== verification/MapsProps.thy ===== *)
theory MapsProps
  imports Demo Dump
begin

text \<open>
  The properties of the maps: the ABI between C and Go (\<open>include/gpu_types.h\<close>, the BPF object, the
  generated bindings), the bridge (\<open>internal/maps/maps.go\<close>) and the dump, with their witnesses.
\<close>

section \<open>The ABI\<close>

text \<open>C6: C and Go agree on where every field is: whatever values a Go program sets under the Go names of the
  fields, a consumer that reads the bytes through the C declaration of \<open>gpu_types.h\<close> finds each of them under
  the C name of the same field, for all four structs and both word sizes of the Go side (\<open>uint64\<close>
  8-aligned, or 4-aligned as on 386).\<close>

theorem consumer_reads_what_go_writes:
  assumes "ma \<in> {4, 8}"
  shows "c_read c_gpu_meta (go_image ma go_GpuMeta (GpuMeta_fields m)) = gpu_meta_fields m \<and>
    c_read c_gpu_device_metrics (go_image ma go_GpuDeviceMetrics (GpuDeviceMetrics_fields d)) =
      gpu_device_metrics_fields d \<and>
    c_read c_gpu_pid_metrics (go_image ma go_GpuPidMetrics (GpuPidMetrics_fields p)) =
      gpu_pid_metrics_fields p \<and>
    c_read c_gpu_pid_metrics_aggregated
        (go_image ma go_GpuPidMetricsAggregated (GpuPidMetricsAggregated_fields a)) =
      gpu_pid_metrics_aggregated_fields a"
proof -
  from assms consider "ma = 4" | "ma = 8" by blast
  then show ?thesis
  proof cases
    case 1
    show ?thesis unfolding 1
      using meta_abi_386.read_back device_abi_386.read_back pid_abi_386.read_back agg_abi_386.read_back by blast
  next
    case 2
    show ?thesis unfolding 2
      using meta_abi.read_back device_abi.read_back pid_abi.read_back agg_abi.read_back by blast
  qed
qed

theorem consumer_reads_what_go_writes_witness:
  "c_read c_gpu_meta (go_image 4 go_GpuMeta (GpuMeta_fields (meta_record [demo_device] 5 99))) =
     [(''schema_version'', 1), (''n_devices'', 1), (''last_update_ns'', 5), (''helper_pid'', 99), (''_reserved'', 0)]"
  using consumer_reads_what_go_writes [of 4 "meta_record [demo_device] 5 99"]
  by (simp add: gpu_meta_fields_def meta_record_def SchemaVersion_def)

lemma abi_sizes:
  assumes "ma \<in> {4, 8}"
  shows "csize ma (TStruct go_GpuMeta) = csize 8 (TStruct c_gpu_meta)"
    and "csize ma (TStruct go_GpuDeviceMetrics) = csize 8 (TStruct c_gpu_device_metrics)"
    and "csize ma (TStruct go_GpuPidMetrics) = csize 8 (TStruct c_gpu_pid_metrics)"
    and "csize ma (TStruct go_GpuPidMetricsAggregated) = csize 8 (TStruct c_gpu_pid_metrics_aggregated)"
  using assms meta_abi.layout meta_abi_386.layout device_abi.layout device_abi_386.layout
    pid_abi.layout pid_abi_386.layout agg_abi.layout agg_abi_386.layout
  unfolding same_layout_def by (metis empty_iff insert_iff)+

text \<open>Every map is updated with a key and a value of exactly the sizes its declaration in the BPF object
  gives, on both word sizes, so an update never reads past a Go value or stores a short one.\<close>

lemma update_sizes_agree:
  assumes "ma \<in> {4, 8}"
  shows "update_sizes_ok ma f"
  using assms abi_sizes
  by (cases f) (auto simp: update_sizes_ok_def map_spec_defs simp del: csize.simps(4))

lemma update_sizes_agree_witness: "update_sizes_ok 4 GpuPerPid"
  by (rule update_sizes_agree) simp

text \<open>C14: The composite key of a (pid, device) pair is a bijection with the pairs: the dump decodes what the
  daemon encodes, every 64-bit key is the key of the pair it decodes to, and different pairs never
  share a key.\<close>

theorem key_round_trip:
  "ucast (drop_bit 32 (PerPidPerDeviceKey pid dev)) = pid \<and>
   ucast (PerPidPerDeviceKey pid dev AND 0xFFFFFFFF) = dev \<and>
   PerPidPerDeviceKey (ucast (drop_bit 32 k)) (ucast (k AND 0xFFFFFFFF)) = k \<and>
   (PerPidPerDeviceKey pid dev = PerPidPerDeviceKey pid' dev' \<longleftrightarrow> pid = pid' \<and> dev = dev')"
  by (simp add: key_decode key_encode)

section \<open>The bridge\<close>

text \<open>C25: An \<open>Unpin\<close> that returns \<open>nil\<close> leaves none of the four pin files; whatever it returns, it removes no
  other file and creates none. A second \<open>Unpin\<close> returns \<open>nil\<close> and changes nothing.\<close>

theorem Unpin_removes_the_pins:
  assumes "bpf_kernel K" and "Unpin K b w = (r, w')"
  shows "(r = None \<longrightarrow> (\<forall>n \<in> {MapNameMeta, MapNameDevice, MapNamePerPid, MapNamePerPidPerDevice}.
            \<not> k_exists K w' (file_join (br_pinDir b) n))) \<and>
    (\<forall>p. k_exists K w' p \<longrightarrow> k_exists K w p) \<and>
    (\<forall>p. p \<notin> file_join (br_pinDir b) ` {MapNameMeta, MapNameDevice, MapNamePerPid, MapNamePerPidPerDevice}
       \<longrightarrow> k_exists K w' p = k_exists K w p \<and> k_pin K w' p = k_pin K w p) \<and>
    (r = None \<longrightarrow> Unpin K b w' = (None, w'))"
proof -
  let ?ns = "[MapNameMeta, MapNameDevice, MapNamePerPid, MapNamePerPidPerDevice]"
  obtain errs where u: "unpin_loop K (br_pinDir b) ?ns [] w = (errs, w')"
    and r: "r = errors_join errs" using assms(2) by (auto simp: Unpin_def split: prod.splits)
  from r have r: "r = None \<longleftrightarrow> errs = []" by simp
  note f = bpf_kernel.unpin_loop_fs [OF assms(1) u]
  have "Unpin K b w' = (None, w')" if "r = None"
  proof -
    have "\<forall>n \<in> set ?ns. \<not> k_exists K w' (file_join (br_pinDir b) n)" using f r that by auto
    from bpf_kernel.unpin_loop_absent [OF assms(1) this] show ?thesis by (simp add: Unpin_def errors_join_def)
  qed
  with f r show ?thesis by simp
qed

theorem Unpin_removes_the_pins_witness:
  "\<exists>w'. Unpin ref_kernel demo_bridge demo_machine = (None, w') \<and>
     \<not> k_exists ref_kernel w' ''/sys/fs/bpf/gpu_meta'' \<and> Unpin ref_kernel demo_bridge w' = (None, w')"
proof -
  obtain r w' where u: "Unpin ref_kernel demo_bridge demo_machine = (r, w')" by fastforce
  then have "r = None"
    by (auto simp: Unpin_def ref_kernel_def demo_bridge_def demo_machine_def map_name_defs demo_join
        errors_join_def Let_def)
  with Unpin_removes_the_pins [OF refk.bpf_kernel_axioms u] u show ?thesis
    by (simp add: demo_bridge_def map_name_defs demo_join)
qed

section \<open>The dump\<close>

text \<open>C24: A dump of pinned maps that reports no error prints exactly what the maps hold: the metadata, every
  device slot that was ever written, every per-pid record under its pid, and every detail record
  under the pid and the device its key encodes. It changes no map and no pin.\<close>

theorem dump_prints_the_maps:
  assumes "bpf_kernel K" and "pinned_in K b d v w" and "runDump K d w = (out, None, w')"
  shows "data_lines out = dump_spec v \<and> pinned_in K b d v w'"
  by (rule bpf_kernel.runDump_view [OF assms])

lemma demo_pinned: "pinned_in ref_kernel demo_bridge ''/sys/fs/bpf'' demo_view demo_machine"
  by (simp add: pinned_in_def demo_bview map_name_defs demo_join)
     (simp add: demo_bridge_def demo_fds_def demo_machine_def)

theorem dump_prints_the_maps_witness:
  "\<exists>out w'. runDump ref_kernel ''/sys/fs/bpf'' demo_machine = (out, None, w') \<and>
     data_lines out = {MetaLine zero_meta}"
proof -
  obtain out r w' where d: "runDump ref_kernel ''/sys/fs/bpf'' demo_machine = (out, r, w')"
    by (metis prod.exhaust)
  then have "r = None"
    by (auto simp: runDump_def dumpMeta_def dumpDevice_def dumpPerPid_def dumpPerPidPerDevice_def
        map_name_defs demo_join ref_kernel_def demo_machine_def ref_array_ops_def ref_lru_ops_def ref_get_def)
  with d have "runDump ref_kernel ''/sys/fs/bpf'' demo_machine = (out, None, w')" by simp
  with dump_prints_the_maps [OF refk.bpf_kernel_axioms demo_pinned this] show ?thesis
    by (auto simp: dump_spec_def demo_view_def ref_array_get_def zero_device_def)
qed

end
