(* ===== verification/RealNvml.thy ===== *)
theory RealNvml
  imports Nvml PollerAgg
begin

text \<open>
  The backend on real hardware, \<open>internal/nvml/real.go\<close>. The NVML library (\<open>go-nvml\<close>), the wall
  clock and the order of the \<open>range\<close> loop over \<open>memByPidDev\<close> are parameters: a record \<open>'l nvml_lib\<close> of
  functions of an unknown state \<open>'l\<close>. A query is a function of that state and of the device; each
  method of the backend asks every query at most once per device, so nothing is assumed about
  readings that change while a method runs. The state moves on at the end of a method (\<open>lib_after\<close>).
\<close>

section \<open>The library\<close>

type_synonym device = nat

record util_sample =
  us_Pid :: u32
  us_TimeStamp :: u64
  us_SmUtil :: u32
  us_MemUtil :: u32
  us_EncUtil :: u32
  us_DecUtil :: u32

record memory_info =
  mi_Total :: u64
  mi_Used :: u64
  mi_Reserved :: u64

type_synonym pid_mem = "(u32 \<times> u32) \<times> u64"

record 'l nvml_lib =
  lib_Init :: "'l \<Rightarrow> nvml_return \<times> 'l"
  lib_Shutdown :: "'l \<Rightarrow> nvml_return \<times> 'l"
  lib_after :: "'l \<Rightarrow> 'l"
  lib_ErrorString :: "nvml_return \<Rightarrow> string"
  lib_now :: "'l \<Rightarrow> int"
  lib_range :: "'l \<Rightarrow> u32 \<Rightarrow> pid_mem list \<Rightarrow> pid_mem list"
  DeviceGetCount :: "'l \<Rightarrow> nat \<times> nvml_return"
  DeviceGetHandleByIndex :: "'l \<Rightarrow> nat \<Rightarrow> device \<times> nvml_return"
  GetUUID :: "'l \<Rightarrow> device \<Rightarrow> string \<times> nvml_return"
  GetName :: "'l \<Rightarrow> device \<Rightarrow> string \<times> nvml_return"
  GetUtilizationRates :: "'l \<Rightarrow> device \<Rightarrow> (u32 \<times> u32) \<times> nvml_return"
  GetMemoryInfo_v2 :: "'l \<Rightarrow> device \<Rightarrow> memory_info \<times> nvml_return"
  GetMemoryInfo :: "'l \<Rightarrow> device \<Rightarrow> (u64 \<times> u64) \<times> nvml_return"
  GetTemperature :: "'l \<Rightarrow> device \<Rightarrow> u32 \<times> nvml_return"
  GetPowerUsage :: "'l \<Rightarrow> device \<Rightarrow> u32 \<times> nvml_return"
  GetClockInfo_SM :: "'l \<Rightarrow> device \<Rightarrow> u32 \<times> nvml_return"
  GetClockInfo_MEM :: "'l \<Rightarrow> device \<Rightarrow> u32 \<times> nvml_return"
  GetCurrentClocksEventReasons :: "'l \<Rightarrow> device \<Rightarrow> u64 \<times> nvml_return"
  GetCurrentClocksThrottleReasons :: "'l \<Rightarrow> device \<Rightarrow> u64 \<times> nvml_return"
  GetPcieThroughput_RX :: "'l \<Rightarrow> device \<Rightarrow> u32 \<times> nvml_return"
  GetPcieThroughput_TX :: "'l \<Rightarrow> device \<Rightarrow> u32 \<times> nvml_return"
  GetEncoderUtilization :: "'l \<Rightarrow> device \<Rightarrow> u32 \<times> u32 \<times> nvml_return"
  GetDecoderUtilization :: "'l \<Rightarrow> device \<Rightarrow> u32 \<times> u32 \<times> nvml_return"
  GetTotalEccErrors_CORRECTED :: "'l \<Rightarrow> device \<Rightarrow> u64 \<times> nvml_return"
  GetTotalEccErrors_UNCORRECTED :: "'l \<Rightarrow> device \<Rightarrow> u64 \<times> nvml_return"
  GetFanSpeed :: "'l \<Rightarrow> device \<Rightarrow> u32 \<times> nvml_return"
  GetComputeMode :: "'l \<Rightarrow> device \<Rightarrow> int \<times> nvml_return"
  GetComputeRunningProcesses :: "'l \<Rightarrow> device \<Rightarrow> (u32 \<times> u64) list \<times> nvml_return"
  GetProcessUtilization :: "'l \<Rightarrow> device \<Rightarrow> u64 \<Rightarrow> util_sample list \<times> nvml_return"

section \<open>Errors\<close>

text \<open>
  The text of an NVML error comes from \<open>lib_ErrorString\<close>. \<open>fmt.Errorf("%w: %s", ErrNotAvailable, s)\<close> is
  \<open>Wrapf s ErrNotAvailable\<close>: an error with a text of its own around the sentinel.
\<close>

definition wrap :: "'l nvml_lib \<Rightarrow> nvml_return \<Rightarrow> goerr option" where
  "wrap L ret =
     (case ret of
        SUCCESS \<Rightarrow> None
      | ERROR_NOT_SUPPORTED \<Rightarrow> Some (SoftErr ret)
      | ERROR_NOT_FOUND \<Rightarrow> Some (SoftErr ret)
      | ERROR_LIBRARY_NOT_FOUND \<Rightarrow> Some (Wrapf (lib_ErrorString L ret) ErrNotAvailable)
      | ERROR_DRIVER_NOT_LOADED \<Rightarrow> Some (Wrapf (lib_ErrorString L ret) ErrNotAvailable)
      | NVML_OTHER n \<Rightarrow> Some (Errorf (''nvml: '' @ lib_ErrorString L ret)))"

definition isSoft :: "goerr \<Rightarrow> bool" where
  "isSoft err = errors_as_soft err"

section \<open>The backend\<close>

record 'l Real =
  rl_handles :: "device list"
  rl_lastSeenTs :: "(u32 \<times> u64) list"
  rl_initialized :: bool
  rl_closed :: bool
  rl_lib :: 'l

definition NewReal :: "'l \<Rightarrow> 'l Real" where
  "NewReal l = \<lparr>rl_handles = [], rl_lastSeenTs = [], rl_initialized = False, rl_closed = False, rl_lib = l\<rparr>"

text \<open>The loop of \<open>Init\<close> over the device indices: an error, or the handles.\<close>

fun get_handles :: "'l nvml_lib \<Rightarrow> 'l \<Rightarrow> nat list \<Rightarrow> device list \<Rightarrow> goerr option \<times> device list" where
  "get_handles L l [] hs = (None, hs)"
| "get_handles L l (i # is) hs =
     (case DeviceGetHandleByIndex L l i of
        (d, ret) \<Rightarrow>
          (case wrap L ret of
             Some err \<Rightarrow> (Some (Wrapf ''DeviceGetHandleByIndex'' err), hs)
           | None \<Rightarrow> get_handles L l is (hs @ [d])))"

definition Real_Init :: "'l nvml_lib \<Rightarrow> 'l Real \<Rightarrow> goerr option \<times> 'l Real" where
  "Real_Init L r =
     (case lib_Init L (rl_lib r) of
        (ret, l1) \<Rightarrow>
          (case wrap L ret of
             Some err \<Rightarrow> (Some err, r\<lparr>rl_lib := l1\<rparr>)
           | None \<Rightarrow>
               let r1 = r\<lparr>rl_lib := l1, rl_initialized := True\<rparr>
               in case DeviceGetCount L l1 of
                    (cnt, ret) \<Rightarrow>
                      (case wrap L ret of
                         Some err \<Rightarrow>
                           (Some (Wrapf ''DeviceGetCount'' err),
                            r1\<lparr>rl_lib := snd (lib_Shutdown L l1), rl_initialized := False\<rparr>)
                       | None \<Rightarrow>
                           (case get_handles L l1 [0..<cnt] [] of
                              (Some err, hs) \<Rightarrow>
                                (Some err, r1\<lparr>rl_handles := hs, rl_lib := snd (lib_Shutdown L l1),
                                   rl_initialized := False\<rparr>)
                            | (None, hs) \<Rightarrow> (None, r1\<lparr>rl_handles := hs\<rparr>)))))"

definition Real_Close :: "'l nvml_lib \<Rightarrow> 'l Real \<Rightarrow> goerr option \<times> 'l Real" where
  "Real_Close L r =
     (if rl_closed r then (None, r)
      else
        let r1 = r\<lparr>rl_closed := True, rl_handles := []\<rparr>
        in if \<not> rl_initialized r1 then (None, r1)
           else
             (case lib_Shutdown L (rl_lib r1) of
                (ret, l1) \<Rightarrow> (wrap L ret, r1\<lparr>rl_initialized := False, rl_lib := l1\<rparr>)))"

section \<open>Device snapshots\<close>

text \<open>\<open>if v, ret := query(); wrap(ret) == nil { upd(v) }\<close>\<close>

definition if_ok :: "'l nvml_lib \<Rightarrow> 'a \<times> nvml_return \<Rightarrow> ('a \<Rightarrow> 'b \<Rightarrow> 'b) \<Rightarrow> 'b \<Rightarrow> 'b" where
  "if_ok L q upd s = (if wrap L (snd q) = None then upd (fst q) s else s)"

definition device_snapshot :: "'l nvml_lib \<Rightarrow> 'l \<Rightarrow> u64 \<Rightarrow> u32 \<Rightarrow> device \<Rightarrow> DeviceSnapshot" where
  "device_snapshot L l tsNs idx dev =
     (let s0 = zero_snapshot\<lparr>ds_Index := idx, ds_TimestampNs := tsNs\<rparr>;
          s1 = if_ok L (GetUUID L l dev) (\<lambda>v s. s\<lparr>ds_UUID := v\<rparr>) s0;
          s2 = if_ok L (GetName L l dev) (\<lambda>v s. s\<lparr>ds_Name := v\<rparr>) s1;
          s3 = if_ok L (GetUtilizationRates L l dev)
                 (\<lambda>u s. s\<lparr>ds_SmUtilPct := fst u, ds_MemUtilPct := snd u\<rparr>) s2;
          s4 = (if wrap L (snd (GetMemoryInfo_v2 L l dev)) = None
                then let m = fst (GetMemoryInfo_v2 L l dev)
                     in s3\<lparr>ds_MemTotal := mi_Total m, ds_MemUsed := mi_Used m,
                           ds_MemReserved := mi_Reserved m\<rparr>
                else if_ok L (GetMemoryInfo L l dev)
                       (\<lambda>m s. s\<lparr>ds_MemTotal := fst m, ds_MemUsed := snd m\<rparr>) s3);
          s5 = if_ok L (GetTemperature L l dev) (\<lambda>v s. s\<lparr>ds_TempC := v\<rparr>) s4;
          s6 = if_ok L (GetPowerUsage L l dev) (\<lambda>v s. s\<lparr>ds_PowerMw := v\<rparr>) s5;
          s7 = if_ok L (GetClockInfo_SM L l dev) (\<lambda>v s. s\<lparr>ds_SmClockMhz := v\<rparr>) s6;
          s8 = if_ok L (GetClockInfo_MEM L l dev) (\<lambda>v s. s\<lparr>ds_MemClockMhz := v\<rparr>) s7;
          s9 = (if wrap L (snd (GetCurrentClocksEventReasons L l dev)) = None
                then s8\<lparr>ds_ThrottleReasons := fst (GetCurrentClocksEventReasons L l dev)\<rparr>
                else if_ok L (GetCurrentClocksThrottleReasons L l dev)
                       (\<lambda>v s. s\<lparr>ds_ThrottleReasons := v\<rparr>) s8);
          s10 = if_ok L (GetPcieThroughput_RX L l dev) (\<lambda>v s. s\<lparr>ds_PcieRxKbps := ucast v\<rparr>) s9;
          s11 = if_ok L (GetPcieThroughput_TX L l dev) (\<lambda>v s. s\<lparr>ds_PcieTxKbps := ucast v\<rparr>) s10;
          (ue, _, re) = GetEncoderUtilization L l dev;
          s12 = if_ok L (ue, re) (\<lambda>v s. s\<lparr>ds_EncUtilPct := v\<rparr>) s11;
          (ud, _, rd) = GetDecoderUtilization L l dev;
          s13 = if_ok L (ud, rd) (\<lambda>v s. s\<lparr>ds_DecUtilPct := v\<rparr>) s12;
          s14 = if_ok L (GetTotalEccErrors_CORRECTED L l dev)
                  (\<lambda>v s. s\<lparr>ds_EccCorrectedTotal := v\<rparr>) s13;
          s15 = if_ok L (GetTotalEccErrors_UNCORRECTED L l dev)
                  (\<lambda>v s. s\<lparr>ds_EccUncorrectedTotal := v\<rparr>) s14;
          s16 = if_ok L (GetFanSpeed L l dev) (\<lambda>v s. s\<lparr>ds_FanSpeedPct := v\<rparr>) s15
      in if_ok L (GetComputeMode L l dev) (\<lambda>v s. s\<lparr>ds_ComputeMode := word_of_int v\<rparr>) s16)"

definition Real_Devices ::
  "'l nvml_lib \<Rightarrow> 'l Real \<Rightarrow> (DeviceSnapshot list \<times> goerr option) \<times> 'l Real" where
  "Real_Devices L r =
     (let l = rl_lib r; tsNs = word_of_int (lib_now L l)
      in ((map (\<lambda>(i, dev). device_snapshot L l tsNs (of_nat i) dev) (enumerate 0 (rl_handles r)), None),
          r\<lparr>rl_lib := lib_after L l\<rparr>))"

section \<open>Process samples\<close>

definition util_step ::
  "u64 \<Rightarrow> u32 \<Rightarrow> util_sample \<Rightarrow> ProcessSample list \<times> pid_mem list \<times> u64
    \<Rightarrow> ProcessSample list \<times> pid_mem list \<times> u64" where
  "util_step tsNs devIdx s st =
     (case st of (out, mem, maxTs) \<Rightarrow>
        let maxTs' = (if us_TimeStamp s > maxTs then us_TimeStamp s else maxTs);
            key = (us_Pid s, devIdx);
            used = lookup0 mem key
        in (out @ [zero_sample\<lparr>ps_Pid := us_Pid s, ps_DeviceIndex := devIdx, ps_TimestampNs := tsNs,
              ps_UsedGpuMemory := used, ps_SmUtilPct := us_SmUtil s, ps_MemUtilPct := us_MemUtil s,
              ps_EncUtilPct := us_EncUtil s, ps_DecUtilPct := us_DecUtil s\<rparr>],
            AList.delete key mem, maxTs'))"

definition mem_only_step ::
  "u64 \<Rightarrow> u32 \<Rightarrow> pid_mem \<Rightarrow> ProcessSample list \<times> pid_mem list \<Rightarrow> ProcessSample list \<times> pid_mem list" where
  "mem_only_step tsNs devIdx e st =
     (case st of (out, mem) \<Rightarrow>
        let key = fst e
        in if snd key \<noteq> devIdx then (out, mem)
           else (out @ [zero_sample\<lparr>ps_Pid := fst key, ps_DeviceIndex := devIdx,
                   ps_TimestampNs := tsNs, ps_UsedGpuMemory := snd e\<rparr>],
                 AList.delete key mem))"

definition process_device ::
  "'l nvml_lib \<Rightarrow> 'l \<Rightarrow> u64 \<Rightarrow> u64 \<Rightarrow> nat \<times> device
    \<Rightarrow> ProcessSample list \<times> pid_mem list \<times> (u32 \<times> u64) list
    \<Rightarrow> ProcessSample list \<times> pid_mem list \<times> (u32 \<times> u64) list" where
  "process_device L l tsNs lastSeenNs x st =
     (case x of (i, dev) \<Rightarrow> case st of (out, mem, lastSeenTs) \<Rightarrow>
        let devIdx = of_nat i;
            (procs, pret) = GetComputeRunningProcesses L l dev;
            mem1 = (if wrap L pret = None
                    then fold (\<lambda>p. AList.update (fst p, devIdx) (snd p)) procs mem else mem);
            seen0 = lookup0 lastSeenTs devIdx;
            seen = (if lastSeenNs > seen0 then lastSeenNs else seen0);
            (samples, ret) = GetProcessUtilization L l dev seen
        in if (case wrap L ret of None \<Rightarrow> False | Some err \<Rightarrow> \<not> isSoft err)
           then (out, mem1, lastSeenTs)
           else
             (case fold (util_step tsNs devIdx) samples (out, mem1, 0) of
                (out2, mem2, maxTs) \<Rightarrow>
                  let lastSeenTs' =
                        (if maxTs > 0 \<and> maxTs > lookup0 lastSeenTs devIdx
                         then AList.update devIdx maxTs lastSeenTs else lastSeenTs)
                  in case fold (mem_only_step tsNs devIdx) (lib_range L l devIdx mem2) (out2, mem2) of
                       (out3, mem3) \<Rightarrow> (out3, mem3, lastSeenTs')))"

definition Real_ProcessSamples ::
  "'l nvml_lib \<Rightarrow> 'l Real \<Rightarrow> u64 \<Rightarrow> (ProcessSample list \<times> goerr option) \<times> 'l Real" where
  "Real_ProcessSamples L r lastSeenNs =
     (let l = rl_lib r; tsNs = word_of_int (lib_now L l)
      in case fold (process_device L l tsNs lastSeenNs) (enumerate 0 (rl_handles r))
                ([], [], rl_lastSeenTs r) of
           (out, mem, seenTs) \<Rightarrow>
             ((out, None), r\<lparr>rl_lastSeenTs := seenTs, rl_lib := lib_after L l\<rparr>))"

definition real_poller :: "'l nvml_lib \<Rightarrow> 'l Real nvml_poller" where
  "real_poller L = \<lparr>np_Init = Real_Init L, np_Devices = Real_Devices L,
     np_ProcessSamples = Real_ProcessSamples L, np_Close = Real_Close L\<rparr>"

lemma real_poller_simps [simp]:
  "np_Init (real_poller L) = Real_Init L" "np_Devices (real_poller L) = Real_Devices L"
  "np_ProcessSamples (real_poller L) = Real_ProcessSamples L" "np_Close (real_poller L) = Real_Close L"
  by (simp_all add: real_poller_def)

section \<open>Error classification and life cycle\<close>

lemma wrap_None_iff [simp]: "wrap L ret = None \<longleftrightarrow> ret = SUCCESS"
  by (cases ret) (simp_all add: wrap_def)

lemma wrap_SUCCESS [simp]: "wrap L SUCCESS = None"
  by (simp add: wrap_def)

lemma if_ok_eq: "if_ok L q upd s = (if snd q = SUCCESS then upd (fst q) s else s)"
  by (simp add: if_ok_def)

lemma wrap_soft: "wrap L ret = Some err \<Longrightarrow>
    isSoft err \<longleftrightarrow> ret \<in> {ERROR_NOT_SUPPORTED, ERROR_NOT_FOUND}"
  by (cases ret) (auto simp: wrap_def isSoft_def)

lemma wrap_not_available: "wrap L ret = Some err \<Longrightarrow>
    errors_is err ErrNotAvailable \<longleftrightarrow> ret \<in> {ERROR_LIBRARY_NOT_FOUND, ERROR_DRIVER_NOT_LOADED}"
  by (cases ret) (auto simp: wrap_def)

text \<open>\<open>refs\<close> counts the successful \<open>nvmlInit\<close> calls that no \<open>nvmlShutdown\<close> has undone yet.\<close>

definition counts_refs :: "'l nvml_lib \<Rightarrow> ('l \<Rightarrow> nat) \<Rightarrow> bool" where
  "counts_refs L refs \<longleftrightarrow>
     (\<forall>l ret l'. lib_Init L l = (ret, l') \<longrightarrow> refs l' = (if ret = SUCCESS then refs l + 1 else refs l)) \<and>
     (\<forall>l ret l'. lib_Shutdown L l = (ret, l') \<longrightarrow> refs l' = refs l - 1) \<and>
     (\<forall>l. refs (lib_after L l) = refs l)"

lemma Real_Init_refs:
  assumes "counts_refs L refs" and "Real_Init L r = (e, r')"
  shows "refs (rl_lib r') = refs (rl_lib r) + (if e = None then 1 else 0)"
    and "e = None \<Longrightarrow> rl_initialized r'" and "rl_closed r' = rl_closed r"
proof -
  obtain ret l1 where i: "lib_Init L (rl_lib r) = (ret, l1)" by fastforce
  obtain c ret2 where c: "DeviceGetCount L l1 = (c, ret2)" by fastforce
  obtain ret3 l2 where s: "lib_Shutdown L l1 = (ret3, l2)" by fastforce
  obtain he hs where h: "get_handles L l1 [0..<c] [] = (he, hs)" by fastforce
  from assms(1) i s have refs: "refs l1 = (if ret = SUCCESS then refs (rl_lib r) + 1 else refs (rl_lib r))"
    "refs l2 = refs l1 - 1" unfolding counts_refs_def by blast+
  show "refs (rl_lib r') = refs (rl_lib r) + (if e = None then 1 else 0)"
    and "e = None \<Longrightarrow> rl_initialized r'" and "rl_closed r' = rl_closed r"
    using assms(2) refs
    by (auto simp: Real_Init_def i c s h Let_def split: option.splits if_splits)
qed

lemma Real_Close_refs:
  assumes "counts_refs L refs" and "Real_Close L r = (e, r')"
  shows "refs (rl_lib r') = refs (rl_lib r) - (if rl_initialized r \<and> \<not> rl_closed r then 1 else 0)"
    and "rl_closed r'" and "rl_initialized r \<and> \<not> rl_closed r \<Longrightarrow> \<not> rl_initialized r'"
proof -
  obtain ret l1 where s: "lib_Shutdown L (rl_lib r) = (ret, l1)" by fastforce
  with assms(1) have "refs l1 = refs (rl_lib r) - 1" unfolding counts_refs_def by blast
  then show "refs (rl_lib r') = refs (rl_lib r) - (if rl_initialized r \<and> \<not> rl_closed r then 1 else 0)"
    and "rl_closed r'" and "rl_initialized r \<and> \<not> rl_closed r \<Longrightarrow> \<not> rl_initialized r'"
    using assms(2) by (auto simp: Real_Close_def s Let_def split: if_splits)
qed

lemma Real_Close_again: "Real_Close L r = (e, r') \<Longrightarrow> Real_Close L r' = (None, r')"
  by (auto simp: Real_Close_def Let_def split: if_splits prod.splits)

section \<open>What the backend reports of the processes\<close>

text \<open>The two loops of one device, with the list they append.\<close>

definition util_sample_of :: "u64 \<Rightarrow> u32 \<Rightarrow> u64 \<Rightarrow> util_sample \<Rightarrow> ProcessSample" where
  "util_sample_of tsNs devIdx used s = zero_sample\<lparr>ps_Pid := us_Pid s, ps_DeviceIndex := devIdx,
     ps_TimestampNs := tsNs, ps_UsedGpuMemory := used, ps_SmUtilPct := us_SmUtil s,
     ps_MemUtilPct := us_MemUtil s, ps_EncUtilPct := us_EncUtil s, ps_DecUtilPct := us_DecUtil s\<rparr>"

definition mem_sample_of :: "u64 \<Rightarrow> pid_mem \<Rightarrow> ProcessSample" where
  "mem_sample_of tsNs e = zero_sample\<lparr>ps_Pid := fst (fst e), ps_DeviceIndex := snd (fst e),
     ps_TimestampNs := tsNs, ps_UsedGpuMemory := snd e\<rparr>"

fun util_out :: "u64 \<Rightarrow> u32 \<Rightarrow> util_sample list \<Rightarrow> pid_mem list \<Rightarrow> ProcessSample list" where
  "util_out tsNs d [] mem = []"
| "util_out tsNs d (s # us) mem =
     util_sample_of tsNs d (lookup0 mem (us_Pid s, d)) s #
     util_out tsNs d us (AList.delete (us_Pid s, d) mem)"

abbreviation delete_all :: "'k list \<Rightarrow> ('k \<times> 'v) list \<Rightarrow> ('k \<times> 'v) list" where
  "delete_all \<equiv> fold AList.delete"

lemma map_of_delete_all:
  "map_of (delete_all ks m) = (\<lambda>k. if k \<in> set ks then None else map_of m k)"
proof (induction ks arbitrary: m)
  case Nil
  then show ?case by simp
next
  case (Cons k ks)
  show ?case by (simp add: Cons.IH AList.delete_conv' fun_eq_iff)
qed

lemma distinct_delete_all: "distinct (map fst m) \<Longrightarrow> distinct (map fst (delete_all ks m))"
  by (induction ks arbitrary: m) (auto intro: AList.distinct_delete)

lemma fold_util_step:
  "fold (util_step tsNs d) us (out, mem, mx) =
     (out @ util_out tsNs d us mem, delete_all (map (\<lambda>s. (us_Pid s, d)) us) mem,
      max mx (maxcol us_TimeStamp us))"
proof (induction us arbitrary: out mem mx)
  case Nil
  then show ?case by simp
next
  case (Cons s us)
  have "util_step tsNs d s (out, mem, mx) =
      (out @ [util_sample_of tsNs d (lookup0 mem (us_Pid s, d)) s], AList.delete (us_Pid s, d) mem,
       max mx (us_TimeStamp s))"
    by (simp add: util_step_def util_sample_of_def Let_def if_greater_max)
  then show ?case by (simp add: Cons.IH maxcol_Cons max.assoc)
qed

lemma fold_mem_only_step:
  "fold (mem_only_step tsNs d) es (out, mem) =
     (out @ map (mem_sample_of tsNs) (filter (\<lambda>e. snd (fst e) = d) es),
      delete_all (map fst (filter (\<lambda>e. snd (fst e) = d) es)) mem)"
  by (induction es arbitrary: out mem) (auto simp: mem_only_step_def mem_sample_of_def Let_def)

text \<open>
  The records of one device. A pid in the utilization samples gets its memory in its first record
  and 0 in later ones; a pid without a utilization sample gets one record with its memory. So the
  maximum over the records of a pid is its memory.
\<close>

lemma util_out_device: "x \<in> set (util_out tsNs d us mem) \<Longrightarrow>
    ps_DeviceIndex x = d \<and> ps_MigInstance x = 0 \<and> ps_TimestampNs x = tsNs"
  by (induction us arbitrary: mem) (auto simp: util_sample_of_def zero_sample_def)

lemma util_out_pids: "map ps_Pid (util_out tsNs d us mem) = map us_Pid us"
  by (induction us arbitrary: mem) (auto simp: util_sample_of_def)

lemma util_out_columns:
  "maxcol ps_SmUtilPct (filter (\<lambda>x. ps_Pid x = p) (util_out tsNs d us mem)) =
     maxcol us_SmUtil (filter (\<lambda>s. us_Pid s = p) us)"
  "maxcol ps_MemUtilPct (filter (\<lambda>x. ps_Pid x = p) (util_out tsNs d us mem)) =
     maxcol us_MemUtil (filter (\<lambda>s. us_Pid s = p) us)"
  "maxcol ps_EncUtilPct (filter (\<lambda>x. ps_Pid x = p) (util_out tsNs d us mem)) =
     maxcol us_EncUtil (filter (\<lambda>s. us_Pid s = p) us)"
  "maxcol ps_DecUtilPct (filter (\<lambda>x. ps_Pid x = p) (util_out tsNs d us mem)) =
     maxcol us_DecUtil (filter (\<lambda>s. us_Pid s = p) us)"
  by (induction us arbitrary: mem) (auto simp: util_sample_of_def maxcol_Cons)

lemma util_out_memory:
  "maxcol ps_UsedGpuMemory (filter (\<lambda>x. ps_Pid x = p) (util_out tsNs d us mem)) =
     (if p \<in> us_Pid ` set us then lookup0 mem (p, d) else 0)"
proof (induction us arbitrary: mem)
  case Nil
  then show ?case by simp
next
  case (Cons s us)
  have "lookup0 (AList.delete (us_Pid s, d) mem) (p, d) =
      (if us_Pid s = p then 0 else lookup0 mem (p, d))"
    by (simp add: lookup0_def AList.delete_conv')
  then show ?case by (auto simp: Cons.IH util_sample_of_def maxcol_Cons)
qed

definition mem_out :: "u64 \<Rightarrow> u32 \<Rightarrow> pid_mem list \<Rightarrow> ProcessSample list" where
  "mem_out tsNs d es = map (mem_sample_of tsNs) (filter (\<lambda>e. snd (fst e) = d) es)"

lemma mem_out_pid:
  assumes "distinct (map fst es)"
  shows "filter (\<lambda>x. ps_Pid x = p) (mem_out tsNs d es) =
    (case map_of es (p, d) of None \<Rightarrow> [] | Some m \<Rightarrow> [mem_sample_of tsNs ((p, d), m)])"
  using assms
proof (induction es)
  case Nil
  then show ?case by (simp add: mem_out_def)
next
  case (Cons e es)
  then have IH: "filter (\<lambda>x. ps_Pid x = p) (mem_out tsNs d es) =
      (case map_of es (p, d) of None \<Rightarrow> [] | Some m \<Rightarrow> [mem_sample_of tsNs ((p, d), m)])" by simp
  show ?case
  proof (cases "fst e = (p, d)")
    case True
    with Cons.prems have "map_of es (p, d) = None" by (auto simp: map_of_eq_None_iff)
    with IH True show ?thesis by (cases e) (simp add: mem_out_def mem_sample_of_def)
  next
    case False
    with IH show ?thesis by (cases e) (auto simp: mem_out_def mem_sample_of_def)
  qed
qed

section \<open>Specification of \<open>ProcessSamples\<close>\<close>

text \<open>The memory of a pid on a device: the last entry that the list of running processes has for it.\<close>

definition reported_memory :: "'l nvml_lib \<Rightarrow> 'l \<Rightarrow> device \<Rightarrow> u32 \<Rightarrow> u64 option" where
  "reported_memory L l dev pid =
     (case GetComputeRunningProcesses L l dev of
        (procs, ret) \<Rightarrow> if ret = SUCCESS then map_of (rev procs) pid else None)"

definition hard_error :: "nvml_return \<Rightarrow> bool" where
  "hard_error ret \<longleftrightarrow> ret \<notin> {SUCCESS, ERROR_NOT_SUPPORTED, ERROR_NOT_FOUND}"

text \<open>
  What the samples \<open>c\<close> of one device have to say, whatever their order: who is reported, the memory
  and the utilisation of everybody, and the time stamps.
\<close>

definition device_reported ::
  "'l nvml_lib \<Rightarrow> 'l \<Rightarrow> u64 \<Rightarrow> u64 \<Rightarrow> device \<Rightarrow> u32 \<Rightarrow> ProcessSample list \<Rightarrow> bool" where
  "device_reported L l tsNs seen dev d c \<longleftrightarrow>
     (\<forall>x \<in> set c. ps_DeviceIndex x = d \<and> ps_MigInstance x = 0 \<and> ps_TimestampNs x = tsNs) \<and>
     (case GetProcessUtilization L l dev seen of
        (us, ret) \<Rightarrow>
          if hard_error ret then c = []
          else \<forall>p. let mine = filter (\<lambda>x. ps_Pid x = p) c;
                       util = filter (\<lambda>s. us_Pid s = p) us
               in (mine = [] \<longleftrightarrow> util = [] \<and> reported_memory L l dev p = None) \<and>
                  maxcol ps_UsedGpuMemory mine =
                    (case reported_memory L l dev p of None \<Rightarrow> 0 | Some m \<Rightarrow> m) \<and>
                  maxcol ps_SmUtilPct mine = maxcol us_SmUtil util \<and>
                  maxcol ps_MemUtilPct mine = maxcol us_MemUtil util \<and>
                  maxcol ps_EncUtilPct mine = maxcol us_EncUtil util \<and>
                  maxcol ps_DecUtilPct mine = maxcol us_DecUtil util)"

lemma not_soft: "(case wrap L ret of None \<Rightarrow> False | Some err \<Rightarrow> \<not> isSoft err) = hard_error ret"
  by (cases ret) (auto simp: wrap_def isSoft_def hard_error_def)

lemma map_of_fold_update:
  "map_of (fold (\<lambda>p. AList.update (fst p, d) (snd p)) procs m) (q, d') =
     (if d' = d then (case map_of (rev procs) q of None \<Rightarrow> map_of m (q, d') | Some v \<Rightarrow> Some v)
      else map_of m (q, d'))"
proof (induction procs arbitrary: m)
  case Nil
  then show ?case by simp
next
  case (Cons p procs)
  then show ?case by (auto simp: map_add_def split: option.splits)
qed

lemma distinct_fold_update:
  "distinct (map fst m) \<Longrightarrow>
    distinct (map fst (fold (\<lambda>p. AList.update (fst p, d) (snd p)) procs m))"
  by (induction procs arbitrary: m) (auto intro: AList.distinct_update)

lemma process_device_step:
  assumes range: "is_range (lib_range L l (of_nat i))"
    and dist: "distinct (map fst mem)" and fresh: "\<And>q. map_of mem (q, of_nat i) = None"
  shows "\<exists>c mem' ts'. process_device L l tsNs t (i, dev) (out, mem, ts) = (out @ c, mem', ts') \<and>
    distinct (map fst mem') \<and>
    (\<forall>q d. d \<noteq> of_nat i \<longrightarrow> map_of mem' (q, d) = map_of mem (q, d)) \<and>
    (\<forall>d. lookup0 ts d \<le> lookup0 ts' d \<and> (d \<noteq> of_nat i \<longrightarrow> lookup0 ts' d = lookup0 ts d)) \<and>
    device_reported L l tsNs (max t (lookup0 ts (of_nat i))) dev (of_nat i) c"
proof -
  let ?d = "of_nat i :: u32" and ?seen = "max t (lookup0 ts (of_nat i))"
  obtain procs pret where gp: "GetComputeRunningProcesses L l dev = (procs, pret)" by fastforce
  obtain us ret where gu: "GetProcessUtilization L l dev ?seen = (us, ret)" by fastforce
  define mem1 where "mem1 = (if pret = SUCCESS
    then fold (\<lambda>p. AList.update (fst p, ?d) (snd p)) procs mem else mem)"
  have m1: "map_of mem1 (q, d) = (if d = ?d then reported_memory L l dev q else map_of mem (q, d))" for q d
    using fresh by (auto simp: mem1_def reported_memory_def gp map_of_fold_update split: option.split)
  have d1: "distinct (map fst mem1)" using dist by (simp add: mem1_def distinct_fold_update)
  have seen: "(if t > lookup0 ts ?d then t else lookup0 ts ?d) = ?seen" by (auto simp: max_def)
  show ?thesis
  proof (cases "hard_error ret")
    case True
    have "process_device L l tsNs t (i, dev) (out, mem, ts) = (out @ [], mem1, ts)"
      using True by (simp add: process_device_def gp seen gu not_soft mem1_def Let_def)
    moreover have "device_reported L l tsNs ?seen dev ?d []"
      using True by (simp add: device_reported_def gu)
    ultimately show ?thesis using d1 m1 by (intro exI) auto
  next
    case False
    define mem2 where "mem2 = delete_all (map (\<lambda>s. (us_Pid s, ?d)) us) mem1"
    define es where "es = lib_range L l ?d mem2"
    define c where "c = util_out tsNs ?d us mem1 @ mem_out tsNs ?d es"
    define mem3 where "mem3 = delete_all (map fst (filter (\<lambda>e. snd (fst e) = ?d) es)) mem2"
    define ts' where "ts' = (let mx = maxcol us_TimeStamp us in
      if mx > 0 \<and> mx > lookup0 ts ?d then AList.update ?d mx ts else ts)"
    have eq: "process_device L l tsNs t (i, dev) (out, mem, ts) = (out @ c, mem3, ts')"
      using False
      by (simp add: process_device_def gp seen gu not_soft mem1_def [symmetric] fold_util_step
          fold_mem_only_step mem2_def [symmetric] es_def [symmetric] c_def mem3_def ts'_def
          mem_out_def Let_def)
    have d2: "distinct (map fst mem2)" unfolding mem2_def by (rule distinct_delete_all [OF d1])
    have de: "distinct (map fst es)" unfolding es_def using is_range_distinct_keys [OF range] d2 by blast
    have me: "map_of es = map_of mem2" unfolding es_def by (rule is_range_map_of [OF range d2])
    have m2: "map_of mem2 (q, d) = (if d = ?d \<and> q \<in> us_Pid ` set us then None else map_of mem1 (q, d))"
      for q d by (auto simp: mem2_def map_of_delete_all)
    have "distinct (map fst mem3)" unfolding mem3_def by (rule distinct_delete_all [OF d2])
    moreover have "map_of mem3 (q, d) = map_of mem (q, d)" if "d \<noteq> ?d" for q d
      using that m2 [of q d] m1 [of q d] by (auto simp: mem3_def map_of_delete_all)
    moreover have "lookup0 ts d \<le> lookup0 ts' d \<and> (d \<noteq> ?d \<longrightarrow> lookup0 ts' d = lookup0 ts d)" for d
      by (auto simp: ts'_def Let_def)
    moreover have "device_reported L l tsNs ?seen dev ?d c"
    proof -
      let ?mine = "\<lambda>p. filter (\<lambda>x. ps_Pid x = p) c" and ?util = "\<lambda>p. filter (\<lambda>s. us_Pid s = p) us"
      have mo: "filter (\<lambda>x. ps_Pid x = p) (mem_out tsNs ?d es) =
          (case if p \<in> us_Pid ` set us then None else reported_memory L l dev p of
             None \<Rightarrow> [] | Some m \<Rightarrow> [mem_sample_of tsNs ((p, ?d), m)])" for p
        by (simp add: mem_out_pid [OF de] me m2 m1)
      have uo: "filter (\<lambda>x. ps_Pid x = p) (util_out tsNs ?d us mem1) = [] \<longleftrightarrow> ?util p = []" for p
      proof -
        have "p \<in> set (map ps_Pid (util_out tsNs ?d us mem1)) \<longleftrightarrow> p \<in> set (map us_Pid us)"
          by (simp only: util_out_pids)
        then show ?thesis by (auto simp: filter_empty_conv)
      qed
      have ui: "?util p = [] \<longleftrightarrow> p \<notin> us_Pid ` set us" for p by (auto simp: filter_empty_conv)
      have l1: "lookup0 mem1 (p, ?d) = (case reported_memory L l dev p of None \<Rightarrow> 0 | Some m \<Rightarrow> m)" for p
        by (simp add: lookup0_def m1)
      have "\<forall>x \<in> set c. ps_DeviceIndex x = ?d \<and> ps_MigInstance x = 0 \<and> ps_TimestampNs x = tsNs"
        using util_out_device by (fastforce simp: c_def mem_out_def mem_sample_of_def zero_sample_def)
      moreover have "?mine p = [] \<longleftrightarrow> ?util p = [] \<and> reported_memory L l dev p = None" for p
        by (auto simp: c_def mo uo ui split: option.splits)
      moreover have "maxcol ps_UsedGpuMemory (?mine p) =
          (case reported_memory L l dev p of None \<Rightarrow> 0 | Some m \<Rightarrow> m)" for p
        by (auto simp: c_def mo maxcol_append util_out_memory l1 mem_sample_of_def maxcol_Cons
            split: option.splits)
      moreover have "maxcol ps_SmUtilPct (?mine p) = maxcol us_SmUtil (?util p)"
        "maxcol ps_MemUtilPct (?mine p) = maxcol us_MemUtil (?util p)"
        "maxcol ps_EncUtilPct (?mine p) = maxcol us_EncUtil (?util p)"
        "maxcol ps_DecUtilPct (?mine p) = maxcol us_DecUtil (?util p)" for p
        by (auto simp: c_def mo maxcol_append util_out_columns mem_sample_of_def maxcol_Cons
            zero_sample_def split: option.splits)
      ultimately show ?thesis using False by (simp add: device_reported_def gu Let_def)
    qed
    ultimately show ?thesis using eq by blast
  qed
qed

text \<open>All devices: one block of samples per handle, in the order of the indices.\<close>

lemma fold_process_device:
  assumes "\<And>d. is_range (lib_range L l d)" and "k + length hs \<le> 2 ^ 32"
    and "distinct (map fst mem)" and "\<And>q j. k \<le> j \<Longrightarrow> j < k + length hs \<Longrightarrow> map_of mem (q, of_nat j) = None"
  shows "\<exists>cs mem' ts'. fold (process_device L l tsNs t) (enumerate k hs) (out, mem, ts) =
      (out @ concat cs, mem', ts') \<and> length cs = length hs \<and>
    (\<forall>d. lookup0 ts d \<le> lookup0 ts' d) \<and>
    (\<forall>j < length hs. device_reported L l tsNs (max t (lookup0 ts (of_nat (k + j)))) (hs ! j)
       (of_nat (k + j)) (cs ! j))"
  using assms(2-)
proof (induction hs arbitrary: k out mem ts)
  case Nil
  then show ?case by simp
next
  case (Cons h hs)
  have neq: "(of_nat j :: u32) \<noteq> of_nat k" if "k < j" "j < k + length (h # hs)" for j
    using that Cons.prems(1) by (subst of_nat_u32_eq) simp_all
  have "\<And>q. map_of mem (q, of_nat k) = None" using Cons.prems(3) by simp
  from process_device_step [OF assms(1) Cons.prems(2) this, of tsNs t h out ts]
  obtain c mem1 ts1 where st: "process_device L l tsNs t (k, h) (out, mem, ts) = (out @ c, mem1, ts1)"
    and d1: "distinct (map fst mem1)"
    and f1: "\<And>q d. d \<noteq> of_nat k \<Longrightarrow> map_of mem1 (q, d) = map_of mem (q, d)"
    and t1: "\<And>d. lookup0 ts d \<le> lookup0 ts1 d" "\<And>d. d \<noteq> of_nat k \<Longrightarrow> lookup0 ts1 d = lookup0 ts d"
    and r1: "device_reported L l tsNs (max t (lookup0 ts (of_nat k))) h (of_nat k) c" by blast
  have "map_of mem1 (q, of_nat j) = None" if "Suc k \<le> j" "j < Suc k + length hs" for q j
    using f1 neq [of j] Cons.prems(3) [of j q] that by simp
  with Cons.IH [of "Suc k" mem1 "out @ c" ts1] Cons.prems(1) d1
  obtain cs mem2 ts2 where rest: "fold (process_device L l tsNs t) (enumerate (Suc k) hs) (out @ c, mem1, ts1) =
      ((out @ c) @ concat cs, mem2, ts2)" "length cs = length hs" "\<And>d. lookup0 ts1 d \<le> lookup0 ts2 d"
    and r2: "\<And>j. j < length hs \<Longrightarrow> device_reported L l tsNs (max t (lookup0 ts1 (of_nat (Suc k + j))))
      (hs ! j) (of_nat (Suc k + j)) (cs ! j)" by auto
  have "fold (process_device L l tsNs t) (enumerate k (h # hs)) (out, mem, ts) =
      (out @ concat (c # cs), mem2, ts2)" using st rest(1) by simp
  moreover have "device_reported L l tsNs (max t (lookup0 ts (of_nat (k + j)))) ((h # hs) ! j)
      (of_nat (k + j)) ((c # cs) ! j)" if "j < length (h # hs)" for j
  proof (cases j)
    case 0
    with r1 show ?thesis by simp
  next
    case (Suc i)
    with that r2 [of i] t1(2) [OF neq [of "k + j"]] show ?thesis by simp
  qed
  moreover have "lookup0 ts d \<le> lookup0 ts2 d" for d using t1(1) rest(3) order_trans by blast
  ultimately show ?case using rest(2) by (intro exI conjI) auto
qed

text \<open>\<open>samples_on\<close> of the whole result, for one device.\<close>

lemma samples_on_concat:
  assumes "j < length cs" and "length cs \<le> 2 ^ 32"
    and "\<And>i x. i < length cs \<Longrightarrow> x \<in> set (cs ! i) \<Longrightarrow> ps_DeviceIndex x = of_nat i"
  shows "samples_on (concat cs) p (of_nat j) = filter (\<lambda>x. ps_Pid x = p) (cs ! j)"
proof -
  have "filter (\<lambda>x. ps_Pid x = p \<and> ps_DeviceIndex x = of_nat j) (cs ! i) =
      (if i = j then filter (\<lambda>x. ps_Pid x = p) (cs ! j) else [])" if i: "i < length cs" for i
  proof -
    have "ps_DeviceIndex x = of_nat j \<longleftrightarrow> i = j" if "x \<in> set (cs ! i)" for x
      unfolding assms(3) [OF i that] using assms(1,2) i by (intro of_nat_u32_eq) simp_all
    then show ?thesis by (auto simp: filter_empty_conv intro!: filter_cong)
  qed
  then have "map (\<lambda>i. filter (\<lambda>x. ps_Pid x = p \<and> ps_DeviceIndex x = of_nat j) (cs ! i)) [0..<length cs] =
      map (\<lambda>i. if i = j then filter (\<lambda>x. ps_Pid x = p) (cs ! j) else []) [0..<length cs]"
    by (intro map_cong) simp_all
  also have "map (\<lambda>i. filter (\<lambda>x. ps_Pid x = p \<and> ps_DeviceIndex x = of_nat j) (cs ! i)) [0..<length cs] =
      map (filter (\<lambda>x. ps_Pid x = p \<and> ps_DeviceIndex x = of_nat j)) (map ((!) cs) [0..<length cs])"
    by (simp only: map_map comp_def)
  finally show ?thesis
    using assms(1) by (simp only: samples_on_def filter_concat map_nth concat_single if_True)
qed

lemma Real_ProcessSamples_blocks:
  assumes "\<And>d. is_range (lib_range L (rl_lib r) d)" and "length (rl_handles r) \<le> 2 ^ 32"
    and "Real_ProcessSamples L r t = ((ss, e), r')"
  shows "e = None \<and> rl_handles r' = rl_handles r \<and> rl_initialized r' = rl_initialized r \<and>
    (\<forall>d. lookup0 (rl_lastSeenTs r) d \<le> lookup0 (rl_lastSeenTs r') d) \<and>
    (\<forall>j < length (rl_handles r). \<exists>c. (\<forall>p. samples_on ss p (of_nat j) = filter (\<lambda>x. ps_Pid x = p) c) \<and>
       device_reported L (rl_lib r) (word_of_int (lib_now L (rl_lib r)))
         (max t (lookup0 (rl_lastSeenTs r) (of_nat j))) (rl_handles r ! j) (of_nat j) c)"
proof -
  let ?l = "rl_lib r" and ?hs = "rl_handles r"
  from fold_process_device [OF assms(1), where k = 0 and hs = ?hs and mem = "[]" and out = "[]"
      and ts = "rl_lastSeenTs r" and t = t and tsNs = "word_of_int (lib_now L ?l)"] assms(2)
  obtain cs mem' ts' where
    f: "fold (process_device L ?l (word_of_int (lib_now L ?l)) t) (enumerate 0 ?hs) ([], [], rl_lastSeenTs r) =
        (concat cs, mem', ts')" and len: "length cs = length ?hs"
    and mono: "\<forall>d. lookup0 (rl_lastSeenTs r) d \<le> lookup0 ts' d"
    and rep: "\<And>j. j < length ?hs \<Longrightarrow> device_reported L ?l (word_of_int (lib_now L ?l))
      (max t (lookup0 (rl_lastSeenTs r) (of_nat j))) (?hs ! j) (of_nat j) (cs ! j)"
    by auto
  from assms(3) f have r: "ss = concat cs" "e = None"
    "r' = r\<lparr>rl_lastSeenTs := ts', rl_lib := lib_after L ?l\<rparr>"
    by (auto simp: Real_ProcessSamples_def Let_def)
  have idx: "ps_DeviceIndex x = of_nat i" if "i < length cs" "x \<in> set (cs ! i)" for i x
    using rep [of i] that len by (auto simp: device_reported_def)
  have "samples_on ss p (of_nat j) = filter (\<lambda>x. ps_Pid x = p) (cs ! j)" if "j < length ?hs" for j p
    unfolding r(1) using that len assms(2) idx by (intro samples_on_concat) auto
  with rep mono r show ?thesis by auto
qed

section \<open>Device snapshots: a reading, or zero\<close>

text \<open>\<open>reading z q\<close> is the value of a query, \<open>z\<close> when the query failed for any reason.\<close>

definition reading :: "'a \<Rightarrow> 'a \<times> nvml_return \<Rightarrow> 'a" where
  "reading z q = (if snd q = SUCCESS then fst q else z)"

lemma if_ok_updates:
  "if_ok L q (\<lambda>v s. s\<lparr>ds_UUID := v\<rparr>) s = s\<lparr>ds_UUID := reading (ds_UUID s) q\<rparr>"
  "if_ok L q (\<lambda>v s. s\<lparr>ds_Name := v\<rparr>) s = s\<lparr>ds_Name := reading (ds_Name s) q\<rparr>"
  "if_ok L q2 (\<lambda>v s. s\<lparr>ds_TempC := v\<rparr>) s = s\<lparr>ds_TempC := reading (ds_TempC s) q2\<rparr>"
  "if_ok L q2 (\<lambda>v s. s\<lparr>ds_PowerMw := v\<rparr>) s = s\<lparr>ds_PowerMw := reading (ds_PowerMw s) q2\<rparr>"
  "if_ok L q2 (\<lambda>v s. s\<lparr>ds_SmClockMhz := v\<rparr>) s = s\<lparr>ds_SmClockMhz := reading (ds_SmClockMhz s) q2\<rparr>"
  "if_ok L q2 (\<lambda>v s. s\<lparr>ds_MemClockMhz := v\<rparr>) s = s\<lparr>ds_MemClockMhz := reading (ds_MemClockMhz s) q2\<rparr>"
  "if_ok L q2 (\<lambda>v s. s\<lparr>ds_EncUtilPct := v\<rparr>) s = s\<lparr>ds_EncUtilPct := reading (ds_EncUtilPct s) q2\<rparr>"
  "if_ok L q2 (\<lambda>v s. s\<lparr>ds_DecUtilPct := v\<rparr>) s = s\<lparr>ds_DecUtilPct := reading (ds_DecUtilPct s) q2\<rparr>"
  "if_ok L q3 (\<lambda>v s. s\<lparr>ds_EccCorrectedTotal := v\<rparr>) s =
     s\<lparr>ds_EccCorrectedTotal := reading (ds_EccCorrectedTotal s) q3\<rparr>"
  "if_ok L q3 (\<lambda>v s. s\<lparr>ds_EccUncorrectedTotal := v\<rparr>) s =
     s\<lparr>ds_EccUncorrectedTotal := reading (ds_EccUncorrectedTotal s) q3\<rparr>"
  "if_ok L q2 (\<lambda>v s. s\<lparr>ds_FanSpeedPct := v\<rparr>) s = s\<lparr>ds_FanSpeedPct := reading (ds_FanSpeedPct s) q2\<rparr>"
  "if_ok L q3 (\<lambda>v s. s\<lparr>ds_ThrottleReasons := v\<rparr>) s =
     s\<lparr>ds_ThrottleReasons := reading (ds_ThrottleReasons s) q3\<rparr>"
  by (simp_all add: if_ok_eq reading_def)

lemma if_ok_updates_conv:
  fixes s :: DeviceSnapshot
  shows
  "ds_PcieRxKbps s = 0 \<Longrightarrow> if_ok L q (\<lambda>v s. s\<lparr>ds_PcieRxKbps := ucast v\<rparr>) s =
     s\<lparr>ds_PcieRxKbps := ucast (reading (0 :: u32) q)\<rparr>"
  "ds_PcieTxKbps s = 0 \<Longrightarrow> if_ok L q (\<lambda>v s. s\<lparr>ds_PcieTxKbps := ucast v\<rparr>) s =
     s\<lparr>ds_PcieTxKbps := ucast (reading (0 :: u32) q)\<rparr>"
  "ds_ComputeMode s = 0 \<Longrightarrow> if_ok L qi (\<lambda>v s. s\<lparr>ds_ComputeMode := word_of_int v\<rparr>) s =
     s\<lparr>ds_ComputeMode := word_of_int (reading 0 qi)\<rparr>"
  "ds_SmUtilPct s = 0 \<Longrightarrow> ds_MemUtilPct s = 0 \<Longrightarrow>
     if_ok L qu (\<lambda>u s. s\<lparr>ds_SmUtilPct := fst u, ds_MemUtilPct := snd u\<rparr>) s =
     s\<lparr>ds_SmUtilPct := fst (reading (0, 0) qu), ds_MemUtilPct := snd (reading (0, 0) qu)\<rparr>"
  "ds_MemTotal s = 0 \<Longrightarrow> ds_MemUsed s = 0 \<Longrightarrow>
     if_ok L qm (\<lambda>m s. s\<lparr>ds_MemTotal := fst m, ds_MemUsed := snd m\<rparr>) s =
     s\<lparr>ds_MemTotal := fst (reading (0, 0) qm), ds_MemUsed := snd (reading (0, 0) qm)\<rparr>"
  by (cases s, simp add: if_ok_eq reading_def)+

text \<open>
  The specification of a snapshot, field by field. The memory falls back from the v2 to the v1 query
  and the throttle reasons from their new to their old name; the rest of a failed query is zero.
\<close>

definition snapshot_spec :: "'l nvml_lib \<Rightarrow> 'l \<Rightarrow> u64 \<Rightarrow> u32 \<Rightarrow> device \<Rightarrow> DeviceSnapshot" where
  "snapshot_spec L l tsNs idx dev =
     (let v2 = GetMemoryInfo_v2 L l dev; v1 = GetMemoryInfo L l dev;
          er = GetCurrentClocksEventReasons L l dev; tr = GetCurrentClocksThrottleReasons L l dev
      in \<lparr>ds_Index = idx,
          ds_UUID = reading [] (GetUUID L l dev),
          ds_Name = reading [] (GetName L l dev),
          ds_TimestampNs = tsNs,
          ds_SmUtilPct = fst (reading (0, 0) (GetUtilizationRates L l dev)),
          ds_MemUtilPct = snd (reading (0, 0) (GetUtilizationRates L l dev)),
          ds_MemTotal = (if snd v2 = SUCCESS then mi_Total (fst v2) else fst (reading (0, 0) v1)),
          ds_MemUsed = (if snd v2 = SUCCESS then mi_Used (fst v2) else snd (reading (0, 0) v1)),
          ds_MemReserved = (if snd v2 = SUCCESS then mi_Reserved (fst v2) else 0),
          ds_TempC = reading 0 (GetTemperature L l dev),
          ds_PowerMw = reading 0 (GetPowerUsage L l dev),
          ds_SmClockMhz = reading 0 (GetClockInfo_SM L l dev),
          ds_MemClockMhz = reading 0 (GetClockInfo_MEM L l dev),
          ds_ThrottleReasons = (if snd er = SUCCESS then fst er else reading 0 tr),
          ds_PcieTxKbps = ucast (reading 0 (GetPcieThroughput_TX L l dev)),
          ds_PcieRxKbps = ucast (reading 0 (GetPcieThroughput_RX L l dev)),
          ds_EncUtilPct = (case GetEncoderUtilization L l dev of (u, per, ret) \<Rightarrow> reading 0 (u, ret)),
          ds_DecUtilPct = (case GetDecoderUtilization L l dev of (u, per, ret) \<Rightarrow> reading 0 (u, ret)),
          ds_NvlinkTxKbps = 0,
          ds_NvlinkRxKbps = 0,
          ds_EccCorrectedTotal = reading 0 (GetTotalEccErrors_CORRECTED L l dev),
          ds_EccUncorrectedTotal = reading 0 (GetTotalEccErrors_UNCORRECTED L l dev),
          ds_FanSpeedPct = reading 0 (GetFanSpeed L l dev),
          ds_ComputeMode = word_of_int (reading 0 (GetComputeMode L l dev))\<rparr>)"

lemma device_snapshot_eq: "device_snapshot L l tsNs idx dev = snapshot_spec L l tsNs idx dev"
  unfolding device_snapshot_def snapshot_spec_def
  by (cases "snd (GetMemoryInfo_v2 L l dev) = SUCCESS";
      cases "snd (GetCurrentClocksEventReasons L l dev) = SUCCESS")
     (simp_all only: Let_def split_def if_True if_False wrap_None_iff not_True_eq_False simp_thms,
      simp_all add: if_ok_updates if_ok_updates_conv zero_snapshot_def)

section \<open>The backend implements the interface\<close>

lemma device_snapshot_index: "ds_Index (device_snapshot L l tsNs idx dev) = idx"
proof -
  have keep: "(\<And>v t. ds_Index (u v t) = ds_Index t) \<Longrightarrow> ds_Index (if_ok L q u s) = ds_Index s"
    for u :: "'c \<Rightarrow> DeviceSnapshot \<Rightarrow> DeviceSnapshot" and q s by (simp add: if_ok_eq)
  show ?thesis
    by (simp add: device_snapshot_def Let_def keep split_def)
qed

lemma process_device_index:
  "\<exists>c mem' ts'. process_device L l tsNs t (i, dev) (out, mem, ts) = (out @ c, mem', ts') \<and>
    (\<forall>x \<in> set c. ps_DeviceIndex x = of_nat i \<and> ps_MigInstance x = 0)"
proof -
  obtain procs pret where gp: "GetComputeRunningProcesses L l dev = (procs, pret)" by fastforce
  obtain us ret where gu: "GetProcessUtilization L l dev
    (if t > lookup0 ts (of_nat i) then t else lookup0 ts (of_nat i)) = (us, ret)" by fastforce
  show ?thesis
  proof (cases "hard_error ret")
    case True
    then show ?thesis by (simp add: process_device_def gp gu not_soft Let_def)
  next
    case False
    then show ?thesis
      by (auto simp: process_device_def gp gu not_soft fold_util_step fold_mem_only_step Let_def
          mem_sample_of_def zero_sample_def dest: util_out_device)
  qed
qed

lemma fold_process_device_index:
  assumes "\<And>x. x \<in> set out \<Longrightarrow> unat (ps_DeviceIndex x) < n \<and> ps_MigInstance x = 0"
    and "k + length hs \<le> n"
  shows "\<forall>x \<in> set (fst (fold (process_device L l tsNs t) (enumerate k hs) (out, mem, ts))).
    unat (ps_DeviceIndex x) < n \<and> ps_MigInstance x = 0"
  using assms
proof (induction hs arbitrary: k out mem ts)
  case Nil
  then show ?case by simp
next
  case (Cons h hs)
  obtain c mem' ts' where st: "process_device L l tsNs t (k, h) (out, mem, ts) = (out @ c, mem', ts')"
    and c: "\<forall>x \<in> set c. ps_DeviceIndex x = of_nat k \<and> ps_MigInstance x = 0"
    using process_device_index [of L l tsNs t k h out mem ts] by blast
  have "unat (of_nat k :: u32) < n" using unat_of_nat_le [where 'l = 32 and n = k] Cons.prems(2) by simp
  with c Cons.prems have "x \<in> set (out @ c) \<Longrightarrow> unat (ps_DeviceIndex x) < n \<and> ps_MigInstance x = 0" for x
    by auto
  from Cons.IH [of "out @ c" "Suc k" mem' ts', OF this] Cons.prems(2) st show ?case by simp
qed

lemma snapshots_index:
  "map ds_Index (map (\<lambda>(i, dev). device_snapshot L l tsNs (of_nat i) dev) (enumerate k hs)) =
     map of_nat [k..<k + length hs]"
  by (induction hs arbitrary: k) (simp_all add: device_snapshot_index upt_conv_Cons del: upt_Suc)

interpretation real: nvml_backend "real_poller L" rl_initialized "\<lambda>r. length (rl_handles r)" for L
proof unfold_locales
  fix s s' :: "'a Real"
  assume "np_Init (real_poller L) s = (None, s')"
  then show "rl_initialized s'"
    by (auto simp: real_poller_def Real_Init_def Let_def split: prod.splits option.splits)
next
  fix s s' :: "'a Real" and r
  assume "rl_initialized s" and "np_Devices (real_poller L) s = (r, s')"
  then show "rl_initialized s' \<and> length (rl_handles s') = length (rl_handles s)"
    by (auto simp: real_poller_def Real_Devices_def Let_def)
next
  fix s s' :: "'a Real" and ds
  assume "np_Devices (real_poller L) s = ((ds, None), s')"
  then show "map ds_Index ds = map of_nat [0..<length (rl_handles s)]"
    using snapshots_index [of L "rl_lib s" _ 0 "rl_handles s"]
    by (auto simp: real_poller_def Real_Devices_def Let_def)
next
  fix s s' :: "'a Real" and t q
  assume "rl_initialized s" and "np_ProcessSamples (real_poller L) s t = (q, s')"
  then show "rl_initialized s' \<and> length (rl_handles s') = length (rl_handles s)"
    by (auto simp: real_poller_def Real_ProcessSamples_def Let_def split: prod.splits)
next
  fix s s' :: "'a Real" and t ss e x
  assume "np_ProcessSamples (real_poller L) s t = ((ss, e), s')" and "x \<in> set ss"
  with fold_process_device_index [of "[]" "length (rl_handles s)" 0 "rl_handles s" L "rl_lib s"]
  show "unat (ps_DeviceIndex x) < length (rl_handles s) \<and> ps_MigInstance x = 0"
    by (auto simp: real_poller_def Real_ProcessSamples_def Let_def split: prod.splits)
       (metis fst_conv)+
next
  fix s s' :: "'a Real" and cr
  assume "np_Close (real_poller L) s = (cr, s')"
  then show "np_Close (real_poller L) s' = (None, s')"
    by (simp add: real_poller_def Real_Close_again)
qed

end
