(* ===== verification/RealWindow.thy ===== *)
theory RealWindow imports RealNvml PollerRun
begin

text \<open>
  The window the poller asks of the real backend. Its watermark is a wall clock reading in
  nanoseconds; NVML compares it with time stamps in microseconds. So once a device has been seen, the
  window starts after every sample NVML has, and the backend reports memory only.
\<close>

section \<open>Records without utilisation\<close>

definition idle_sample :: "ProcessSample \<Rightarrow> bool" where
  "idle_sample x \<longleftrightarrow> ps_SmUtilPct x = 0 \<and> ps_MemUtilPct x = 0 \<and> ps_EncUtilPct x = 0 \<and> ps_DecUtilPct x = 0"

text \<open>A map call that publishes no utilisation.\<close>

fun idle_call :: "event \<Rightarrow> bool" where
  "idle_call (EvPerPidPerDevice q d m r) = (pm_sm_util_pct m = 0 \<and> pm_mem_util_pct m = 0 \<and>
     pm_enc_util_pct m = 0 \<and> pm_dec_util_pct m = 0)"
| "idle_call (EvPerPid q m r) = (pa_sm_util_pct_max m = 0 \<and> pa_mem_util_pct_max m = 0)"
| "idle_call e = True"

lemma idle_aggregate:
  assumes "\<And>x. x \<in> set ss \<Longrightarrow> idle_sample x" and "e \<in> set (aggregate_samples ss)"
  shows "a_smMax (snd e) = 0 \<and> a_memMax (snd e) = 0 \<and> a_encMax (snd e) = 0 \<and> a_decMax (snd e) = 0"
proof -
  obtain p d a where e: "e = ((p, d), a)" by (metis prod.exhaust)
  have "map_of (aggregate_samples ss) (p, d) = Some a"
    using assms(2) aggregate_distinct e by simp
  moreover have "\<And>x. x \<in> set (samples_on ss p d) \<Longrightarrow> idle_sample x"
    using assms(1) by (simp add: samples_on_def)
  ultimately show ?thesis unfolding e
    by (auto simp: aggregate_lookup Let_def idle_sample_def split: if_splits intro!: maxcol_zero)
qed

definition idle_builder :: "u32 \<times> aggBuilder \<Rightarrow> bool" where
  "idle_builder x \<longleftrightarrow> b_smMax (snd x) = 0 \<and> b_memMax (snd x) = 0"

lemma idle_agg_step:
  assumes "a_smMax (snd e) = 0 \<and> a_memMax (snd e) = 0" and "list_all idle_builder m"
  shows "list_all idle_builder (agg_step e m)"
proof -
  obtain k a where e: "e = (k, a)" by (cases e)
  have old: "idle_builder (fst k, b)" if "map_of m (fst k) = Some b" for b
    using assms(2) map_of_SomeD [OF that] by (auto simp: list_all_iff)
  define v where "v = merge_dev k a (case map_of m (fst k) of None \<Rightarrow> new_aggBuilder k a | Some b \<Rightarrow> b)"
  have "idle_builder (fst k, v)"
    using assms(1) old unfolding e v_def
    by (cases "map_of m (fst k)") (simp_all add: idle_builder_def merge_dev_eq new_aggBuilder_def)
  moreover have "agg_step e m = AList.update (fst k) v m" by (simp add: e v_def agg_step_def Let_def)
  ultimately have "\<forall>x \<in> insert (fst k, v) (set m). idle_builder x" and
    "set (agg_step e m) \<subseteq> insert (fst k, v) (set m)"
    using assms(2) set_update_subset [of "fst k" v m] by (simp_all add: list_all_iff)
  then show ?thesis unfolding list_all_iff by blast
qed

lemma idle_builders:
  assumes "\<And>e. e \<in> set es \<Longrightarrow> a_smMax (snd e) = 0 \<and> a_memMax (snd e) = 0" and "list_all idle_builder m"
  shows "list_all idle_builder (fold agg_step es m)"
  using assms by (induction es arbitrary: m) (simp_all add: idle_agg_step)

lemma idle_tick_calls:
  assumes "orders_ok ro" and "\<And>x. x \<in> set ss \<Longrightarrow> idle_sample x"
  shows "list_all idle_call (tick_calls ro devs ss m)"
proof -
  let ?d = "ro_dev ro (aggregate_samples ss)"
  have d: "a_smMax (snd e) = 0 \<and> a_memMax (snd e) = 0 \<and> a_encMax (snd e) = 0 \<and> a_decMax (snd e) = 0"
    if "e \<in> set ?d" for e
    using idle_aggregate [OF assms(2), where e = e] that assms(1) by (simp add: orders_ok_def is_range_set)
  have "list_all idle_builder (fold agg_step ?d [])" using d by (intro idle_builders) simp_all
  then have "idle_builder x" if "x \<in> set (ro_pid ro (fold agg_step ?d []))" for x
    using that assms(1) by (simp add: orders_ok_def is_range_set list_all_iff)
  with d show ?thesis
    by (auto simp: tick_calls_def Let_def list_all_iff device_call_def detail_call_def detail_record_def
        pid_call_def agg_record_def idle_builder_def)
qed

section \<open>The window of the real backend\<close>

text \<open>NVML documents that it returns samples newer than the time asked for, with time stamps in microseconds. \<open>T\<close>
  separates them from the clock of the backend: no time stamp is above \<open>T\<close>, no clock reading is below it. With
  \<open>T\<close> the nanoseconds since 1970 at the start of the daemon, this lasts for tens of thousands of years.\<close>

definition micro_stamps :: "'l nvml_lib \<Rightarrow> u64 \<Rightarrow> bool" where
  "micro_stamps L T \<longleftrightarrow>
     (\<forall>l. T \<le> word_of_int (lib_now L l)) \<and>
     (\<forall>l d t. \<forall>s \<in> set (fst (GetProcessUtilization L l d t)). t < us_TimeStamp s \<and> us_TimeStamp s \<le> T)"

lemma stale_window:
  assumes "micro_stamps L T" and "T \<le> t"
  shows "fst (GetProcessUtilization L l d t) = []"
proof (rule ccontr)
  assume "fst (GetProcessUtilization L l d t) \<noteq> []"
  then obtain s where "s \<in> set (fst (GetProcessUtilization L l d t))" by (meson last_in_set)
  with assms(1) have "t < us_TimeStamp s" "us_TimeStamp s \<le> T" unfolding micro_stamps_def by blast+
  with assms(2) show False by simp
qed

lemma process_device_stale:
  assumes "micro_stamps L T" and "T \<le> t"
  shows "\<exists>c mem' ts'. process_device L l tsNs t (i, dev) (out, mem, ts) = (out @ c, mem', ts') \<and>
    list_all idle_sample c"
proof -
  obtain procs pret where gp: "GetComputeRunningProcesses L l dev = (procs, pret)" by fastforce
  let ?seen = "if t > lookup0 ts (of_nat i) then t else lookup0 ts (of_nat i)"
  have "T \<le> ?seen" using assms(2) by auto
  from stale_window [OF assms(1) this, of l dev] obtain ret where
    gu: "GetProcessUtilization L l dev ?seen = ([], ret)" by (metis prod.exhaust fst_conv)
  show ?thesis
    by (auto simp: process_device_def gp gu fold_mem_only_step Let_def mem_sample_of_def zero_sample_def
        idle_sample_def list_all_iff)
qed

lemma fold_process_device_stale:
  assumes "micro_stamps L T" and "T \<le> t" and "list_all idle_sample out"
  shows "list_all idle_sample (fst (fold (process_device L l tsNs t) xs (out, mem, ts)))"
  using assms(3)
proof (induction xs arbitrary: out mem ts)
  case Nil
  then show ?case by simp
next
  case (Cons x xs)
  from process_device_stale [OF assms(1,2), of l tsNs "fst x" "snd x" out mem ts] obtain c mem' ts'
    where "process_device L l tsNs t x (out, mem, ts) = (out @ c, mem', ts')" "list_all idle_sample c" by auto
  with Cons show ?case by simp
qed

lemma Real_ProcessSamples_stale:
  assumes "micro_stamps L T" and "T \<le> t" and "Real_ProcessSamples L r t = ((ss, e), r')"
  shows "list_all idle_sample ss"
  using fold_process_device_stale [OF assms(1,2), of "[]" "rl_lib r" "word_of_int (lib_now L (rl_lib r))"
      "enumerate 0 (rl_handles r)" "[]" "rl_lastSeenTs r"] assms(3)
  by (auto simp: Real_ProcessSamples_def Let_def split: prod.splits)

section \<open>Ticks on the real backend\<close>

lemma process_device_stamp:
  "\<exists>c mem' ts'. process_device L l tsNs t (i, dev) (out, mem, ts) = (out @ c, mem', ts') \<and>
    (\<forall>x \<in> set c. ps_TimestampNs x = tsNs)"
proof -
  obtain procs pret where gp: "GetComputeRunningProcesses L l dev = (procs, pret)" by fastforce
  obtain us ret where gu: "GetProcessUtilization L l dev
    (if t > lookup0 ts (of_nat i) then t else lookup0 ts (of_nat i)) = (us, ret)" by fastforce
  show ?thesis
    by (cases "hard_error ret")
      (auto simp: process_device_def gp gu not_soft fold_util_step fold_mem_only_step Let_def
        mem_sample_of_def zero_sample_def dest: util_out_device)
qed

lemma fold_process_device_stamp:
  "\<forall>x \<in> set out. ps_TimestampNs x = tsNs \<Longrightarrow>
    \<forall>x \<in> set (fst (fold (process_device L l tsNs t) xs (out, mem, ts))). ps_TimestampNs x = tsNs"
proof (induction xs arbitrary: out mem ts)
  case Nil
  then show ?case by simp
next
  case (Cons x xs)
  from process_device_stamp [of L l tsNs t "fst x" "snd x" out mem ts] obtain c mem' ts'
    where st: "process_device L l tsNs t x (out, mem, ts) = (out @ c, mem', ts')"
    and "\<forall>y \<in> set c. ps_TimestampNs y = tsNs" by auto
  with Cons.prems have "\<forall>y \<in> set (out @ c). ps_TimestampNs y = tsNs" by auto
  from Cons.IH [OF this, of mem' ts'] show ?case by (simp add: st)
qed

lemma Real_ProcessSamples_stamp:
  "Real_ProcessSamples L r t = ((ss, e), r') \<Longrightarrow> x \<in> set ss \<Longrightarrow>
    ps_TimestampNs x = word_of_int (lib_now L (rl_lib r))"
  using fold_process_device_stamp [of "[]" "word_of_int (lib_now L (rl_lib r))" L "rl_lib r" t
      "enumerate 0 (rl_handles r)" "[]" "rl_lastSeenTs r"]
  by (auto simp: Real_ProcessSamples_def Let_def split: prod.splits)

text \<open>No watermark is below \<open>T\<close>.\<close>

definition above :: "u64 \<Rightarrow> (u32 \<times> u64) list \<Rightarrow> bool" where
  "above T m \<longleftrightarrow> (\<forall>e \<in> set m. T \<le> snd e)"

lemma above_update: "above T m \<Longrightarrow> T \<le> v \<Longrightarrow> above T (AList.update k v m)"
  using set_update_subset [of k v m] by (auto simp: above_def)

lemma above_advance_all:
  "above T m \<Longrightarrow> \<forall>x \<in> set ss. T \<le> ps_TimestampNs x \<Longrightarrow> above T (advance_all ss m)"
  unfolding advance_all_def
  by (induction ss arbitrary: m) (simp_all add: advanceLastSeen_def above_update)

lemma update_not_Nil: "AList.update k v m \<noteq> []"
  by (cases m) auto

lemma advance_all_not_Nil: "m \<noteq> [] \<Longrightarrow> advance_all ss m \<noteq> []"
  unfolding advance_all_def
  by (induction ss arbitrary: m) (simp_all add: advanceLastSeen_def update_not_Nil)

lemma above_minLastSeen:
  assumes "is_range f" and "m \<noteq> []" and "above T m"
  shows "T \<le> minLastSeen f m"
  using assms(2,3) by (simp add: minLastSeen_Min [OF assms(1,2)] above_def)

lemma tick_window:
  assumes L: "micro_stamps L T" and src: "pl_source p = real_poller L" and ro: "orders_ok ro"
    and t: "tick K ro now p wd = (r, p', wd')" and ab: "above T (pl_lastSeen p)"
  shows "above T (pl_lastSeen p') \<and> (pl_lastSeen p \<noteq> [] \<longrightarrow> pl_lastSeen p' \<noteq> [] \<and>
    (\<exists>cs. calls wd' = calls wd @ cs \<and> list_all idle_call cs))"
  using t
proof (cases rule: tick_cases)
  case fail
  with ab show ?thesis by simp
next
  case (ok devs src1 ss se src2)
  from ok(2) src have q: "Real_ProcessSamples L src1 (minLastSeen (ro_seen ro) (pl_lastSeen p)) = ((ss, se), src2)"
    by (simp add: real_poller_def)
  have "\<forall>x \<in> set ss. T \<le> ps_TimestampNs x"
    using Real_ProcessSamples_stamp [OF q] L by (simp add: micro_stamps_def)
  with ab ok(3) have a: "above T (pl_lastSeen p')" by (simp add: above_advance_all)
  have "list_all idle_call (tick_calls ro devs ss m)" if "pl_lastSeen p \<noteq> []" for m
  proof -
    have "T \<le> minLastSeen (ro_seen ro) (pl_lastSeen p)"
      using above_minLastSeen [OF _ that ab] ro by (simp add: orders_ok_def)
    from Real_ProcessSamples_stale [OF L this q] show ?thesis
      by (intro idle_tick_calls [OF ro]) (simp add: list_all_iff)
  qed
  with a ok(3,5) show ?thesis by (auto simp: advance_all_not_Nil)
qed

lemma loop_steps_window:
  assumes "loop_steps K s es s'" and "micro_stamps L T" and "pl_source (fst s) = real_poller L"
    and "list_all ev_ok es" and "above T (pl_lastSeen (fst s))"
  shows "above T (pl_lastSeen (fst s')) \<and> pl_source (fst s') = real_poller L \<and>
    (pl_lastSeen (fst s) \<noteq> [] \<longrightarrow> (\<exists>cs. calls (snd s') = calls (snd s) @ cs \<and> list_all idle_call cs))"
  using assms
proof (induction rule: loop_steps.induct)
  case (none s)
  then show ?case by simp
next
  case (more s e s' es s'')
  from more.hyps(1) show ?case
  proof cases
    case (ticker ro now p wd r p' wd')
    from tick_fields(1) [OF ticker(4)] have "pl_source p' = pl_source p" .
    moreover from tick_window [OF more.prems(1) _ _ ticker(4)] more.prems ticker
    have "above T (pl_lastSeen p') \<and> (pl_lastSeen p \<noteq> [] \<longrightarrow> pl_lastSeen p' \<noteq> [] \<and>
      (\<exists>cs. calls wd' = calls wd @ cs \<and> list_all idle_call cs))" by simp
    ultimately show ?thesis using more.IH more.prems ticker by fastforce
  qed
qed

end
