(* ===== verification/Float64.thy ===== *)
theory Float64
  imports Prelude "HOL-Library.Log_Nat"
begin

text \<open>
  Go's \<open>float64\<close> as far as the mock backend uses it: rational numbers with every result rounded to
  the nearest value of the IEEE 754 binary64 format, ties to even, gradual underflow included. The
  values of the program stay far below the largest finite number, so infinities and NaN are left
  out; operations are rounded one by one (no fused multiply-add).
\<close>

section \<open>Rounding\<close>

text \<open>To the nearest integer, ties to even.\<close>

definition round_even :: "rat \<Rightarrow> int" where
  "round_even x =
     (let r = \<lfloor>x + 1/2\<rfloor> in if of_int r = x + 1/2 \<and> odd r then r - 1 else r)"

definition min_exp :: nat where "min_exp = 1074"

text \<open>
  The unit in the last place of \<open>x\<close>, a power of two: 53 bits from the leading bit of \<open>x\<close> down, but
  not below \<open>2^-1074\<close>. The leading bit is read off the integer part of \<open>\<bar>x\<bar> * 2 ^ min_exp\<close>.
\<close>

definition ulp_exp :: "rat \<Rightarrow> nat" where
  "ulp_exp x = floorlog 2 (nat \<lfloor>\<bar>x\<bar> * 2 ^ min_exp\<rfloor>) - 53"

definition ulp :: "rat \<Rightarrow> rat" where
  "ulp x = 2 ^ ulp_exp x / 2 ^ min_exp"

definition rnd :: "rat \<Rightarrow> rat" where
  "rnd x = of_int (round_even (x / ulp x)) * ulp x"

definition fadd :: "rat \<Rightarrow> rat \<Rightarrow> rat" where "fadd x y = rnd (x + y)"
definition fmul :: "rat \<Rightarrow> rat \<Rightarrow> rat" where "fmul x y = rnd (x * y)"
definition fdiv :: "rat \<Rightarrow> rat \<Rightarrow> rat" where "fdiv x y = rnd (x / y)"

text \<open>Conversion to an integer discards the fraction.\<close>

definition ftrunc :: "rat \<Rightarrow> int" where
  "ftrunc x = (if x < 0 then \<lceil>x\<rceil> else \<lfloor>x\<rfloor>)"

text \<open>\<open>math.Mod\<close>, whose result is exact.\<close>

definition fmod :: "rat \<Rightarrow> rat \<Rightarrow> rat" where
  "fmod x y = x - y * of_int (ftrunc (x / y))"

section \<open>Rounding is monotone and exact on representable values\<close>

lemma round_even_bounds: "of_int (round_even x) \<le> x + 1/2" "x - 1/2 \<le> of_int (round_even x)"
proof -
  have f: "of_int \<lfloor>x + 1/2\<rfloor> \<le> x + 1/2" "x + 1/2 < of_int \<lfloor>x + 1/2\<rfloor> + 1" by linarith+
  then show "of_int (round_even x) \<le> x + 1/2" "x - 1/2 \<le> of_int (round_even x)"
    by (auto simp: round_even_def Let_def)
qed

lemma round_even_mono:
  assumes "x \<le> y"
  shows "round_even x \<le> round_even y"
proof -
  have le: "\<lfloor>x + 1/2\<rfloor> \<le> \<lfloor>y + 1/2\<rfloor>" using assms by (intro floor_mono) simp
  show ?thesis
  proof (cases "\<lfloor>x + 1/2\<rfloor> = \<lfloor>y + 1/2\<rfloor>")
    case True
    have "x = y" if "of_int \<lfloor>y + 1/2\<rfloor> = y + 1/2"
    proof -
      have "of_int \<lfloor>x + 1/2\<rfloor> \<le> x + 1/2" by linarith
      with that True have "y + 1/2 \<le> x + 1/2" by metis
      with assms show ?thesis by linarith
    qed
    with True show ?thesis by (auto simp: round_even_def Let_def)
  next
    case False
    with le have "\<lfloor>x + 1/2\<rfloor> \<le> \<lfloor>y + 1/2\<rfloor> - 1" by simp
    then show ?thesis by (auto simp: round_even_def Let_def)
  qed
qed

lemma round_even_of_int [simp]: "round_even (of_int n) = n"
proof -
  have "\<lfloor>of_int n + 1/2 :: rat\<rfloor> = n" by linarith
  then show ?thesis by (simp add: round_even_def Let_def)
qed

lemma round_even_minus: "round_even (- x) = - round_even x"
proof -
  define r where "r = \<lfloor>x + 1/2\<rfloor>"
  have r: "of_int r \<le> x + 1/2" "x + 1/2 < of_int r + 1" unfolding r_def by linarith+
  show ?thesis
  proof (cases "of_int r = x + 1/2")
    case True
    then have x: "x = of_int r - 1/2" by simp
    have "\<lfloor>- x + 1/2\<rfloor> = 1 - r" unfolding x by linarith
    moreover have "of_int (1 - r) = - x + 1/2" unfolding x by simp
    ultimately show ?thesis using True r_def by (auto simp: round_even_def Let_def)
  next
    case False
    have fl: "\<lfloor>- x + 1/2\<rfloor> = - r"
      using r False by (intro floor_unique) simp_all
    moreover have "of_int (- r) \<noteq> - x + 1/2"
    proof
      assume "of_int (- r) = - x + 1/2"
      with r(2) show False by simp
    qed
    ultimately show ?thesis using False r_def by (auto simp: round_even_def Let_def)
  qed
qed

lemma ulp_pos [simp]: "0 < ulp x" and ulp_neq [simp]: "ulp x \<noteq> 0"
  by (simp_all add: ulp_def)

lemma ulp_minus [simp]: "ulp (- x) = ulp x"
  by (simp add: ulp_def ulp_exp_def)

lemma rnd_minus: "rnd (- x) = - rnd x"
  by (simp add: rnd_def round_even_minus)

lemma rnd_0 [simp]: "rnd 0 = 0"
  using round_even_of_int [of 0] by (simp add: rnd_def)

text \<open>A positive number lies below \<open>2^53\<close> units, and from \<open>2^52\<close> on when its unit is not the smallest.\<close>

lemma ulp_range:
  assumes "0 \<le> x"
  shows "x < 2 ^ 53 * ulp x" and "0 < ulp_exp x \<Longrightarrow> 2 ^ 52 * ulp x \<le> x"
proof -
  define n where "n = nat \<lfloor>\<bar>x\<bar> * 2 ^ min_exp\<rfloor>"
  have n: "of_nat n \<le> x * 2 ^ min_exp" "x * 2 ^ min_exp < of_nat n + 1"
  proof -
    have "of_int \<lfloor>x * 2 ^ min_exp\<rfloor> \<le> x * 2 ^ min_exp" "x * 2 ^ min_exp < of_int \<lfloor>x * 2 ^ min_exp\<rfloor> + 1"
      by linarith+
    with assms show "of_nat n \<le> x * 2 ^ min_exp" "x * 2 ^ min_exp < of_nat n + 1"
      unfolding n_def by (simp_all add: of_nat_nat)
  qed
  have e: "ulp_exp x = floorlog 2 n - 53" by (simp add: ulp_exp_def n_def)
  have "n + 1 \<le> 2 ^ (53 + ulp_exp x)"
  proof (cases "n = 0")
    case False
    then have "n < 2 ^ floorlog 2 n" using floorlog_bounds [of n 2] by simp
    also have "\<dots> \<le> 2 ^ (53 + ulp_exp x)" unfolding e by (intro power_increasing) simp_all
    finally show ?thesis by simp
  qed simp
  then have "(of_nat (n + 1) :: rat) \<le> of_nat (2 ^ (53 + ulp_exp x))" by (simp only: of_nat_le_iff)
  with n(2) have "x * 2 ^ min_exp < 2 ^ (53 + ulp_exp x)" by simp
  then show "x < 2 ^ 53 * ulp x" by (simp add: ulp_def power_add field_simps)
  assume pos: "0 < ulp_exp x"
  then have "0 < n" unfolding e by (cases "n = 0") (simp_all add: floorlog_def)
  then have "2 ^ (floorlog 2 n - 1) \<le> n" using floorlog_bounds [of n 2] by simp
  moreover have "floorlog 2 n - 1 = 52 + ulp_exp x" using pos unfolding e by simp
  ultimately have "(2 ^ (52 + ulp_exp x) :: rat) \<le> of_nat n"
    by (metis of_nat_le_iff of_nat_numeral of_nat_power)
  from this n(1) have "2 ^ (52 + ulp_exp x) \<le> x * 2 ^ min_exp" by (rule order_trans)
  then show "2 ^ 52 * ulp x \<le> x" by (simp add: ulp_def power_add field_simps)
qed

lemma ulp_exp_mono: "0 \<le> x \<Longrightarrow> x \<le> y \<Longrightarrow> ulp_exp x \<le> ulp_exp y"
  unfolding ulp_exp_def
  by (intro diff_le_mono floorlog_mono nat_mono floor_mono mult_right_mono) simp_all

lemma rnd_mono_pos:
  assumes "0 \<le> x" and "x \<le> y"
  shows "rnd x \<le> rnd y"
proof (cases "ulp_exp x = ulp_exp y")
  case True
  then have u: "ulp x = ulp y" by (simp add: ulp_def)
  have "x / ulp y \<le> y / ulp y" using assms(2) by (simp add: divide_right_mono less_imp_le)
  from round_even_mono [OF this] show ?thesis by (simp add: rnd_def u mult_right_mono less_imp_le)
next
  case False
  with ulp_exp_mono [OF assms] have lt: "ulp_exp x < ulp_exp y" by simp
  then have uu: "2 * ulp x \<le> ulp y"
  proof -
    have "(2 ^ (ulp_exp x + 1) :: rat) \<le> 2 ^ ulp_exp y" using lt by (intro power_increasing) simp_all
    then show ?thesis by (simp add: ulp_def divide_right_mono)
  qed
  have y: "0 \<le> y" using assms by simp
  have "x / ulp x \<le> of_int (2 ^ 53)" using ulp_range(1) [OF assms(1)] by (simp add: pos_divide_le_eq)
  from round_even_mono [OF this] have "round_even (x / ulp x) \<le> 2 ^ 53" by (simp only: round_even_of_int)
  then have "rnd x \<le> 2 ^ 53 * ulp x"
    unfolding rnd_def by (intro mult_right_mono) (simp_all add: less_imp_le flip: of_int_le_iff)
  also have "\<dots> \<le> 2 ^ 52 * ulp y" using uu by simp
  also have "\<dots> \<le> rnd y"
  proof -
    have "of_int (2 ^ 52) \<le> y / ulp y" using ulp_range(2) [OF y] lt by (simp add: pos_le_divide_eq)
    from round_even_mono [OF this] have "2 ^ 52 \<le> round_even (y / ulp y)" by (simp only: round_even_of_int)
    then show ?thesis unfolding rnd_def by (intro mult_right_mono) (simp_all add: less_imp_le flip: of_int_le_iff)
  qed
  finally show ?thesis .
qed

lemma rnd_nonneg: "0 \<le> x \<Longrightarrow> 0 \<le> rnd x"
  using rnd_mono_pos [of 0 x] by simp

lemma rnd_mono:
  assumes "x \<le> y"
  shows "rnd x \<le> rnd y"
proof (cases "0 \<le> x")
  case True
  from this assms show ?thesis by (rule rnd_mono_pos)
next
  case False
  show ?thesis
  proof (cases "0 \<le> y")
    case True
    have "rnd x \<le> 0" using rnd_nonneg [of "- x"] False by (simp add: rnd_minus)
    with rnd_nonneg [OF True] show ?thesis by simp
  next
    case False
    with rnd_mono_pos [of "- y" "- x"] assms show ?thesis by (simp add: rnd_minus)
  qed
qed

text \<open>A dyadic rational of 53 bits is a value of the format.\<close>

lemma rnd_exact_nat:
  assumes "n < 2 ^ 53" and "k \<le> min_exp"
  shows "rnd (of_nat n / 2 ^ k) = of_nat n / 2 ^ k"
proof (cases "n = 0")
  case False
  let ?x = "of_nat n / 2 ^ k :: rat"
  have sc: "?x * 2 ^ min_exp = of_nat (n * 2 ^ (min_exp - k))"
  proof -
    have "(2 :: rat) ^ min_exp = 2 ^ k * 2 ^ (min_exp - k)" using assms(2) by (simp flip: power_add)
    then show ?thesis by simp
  qed
  have "\<lfloor>\<bar>?x\<bar> * 2 ^ min_exp\<rfloor> = int (n * 2 ^ (min_exp - k))"
  proof -
    have "\<bar>?x\<bar> = ?x" by simp
    with sc show ?thesis by (simp only: floor_of_nat)
  qed
  then have e: "ulp_exp ?x = floorlog 2 (n * 2 ^ (min_exp - k)) - 53"
    unfolding ulp_exp_def by (simp only: nat_int)
  have "floorlog 2 (n * 2 ^ (min_exp - k)) = floorlog 2 n + (min_exp - k)"
    using False by (intro floorlog_power) simp_all
  moreover have "floorlog 2 n \<le> 53" using assms(1) by (intro floorlog_leI) simp_all
  ultimately have le: "ulp_exp ?x \<le> min_exp - k" unfolding e by simp
  have "?x / ulp ?x = of_int (int n * 2 ^ (min_exp - k - ulp_exp ?x))"
  proof -
    have "(2 :: rat) ^ min_exp = 2 ^ k * (2 ^ ulp_exp ?x * 2 ^ (min_exp - k - ulp_exp ?x))"
      using le assms(2) by (simp flip: power_add)
    then show ?thesis by (simp add: ulp_def)
  qed
  then have "round_even (?x / ulp ?x) = int n * 2 ^ (min_exp - k - ulp_exp ?x)" by (simp only: round_even_of_int)
  then have "rnd ?x = of_int (int n * 2 ^ (min_exp - k - ulp_exp ?x)) * ulp ?x" by (simp add: rnd_def)
  also have "\<dots> = ?x" by (simp only: \<open>?x / ulp ?x = _\<close> [symmetric]) simp
  finally show ?thesis .
qed simp

lemma rnd_of_int:
  assumes "\<bar>i\<bar> < 2 ^ 53"
  shows "rnd (of_int i) = of_int i"
proof (cases "0 \<le> i")
  case True
  with assms rnd_exact_nat [of "nat i" 0] show ?thesis by (simp add: nat_less_iff)
next
  case False
  with assms rnd_exact_nat [of "nat (- i)" 0] rnd_minus [of "of_int (- i)"] show ?thesis
    by (simp add: nat_less_iff)
qed

lemma rnd_numeral: "(numeral n :: int) < 2 ^ 53 \<Longrightarrow> rnd (numeral n) = numeral n"
  using rnd_of_int [of "numeral n"] by simp

lemma rnd_between:
  assumes "of_int a \<le> x" and "x \<le> of_int b" and "\<bar>a\<bar> < 2 ^ 53" and "\<bar>b\<bar> < 2 ^ 53"
  shows "of_int a \<le> rnd x \<and> rnd x \<le> of_int b"
  using rnd_mono [OF assms(1)] rnd_mono [OF assms(2)] rnd_of_int [OF assms(3)] rnd_of_int [OF assms(4)]
  by simp

end
