(* ===== verification/MockNvml.thy ===== *)
theory MockNvml
  imports Nvml Float64
begin

text \<open>
  The backend without hardware, \<open>internal/nvml/mock.go\<close>: snapshots that vary sinusoidally with the
  time since \<open>Init\<close>. The clock is a sequence of readings (\<open>mk_clock\<close>) and the number of readings
  taken so far; \<open>math.Sin\<close> is a parameter, with values in [-1, 1] where that matters. The mutex is left
  out (the methods are called from one goroutine), and so is the random source, which no method reads.
\<close>

section \<open>State\<close>

record Mock =
  mk_NumDevices :: int
  mk_PidsPerDevice :: int
  mk_FirstPid :: u32
  mk_clock :: "nat \<Rightarrow> int"
  mk_reads :: nat
  mk_start :: int
  mk_devs :: "DeviceSnapshot list option"

definition NewMock :: "(nat \<Rightarrow> int) \<Rightarrow> Mock" where
  "NewMock clock = \<lparr>mk_NumDevices = 2, mk_PidsPerDevice = 3, mk_FirstPid = 100000,
     mk_clock = clock, mk_reads = 0, mk_start = 0, mk_devs = None\<rparr>"

text \<open>\<open>m.now()\<close>, in nanoseconds.\<close>

definition mock_now :: "Mock \<Rightarrow> int \<times> Mock" where
  "mock_now m = (mk_clock m (mk_reads m), m\<lparr>mk_reads := mk_reads m + 1\<rparr>)"

section \<open>Helpers\<close>

definition clamp :: "rat \<Rightarrow> rat \<Rightarrow> rat \<Rightarrow> rat" where
  "clamp v lo hi = (if v < lo then lo else if v > hi then hi else v)"

definition digit_char :: "nat \<Rightarrow> char" where
  "digit_char d = char_of (48 + d)"

fun digits_loop :: "nat \<Rightarrow> string \<Rightarrow> string" where
  "digits_loop n s = (if n > 0 then digits_loop (n div 10) (digit_char (n mod 10) # s) else s)"

declare digits_loop.simps [simp del]

function pad_loop :: "nat \<Rightarrow> string \<Rightarrow> string" where
  "pad_loop width s = (if length s < width then pad_loop width (CHR ''0'' # s) else s)"
  by auto
termination by (relation "measure (\<lambda>(width, s). width - length s)") auto

declare pad_loop.simps [simp del]

definition leftPad :: "u64 \<Rightarrow> nat \<Rightarrow> string" where
  "leftPad n width = pad_loop width (digits_loop (unat n) '''')"

text \<open>\<open>time.Duration.Seconds\<close> of a difference in nanoseconds: whole seconds plus the rest.\<close>

definition tquot :: "int \<Rightarrow> int \<Rightarrow> int" where
  "tquot a b = sgn a * sgn b * (\<bar>a\<bar> div \<bar>b\<bar>)"

definition seconds :: "int \<Rightarrow> rat" where
  "seconds d =
     (let sec = tquot d 1000000000; nsec = d - sec * 1000000000
      in fadd (rnd (of_int sec)) (fdiv (rnd (of_int nsec)) 1000000000))"

text \<open>\<open>2*math.Pi\<close> is a constant expression, rounded once.\<close>

definition two_pi :: rat where
  "two_pi = rnd (628318530717958647692528676655900576839433879875021164194988918 / 10 ^ 62)"

text \<open>\<open>off + amp*math.Sin(2*math.Pi*elapsed/period + phase)\<close>, with one or two phase terms.\<close>

definition wave :: "(rat \<Rightarrow> rat) \<Rightarrow> rat \<Rightarrow> rat \<Rightarrow> rat \<Rightarrow> rat" where
  "wave msin off amp arg = fadd off (fmul amp (msin arg))"

definition angle :: "rat \<Rightarrow> rat \<Rightarrow> rat \<Rightarrow> rat" where
  "angle elapsed period phase = fadd (fdiv (fmul two_pi elapsed) period) phase"

section \<open>Operations\<close>

definition mock_device :: "nat \<Rightarrow> DeviceSnapshot" where
  "mock_device i = zero_snapshot\<lparr>ds_Index := of_nat i, ds_UUID := ''MOCK-'' @ leftPad (of_nat i) 16,
     ds_Name := ''MOCK GPU model 0'', ds_MemTotal := 80 * 1024 * 1024 * 1024\<rparr>"

definition Mock_Init :: "Mock \<Rightarrow> goerr option \<times> Mock" where
  "Mock_Init m0 =
     (let m1 = (if mk_NumDevices m0 \<le> 0 then m0\<lparr>mk_NumDevices := 2\<rparr> else m0);
          m2 = (if mk_PidsPerDevice m1 \<le> 0 then m1\<lparr>mk_PidsPerDevice := 3\<rparr> else m1);
          m3 = (if mk_FirstPid m2 = 0 then m2\<lparr>mk_FirstPid := 100000\<rparr> else m2);
          (t, m4) = mock_now m3
      in (None, m4\<lparr>mk_start := t, mk_devs := Some (map mock_device [0..<nat (mk_NumDevices m4)])\<rparr>))"

definition mock_snapshot ::
  "(rat \<Rightarrow> rat) \<Rightarrow> u64 \<Rightarrow> rat \<Rightarrow> nat \<Rightarrow> DeviceSnapshot \<Rightarrow> DeviceSnapshot" where
  "mock_snapshot msin tsNs elapsed i base =
     (let phase = fmul (rnd (of_nat i)) (rnd (7/10));
          sm = wave msin 50 45 (angle elapsed 60 phase);
          mem = wave msin 30 25 (fadd (angle elapsed 45 phase) (rnd (12/10)));
          memUsed = word_of_int (ftrunc (fmul (rnd (of_nat (unat (ds_MemTotal base))))
                      (fadd (rnd (1/10)) (fmul (rnd (4/10)) (fmod (fdiv elapsed 600) 1)))))
      in \<lparr>ds_Index = ds_Index base,
          ds_UUID = ds_UUID base,
          ds_Name = ds_Name base,
          ds_TimestampNs = tsNs,
          ds_SmUtilPct = word_of_int (ftrunc (clamp sm 0 100)),
          ds_MemUtilPct = word_of_int (ftrunc (clamp mem 0 100)),
          ds_MemTotal = ds_MemTotal base,
          ds_MemUsed = memUsed,
          ds_MemReserved = 512 * 1024 * 1024,
          ds_TempC = 40 + word_of_int (ftrunc elapsed) mod 40,
          ds_PowerMw = 100000 + word_of_int (ftrunc (fmul sm 3000)),
          ds_SmClockMhz = 1410,
          ds_MemClockMhz = 1593,
          ds_ThrottleReasons = 0,
          ds_PcieTxKbps = word_of_int (ftrunc (fmul sm 10000)),
          ds_PcieRxKbps = word_of_int (ftrunc (fmul sm 12000)),
          ds_EncUtilPct = 0,
          ds_DecUtilPct = 0,
          ds_NvlinkTxKbps = 0,
          ds_NvlinkRxKbps = 0,
          ds_EccCorrectedTotal = 0,
          ds_EccUncorrectedTotal = 0,
          ds_FanSpeedPct = 30 + word_of_int (ftrunc elapsed) mod 50,
          ds_ComputeMode = 0\<rparr>)"

definition Mock_Devices ::
  "(rat \<Rightarrow> rat) \<Rightarrow> Mock \<Rightarrow> (DeviceSnapshot list \<times> goerr option) \<times> Mock" where
  "Mock_Devices msin m =
     (case mk_devs m of
        None \<Rightarrow> (([], Some ErrNotAvailable), m)
      | Some devs \<Rightarrow>
          (case mock_now m of
             (now, m') \<Rightarrow>
               let elapsed = seconds (now - mk_start m')
               in ((map (\<lambda>(i, base). mock_snapshot msin (word_of_int now) elapsed i base)
                      (enumerate 0 devs), None), m')))"

definition mock_sample :: "(rat \<Rightarrow> rat) \<Rightarrow> u64 \<Rightarrow> rat \<Rightarrow> u32 \<Rightarrow> u32 \<Rightarrow> nat \<Rightarrow> ProcessSample" where
  "mock_sample msin tsNs elapsed pid dev j =
     (let phase = fmul (rnd (of_nat (unat dev * 10 + j))) (rnd (4/10));
          sm = wave msin 30 30 (angle elapsed 30 phase);
          mem = wave msin 20 15 (fadd (angle elapsed 40 phase) (rnd (5/10)))
      in zero_sample\<lparr>ps_Pid := pid, ps_DeviceIndex := dev, ps_TimestampNs := tsNs,
           ps_UsedGpuMemory := 256 * 1024 * 1024 + of_nat j * 128 * 1024 * 1024,
           ps_SmUtilPct := word_of_int (ftrunc (clamp sm 0 100)),
           ps_MemUtilPct := word_of_int (ftrunc (clamp mem 0 100))\<rparr>)"

text \<open>The two nested loops; \<open>pid\<close> counts over both.\<close>

definition mock_step ::
  "(rat \<Rightarrow> rat) \<Rightarrow> u64 \<Rightarrow> rat \<Rightarrow> u32 \<Rightarrow> nat \<Rightarrow> ProcessSample list \<times> u32 \<Rightarrow> ProcessSample list \<times> u32" where
  "mock_step msin tsNs elapsed dev j s =
     (fst s @ [mock_sample msin tsNs elapsed (snd s) dev j], snd s + 1)"

definition Mock_ProcessSamples ::
  "(rat \<Rightarrow> rat) \<Rightarrow> Mock \<Rightarrow> u64 \<Rightarrow> (ProcessSample list \<times> goerr option) \<times> Mock" where
  "Mock_ProcessSamples msin m lastSeenNs =
     (case mk_devs m of
        None \<Rightarrow> (([], Some ErrNotAvailable), m)
      | Some devs \<Rightarrow>
          (case mock_now m of
             (now, m') \<Rightarrow>
               let tsNs = word_of_int now
               in if lastSeenNs \<ge> tsNs then (([], None), m')
                  else
                    let elapsed = seconds (now - mk_start m');
                        s = fold (\<lambda>dev. fold (mock_step msin tsNs elapsed (ds_Index dev))
                                     [0..<nat (mk_PidsPerDevice m')])
                              devs ([], mk_FirstPid m')
                    in ((fst s, None), m')))"

definition Mock_Close :: "Mock \<Rightarrow> goerr option \<times> Mock" where
  "Mock_Close m = (None, m\<lparr>mk_devs := None\<rparr>)"

definition mock_poller :: "(rat \<Rightarrow> rat) \<Rightarrow> Mock nvml_poller" where
  "mock_poller msin = \<lparr>np_Init = Mock_Init, np_Devices = Mock_Devices msin,
     np_ProcessSamples = Mock_ProcessSamples msin, np_Close = Mock_Close\<rparr>"

section \<open>The backend implements the interface\<close>

text \<open>The devices made by \<open>Init\<close>.\<close>

definition mock_inv :: "Mock \<Rightarrow> bool" where
  "mock_inv m \<longleftrightarrow> (\<exists>n. mk_devs m = Some (map mock_device [0..<n]))"

definition mock_ndev :: "Mock \<Rightarrow> nat" where
  "mock_ndev m = (case mk_devs m of None \<Rightarrow> 0 | Some devs \<Rightarrow> length devs)"

lemma mock_device_index [simp]: "ds_Index (mock_device i) = of_nat i"
  by (simp add: mock_device_def)

lemma mock_snapshots_index:
  "map ds_Index (map (\<lambda>(i, base). mock_snapshot msin ts el i base) (enumerate k ds)) = map ds_Index ds"
  by (induction ds arbitrary: k) (simp_all add: mock_snapshot_def Let_def)

text \<open>The samples of the loops: block by block, with consecutive pids.\<close>

lemma fold_mock_step_from:
  "fold (mock_step msin ts el dev) js (out, pid + of_nat n) =
     (out @ map (\<lambda>(k, j). mock_sample msin ts el (pid + of_nat k) dev j) (enumerate n js),
      pid + of_nat (n + length js))"
proof (induction js arbitrary: out n)
  case Nil
  then show ?case by simp
next
  case (Cons j js)
  have "mock_step msin ts el dev j (out, pid + of_nat n) =
      (out @ [mock_sample msin ts el (pid + of_nat n) dev j], pid + of_nat (Suc n))"
    by (simp add: mock_step_def)
  then show ?case by (simp add: Cons.IH del: of_nat_Suc of_nat_add)
qed

lemma fold_mock_step:
  "fold (mock_step msin ts el dev) js (out, pid) =
     (out @ map (\<lambda>(k, j). mock_sample msin ts el (pid + of_nat k) dev j) (enumerate 0 js),
      pid + of_nat (length js))"
  using fold_mock_step_from [of msin ts el dev js out pid 0] by simp

lemma fold_mock_devices:
  "x \<in> set (fst (fold (\<lambda>dev. fold (mock_step msin ts el (ds_Index dev)) js) ds (out, pid))) \<Longrightarrow>
    x \<in> set out \<or> (\<exists>d \<in> set ds. \<exists>p j. x = mock_sample msin ts el p (ds_Index d) j)"
proof (induction ds arbitrary: out pid)
  case Nil
  then show ?case by simp
next
  case (Cons d ds)
  from Cons.prems have "x \<in> set (fst (fold (\<lambda>dev. fold (mock_step msin ts el (ds_Index dev)) js) ds
      (out @ map (\<lambda>(k, j). mock_sample msin ts el (pid + of_nat k) (ds_Index d) j) (enumerate 0 js),
       pid + of_nat (length js))))" by (simp add: fold_mock_step)
  from Cons.IH [OF this] show ?case by auto
qed

lemma mock_sample_simps [simp]:
  "ps_Pid (mock_sample msin ts el p d j) = p" "ps_DeviceIndex (mock_sample msin ts el p d j) = d"
  "ps_TimestampNs (mock_sample msin ts el p d j) = ts" "ps_MigInstance (mock_sample msin ts el p d j) = 0"
  by (simp_all add: mock_sample_def zero_sample_def Let_def)

interpretation mock: nvml_backend "mock_poller msin" mock_inv mock_ndev for msin
proof unfold_locales
  fix s s'
  assume "np_Init (mock_poller msin) s = (None, s')"
  then show "mock_inv s'"
    by (auto simp: mock_poller_def Mock_Init_def mock_now_def mock_inv_def Let_def)
next
  fix s s' r
  assume i: "mock_inv s" and "np_Devices (mock_poller msin) s = (r, s')"
  then have "mk_devs s' = mk_devs s"
    by (auto simp: mock_poller_def Mock_Devices_def mock_now_def Let_def split: option.splits)
  with i show "mock_inv s' \<and> mock_ndev s' = mock_ndev s" by (simp add: mock_inv_def mock_ndev_def)
next
  fix s s' ds
  assume "mock_inv s" and d: "np_Devices (mock_poller msin) s = ((ds, None), s')"
  then obtain n where n: "mk_devs s = Some (map mock_device [0..<n])" by (auto simp: mock_inv_def)
  with d have "map ds_Index ds = map ds_Index (map mock_device [0..<n])"
    using mock_snapshots_index [of msin _ _ 0 "map mock_device [0..<n]"]
    by (auto simp: mock_poller_def Mock_Devices_def mock_now_def Let_def)
  with n show "map ds_Index ds = map of_nat [0..<mock_ndev s]" by (simp add: mock_ndev_def)
next
  fix s s' t q
  assume i: "mock_inv s" and "np_ProcessSamples (mock_poller msin) s t = (q, s')"
  then have "mk_devs s' = mk_devs s"
    by (auto simp: mock_poller_def Mock_ProcessSamples_def mock_now_def Let_def
        split: option.splits if_splits)
  with i show "mock_inv s' \<and> mock_ndev s' = mock_ndev s" by (simp add: mock_inv_def mock_ndev_def)
next
  fix s s' t ss e x
  assume "mock_inv s" and q: "np_ProcessSamples (mock_poller msin) s t = ((ss, e), s')" and x: "x \<in> set ss"
  then obtain n where n: "mk_devs s = Some (map mock_device [0..<n])" by (auto simp: mock_inv_def)
  from q x n obtain d p j ts el where "d \<in> set (map mock_device [0..<n])"
    "x = mock_sample msin ts el p (ds_Index d) j"
    by (auto simp: mock_poller_def Mock_ProcessSamples_def mock_now_def Let_def split: if_splits
        dest: fold_mock_devices)
  then show "unat (ps_DeviceIndex x) < mock_ndev s \<and> ps_MigInstance x = 0"
    using n by (auto simp: mock_ndev_def intro: le_less_trans [OF unat_of_nat_le])
next
  fix s s' cr
  assume "np_Close (mock_poller msin) s = (cr, s')"
  then show "np_Close (mock_poller msin) s' = (None, s')"
    by (auto simp: mock_poller_def Mock_Close_def)
qed

section \<open>The values are plausible\<close>

text \<open>
  A wave of integer offset and amplitude stays in its band: rounding is monotone and exact on the
  integers that bound it. So the clamp to [0, 100] never acts.
\<close>

definition sine_like :: "(rat \<Rightarrow> rat) \<Rightarrow> bool" where
  "sine_like f \<longleftrightarrow> (\<forall>x. -1 \<le> f x \<and> f x \<le> 1)"

lemma wave_bounds:
  assumes "sine_like msin" and "0 \<le> amp" and "amp < 2 ^ 40" and "\<bar>off\<bar> < 2 ^ 40"
  shows "of_int (off - amp) \<le> wave msin (of_int off) (of_int amp) x \<and>
    wave msin (of_int off) (of_int amp) x \<le> of_int (off + amp)"
proof -
  have s: "-1 \<le> msin x" "msin x \<le> 1" using assms(1) by (simp_all add: sine_like_def)
  have "of_int (- amp) \<le> of_int amp * msin x" "of_int amp * msin x \<le> of_int amp"
    using mult_left_mono [OF s(1), of "of_int amp"] mult_left_mono [OF s(2), of "of_int amp"] assms(2)
    by simp_all
  then have "of_int (- amp) \<le> fmul (of_int amp) (msin x) \<and> fmul (of_int amp) (msin x) \<le> of_int amp"
    unfolding fmul_def using assms(2,3) by (intro rnd_between) simp_all
  then show ?thesis
    unfolding wave_def fadd_def using assms(2,3,4)
    by (intro rnd_between) (simp_all, linarith+)
qed

lemma clamp_id: "lo \<le> v \<Longrightarrow> v \<le> hi \<Longrightarrow> clamp v lo hi = v"
  by (simp add: clamp_def)

lemma ftrunc_bounds: "of_int a \<le> x \<Longrightarrow> x \<le> of_int b \<Longrightarrow> 0 \<le> a \<Longrightarrow> a \<le> ftrunc x \<and> ftrunc x \<le> b"
  by (auto simp: ftrunc_def le_floor_iff floor_le_iff)

lemma wave_to_word:
  assumes "sine_like msin" and "0 \<le> amp" and "amp \<le> off" and "off + amp \<le> 100"
  shows "off - amp \<le> uint (word_of_int (ftrunc (clamp (wave msin (of_int off) (of_int amp) x) 0 100)) :: u32) \<and>
    uint (word_of_int (ftrunc (clamp (wave msin (of_int off) (of_int amp) x) 0 100)) :: u32) \<le> off + amp"
proof -
  let ?w = "wave msin (of_int off) (of_int amp) x"
  have b: "of_int (off - amp) \<le> ?w" "?w \<le> of_int (off + amp)"
    using wave_bounds [OF assms(1,2), of off x] assms by simp_all
  have lo: "(0 :: rat) \<le> of_int (off - amp)" and hi: "(of_int (off + amp) :: rat) \<le> 100"
    using assms by (simp_all only: of_int_0_le_iff of_int_le_numeral_iff)
  have "clamp ?w 0 100 = ?w"
    using order_trans [OF lo b(1)] order_trans [OF b(2) hi] by (rule clamp_id)
  moreover from ftrunc_bounds [OF b] assms have "off - amp \<le> ftrunc ?w" "ftrunc ?w \<le> off + amp" by simp_all
  ultimately show ?thesis using assms by (simp add: uint_word_of_int)
qed

text \<open>A product of a wave with a positive constant, as the power and the PCIe counters are computed.\<close>

lemma fmul_to_word:
  assumes "of_int a \<le> v" and "v \<le> of_int b" and "0 \<le> a" and "b * k < 2 ^ 32" and "0 < k"
  shows "a * k \<le> ftrunc (fmul v (of_int k)) \<and> ftrunc (fmul v (of_int k)) \<le> b * k"
proof -
  have ab: "a \<le> b" using assms(1,2) by (metis of_int_le_iff order_trans)
  have le: "of_int (a * k) \<le> v * of_int k" "v * of_int k \<le> of_int (b * k)"
    using mult_right_mono [OF assms(1), of "of_int k"] mult_right_mono [OF assms(2), of "of_int k"] assms(5)
    by simp_all
  have pos: "0 \<le> a * k" "a * k \<le> b * k" using ab assms(3,5) by (simp_all add: mult_right_mono)
  have "of_int (a * k) \<le> fmul v (of_int k) \<and> fmul v (of_int k) \<le> of_int (b * k)"
    unfolding fmul_def using le pos assms(4) by (intro rnd_between) (simp_all, linarith?)
  with pos show ?thesis by (intro ftrunc_bounds) simp_all
qed

lemma temp_bounds:
  "40 \<le> uint (40 + w mod 40 :: u32)" "uint (40 + w mod 40 :: u32) < 80"
  "30 \<le> uint (30 + w mod 50 :: u32)" "uint (30 + w mod 50 :: u32) < 80"
proof -
  have m: "uint (w mod 40) = uint w mod 40" "uint (w mod 50) = uint w mod 50"
    by (simp_all add: uint_mod)
  have "uint w mod 40 < 40" "uint w mod 50 < 50" by simp_all
  then show "40 \<le> uint (40 + w mod 40 :: u32)" "uint (40 + w mod 40 :: u32) < 80"
    "30 \<le> uint (30 + w mod 50 :: u32)" "uint (30 + w mod 50 :: u32) < 80"
    by (simp_all add: uint_word_ariths m)
qed

lemma fmod_1: "0 \<le> x \<Longrightarrow> 0 \<le> fmod x 1 \<and> fmod x 1 < 1"
  by (simp add: fmod_def ftrunc_def) linarith

lemma rnd_half: "x \<le> 1/2 \<Longrightarrow> rnd x \<le> 1/2"
  using rnd_mono [of x "1/2"] rnd_exact_nat [of 1 1] by (simp add: min_exp_def)

lemma fmul_fraction:
  assumes "0 \<le> i" and "i < 2 ^ 53" and "0 \<le> a" and "a \<le> 1"
  shows "0 \<le> ftrunc (fmul (of_int i) a) \<and> ftrunc (fmul (of_int i) a) \<le> i"
proof -
  have "of_int 0 \<le> of_int i * a" "of_int i * a \<le> of_int i"
    using assms by (simp_all add: mult_left_le)
  then have "of_int 0 \<le> fmul (of_int i) a \<and> fmul (of_int i) a \<le> of_int i"
    unfolding fmul_def using assms(1,2) by (intro rnd_between) simp_all
  then show ?thesis using assms(1) by (intro ftrunc_bounds) simp_all
qed

lemma mock_mem_used:
  assumes "0 \<le> elapsed" and "uint t < 2 ^ 53"
  shows "word_of_int (ftrunc (fmul (rnd (of_nat (unat t)))
    (fadd (rnd (1/10)) (fmul (rnd (4/10)) (fmod (fdiv elapsed 600) 1))))) \<le> (t :: u64)"
proof -
  let ?f = "fmod (fdiv elapsed 600) 1" and ?t = "of_int (uint t) :: rat"
  have f: "0 \<le> ?f" "?f \<le> 1"
    using fmod_1 [of "fdiv elapsed 600"] rnd_nonneg assms(1) by (auto simp: fdiv_def)
  have c: "0 \<le> rnd (1/10)" "rnd (1/10) \<le> 1/2" "0 \<le> rnd (4/10)" "rnd (4/10) \<le> 1/2"
    by (rule rnd_nonneg rnd_half, simp)+
  have m: "0 \<le> rnd (4/10) * ?f" "rnd (4/10) * ?f \<le> 1/2"
    using mult_mono [OF c(4) f(2)] f(1) c(3) by simp_all
  have s: "0 \<le> fmul (rnd (4/10)) ?f" "fmul (rnd (4/10)) ?f \<le> 1/2"
    unfolding fmul_def by (rule rnd_nonneg [OF m(1)], rule rnd_half [OF m(2)])
  have a: "0 \<le> fadd (rnd (1/10)) (fmul (rnd (4/10)) ?f) \<and> fadd (rnd (1/10)) (fmul (rnd (4/10)) ?f) \<le> 1"
    using rnd_between [of 0 "rnd (1/10) + fmul (rnd (4/10)) ?f" 1] c s unfolding fadd_def by simp
  have r: "rnd ?t = ?t" using assms(2) by (intro rnd_of_int) simp
  from fmul_fraction [of "uint t", OF _ assms(2)] a
  have "0 \<le> ftrunc (fmul ?t (fadd (rnd (1/10)) (fmul (rnd (4/10)) ?f)))"
    "ftrunc (fmul ?t (fadd (rnd (1/10)) (fmul (rnd (4/10)) ?f))) \<le> uint t" by simp_all
  with assms(2) r show ?thesis by (simp add: word_le_def uint_word_of_int)
qed

text \<open>The bands of a snapshot and of a sample of the mock.\<close>

definition snapshot_plausible :: "DeviceSnapshot \<Rightarrow> bool" where
  "snapshot_plausible d \<longleftrightarrow>
     5 \<le> uint (ds_SmUtilPct d) \<and> uint (ds_SmUtilPct d) \<le> 95 \<and>
     5 \<le> uint (ds_MemUtilPct d) \<and> uint (ds_MemUtilPct d) \<le> 55 \<and>
     ds_MemUsed d \<le> ds_MemTotal d \<and>
     40 \<le> uint (ds_TempC d) \<and> uint (ds_TempC d) < 80 \<and>
     30 \<le> uint (ds_FanSpeedPct d) \<and> uint (ds_FanSpeedPct d) < 80 \<and>
     115000 \<le> uint (ds_PowerMw d) \<and> uint (ds_PowerMw d) \<le> 385000 \<and>
     50000 \<le> uint (ds_PcieTxKbps d) \<and> uint (ds_PcieTxKbps d) \<le> 950000 \<and>
     60000 \<le> uint (ds_PcieRxKbps d) \<and> uint (ds_PcieRxKbps d) \<le> 1140000"

lemma mock_snapshot_plausible:
  assumes s: "sine_like msin" and e: "0 \<le> elapsed" and t: "uint (ds_MemTotal base) < 2 ^ 53"
  shows "snapshot_plausible (mock_snapshot msin ts elapsed i base)"
proof -
  let ?x = "angle elapsed 60 (fmul (rnd (of_nat i)) (rnd (7/10)))"
  let ?sm = "wave msin 50 45 ?x"
  have b: "of_int 5 \<le> ?sm" "?sm \<le> of_int 95" using wave_bounds [OF s, of 45 50 ?x] by simp_all
  note f = fmul_to_word [OF b]
  have "15000 \<le> ftrunc (fmul ?sm 3000) \<and> ftrunc (fmul ?sm 3000) \<le> 285000" using f [of 3000] by simp
  then have p: "115000 \<le> uint (100000 + word_of_int (ftrunc (fmul ?sm 3000)) :: u32) \<and>
      uint (100000 + word_of_int (ftrunc (fmul ?sm 3000)) :: u32) \<le> 385000"
    by (simp add: uint_word_ariths uint_word_of_int)
  have "50000 \<le> ftrunc (fmul ?sm 10000) \<and> ftrunc (fmul ?sm 10000) \<le> 950000" using f [of 10000] by simp
  then have tx: "50000 \<le> uint (word_of_int (ftrunc (fmul ?sm 10000)) :: u64) \<and>
      uint (word_of_int (ftrunc (fmul ?sm 10000)) :: u64) \<le> 950000" by (simp add: uint_word_of_int)
  have "60000 \<le> ftrunc (fmul ?sm 12000) \<and> ftrunc (fmul ?sm 12000) \<le> 1140000" using f [of 12000] by simp
  then have rx: "60000 \<le> uint (word_of_int (ftrunc (fmul ?sm 12000)) :: u64) \<and>
      uint (word_of_int (ftrunc (fmul ?sm 12000)) :: u64) \<le> 1140000" by (simp add: uint_word_of_int)
  show ?thesis
    using wave_to_word [OF s, of 45 50] wave_to_word [OF s, of 25 30] mock_mem_used [OF e t] p tx rx
      temp_bounds
    unfolding snapshot_plausible_def mock_snapshot_def Let_def
    by simp
qed

end
