(* ===== verification/PollerBackend.thy ===== *)
theory PollerBackend
  imports PollerRun
begin

text \<open>
  The main loop over a backend that keeps the contract \<open>nvml_backend\<close>: the device slots a tick fills,
  and what the backend's state satisfies during a run.
\<close>

section \<open>The slots of a positional device list\<close>

lemma device_table_snoc:
  "device_table (ds @ [d]) f = (device_table ds f)(ds_Index d := Some (deviceSnapshotToMap d))"
  by (simp add: device_table_def)

lemma device_table_filter_snoc:
  "device_table (filter in_slots (ds @ [d])) f =
    (if in_slots d then (device_table (filter in_slots ds) f)(ds_Index d := Some (deviceSnapshotToMap d))
     else device_table (filter in_slots ds) f)"
  by (simp add: device_table_snoc)

lemma device_table_positional:
  assumes "map ds_Index ds = map of_nat [0..<n]" and "n \<le> 2 ^ 32"
  shows "device_table (filter in_slots ds) f i =
    (if unat i < n \<and> unat i < GPU_MAX_DEVICES then Some (deviceSnapshotToMap (ds ! unat i)) else f i)"
  using assms
proof (induction n arbitrary: ds)
  case 0
  then show ?case by (simp add: device_table_def)
next
  case (Suc n)
  from Suc.prems(1) have len: "length ds = Suc n" by (metis length_map length_upt diff_zero)
  then obtain xs d where ds: "ds = xs @ [d]" by (metis append_butlast_last_id list.size(3) nat.distinct(1))
  with Suc.prems(1) have xs: "map ds_Index xs = map of_nat [0..<n]" and d: "ds_Index d = of_nat n"
    by simp_all
  have lx: "length xs = n" using len ds by simp
  have u: "unat (of_nat n :: u32) = n" using Suc.prems(2) by (simp add: unat_of_nat)
  have eq: "i = of_nat n \<longleftrightarrow> unat i = n" using u by (metis word_unat_eq_iff)
  have IH: "device_table (filter in_slots xs) f i =
      (if unat i < n \<and> unat i < GPU_MAX_DEVICES then Some (deviceSnapshotToMap (xs ! unat i)) else f i)"
    using Suc.IH [OF xs] Suc.prems(2) by simp
  show ?case
    unfolding ds device_table_filter_snoc using IH eq u d lx
    by (auto simp: in_slots_def nth_append)
qed

section \<open>The state of the backend during a run\<close>

definition src_closed :: "'s nvml_poller \<Rightarrow> ('s \<Rightarrow> bool) \<Rightarrow> bool" where
  "src_closed P Q \<longleftrightarrow>
     (\<forall>s r s'. np_Devices P s = (r, s') \<longrightarrow> Q s \<longrightarrow> Q s') \<and>
     (\<forall>s t r s'. np_ProcessSamples P s t = (r, s') \<longrightarrow> Q s \<longrightarrow> Q s')"

lemma tick_src:
  assumes c: "src_closed (pl_source p) Q" and t: "tick K ro now p wd = (r, p', wd')" and q: "Q (wd_src wd)"
  shows "Q (wd_src wd')"
  using t
proof (cases rule: tick_cases)
  case (fail devs e src1)
  with c q show ?thesis by (auto simp: src_closed_def)
next
  case (ok devs src1 ss se src2)
  from c ok(1) q have "Q src1" by (auto simp: src_closed_def)
  with c ok(2,4) show ?thesis by (auto simp: src_closed_def)
qed

lemma loop_steps_src:
  assumes "loop_steps K s es s'" and "src_closed (pl_source (fst s)) Q" and "Q (wd_src (snd s))"
  shows "Q (wd_src (snd s'))"
  using assms
proof (induction rule: loop_steps.induct)
  case (none s)
  then show ?case by simp
next
  case (more s e s' es s'')
  from more.hyps(1) show ?case
  proof cases
    case (ticker ro now p wd r p' wd')
    with more tick_fields(1) [OF ticker(4)] tick_src [OF _ ticker(4), of Q] show ?thesis by (simp add: logged_def)
  qed
qed

text \<open>A run that gets past \<open>Init\<close> ends by closing a backend in a state that \<open>Q\<close> still holds of.\<close>

lemma Run_src:
  assumes run: "Run K ro now evs p wd = Some (r, p', wd')"
    and i: "np_Init (pl_source p) (wd_src wd) = (None, s1)"
    and c: "src_closed (pl_source p) Q" and q: "Q s1"
  shows "\<exists>s2. Q s2 \<and> wd_src wd' = snd (np_Close (pl_source p) s2)"
proof -
  let ?w0 = "wd\<lparr>wd_src := s1, wd_log := wd_log wd @ [EvInit None]\<rparr>"
  obtain r1 p1 wd1 where t: "tick K ro now p ?w0 = (r1, p1, wd1)" by (metis prod.exhaust)
  from run i t obtain p2 wd2 where
    l: "run_loop K evs p1 (logged ''initial tick failed'' r1 wd1) = Some (p2, wd2)" and
    res: "wd_src wd' = snd (np_Close (pl_source p) (wd_src wd2))"
    by (auto simp: Run_def split: option.splits)
  from l obtain es where st: "loop_steps K (p1, logged ''initial tick failed'' r1 wd1) es (p2, wd2)"
    by (auto simp: run_loop_steps)
  from tick_fields(1) [OF t] have "pl_source p1 = pl_source p" by simp
  with loop_steps_src [OF st, of Q] c tick_src [OF c t] q have "Q (wd_src wd2)" by (simp add: logged_def)
  with res show ?thesis by blast
qed

context nvml_backend
begin

lemma inv_closed: "src_closed P (\<lambda>s. inv s \<and> ndev s = n)"
  unfolding src_closed_def
proof (intro conjI allI impI)
  fix s r s' assume "np_Devices P s = (r, s')" and "inv s \<and> ndev s = n"
  with devices_inv [of s r s'] show "inv s'" and "ndev s' = n" by simp_all
next
  fix s t r s' assume "np_ProcessSamples P s t = (r, s')" and "inv s \<and> ndev s = n"
  with samples_inv [of s t r s'] show "inv s'" and "ndev s' = n" by simp_all
qed

text \<open>The slots after a tick: one per device of the backend, the others untouched.\<close>

lemma tick_slots:
  assumes K: "bpf_kernel K" and ro: "orders_ok ro" and src: "pl_source p = P"
    and i: "inv (wd_src wd0)" and n: "ndev (wd_src wd0) \<le> 2 ^ 32"
    and d: "np_Devices P (wd_src wd0) = ((devs, None), src1)"
    and v: "wview K (pl_bridge p) wd0 = Some v"
    and t: "tick K ro now p wd0 = (r, p', wd')"
  shows "\<exists>v'. wview K (pl_bridge p) wd' = Some v' \<and>
    v_meta v' 0 = Some (meta_record devs now (pl_helper p)) \<and> length devs = ndev (wd_src wd0) \<and>
    (\<forall>idx. v_device v' idx =
       (if unat idx < ndev (wd_src wd0) \<and> unat idx < GPU_MAX_DEVICES
        then Some (deviceSnapshotToMap (devs ! unat idx)) else v_device v idx))"
proof -
  obtain ss se src2 where s: "np_ProcessSamples (pl_source p) src1
      (minLastSeen (ro_seen ro) (pl_lastSeen p)) = ((ss, se), src2)"
    by (metis prod.exhaust)
  from bpf_kernel.tick_implements [OF K ro d [folded src] s v t] obtain v' where
    v': "wview K (pl_bridge p) wd' = Some v'"
    and tr: "tick_result (warnings wd' \<noteq> warnings wd0) devs ss (meta_record devs now (pl_helper p)) v v'"
    by blast
  from tr have "v_meta v' = (v_meta v)(0 := Some (meta_record devs now (pl_helper p)))"
    "v_device v' = device_table (filter in_slots devs) (v_device v)"
    by (simp_all add: tick_result_def)
  with v' devices_length [OF i d] device_table_positional [OF devices_index [OF i d] n, of "v_device v"]
  show ?thesis by auto
qed

text \<open>The state of the backend when a run closes it.\<close>

lemma Run_closes:
  assumes "Run K ro now evs p wd = Some (r, p', wd')" and "pl_source p = P"
    and "np_Init P (wd_src wd) = (None, s1)"
  shows "\<exists>s2. inv s2 \<and> ndev s2 = ndev s1 \<and> wd_src wd' = snd (np_Close P s2) \<and>
    np_Close P (wd_src wd') = (None, wd_src wd')"
proof -
  have "inv s1" by (rule init_inv [OF assms(3)])
  with Run_src [OF assms(1) _ _, of s1 "\<lambda>s. inv s \<and> ndev s = ndev s1"] inv_closed [of "ndev s1"] assms(2,3)
  obtain s2 where s2: "inv s2" "ndev s2 = ndev s1" "wd_src wd' = snd (np_Close P s2)" by auto
  obtain cr s3 where c: "np_Close P s2 = (cr, s3)" by fastforce
  with s2 close_idem [OF c] show ?thesis by auto
qed

end

end
