(* ===== verification/BackendProps.thy ===== *)
theory BackendProps
  imports RealWindow MockNvml PollerBackend Demo
begin

text \<open>
  The properties of the two telemetry backends (\<open>internal/nvml/real.go\<close>, \<open>mock.go\<close>), with a concrete
  NVML library for the witnesses.
\<close>

section \<open>A concrete library\<close>

text \<open>The state is the number of \<open>nvmlInit\<close> calls not yet undone. One device; it runs pid 42 and the idle
  pid 43, and supports neither the fan nor the v2 memory query.\<close>

definition one_gpu :: "nat nvml_lib" where
  "one_gpu = \<lparr>lib_Init = (\<lambda>l. (SUCCESS, l + 1)), lib_Shutdown = (\<lambda>l. (SUCCESS, l - 1)),
     lib_after = (\<lambda>l. l), lib_ErrorString = (\<lambda>r. ''error''), lib_now = (\<lambda>l. 1000), lib_range = (\<lambda>l d es. rev es),
     DeviceGetCount = (\<lambda>l. (1, SUCCESS)), DeviceGetHandleByIndex = (\<lambda>l i. (7, SUCCESS)),
     GetUUID = (\<lambda>l d. (''GPU-7'', SUCCESS)), GetName = (\<lambda>l d. (''one'', SUCCESS)),
     GetUtilizationRates = (\<lambda>l d. ((35, 20), SUCCESS)),
     GetMemoryInfo_v2 = (\<lambda>l d. (\<lparr>mi_Total = 0, mi_Used = 0, mi_Reserved = 0\<rparr>, ERROR_NOT_SUPPORTED)),
     GetMemoryInfo = (\<lambda>l d. ((8000, 500), SUCCESS)), GetTemperature = (\<lambda>l d. (55, SUCCESS)),
     GetPowerUsage = (\<lambda>l d. (120000, SUCCESS)), GetClockInfo_SM = (\<lambda>l d. (1410, SUCCESS)),
     GetClockInfo_MEM = (\<lambda>l d. (1593, SUCCESS)), GetCurrentClocksEventReasons = (\<lambda>l d. (1, SUCCESS)),
     GetCurrentClocksThrottleReasons = (\<lambda>l d. (2, SUCCESS)), GetPcieThroughput_RX = (\<lambda>l d. (9, SUCCESS)),
     GetPcieThroughput_TX = (\<lambda>l d. (8, SUCCESS)), GetEncoderUtilization = (\<lambda>l d. (3, 1, SUCCESS)),
     GetDecoderUtilization = (\<lambda>l d. (4, 1, SUCCESS)),
     GetTotalEccErrors_CORRECTED = (\<lambda>l d. (0, SUCCESS)), GetTotalEccErrors_UNCORRECTED = (\<lambda>l d. (0, SUCCESS)),
     GetFanSpeed = (\<lambda>l d. (77, ERROR_NOT_SUPPORTED)), GetComputeMode = (\<lambda>l d. (0, SUCCESS)),
     GetComputeRunningProcesses = (\<lambda>l d. ([(42, 300), (43, 200)], SUCCESS)),
     GetProcessUtilization = (\<lambda>l d t. ([\<lparr>us_Pid = 42, us_TimeStamp = 11, us_SmUtil = 30, us_MemUtil = 5,
         us_EncUtil = 0, us_DecUtil = 0\<rparr>], SUCCESS))\<rparr>"

lemma one_gpu_refs: "counts_refs one_gpu (\<lambda>l. l)"
  by (simp add: counts_refs_def one_gpu_def)

definition one_gpu_real :: "nat Real" where
  "one_gpu_real = \<lparr>rl_handles = [7], rl_lastSeenTs = [], rl_initialized = True, rl_closed = False, rl_lib = 1\<rparr>"

lemma one_gpu_init: "Real_Init one_gpu (NewReal 0) = (None, one_gpu_real)"
  by (simp add: Real_Init_def one_gpu_def NewReal_def wrap_def one_gpu_real_def)

section \<open>The real backend\<close>

text \<open>C31: The reference count of the library is balanced: a failed \<open>Init\<close> leaves it as it was, a successful
  one adds exactly one, and the first \<open>Close\<close> after it takes that one off again.\<close>

theorem Init_Close_balanced:
  assumes "counts_refs L refs" and "Real_Init L r = (e, r')" and "Real_Close L r' = (ce, r'')"
    and "\<not> rl_closed r" and "\<not> rl_initialized r"
  shows "refs (rl_lib r') = refs (rl_lib r) + (if e = None then 1 else 0) \<and>
    (e = None \<longrightarrow> refs (rl_lib r'') = refs (rl_lib r)) \<and> rl_closed r''"
  using Real_Init_refs [OF assms(1,2)] Real_Close_refs [OF assms(1,3)] assms(4,5) by auto

theorem Init_Close_balanced_witness:
  "\<exists>ce r''. Real_Close one_gpu one_gpu_real = (ce, r'') \<and> rl_lib one_gpu_real = 1 \<and> rl_lib r'' = 0"
proof -
  obtain ce r'' where c: "Real_Close one_gpu one_gpu_real = (ce, r'')" by fastforce
  from Init_Close_balanced [OF one_gpu_refs one_gpu_init c] c show ?thesis
    by (simp add: NewReal_def)
qed

text \<open>A device snapshot of the real backend never fails: each field is the reading of its query, zero when
  that query failed for any reason, with the memory falling back from the v2 to the v1 query and the
  throttle reasons from their new to their old name; the snapshots are indexed by position and carry
  the time of the call.\<close>

lemma Real_Devices_result:
  "Real_Devices L r =
     ((map (\<lambda>(i, dev). snapshot_spec L (rl_lib r) (word_of_int (lib_now L (rl_lib r))) (of_nat i) dev)
         (enumerate 0 (rl_handles r)), None), r\<lparr>rl_lib := lib_after L (rl_lib r)\<rparr>)"
  by (simp add: Real_Devices_def Let_def device_snapshot_eq)

text \<open>C15: What the real backend reports of the processes of a device, whatever the order of its map loop:
  nothing when the utilisation query fails hard; otherwise a pid is reported exactly when the
  utilisation samples or the list of running processes name it, the largest memory reported for it
  is the memory that list gives, and its utilisation is that of its samples. The window asked of
  NVML starts at the later of the caller's time and the newest sample of that device, and the
  per-device window never goes back.\<close>

theorem Real_ProcessSamples_result:
  assumes "\<And>d. is_range (lib_range L (rl_lib r) d)" and "length (rl_handles r) \<le> 2 ^ 32"
    and "Real_ProcessSamples L r t = ((ss, e), r')" and "j < length (rl_handles r)"
  shows "e = None \<and> (\<forall>d. lookup0 (rl_lastSeenTs r) d \<le> lookup0 (rl_lastSeenTs r') d) \<and>
    (\<exists>c. (\<forall>p. samples_on ss p (of_nat j) = filter (\<lambda>x. ps_Pid x = p) c) \<and>
       device_reported L (rl_lib r) (word_of_int (lib_now L (rl_lib r)))
         (max t (lookup0 (rl_lastSeenTs r) (of_nat j))) (rl_handles r ! j) (of_nat j) c)"
  using Real_ProcessSamples_blocks [OF assms(1-3)] assms(4) by blast

theorem Real_ProcessSamples_result_witness:
  "\<exists>ss e r' c. Real_ProcessSamples one_gpu one_gpu_real 0 = ((ss, e), r') \<and> e = None \<and>
     (\<forall>p. samples_on ss p 0 = filter (\<lambda>x. ps_Pid x = p) c) \<and>
     device_reported one_gpu 1 1000 0 7 0 c"
proof -
  obtain ss e r' where q: "Real_ProcessSamples one_gpu one_gpu_real 0 = ((ss, e), r')"
    by (metis prod.exhaust)
  have "\<And>d. is_range (lib_range one_gpu (rl_lib one_gpu_real) d)"
    by (simp add: one_gpu_def is_range_def)
  from Real_ProcessSamples_result [OF this _ q, of 0] q show ?thesis
    by (simp add: one_gpu_real_def) (auto simp: one_gpu_def)
qed

text \<open>What one process of a device has in the samples of a call, as a detail record: nothing when the query of
  the device failed hard or nobody names the process.\<close>

definition nvml_detail :: "'l nvml_lib \<Rightarrow> 'l \<Rightarrow> u64 \<Rightarrow> device \<Rightarrow> u32 \<Rightarrow> u32 \<Rightarrow> gpu_pid_metrics option" where
  "nvml_detail L l seen dev d p =
     (case GetProcessUtilization L l dev seen of
        (us, ret) \<Rightarrow>
          let util = filter (\<lambda>s. us_Pid s = p) us; mem = reported_memory L l dev p
          in if p = 0 \<or> hard_error ret \<or> util = [] \<and> mem = None then None
             else Some \<lparr>
               pm_timestamp_ns = word_of_int (lib_now L l),
               pm_used_gpu_memory = (case mem of None \<Rightarrow> 0 | Some m \<Rightarrow> m),
               pm_sm_util_pct = maxcol us_SmUtil util,
               pm_mem_util_pct = maxcol us_MemUtil util,
               pm_enc_util_pct = maxcol us_EncUtil util,
               pm_dec_util_pct = maxcol us_DecUtil util,
               pm_gpu_device = ucast d,
               pm_mig_instance = 0,
               pm_pad = 0\<rparr>)"

lemma reported_detail:
  assumes "samples_on ss p d = filter (\<lambda>x. ps_Pid x = p) c"
    and "device_reported L l (word_of_int (lib_now L l)) seen dev d c"
  shows "spec_detail ss p d = nvml_detail L l seen dev d p"
proof -
  obtain us ret where u: "GetProcessUtilization L l dev seen = (us, ret)" by fastforce
  let ?mine = "filter (\<lambda>x. ps_Pid x = p) c"
  have all: "\<And>x. x \<in> set c \<Longrightarrow> ps_MigInstance x = 0 \<and> ps_TimestampNs x = word_of_int (lib_now L l)"
    using assms(2) by (simp add: device_reported_def)
  show ?thesis
  proof (cases "hard_error ret \<or> ?mine = []")
    case True
    with assms u show ?thesis by (auto simp: device_reported_def spec_detail_def nvml_detail_def Let_def)
  next
    case False
    then have "maxcol ps_TimestampNs ?mine = word_of_int (lib_now L l)" "ps_MigInstance (hd ?mine) = 0"
      using all hd_in_set [of ?mine] by (auto intro: maxcol_const)
    moreover have "\<not> (filter (\<lambda>s. us_Pid s = p) us = [] \<and> reported_memory L l dev p = None)"
      using False assms(2) u by (auto simp: device_reported_def Let_def)
    ultimately show ?thesis using False assms u
      by (auto simp: device_reported_def spec_detail_def nvml_detail_def Let_def)
  qed
qed

text \<open>C16: End to end from NVML to the map: after a tick on the real backend in which no update fails, the detail
  entry of a process on a device is the record with the memory NVML lists for it and the maxima of its SM,
  memory, encoder and decoder utilisation over the samples NVML returned, stamped with the time of the
  call, or was evicted since. For a process that neither list names, or when the utilisation query of its
  device fails hard, the entry is the old one.\<close>

theorem nvml_reaches_detail_record:
  assumes "bpf_kernel K" and "orders_ok ro" and "pl_source p = real_poller L"
    and "wview K (pl_bridge p) wd0 = Some v" and "tick K ro now p wd0 = (res, p', wd')"
    and "warnings wd' = warnings wd0" and "wview K (pl_bridge p) wd' = Some v'"
    and "\<And>l d. is_range (lib_range L l d)" and "length (rl_handles (wd_src wd0)) \<le> 2 ^ 32"
    and "j < length (rl_handles (wd_src wd0))"
  shows "entry_after (v_piddev v (PerPidPerDeviceKey q (of_nat j)))
    (nvml_detail L (lib_after L (rl_lib (wd_src wd0)))
       (max (minLastSeen (ro_seen ro) (pl_lastSeen p)) (lookup0 (rl_lastSeenTs (wd_src wd0)) (of_nat j)))
       (rl_handles (wd_src wd0) ! j) (of_nat j) q)
    (v_piddev v' (PerPidPerDeviceKey q (of_nat j)))"
proof -
  let ?r = "wd_src wd0" and ?t = "minLastSeen (ro_seen ro) (pl_lastSeen p)"
  let ?r1 = "?r\<lparr>rl_lib := lib_after L (rl_lib ?r)\<rparr>"
  obtain devs where d: "np_Devices (pl_source p) ?r = ((devs, None), ?r1)"
    using assms(3) Real_Devices_result [of L ?r] by simp
  obtain ss e r2 where s: "Real_ProcessSamples L ?r1 ?t = ((ss, e), r2)" by (metis prod.exhaust)
  then have np: "np_ProcessSamples (pl_source p) ?r1 ?t = ((ss, e), r2)" using assms(3) by simp
  from bpf_kernel.tick_implements [OF assms(1,2) d np assms(4,5)] assms(6,7)
  have "tick_result False devs ss (meta_record devs now (pl_helper p)) v v'" by auto
  then have "entry_after (v_piddev v (PerPidPerDeviceKey q (of_nat j))) (spec_detail ss q (of_nat j))
      (v_piddev v' (PerPidPerDeviceKey q (of_nat j)))" by (simp add: tick_result_def Let_def)
  moreover from Real_ProcessSamples_blocks [OF assms(8) _ s] assms(9,10) obtain c where
    "samples_on ss q (of_nat j) = filter (\<lambda>x. ps_Pid x = q) c"
    "device_reported L (rl_lib ?r1) (word_of_int (lib_now L (rl_lib ?r1)))
      (max ?t (lookup0 (rl_lastSeenTs ?r) (of_nat j))) (rl_handles ?r ! j) (of_nat j) c" by auto
  ultimately show ?thesis using reported_detail by fastforce
qed

text \<open>A tick on the library with one GPU: pid 42 has memory and utilisation, pid 43 is idle.\<close>

definition gpu_poller :: "nat Real poller" where
  "gpu_poller = \<lparr>pl_interval = 100000000, pl_source = real_poller one_gpu, pl_bridge = demo_bridge,
     pl_logger = 0, pl_helper = 99, pl_lastSeen = []\<rparr>"

definition gpu_world :: "(ref_world, nat Real) world" where
  "gpu_world = \<lparr>wd_kern = demo_machine, wd_src = one_gpu_real, wd_log = []\<rparr>"

lemma gpu_samples:
  "np_Devices (pl_source gpu_poller) one_gpu_real = (([snapshot_spec one_gpu 1 1000 0 7], None), one_gpu_real)"
  "\<exists>ss r'. np_ProcessSamples (pl_source gpu_poller) one_gpu_real 0 = ((ss, None), r') \<and>
     aggregate_samples ss =
       [((42, 0), \<lparr>a_ts = 1000, a_usedMem = 300, a_smMax = 30, a_memMax = 5, a_encMax = 0, a_decMax = 0, a_migInst = 0\<rparr>),
        ((43, 0), \<lparr>a_ts = 1000, a_usedMem = 200, a_smMax = 0, a_memMax = 0, a_encMax = 0, a_decMax = 0, a_migInst = 0\<rparr>)]"
  by (simp_all add: gpu_poller_def Real_Devices_result one_gpu_real_def Real_ProcessSamples_def process_device_def
      one_gpu_def util_step_def mem_only_step_def zero_sample_def wrap_def lookup0_def aggregate_samples_def
      sample_step_def merge_sample_def new_perDevAgg_def Let_def)

lemma gpu_tick:
  assumes "tick ref_kernel demo_orders 5 gpu_poller gpu_world = (r, p', wd')"
  shows "warnings wd' = warnings gpu_world"
    and "\<exists>v'. wview ref_kernel demo_bridge wd' = Some v' \<and>
      v_piddev v' (PerPidPerDeviceKey 42 0) \<noteq> None \<and> v_piddev v' (PerPidPerDeviceKey 43 0) \<noteq> None"
proof -
  obtain ss r2 where s: "np_ProcessSamples (pl_source gpu_poller) one_gpu_real 0 = ((ss, None), r2)"
    and a: "aggregate_samples ss =
       [((42, 0), \<lparr>a_ts = 1000, a_usedMem = 300, a_smMax = 30, a_memMax = 5, a_encMax = 0, a_decMax = 0, a_migInst = 0\<rparr>),
        ((43, 0), \<lparr>a_ts = 1000, a_usedMem = 200, a_smMax = 0, a_memMax = 0, a_encMax = 0, a_decMax = 0, a_migInst = 0\<rparr>)]"
    using gpu_samples(2) by blast
  have i: "ds_Index (snapshot_spec L l t 0 d) = 0" for L :: "nat nvml_lib" and l t d by (simp add: snapshot_spec_def Let_def)
  have p: "pl_lastSeen gpu_poller = []" "pl_bridge gpu_poller = demo_bridge" by (simp_all add: gpu_poller_def)
  note ev = tick_def gpu_samples(1) s p i a Let_def fold_detail_step minLastSeen_def demo_orders_def agg_step_def
    merge_dev_def new_aggBuilder_def write_device_def write_detail_def write_pid_def write_meta_def
    UpdateDevice_def UpdatePerPid_def UpdatePerPidPerDevice_def UpdateMeta_def ref_array_ops_def
    ref_lru_ops_def ref_get_def gpu_world_def demo_machine_def demo_bridge_def demo_fds_def
  have t: "(r, p', wd') = tick ref_kernel demo_orders 5 gpu_poller gpu_world" using assms by simp
  have "warnings (snd (snd (tick ref_kernel demo_orders 5 gpu_poller gpu_world))) = warnings gpu_world"
    by (simp add: ev warnings_def)
  then show "warnings wd' = warnings gpu_world" by (simp flip: t)
  have "\<exists>v'. wview ref_kernel demo_bridge (snd (snd (tick ref_kernel demo_orders 5 gpu_poller gpu_world))) = Some v' \<and>
      v_piddev v' (PerPidPerDeviceKey 42 0) \<noteq> None \<and> v_piddev v' (PerPidPerDeviceKey 43 0) \<noteq> None"
    by (simp add: ev wview_def bview_def PerPidPerDeviceKey_def lru_put_def)
  then show "\<exists>v'. wview ref_kernel demo_bridge wd' = Some v' \<and>
      v_piddev v' (PerPidPerDeviceKey 42 0) \<noteq> None \<and> v_piddev v' (PerPidPerDeviceKey 43 0) \<noteq> None"
    by (simp flip: t)
qed

theorem nvml_reaches_detail_record_witness:
  "\<exists>v' m m'. wview ref_kernel demo_bridge (snd (snd (tick ref_kernel demo_orders 5 gpu_poller gpu_world))) = Some v' \<and>
     v_piddev v' (PerPidPerDeviceKey 42 0) = Some m \<and> pm_used_gpu_memory m = 300 \<and> pm_sm_util_pct m = 30 \<and>
     v_piddev v' (PerPidPerDeviceKey 43 0) = Some m' \<and> pm_used_gpu_memory m' = 200 \<and> pm_sm_util_pct m' = 0"
proof -
  obtain r p' wd' where t: "tick ref_kernel demo_orders 5 gpu_poller gpu_world = (r, p', wd')"
    by (metis prod.exhaust)
  from gpu_tick(2) [OF t] obtain v' where v': "wview ref_kernel demo_bridge wd' = Some v'"
    "v_piddev v' (PerPidPerDeviceKey 42 0) \<noteq> None" "v_piddev v' (PerPidPerDeviceKey 43 0) \<noteq> None" by blast
  have g: "pl_source gpu_poller = real_poller one_gpu" "pl_bridge gpu_poller = demo_bridge"
    "wd_src gpu_world = one_gpu_real" "pl_lastSeen gpu_poller = []" by (simp_all add: gpu_poller_def gpu_world_def)
  have v: "wview ref_kernel (pl_bridge gpu_poller) gpu_world = Some demo_view"
    by (simp add: g(2) wview_def gpu_world_def demo_bview)
  have rng: "\<And>l d. is_range (lib_range one_gpu l d)" by (simp add: one_gpu_def is_range_def)
  have e: "entry_after (v_piddev demo_view (PerPidPerDeviceKey q 0))
      (nvml_detail one_gpu 1 0 7 0 q) (v_piddev v' (PerPidPerDeviceKey q 0))" for q
    using nvml_reaches_detail_record [OF refk.bpf_kernel_axioms demo_orders_ok g(1) v t gpu_tick(1) [OF t] _ rng, of v' 0 q]
      v'(1) by (simp add: g one_gpu_real_def lookup0_def minLastSeen_def) (simp add: one_gpu_def)
  have n: "nvml_detail one_gpu 1 0 7 0 42 = Some \<lparr>pm_timestamp_ns = 1000, pm_used_gpu_memory = 300,
      pm_sm_util_pct = 30, pm_mem_util_pct = 5, pm_enc_util_pct = 0, pm_dec_util_pct = 0, pm_gpu_device = 0,
      pm_mig_instance = 0, pm_pad = 0\<rparr>"
    "nvml_detail one_gpu 1 0 7 0 43 = Some \<lparr>pm_timestamp_ns = 1000, pm_used_gpu_memory = 200,
      pm_sm_util_pct = 0, pm_mem_util_pct = 0, pm_enc_util_pct = 0, pm_dec_util_pct = 0, pm_gpu_device = 0,
      pm_mig_instance = 0, pm_pad = 0\<rparr>"
    by (simp_all add: nvml_detail_def one_gpu_def reported_memory_def hard_error_def maxcol_Cons)
  from e [of 42, unfolded n] e [of 43, unfolded n] v' t show ?thesis by (auto simp: entry_after_def)
qed

text \<open>The record of a device, field by field: the reading of its query, zero when that query failed.\<close>

definition nvml_device :: "'l nvml_lib \<Rightarrow> 'l \<Rightarrow> device \<Rightarrow> gpu_device_metrics" where
  "nvml_device L l dev =
     (let v2 = GetMemoryInfo_v2 L l dev; v1 = GetMemoryInfo L l dev; er = GetCurrentClocksEventReasons L l dev
      in \<lparr>dm_timestamp_ns = word_of_int (lib_now L l),
          dm_sm_util_pct = fst (reading (0, 0) (GetUtilizationRates L l dev)),
          dm_mem_util_pct = snd (reading (0, 0) (GetUtilizationRates L l dev)),
          dm_mem_total = (if snd v2 = SUCCESS then mi_Total (fst v2) else fst (reading (0, 0) v1)),
          dm_mem_used = (if snd v2 = SUCCESS then mi_Used (fst v2) else snd (reading (0, 0) v1)),
          dm_mem_reserved = (if snd v2 = SUCCESS then mi_Reserved (fst v2) else 0),
          dm_temp_c = reading 0 (GetTemperature L l dev),
          dm_power_mw = reading 0 (GetPowerUsage L l dev),
          dm_sm_clock_mhz = reading 0 (GetClockInfo_SM L l dev),
          dm_mem_clock_mhz = reading 0 (GetClockInfo_MEM L l dev),
          dm_throttle_reasons = (if snd er = SUCCESS then fst er else reading 0 (GetCurrentClocksThrottleReasons L l dev)),
          dm_pcie_tx_kbps = ucast (reading 0 (GetPcieThroughput_TX L l dev)),
          dm_pcie_rx_kbps = ucast (reading 0 (GetPcieThroughput_RX L l dev)),
          dm_enc_util_pct = (case GetEncoderUtilization L l dev of (u, period, ret) \<Rightarrow> reading 0 (u, ret)),
          dm_dec_util_pct = (case GetDecoderUtilization L l dev of (u, period, ret) \<Rightarrow> reading 0 (u, ret)),
          dm_nvlink_tx_kbps = 0,
          dm_nvlink_rx_kbps = 0,
          dm_ecc_corrected_total = reading 0 (GetTotalEccErrors_CORRECTED L l dev),
          dm_ecc_uncorrected_total = reading 0 (GetTotalEccErrors_UNCORRECTED L l dev),
          dm_fan_speed_pct = reading 0 (GetFanSpeed L l dev),
          dm_compute_mode = word_of_int (reading 0 (GetComputeMode L l dev))\<rparr>)"

lemma snapshot_record:
  "deviceSnapshotToMap (snapshot_spec L l (word_of_int (lib_now L l)) idx dev) = nvml_device L l dev"
  by (simp add: deviceSnapshotToMap_def snapshot_spec_def nvml_device_def Let_def)

text \<open>C17: End to end from NVML to the device map: whatever else fails in a tick on the real backend, it leaves in
  slot \<open>i\<close> the record of the \<open>i\<close>-th device, every field the reading of its own query, or zero when that
  query failed for any reason, with the memory falling back from the v2 to the v1 query and the throttle
  reasons from their new to their old name. The NVLink counters are never read and always zero.\<close>

theorem nvml_reaches_device_map:
  assumes "bpf_kernel K" and "orders_ok ro" and "pl_source p = real_poller L"
    and "rl_initialized (wd_src wd0)" and "length (rl_handles (wd_src wd0)) \<le> 2 ^ 32"
    and "wview K (pl_bridge p) wd0 = Some v" and "tick K ro now p wd0 = (r, p', wd')"
  shows "\<exists>v'. wview K (pl_bridge p) wd' = Some v' \<and>
    (\<forall>idx. v_device v' idx =
       (if unat idx < length (rl_handles (wd_src wd0)) \<and> unat idx < GPU_MAX_DEVICES
        then Some (nvml_device L (rl_lib (wd_src wd0)) (rl_handles (wd_src wd0) ! unat idx))
        else v_device v idx))"
proof -
  let ?r = "wd_src wd0"
  obtain devs src1 where d: "np_Devices (real_poller L) ?r = ((devs, None), src1)"
    and devs: "devs = map (\<lambda>(i, dev). snapshot_spec L (rl_lib ?r) (word_of_int (lib_now L (rl_lib ?r))) (of_nat i) dev)
      (enumerate 0 (rl_handles ?r))"
    using Real_Devices_result [of L ?r] by simp
  have "deviceSnapshotToMap (devs ! i) = nvml_device L (rl_lib ?r) (rl_handles ?r ! i)"
    if "i < length (rl_handles ?r)" for i
    using that by (simp add: devs nth_enumerate_eq snapshot_record)
  with nvml_backend.tick_slots [OF real.nvml_backend_axioms assms(1,2,3,4,5) d assms(6,7)] show ?thesis by auto
qed

theorem nvml_reaches_device_map_witness:
  "\<exists>v' d. wview ref_kernel demo_bridge (snd (snd (tick ref_kernel demo_orders 5 gpu_poller gpu_world))) = Some v' \<and>
     v_device v' 0 = Some d \<and> dm_sm_util_pct d = 35 \<and> dm_mem_total d = 8000 \<and> dm_fan_speed_pct d = 0"
proof -
  obtain r p' wd' where t: "tick ref_kernel demo_orders 5 gpu_poller gpu_world = (r, p', wd')"
    by (metis prod.exhaust)
  have g: "pl_source gpu_poller = real_poller one_gpu" "wd_src gpu_world = one_gpu_real"
    "pl_bridge gpu_poller = demo_bridge" by (simp_all add: gpu_poller_def gpu_world_def)
  have v: "wview ref_kernel (pl_bridge gpu_poller) gpu_world = Some demo_view"
    by (simp add: g wview_def gpu_world_def demo_bview)
  from nvml_reaches_device_map [OF refk.bpf_kernel_axioms demo_orders_ok g(1) _ _ v t] obtain v' where
    v': "wview ref_kernel demo_bridge wd' = Some v'" "v_device v' 0 = Some (nvml_device one_gpu 1 7)"
    by (auto simp: g one_gpu_real_def GPU_MAX_DEVICES_def)
  moreover have "dm_sm_util_pct (nvml_device one_gpu 1 7) = 35" "dm_mem_total (nvml_device one_gpu 1 7) = 8000"
    "dm_fan_speed_pct (nvml_device one_gpu 1 7) = 0"
    by (simp_all add: nvml_device_def one_gpu_def reading_def)
  ultimately show ?thesis using t by simp
qed

text \<open>The same library with NVML's window: only samples newer than the time asked for.\<close>

definition windowed_gpu :: "nat nvml_lib" where
  "windowed_gpu = one_gpu\<lparr>GetProcessUtilization := (\<lambda>l d t. if t < 11
     then ([\<lparr>us_Pid = 42, us_TimeStamp = 11, us_SmUtil = 30, us_MemUtil = 5, us_EncUtil = 0, us_DecUtil = 0\<rparr>], SUCCESS)
     else ([], ERROR_NOT_FOUND))\<rparr>"

text \<open>C19: A defect of the window: with NVML time stamps in microseconds and watermarks in nanoseconds, once a run on
  the real backend has seen one sample, no later tick of it publishes any utilisation: every per-pid record
  written from then on, in both maps, has all its utilisation fields zero.\<close>

theorem utilisation_lost_after_first_sample:
  assumes "micro_stamps L T" and "pl_source p = real_poller L" and "pl_lastSeen p = []"
    and "list_all ev_ok (es1 @ es2)" and "loop_steps K (p, wd) es1 (p1, wd1)" and "pl_lastSeen p1 \<noteq> []"
    and "loop_steps K (p1, wd1) es2 (p2, wd2)"
  shows "\<exists>cs. calls wd2 = calls wd1 @ cs \<and> list_all idle_call cs"
proof -
  have "above T (pl_lastSeen p1) \<and> pl_source p1 = real_poller L"
    using loop_steps_window [OF assms(5,1)] assms(2-4) by (simp add: above_def)
  with loop_steps_window [OF assms(7,1)] assms(4,6) show ?thesis by simp
qed

definition window_poller :: "nat Real poller" where
  "window_poller = \<lparr>pl_interval = 100000000, pl_source = real_poller windowed_gpu, pl_bridge = demo_bridge,
     pl_logger = 0, pl_helper = 99, pl_lastSeen = []\<rparr>"

definition window_world :: "(ref_world, nat Real) world" where
  "window_world = \<lparr>wd_kern = demo_machine, wd_src = one_gpu_real, wd_log = []\<rparr>"

lemma window_first_samples:
  "\<exists>ss r'. Real_ProcessSamples windowed_gpu one_gpu_real 0 = ((ss, None), r') \<and>
     advance_all ss [] = [(0, 1000)]"
  by (simp add: Real_ProcessSamples_def process_device_def windowed_gpu_def one_gpu_def one_gpu_real_def
      util_step_def mem_only_step_def Let_def zero_sample_def advance_all_def advanceLastSeen_def)

theorem utilisation_lost_after_first_sample_witness:
  "\<exists>s1 s2 cs. loop_steps ref_kernel (window_poller, window_world) [TickerC demo_orders 5] s1 \<and>
     loop_steps ref_kernel s1 [TickerC demo_orders 6] s2 \<and> pl_lastSeen (fst s1) = [(0, 1000)] \<and>
     calls (snd s2) = calls (snd s1) @ cs \<and> list_all idle_call cs"
proof -
  obtain r p1 w1 where t: "tick ref_kernel demo_orders 5 window_poller window_world = (r, p1, w1)"
    by (metis prod.exhaust)
  let ?w1 = "logged ''tick failed'' r w1"
  obtain q p2 w2 where u: "tick ref_kernel demo_orders 6 p1 ?w1 = (q, p2, w2)" by (metis prod.exhaust)
  have l1: "loop_steps ref_kernel (window_poller, window_world) [TickerC demo_orders 5] (p1, ?w1)"
    using t by (simp add: loop_steps_Cons loop_steps_Nil loop_step_ticker)
  have l2: "loop_steps ref_kernel (p1, ?w1) [TickerC demo_orders 6] (p2, logged ''tick failed'' q w2)"
    using u by (simp add: loop_steps_Cons loop_steps_Nil loop_step_ticker)
  have src: "pl_source window_poller = real_poller windowed_gpu" "pl_lastSeen window_poller = []"
    by (simp_all add: window_poller_def)
  obtain devs src1 where d: "np_Devices (pl_source window_poller) (wd_src window_world) = ((devs, None), src1)"
    and s1: "src1 = one_gpu_real"
    by (simp add: src real_poller_def window_world_def Real_Devices_def windowed_gpu_def one_gpu_def
        one_gpu_real_def Let_def)
  obtain ss r' where "Real_ProcessSamples windowed_gpu one_gpu_real 0 = ((ss, None), r')"
    and ss: "advance_all ss [] = [(0, 1000)]" using window_first_samples by blast
  then have "np_ProcessSamples (pl_source window_poller) src1
      (minLastSeen (ro_seen demo_orders) (pl_lastSeen window_poller)) = ((ss, None), r')"
    by (simp add: src real_poller_def s1 minLastSeen_def)
  from tick_calls_eq(2) [OF d this t] ss have seen: "pl_lastSeen p1 = [(0, 1000)]" by (simp add: src)
  have "micro_stamps windowed_gpu 1000"
    by (simp add: micro_stamps_def windowed_gpu_def one_gpu_def)
  from utilisation_lost_after_first_sample [OF this src _ l1 _ l2] seen demo_orders_ok obtain cs
    where "calls (logged ''tick failed'' q w2) = calls ?w1 @ cs" "list_all idle_call cs" by auto
  with l1 l2 seen show ?thesis by (metis fst_conv snd_conv)
qed

section \<open>The mock\<close>

text \<open>C35: The values of a mock snapshot are plausible at any time after the start: utilisations inside 0 to 100
  without clamping, memory used at most the total, temperature, fan, power and PCIe inside their
  bands. Floating point rounding is taken into account; of \<open>math.Sin\<close> only its range is used.\<close>

theorem Mock_Devices_plausible:
  assumes "sine_like msin" and "Mock_Devices msin m = ((ds, None), m')"
    and "mk_devs m = Some (map mock_device [0..<n])"
    and "0 \<le> seconds (mk_clock m (mk_reads m) - mk_start m)" and "d \<in> set ds"
  shows "snapshot_plausible d"
proof -
  from assms(2,3,5) obtain i ts where "d = mock_snapshot msin ts
      (seconds (mk_clock m (mk_reads m) - mk_start m)) i (mock_device i)"
    by (auto simp: Mock_Devices_def mock_now_def Let_def in_set_enumerate_eq)
  with mock_snapshot_plausible [OF assms(1,4)] show ?thesis by (simp add: mock_device_def zero_snapshot_def)
qed

lemma seconds_0: "seconds 0 = 0"
  by (simp add: seconds_def tquot_def fadd_def fdiv_def)

theorem Mock_Devices_plausible_witness:
  "list_all snapshot_plausible (fst (fst (Mock_Devices (\<lambda>x. 0) (snd (Mock_Init (NewMock (\<lambda>n. 5)))))))"
  unfolding list_all_iff
proof
  let ?m = "snd (Mock_Init (NewMock (\<lambda>n. 5)))"
  fix d assume d: "d \<in> set (fst (fst (Mock_Devices (\<lambda>x. 0) ?m)))"
  have m: "mk_devs ?m = Some (map mock_device [0..<2])" "mk_clock ?m (mk_reads ?m) - mk_start ?m = 0"
    by (simp_all add: Mock_Init_def NewMock_def mock_now_def)
  obtain ds m' where q: "Mock_Devices (\<lambda>x. 0) ?m = ((ds, None), m')"
    by (simp add: Mock_Devices_def m(1) mock_now_def Let_def)
  from Mock_Devices_plausible [OF _ q m(1), of d] d m(2) q show "snapshot_plausible d"
    by (simp add: sine_like_def seconds_0)
qed

text \<open>What the poller can tell of a sample of the mock, and the samples of the first \<open>c\<close> devices.\<close>

definition mock_key :: "ProcessSample \<Rightarrow> u32 \<times> u32 \<times> u64 \<times> u64" where
  "mock_key x = (ps_Pid x, ps_DeviceIndex x, ps_TimestampNs x, ps_UsedGpuMemory x)"

definition mock_keys :: "u64 \<Rightarrow> u32 \<Rightarrow> nat \<Rightarrow> nat \<Rightarrow> (u32 \<times> u32 \<times> u64 \<times> u64) list" where
  "mock_keys ts pid n c = concat (map (\<lambda>d. map (\<lambda>j.
     (pid + of_nat (d * n + j), of_nat d, ts, 256 * 1024 * 1024 + of_nat j * 128 * 1024 * 1024)) [0..<n]) [0..<c])"

lemma enumerate_upt: "enumerate 0 [0..<n] = map (\<lambda>j. (j, j)) [0..<n]"
  by (rule nth_equalityI) (simp_all add: nth_enumerate_eq)

lemma mock_fold_keys:
  "\<exists>xs. fold (\<lambda>dev. fold (mock_step msin ts el (ds_Index dev)) [0..<n]) (map mock_device [0..<c]) ([], pid) =
    (xs, pid + of_nat (c * n)) \<and> map mock_key xs = mock_keys ts pid n c"
proof (induction c)
  case 0
  then show ?case by (simp add: mock_keys_def)
next
  case (Suc c)
  then obtain xs where xs: "fold (\<lambda>dev. fold (mock_step msin ts el (ds_Index dev)) [0..<n])
      (map mock_device [0..<c]) ([], pid) = (xs, pid + of_nat (c * n))"
    and k: "map mock_key xs = mock_keys ts pid n c" by blast
  have u: "ps_UsedGpuMemory (mock_sample msin ts el p d j) = 256 * 1024 * 1024 + of_nat j * 128 * 1024 * 1024"
    for p d j by (simp add: mock_sample_def Let_def)
  have "map mock_key (map (\<lambda>(k, j). mock_sample msin ts el (pid + of_nat (c * n) + of_nat k) (of_nat c) j)
      (enumerate 0 [0..<n])) = map (\<lambda>j. (pid + of_nat (c * n + j), of_nat c, ts,
      256 * 1024 * 1024 + of_nat j * 128 * 1024 * 1024)) [0..<n]"
    by (simp add: enumerate_upt mock_key_def u add.assoc comp_def)
  with k have "map mock_key (xs @ map (\<lambda>(k, j). mock_sample msin ts el (pid + of_nat (c * n) + of_nat k) (of_nat c) j)
      (enumerate 0 [0..<n])) = mock_keys ts pid n (Suc c)" by (simp add: mock_keys_def)
  moreover have "pid + of_nat (c * n) + of_nat n = pid + of_nat (Suc c * n)" by (simp add: algebra_simps)
  ultimately show ?case by (simp add: xs fold_mock_step)
qed

text \<open>C36: The mock emits, device by device, one sample per synthetic process with consecutive pids from the first
  one and a fixed memory per position, all stamped with the time of the call; it emits none when the
  caller already has samples as new as its clock. It fails exactly when it is not initialised.\<close>

theorem Mock_ProcessSamples_result:
  assumes "mk_devs m = None \<or> mk_devs m = Some (map mock_device [0..<c])"
  shows "\<exists>ss err m'. Mock_ProcessSamples msin m t = ((ss, err), m') \<and> mk_devs m' = mk_devs m \<and>
    err = (if mk_devs m = None then Some ErrNotAvailable else None) \<and>
    map mock_key ss =
      (if mk_devs m = None \<or> word_of_int (mk_clock m (mk_reads m)) \<le> t then []
       else mock_keys (word_of_int (mk_clock m (mk_reads m))) (mk_FirstPid m) (nat (mk_PidsPerDevice m)) c)"
proof -
  let ?now = "mk_clock m (mk_reads m)"
  obtain xs where "fold (\<lambda>dev. fold (mock_step msin (word_of_int ?now) (seconds (?now - mk_start m)) (ds_Index dev))
      [0..<nat (mk_PidsPerDevice m)]) (map mock_device [0..<c]) ([], mk_FirstPid m) =
      (xs, mk_FirstPid m + of_nat (c * nat (mk_PidsPerDevice m)))"
    "map mock_key xs = mock_keys (word_of_int ?now) (mk_FirstPid m) (nat (mk_PidsPerDevice m)) c"
    using mock_fold_keys by blast
  with assms show ?thesis by (auto simp: Mock_ProcessSamples_def mock_now_def Let_def)
qed

theorem Mock_ProcessSamples_result_witness:
  "\<exists>ss m'. Mock_ProcessSamples (\<lambda>x. 0) (snd (Mock_Init (NewMock (\<lambda>n. 5)))) 0 = ((ss, None), m') \<and>
    map mock_key ss = mock_keys 5 100000 3 2"
proof -
  have m: "mk_devs (snd (Mock_Init (NewMock (\<lambda>n. 5)))) = Some (map mock_device [0..<2])"
    by (simp add: Mock_Init_def NewMock_def mock_now_def)
  have w: "mk_clock (snd (Mock_Init (NewMock (\<lambda>n. 5)))) n = 5"
    "mk_FirstPid (snd (Mock_Init (NewMock (\<lambda>n. 5)))) = 100000"
    "mk_PidsPerDevice (snd (Mock_Init (NewMock (\<lambda>n. 5)))) = 3" for n
    by (simp_all add: Mock_Init_def NewMock_def mock_now_def)
  have "\<not> (word_of_int 5 :: u64) \<le> 0" by simp
  with Mock_ProcessSamples_result [OF disjI2 [OF m], of "\<lambda>x. 0" 0] m show ?thesis
    by (simp add: w) blast
qed

end
