(* ===== verification/Cli.thy ===== *)
theory Cli
  imports PollerBackend RealNvml MockNvml Dump
begin

text \<open>
  The command, \<open>cmd/gpu-ebpf-bridge/main.go\<close> with \<open>real.go\<close> and \<open>real_stub.go\<close>: flags, choice of the
  telemetry source, start-up and clean shutdown. \<open>flag.FlagSet.Parse\<close> is modelled as the standard
  library specifies it; \<open>time.ParseDuration\<close> is a parameter. The environment of a run is a record: the
  kernel, the NVML library, the clock and \<open>math.Sin\<close> of the mock, the build tag, the pid.
\<close>

section \<open>Flags\<close>

record options =
  opt_mode :: string
  opt_pollInterval :: int
  opt_pinDir :: string
  opt_keepPins :: bool
  opt_logLevel :: string
  opt_showVersion :: bool
  opt_dump :: bool

definition default_options :: options where
  "default_options = \<lparr>opt_mode = ''auto'', opt_pollInterval = 100 * 1000000, opt_pinDir = DefaultPinDir,
     opt_keepPins = False, opt_logLevel = ''info'', opt_showVersion = False, opt_dump = False\<rparr>"

definition parse_bool :: "string \<Rightarrow> bool option" where
  "parse_bool s =
     (if s \<in> {''1'', ''t'', ''T'', ''true'', ''TRUE'', ''True''} then Some True
      else if s \<in> {''0'', ''f'', ''F'', ''false'', ''FALSE'', ''False''} then Some False
      else None)"

text \<open>The flags with a value, and the boolean flags.\<close>

definition set_value :: "(string \<Rightarrow> int option) \<Rightarrow> string \<Rightarrow> string \<Rightarrow> options \<Rightarrow> options option" where
  "set_value dur name v opt =
     (if name = ''mode'' then Some (opt\<lparr>opt_mode := v\<rparr>)
      else if name = ''poll-interval'' then map_option (\<lambda>d. opt\<lparr>opt_pollInterval := d\<rparr>) (dur v)
      else if name = ''pin-dir'' then Some (opt\<lparr>opt_pinDir := v\<rparr>)
      else if name = ''log-level'' then Some (opt\<lparr>opt_logLevel := v\<rparr>)
      else None)"

definition set_bool :: "string \<Rightarrow> bool \<Rightarrow> options \<Rightarrow> options" where
  "set_bool name b opt =
     (if name = ''keep-pins'' then opt\<lparr>opt_keepPins := b\<rparr>
      else if name = ''version'' then opt\<lparr>opt_showVersion := b\<rparr>
      else opt\<lparr>opt_dump := b\<rparr>)"

definition is_bool_flag :: "string \<Rightarrow> bool" where
  "is_bool_flag name \<longleftrightarrow> name \<in> {''keep-pins'', ''version'', ''dump''}"

definition is_value_flag :: "string \<Rightarrow> bool" where
  "is_value_flag name \<longleftrightarrow> name \<in> {''mode'', ''poll-interval'', ''pin-dir'', ''log-level''}"

text \<open>The name of a flag and the value after its first \<open>=\<close>; an \<open>=\<close> cannot come first.\<close>

fun split_eq :: "string \<Rightarrow> string \<times> string option" where
  "split_eq [] = ([], None)"
| "split_eq (c # cs) =
     (if c = CHR ''='' then ([], Some cs)
      else (case split_eq cs of (n, v) \<Rightarrow> (c # n, v)))"

text \<open>An argument: the end of the flags, a syntax error, or a flag.\<close>

datatype arg = NotFlag | Terminator | BadSyntax | FlagArg string "string option"

definition classify_arg :: "string \<Rightarrow> arg" where
  "classify_arg s =
     (if length s < 2 \<or> hd s \<noteq> CHR ''-'' then NotFlag
      else if s = ''--'' then Terminator
      else
        let name = (if s ! 1 = CHR ''-'' then drop 2 s else drop 1 s)
        in if name = [] \<or> hd name = CHR ''-'' \<or> hd name = CHR ''='' then BadSyntax
           else (case split_eq (tl name) of (n, v) \<Rightarrow> FlagArg (hd name # n) v))"

fun parse_args :: "(string \<Rightarrow> int option) \<Rightarrow> string list \<Rightarrow> options \<Rightarrow> goerr + options" where
  "parse_args dur [] opt = Inr opt"
| "parse_args dur (s # rest) opt =
     (case classify_arg s of
        NotFlag \<Rightarrow> Inr opt
      | Terminator \<Rightarrow> Inr opt
      | BadSyntax \<Rightarrow> Inl (Errorf (''bad flag syntax: '' @ s))
      | FlagArg name v \<Rightarrow>
          if is_bool_flag name then
            (case v of
               None \<Rightarrow> parse_args dur rest (set_bool name True opt)
             | Some x \<Rightarrow>
                 (case parse_bool x of
                    None \<Rightarrow> Inl (Errorf (''invalid boolean value for -'' @ name))
                  | Some b \<Rightarrow> parse_args dur rest (set_bool name b opt)))
          else if is_value_flag name then
            (case v of
               Some x \<Rightarrow>
                 (case set_value dur name x opt of
                    None \<Rightarrow> Inl (Errorf (''invalid value for flag -'' @ name))
                  | Some opt' \<Rightarrow> parse_args dur rest opt')
             | None \<Rightarrow>
                 (case rest of
                    [] \<Rightarrow> Inl (Errorf (''flag needs an argument: -'' @ name))
                  | x # rest' \<Rightarrow>
                      (case set_value dur name x opt of
                         None \<Rightarrow> Inl (Errorf (''invalid value for flag -'' @ name))
                       | Some opt' \<Rightarrow> parse_args dur rest' opt')))
          else if name = ''help'' \<or> name = ''h'' then Inl (Errorf ''flag: help requested'')
          else Inl (Errorf (''flag provided but not defined: -'' @ name)))"

definition parseFlags :: "(string \<Rightarrow> int option) \<Rightarrow> string list \<Rightarrow> goerr + options" where
  "parseFlags dur args =
     (case parse_args dur args default_options of
        Inl e \<Rightarrow> Inl e
      | Inr opt \<Rightarrow>
          if opt_mode opt \<in> {''auto'', ''real'', ''mock''} then Inr opt
          else Inl (Errorf (''invalid --mode='' @ opt_mode opt)))"

datatype slog_level = LevelDebug | LevelInfo | LevelWarn | LevelError

definition to_lower :: "char \<Rightarrow> char" where
  "to_lower c = (if 65 \<le> (of_char c :: nat) \<and> (of_char c :: nat) \<le> 90 then char_of ((of_char c :: nat) + 32) else c)"

definition newLogger :: "string \<Rightarrow> slog_level" where
  "newLogger level =
     (let s = map to_lower level
      in if s = ''debug'' then LevelDebug
         else if s = ''warn'' \<or> s = ''warning'' then LevelWarn
         else if s = ''error'' then LevelError
         else LevelInfo)"

section \<open>The telemetry source\<close>

datatype 'l source = RealSource "'l Real" | MockSource Mock

fun on_source :: "('l Real \<Rightarrow> 'r \<times> 'l Real) \<Rightarrow> (Mock \<Rightarrow> 'r \<times> Mock) \<Rightarrow> 'l source \<Rightarrow> 'r \<times> 'l source" where
  "on_source f g (RealSource r) = (case f r of (x, r') \<Rightarrow> (x, RealSource r'))"
| "on_source f g (MockSource m) = (case g m of (x, m') \<Rightarrow> (x, MockSource m'))"

definition source_poller :: "'l nvml_lib \<Rightarrow> (rat \<Rightarrow> rat) \<Rightarrow> 'l source nvml_poller" where
  "source_poller L msin = \<lparr>
     np_Init = on_source (Real_Init L) Mock_Init,
     np_Devices = on_source (Real_Devices L) (Mock_Devices msin),
     np_ProcessSamples =
       (\<lambda>s t. on_source (\<lambda>r. Real_ProcessSamples L r t) (\<lambda>m. Mock_ProcessSamples msin m t) s),
     np_Close = on_source (Real_Close L) Mock_Close\<rparr>"

text \<open>\<open>real.go\<close> (build tag \<open>nvml\<close>) and \<open>real_stub.go\<close>.\<close>

definition newRealPoller_real :: "'l \<Rightarrow> goerr + 'l Real" where
  "newRealPoller_real l = Inr (NewReal l)"

definition newRealPoller_stub :: "'l \<Rightarrow> goerr + 'l Real" where
  "newRealPoller_stub l = Inl (Errorf ''real NVML backend not compiled in (rebuild with -tags nvml and CGO_ENABLED=1)'')"

record ('w, 'l) environ =
  en_kernel :: "'w kernel"
  en_nvml :: "'l nvml_lib"
  en_sin :: "rat \<Rightarrow> rat"
  en_clock :: "nat \<Rightarrow> int"
  en_nvml_tag :: bool
  en_duration :: "string \<Rightarrow> int option"
  en_memlock :: "goerr option"
  en_pid :: int
  en_first :: range_orders
  en_first_now :: int

definition newRealPoller :: "('w, 'l) environ \<Rightarrow> 'l \<Rightarrow> goerr + 'l Real" where
  "newRealPoller E l = (if en_nvml_tag E then newRealPoller_real l else newRealPoller_stub l)"

definition tryReal :: "('w, 'l) environ \<Rightarrow> 'l \<Rightarrow> (goerr + 'l source) \<times> 'l" where
  "tryReal E l =
     (case newRealPoller E l of
        Inl err \<Rightarrow> (Inl err, l)
      | Inr p \<Rightarrow>
          (case Real_Init (en_nvml E) p of
             (Some err, p') \<Rightarrow> (Inl err, rl_lib (snd (Real_Close (en_nvml E) p')))
           | (None, p') \<Rightarrow> (Inr (RealSource p'), rl_lib p')))"

definition startMock :: "('w, 'l) environ \<Rightarrow> goerr + 'l source" where
  "startMock E =
     (case Mock_Init (NewMock (en_clock E)) of
        (Some err, m) \<Rightarrow> Inl err
      | (None, m) \<Rightarrow> Inr (MockSource m))"

definition chooseSource ::
  "('w, 'l) environ \<Rightarrow> string \<Rightarrow> 'l \<Rightarrow> (goerr + ('l source \<times> string)) \<times> 'l" where
  "chooseSource E mode l =
     (if mode = ''real'' then
        (case tryReal E l of
           (Inl err, l') \<Rightarrow> (Inl (Wrapf ''real NVML backend requested but unavailable'' err), l')
         | (Inr p, l') \<Rightarrow> (Inr (p, ''real''), l'))
      else if mode = ''mock'' then
        (case startMock E of Inl err \<Rightarrow> (Inl err, l) | Inr p \<Rightarrow> (Inr (p, ''mock''), l))
      else if mode = ''auto'' then
        (case tryReal E l of
           (Inr p, l') \<Rightarrow> (Inr (p, ''real''), l')
         | (Inl err, l') \<Rightarrow>
             (case startMock E of Inl err2 \<Rightarrow> (Inl err2, l') | Inr p \<Rightarrow> (Inr (p, ''mock''), l')))
      else (Inl (Errorf (''unhandled --mode='' @ mode)), l))"

section \<open>A run of the command\<close>

text \<open>The library state when the source is in the state \<open>s\<close>; a mock leaves the library alone.\<close>

definition lib_of :: "'l \<Rightarrow> 'l source \<Rightarrow> 'l" where
  "lib_of l s = (case s of RealSource r \<Rightarrow> rl_lib r | MockSource m \<Rightarrow> l)"

record ('w, 'l) outcome =
  oc_err :: "goerr option"
  oc_dump :: "dump_line list"
  oc_kern :: 'w
  oc_lib :: 'l
  oc_log :: "event list"

definition ended :: "goerr option \<Rightarrow> dump_line list \<Rightarrow> 'w \<Rightarrow> 'l \<Rightarrow> ('w, 'l) outcome option" where
  "ended err out w l = Some \<lparr>oc_err = err, oc_dump = out, oc_kern = w, oc_lib = l, oc_log = []\<rparr>"

text \<open>Close the bridge; unpin it unless the pins are to be kept. Errors are logged.\<close>

definition shutdown ::
  "'w kernel \<Rightarrow> options \<Rightarrow> bridge \<Rightarrow> ('w, 's) world \<Rightarrow> ('w, 's) world" where
  "shutdown K opt b wd =
     (case Bridge_Close K b (wd_kern wd) of
        (cerr, w1) \<Rightarrow>
          let wd1 = wd\<lparr>wd_kern := w1, wd_log := wd_log wd @ warn_on ''bridge Close failed'' cerr\<rparr>
          in if \<not> opt_keepPins opt then
               (case Unpin K b w1 of
                  (uerr, w2) \<Rightarrow>
                    wd1\<lparr>wd_kern := w2, wd_log := wd_log wd1 @ warn_on ''bridge Unpin failed'' uerr\<rparr>)
             else wd1)"

definition run ::
  "('w, 'l) environ \<Rightarrow> select list \<Rightarrow> string list \<Rightarrow> 'w \<Rightarrow> 'l \<Rightarrow> ('w, 'l) outcome option" where
  "run E evs args w l =
     (let K = en_kernel E
      in case parseFlags (en_duration E) args of
           Inl err \<Rightarrow> ended (Some err) [] w l
         | Inr opt \<Rightarrow>
             if opt_showVersion opt then ended None [] w l
             else if opt_dump opt then
               (case runDump K (opt_pinDir opt) w of (out, err, w') \<Rightarrow> ended err out w' l)
             else
               (case en_memlock E of
                  Some err \<Rightarrow> ended (Some (Wrapf ''RemoveMemlock'' err)) [] w l
                | None \<Rightarrow>
                    (case chooseSource E (opt_mode opt) l of
                       (Inl err, l1) \<Rightarrow> ended (Some err) [] w l1
                     | (Inr (src, sourceName), l1) \<Rightarrow>
                         let P = source_poller (en_nvml E) (en_sin E)
                         in case Open K (opt_pinDir opt) w of
                              (Inl err, w1) \<Rightarrow>
                                ended (Some (Wrapf (''opening bridge maps in '' @ opt_pinDir opt) err)) [] w1
                                  (lib_of l1 (snd (np_Close P src)))
                            | (Inr b, w1) \<Rightarrow>
                                (case New 0 (en_pid E) \<lparr>cfg_PollInterval = opt_pollInterval opt,
                                        cfg_Source = Some P, cfg_Bridge = Some b, cfg_Logger = Some 1\<rparr> of
                                   Inl err \<Rightarrow>
                                     ended (Some err) [] (snd (Bridge_Close K b w1))
                                       (lib_of l1 (snd (np_Close P src)))
                                 | Inr p \<Rightarrow>
                                     (case Run K (en_first E) (en_first_now E) evs p
                                             \<lparr>wd_kern = w1, wd_src = src, wd_log = []\<rparr> of
                                        None \<Rightarrow> None
                                      | Some (runErr, p', wd) \<Rightarrow>
                                          let wd' = shutdown K opt b wd
                                          in Some \<lparr>oc_err = runErr, oc_dump = [], oc_kern = wd_kern wd',
                                               oc_lib = lib_of l1 (wd_src wd'), oc_log = wd_log wd'\<rparr>)))))"

text \<open>\<open>main\<close>: the exit status of the process, with the outcome of \<open>run\<close>. The error is printed on the way.\<close>

definition main ::
  "('w, 'l) environ \<Rightarrow> select list \<Rightarrow> string list \<Rightarrow> 'w \<Rightarrow> 'l \<Rightarrow> (int \<times> ('w, 'l) outcome) option" where
  "main E evs args w l =
     (case run E evs args w l of
        None \<Rightarrow> None
      | Some oc \<Rightarrow> Some (if oc_err oc \<noteq> None then 1 else 0, oc))"

text \<open>\<open>version\<close>, given the module version that \<open>debug.ReadBuildInfo\<close> finds.\<close>

definition version :: "string option \<Rightarrow> string" where
  "version info = (case info of Some v \<Rightarrow> if v \<noteq> [] then v else ''(unknown)'' | None \<Rightarrow> ''(unknown)'')"

section \<open>The source is a backend\<close>

fun source_inv :: "'l source \<Rightarrow> bool" where
  "source_inv (RealSource r) = rl_initialized r"
| "source_inv (MockSource m) = mock_inv m"

fun source_ndev :: "'l source \<Rightarrow> nat" where
  "source_ndev (RealSource r) = length (rl_handles r)"
| "source_ndev (MockSource m) = mock_ndev m"

lemma on_source_cases:
  assumes "on_source f g s = (x, s')"
  obtains (r) r r' where "s = RealSource r" "s' = RealSource r'" "f r = (x, r')"
  | (m) m m' where "s = MockSource m" "s' = MockSource m'" "g m = (x, m')"
  using assms by (cases s) (auto split: prod.splits)

lemma mock_poller_simps [simp]:
  "np_Init (mock_poller msin) = Mock_Init" "np_Devices (mock_poller msin) = Mock_Devices msin"
  "np_ProcessSamples (mock_poller msin) = Mock_ProcessSamples msin"
  "np_Close (mock_poller msin) = Mock_Close"
  by (simp_all add: mock_poller_def)

lemma source_poller_simps [simp]:
  "np_Init (source_poller L msin) = on_source (Real_Init L) Mock_Init"
  "np_Devices (source_poller L msin) = on_source (Real_Devices L) (Mock_Devices msin)"
  "np_ProcessSamples (source_poller L msin) s t =
     on_source (\<lambda>r. Real_ProcessSamples L r t) (\<lambda>m. Mock_ProcessSamples msin m t) s"
  "np_Close (source_poller L msin) = on_source (Real_Close L) Mock_Close"
  by (simp_all add: source_poller_def)

interpretation source: nvml_backend "source_poller L msin" source_inv source_ndev for L msin
proof unfold_locales
  fix s s' :: "'a source"
  assume "np_Init (source_poller L msin) s = (None, s')"
  then have "on_source (Real_Init L) Mock_Init s = (None, s')" by simp
  then show "source_inv s'"
  proof (cases rule: on_source_cases)
    case (r x x')
    with real.init_inv [of L x x'] show ?thesis by simp
  next
    case (m x x')
    with mock.init_inv [of msin x x'] show ?thesis by simp
  qed
next
  fix s s' :: "'a source" and r
  assume i: "source_inv s" and "np_Devices (source_poller L msin) s = (r, s')"
  then have "on_source (Real_Devices L) (Mock_Devices msin) s = (r, s')" by simp
  then show "source_inv s' \<and> source_ndev s' = source_ndev s"
  proof (cases rule: on_source_cases)
    case (r x x')
    with i real.devices_inv [of x L r x'] show ?thesis by simp
  next
    case (m x x')
    with i mock.devices_inv [of x msin r x'] show ?thesis by simp
  qed
next
  fix s s' :: "'a source" and ds
  assume i: "source_inv s" and "np_Devices (source_poller L msin) s = ((ds, None), s')"
  then have "on_source (Real_Devices L) (Mock_Devices msin) s = ((ds, None), s')" by simp
  then show "map ds_Index ds = map of_nat [0..<source_ndev s]"
  proof (cases rule: on_source_cases)
    case (r r r')
    with i real.devices_index [of r L ds r'] show ?thesis by simp
  next
    case (m m m')
    with i mock.devices_index [of m msin ds m'] show ?thesis by simp
  qed
next
  fix s s' :: "'a source" and t q
  assume i: "source_inv s" and "np_ProcessSamples (source_poller L msin) s t = (q, s')"
  then have "on_source (\<lambda>r. Real_ProcessSamples L r t) (\<lambda>m. Mock_ProcessSamples msin m t) s = (q, s')" by simp
  then show "source_inv s' \<and> source_ndev s' = source_ndev s"
  proof (cases rule: on_source_cases)
    case (r x x')
    with i real.samples_inv [of x L t q x'] show ?thesis by simp
  next
    case (m x x')
    with i mock.samples_inv [of x msin t q x'] show ?thesis by simp
  qed
next
  fix s s' :: "'a source" and t ss e x
  assume i: "source_inv s" and x: "x \<in> set ss" and "np_ProcessSamples (source_poller L msin) s t = ((ss, e), s')"
  then have "on_source (\<lambda>r. Real_ProcessSamples L r t) (\<lambda>m. Mock_ProcessSamples msin m t) s = ((ss, e), s')" by simp
  then show "unat (ps_DeviceIndex x) < source_ndev s \<and> ps_MigInstance x = 0"
  proof (cases rule: on_source_cases)
    case (r y y')
    with i real.samples_device [of y L t ss e y' x] x show ?thesis by simp
  next
    case (m y y')
    with i mock.samples_device [of y msin t ss e y' x] x show ?thesis by simp
  qed
next
  fix s s' :: "'a source" and cr
  assume "np_Close (source_poller L msin) s = (cr, s')"
  then have "on_source (Real_Close L) Mock_Close s = (cr, s')" by simp
  then show "np_Close (source_poller L msin) s' = (None, s')"
  proof (cases rule: on_source_cases)
    case (r x x')
    with real.close_idem [of L x cr x'] show ?thesis by simp
  next
    case (m x x')
    with mock.close_idem [of msin x cr x'] show ?thesis by simp
  qed
qed

section \<open>Choosing a source\<close>

lemma Mock_Init_ok: "\<exists>m'. Mock_Init m = (None, m') \<and> mock_inv m'"
  by (auto simp: Mock_Init_def mock_now_def mock_inv_def Let_def)

lemma startMock_ok: "\<exists>m. startMock E = Inr (MockSource m) \<and> mock_inv m"
  using Mock_Init_ok [of "NewMock (en_clock E)"] by (auto simp: startMock_def)

lemma tryReal_cases:
  assumes "tryReal E l = (res, l')"
  shows "(\<exists>e. res = Inl e) \<or> (\<exists>r. res = Inr (RealSource r) \<and> rl_initialized r \<and> rl_lib r = l' \<and> en_nvml_tag E)"
proof (cases "en_nvml_tag E")
  case False
  with assms show ?thesis by (auto simp: tryReal_def newRealPoller_def newRealPoller_stub_def)
next
  case True
  obtain e p' where i: "Real_Init (en_nvml E) (NewReal l) = (e, p')" by fastforce
  with real.init_inv [of "en_nvml E" "NewReal l" p'] assms True show ?thesis
    by (cases e) (auto simp: tryReal_def newRealPoller_def newRealPoller_real_def)
qed

lemma chooseSource_ok:
  "chooseSource E mode l = (Inr (src, nm), l') \<Longrightarrow> source_inv src"
  using startMock_ok [of E] tryReal_cases [of E l]
  by (auto simp: chooseSource_def split: if_splits prod.splits sum.splits) 

lemma tryReal_refs:
  assumes "counts_refs (en_nvml E) refs" and "tryReal E l = (res, l')"
  shows "refs l' = refs l + (case res of Inl e \<Rightarrow> 0 | Inr s \<Rightarrow> 1)"
proof (cases "en_nvml_tag E")
  case False
  with assms(2) show ?thesis by (auto simp: tryReal_def newRealPoller_def newRealPoller_stub_def)
next
  case True
  obtain e p' where i: "Real_Init (en_nvml E) (NewReal l) = (e, p')" by fastforce
  note ir = Real_Init_refs [OF assms(1) i]
  show ?thesis
  proof (cases e)
    case None
    with i ir True assms(2) show ?thesis
      by (auto simp: tryReal_def newRealPoller_def newRealPoller_real_def NewReal_def)
  next
    case (Some err)
    obtain ce p'' where c: "Real_Close (en_nvml E) p' = (ce, p'')" by fastforce
    have "\<not> rl_initialized p'" using i Some
      by (auto simp: Real_Init_def NewReal_def Let_def split: prod.splits option.splits)
    with Real_Close_refs(1) [OF assms(1) c] ir(1) Some i c True assms(2) show ?thesis
      by (auto simp: tryReal_def newRealPoller_def newRealPoller_real_def NewReal_def)
  qed
qed

section \<open>Start-up and shutdown\<close>

text \<open>The four paths a bridge pins.\<close>

definition pin_paths :: "string \<Rightarrow> string set" where
  "pin_paths d = file_join d ` {MapNameMeta, MapNameDevice, MapNamePerPid, MapNamePerPidPerDevice}"

definition unpin_warned :: "event list \<Rightarrow> bool" where
  "unpin_warned es \<longleftrightarrow> (\<exists>e. EvWarn ''bridge Unpin failed'' e \<in> set es)"

context bpf_kernel
begin

lemma Unpin_fs:
  assumes "Unpin K b w = (r, w')"
  shows "(r = None \<longrightarrow> (\<forall>p \<in> pin_paths (br_pinDir b). \<not> k_exists K w' p)) \<and>
    (\<forall>p. p \<notin> pin_paths (br_pinDir b) \<longrightarrow> k_exists K w' p = k_exists K w p \<and> k_pin K w' p = k_pin K w p)"
proof -
  obtain errs where u: "unpin_loop K (br_pinDir b)
      [MapNameMeta, MapNameDevice, MapNamePerPid, MapNamePerPidPerDevice] [] w = (errs, w')"
    and r: "r = errors_join errs" using assms by (auto simp: Unpin_def split: prod.splits)
  from unpin_loop_fs [OF u] r show ?thesis by (auto simp: pin_paths_def)
qed

lemma shutdown_unpins:
  assumes "\<not> opt_keepPins opt" and "shutdown K opt b wd = wd'"
  shows "(unpin_warned (wd_log wd') \<or> (\<forall>p \<in> pin_paths (br_pinDir b). \<not> k_exists K (wd_kern wd') p)) \<and>
    (\<forall>p. p \<notin> pin_paths (br_pinDir b) \<longrightarrow> k_exists K (wd_kern wd') p = k_exists K (wd_kern wd) p)"
proof -
  obtain cerr w1 where c: "Bridge_Close K b (wd_kern wd) = (cerr, w1)" by fastforce
  obtain uerr w2 where u: "Unpin K b w1 = (uerr, w2)" by fastforce
  have "k_fs K w1 = k_fs K (wd_kern wd)" using GputypesClose_fs c [unfolded Bridge_Close_eq] by blast
  then have "k_exists K w1 = k_exists K (wd_kern wd)" by (simp add: k_fs_def)
  moreover have "wd_kern wd' = w2" "uerr \<noteq> None \<Longrightarrow> unpin_warned (wd_log wd')"
    using assms c u by (auto simp: shutdown_def Let_def unpin_warned_def)
  ultimately show ?thesis using Unpin_fs [OF u] by (cases uerr) auto
qed

lemma shutdown_keeps:
  assumes keep: "opt_keepPins opt" and p: "pinned_in K b d v (wd_kern wd)"
  shows "pinned_in K b d v (wd_kern (shutdown K opt b wd))"
    and "k_fs K (wd_kern (shutdown K opt b wd)) = k_fs K (wd_kern wd)"
proof -
  obtain cerr w1 where c: "Bridge_Close K b (wd_kern wd) = (cerr, w1)" by fastforce
  note gc = c [unfolded Bridge_Close_eq]
  have k: "wd_kern (shutdown K opt b wd) = w1" using keep c by (simp add: shutdown_def Let_def)
  have fs: "k_fs K w1 = k_fs K (wd_kern wd)" by (rule GputypesClose_fs [OF gc])
  then have pins: "k_pin K w1 = k_pin K (wd_kern wd)" by (simp add: k_fs_def)
  show "k_fs K (wd_kern (shutdown K opt b wd)) = k_fs K (wd_kern wd)" using fs k by simp
  from p pins GputypesClose_pinned [OF gc] show "pinned_in K b d v (wd_kern (shutdown K opt b wd))"
    unfolding k pinned_in_def bview_Some_iff by metis
qed

end

text \<open>
  A run that gets past start-up: the flags parse and ask for the daemon, a source is found and the
  maps are open. The rest of the run is \<open>Run\<close> followed by the shutdown.
\<close>

definition started ::
  "('w, 'l) environ \<Rightarrow> string list \<Rightarrow> 'w \<Rightarrow> 'l \<Rightarrow> options \<Rightarrow> 'l source \<Rightarrow> 'l \<Rightarrow> bridge \<Rightarrow> 'w \<Rightarrow> bool" where
  "started E args w l opt src l1 b w1 \<longleftrightarrow>
     parseFlags (en_duration E) args = Inr opt \<and> \<not> opt_showVersion opt \<and> \<not> opt_dump opt \<and>
     en_memlock E = None \<and> (\<exists>nm. chooseSource E (opt_mode opt) l = (Inr (src, nm), l1)) \<and>
     Open (en_kernel E) (opt_pinDir opt) w = (Inr b, w1)"

definition daemon :: "('w, 'l) environ \<Rightarrow> options \<Rightarrow> bridge \<Rightarrow> 'l source poller" where
  "daemon E opt b = \<lparr>
     pl_interval = (if opt_pollInterval opt \<le> 0 then 100 * 1000000 else opt_pollInterval opt),
     pl_source = source_poller (en_nvml E) (en_sin E), pl_bridge = b, pl_logger = 1,
     pl_helper = word_of_int (en_pid E), pl_lastSeen = []\<rparr>"

lemma run_started:
  assumes "started E args w l opt src l1 b w1"
  shows "run E evs args w l =
    (case Run (en_kernel E) (en_first E) (en_first_now E) evs (daemon E opt b)
            \<lparr>wd_kern = w1, wd_src = src, wd_log = []\<rparr> of
       None \<Rightarrow> None
     | Some (runErr, p', wd) \<Rightarrow>
         let wd' = shutdown (en_kernel E) opt b wd
         in Some \<lparr>oc_err = runErr, oc_dump = [], oc_kern = wd_kern wd',
              oc_lib = lib_of l1 (wd_src wd'), oc_log = wd_log wd'\<rparr>)"
  using assms by (auto simp: started_def run_def New_def daemon_def Let_def)

section \<open>Flags round trip\<close>

text \<open>The arguments that ask for the options \<open>opt\<close>, with the interval written as \<open>iv\<close>.\<close>

definition show_bool :: "bool \<Rightarrow> string" where
  "show_bool b = (if b then ''true'' else ''false'')"

definition show_args :: "string \<Rightarrow> options \<Rightarrow> string list" where
  "show_args iv opt =
     [''--mode='' @ opt_mode opt, ''--poll-interval='' @ iv, ''--pin-dir='' @ opt_pinDir opt,
      ''--keep-pins='' @ show_bool (opt_keepPins opt), ''--log-level='' @ opt_logLevel opt,
      ''--version='' @ show_bool (opt_showVersion opt), ''--dump='' @ show_bool (opt_dump opt)]"

lemma parse_show_bool [simp]: "parse_bool (show_bool b) = Some b"
  by (simp add: parse_bool_def show_bool_def)

lemma classify_flags:
  "classify_arg (''--mode='' @ v) = FlagArg ''mode'' (Some v)"
  "classify_arg (''--poll-interval='' @ v) = FlagArg ''poll-interval'' (Some v)"
  "classify_arg (''--pin-dir='' @ v) = FlagArg ''pin-dir'' (Some v)"
  "classify_arg (''--keep-pins='' @ v) = FlagArg ''keep-pins'' (Some v)"
  "classify_arg (''--log-level='' @ v) = FlagArg ''log-level'' (Some v)"
  "classify_arg (''--version='' @ v) = FlagArg ''version'' (Some v)"
  "classify_arg (''--dump='' @ v) = FlagArg ''dump'' (Some v)"
  by (simp_all add: classify_arg_def Let_def)

lemma parse_bool_flag:
  assumes "classify_arg s = FlagArg n (Some (show_bool b))" and "is_bool_flag n"
  shows "parse_args dur (s # rest) opt = parse_args dur rest (set_bool n b opt)"
  using assms by simp

lemma parse_value_flag:
  assumes "classify_arg s = FlagArg n (Some x)" and "is_value_flag n" and "\<not> is_bool_flag n"
    and "set_value dur n x opt = Some opt'"
  shows "parse_args dur (s # rest) opt = parse_args dur rest opt'"
  using assms by simp

lemma parse_show_args:
  assumes "dur iv = Some (opt_pollInterval opt)"
  shows "parse_args dur (show_args iv opt) opt0 = Inr opt"
proof -
  have b: "is_bool_flag ''keep-pins''" "is_bool_flag ''version''" "is_bool_flag ''dump''"
    "\<not> is_bool_flag ''mode''" "\<not> is_bool_flag ''poll-interval''" "\<not> is_bool_flag ''pin-dir''"
    "\<not> is_bool_flag ''log-level''"
    by (simp_all add: is_bool_flag_def)
  have v: "is_value_flag ''mode''" "is_value_flag ''poll-interval''" "is_value_flag ''pin-dir''"
    "is_value_flag ''log-level''"
    by (simp_all add: is_value_flag_def)
  have s: "set_value dur ''mode'' x o1 = Some (o1\<lparr>opt_mode := x\<rparr>)"
    "set_value dur ''poll-interval'' iv o1 = Some (o1\<lparr>opt_pollInterval := opt_pollInterval opt\<rparr>)"
    "set_value dur ''pin-dir'' x o1 = Some (o1\<lparr>opt_pinDir := x\<rparr>)"
    "set_value dur ''log-level'' x o1 = Some (o1\<lparr>opt_logLevel := x\<rparr>)" for x o1
    by (simp_all add: set_value_def assms)
  show ?thesis
    unfolding show_args_def
    by (simp only: parse_value_flag [OF classify_flags(1) v(1) b(4) s(1)]
        parse_value_flag [OF classify_flags(2) v(2) b(5) s(2)]
        parse_value_flag [OF classify_flags(3) v(3) b(6) s(3)]
        parse_value_flag [OF classify_flags(5) v(4) b(7) s(4)]
        parse_bool_flag [OF classify_flags(4) b(1)] parse_bool_flag [OF classify_flags(6) b(2)]
        parse_bool_flag [OF classify_flags(7) b(3)] parse_args.simps(1))
       (simp add: set_bool_def)
qed

lemma parseFlags_mode: "parseFlags dur args = Inr opt \<Longrightarrow> opt_mode opt \<in> {''auto'', ''real'', ''mock''}"
  by (auto simp: parseFlags_def split: sum.splits if_splits)

section \<open>What a choice of source means\<close>

text \<open>Whether the real backend can be used: the binary has it and it initialises.\<close>

definition real_usable :: "('w, 'l) environ \<Rightarrow> 'l \<Rightarrow> bool" where
  "real_usable E l \<longleftrightarrow> en_nvml_tag E \<and> fst (Real_Init (en_nvml E) (NewReal l)) = None"

lemma tryReal_result:
  "real_usable E l \<Longrightarrow> tryReal E l = (let q = snd (Real_Init (en_nvml E) (NewReal l)) in (Inr (RealSource q), rl_lib q))"
  "\<not> real_usable E l \<Longrightarrow> \<exists>e l'. tryReal E l = (Inl e, l') \<and> (\<not> en_nvml_tag E \<longrightarrow> l' = l) \<and>
     (en_nvml_tag E \<longrightarrow> fst (Real_Init (en_nvml E) (NewReal l)) = Some e)"
  by (auto simp: tryReal_def real_usable_def newRealPoller_def newRealPoller_real_def newRealPoller_stub_def Let_def
      split: prod.split option.split)

lemma chooseSource_cases:
  assumes refs: "counts_refs (en_nvml E) refs" and c: "chooseSource E mode l = (res, l')"
  defines "q \<equiv> snd (Real_Init (en_nvml E) (NewReal l))"
  shows "mode \<in> {''auto'', ''real''} \<Longrightarrow> real_usable E l \<Longrightarrow>
      res = Inr (RealSource q, ''real'') \<and> rl_initialized q \<and> l' = rl_lib q \<and> refs l' = refs l + 1"
    and "mode = ''real'' \<Longrightarrow> \<not> real_usable E l \<Longrightarrow>
      (\<exists>e. res = Inl (Wrapf ''real NVML backend requested but unavailable'' e) \<and>
        (en_nvml_tag E \<longrightarrow> fst (Real_Init (en_nvml E) (NewReal l)) = Some e)) \<and> refs l' = refs l"
    and "mode = ''mock'' \<or> mode = ''auto'' \<and> \<not> real_usable E l \<Longrightarrow>
      res = Inr (MockSource (snd (Mock_Init (NewMock (en_clock E)))), ''mock'') \<and> refs l' = refs l"
    and "mode = ''mock'' \<or> \<not> en_nvml_tag E \<Longrightarrow> l' = l"
    and "mode \<notin> {''auto'', ''real'', ''mock''} \<Longrightarrow> (\<exists>e. res = Inl e) \<and> l' = l"
proof -
  have m: "startMock E = Inr (MockSource (snd (Mock_Init (NewMock (en_clock E)))))"
    using startMock_ok [of E] by (auto simp: startMock_def split: prod.splits option.splits)
  obtain tr l1 where t: "tryReal E l = (tr, l1)" by fastforce
  note rf = tryReal_refs [OF refs t] and tc = tryReal_cases [OF t]
  show "res = Inr (RealSource q, ''real'') \<and> rl_initialized q \<and> l' = rl_lib q \<and> refs l' = refs l + 1"
    if "mode \<in> {''auto'', ''real''}" "real_usable E l"
    using that c t rf tc tryReal_result(1) [OF that(2)] by (auto simp: chooseSource_def q_def Let_def)
  show "(\<exists>e. res = Inl (Wrapf ''real NVML backend requested but unavailable'' e) \<and>
        (en_nvml_tag E \<longrightarrow> fst (Real_Init (en_nvml E) (NewReal l)) = Some e)) \<and> refs l' = refs l"
    if "mode = ''real''" "\<not> real_usable E l"
    using that c t rf tryReal_result(2) [OF that(2)] by (auto simp: chooseSource_def)
  show "res = Inr (MockSource (snd (Mock_Init (NewMock (en_clock E)))), ''mock'') \<and> refs l' = refs l"
    if "mode = ''mock'' \<or> mode = ''auto'' \<and> \<not> real_usable E l"
    using that c t rf tryReal_result(2) [of E l] m by (auto simp: chooseSource_def split: if_splits)
  show "l' = l" if "mode = ''mock'' \<or> \<not> en_nvml_tag E"
    using that c tryReal_result(2) [of E l] m
    by (auto simp: chooseSource_def real_usable_def split: if_splits)
  show "(\<exists>e. res = Inl e) \<and> l' = l" if "mode \<notin> {''auto'', ''real'', ''mock''}"
    using that c by (auto simp: chooseSource_def)
qed

section \<open>The references of a run on the real backend\<close>

definition real_open :: "('l \<Rightarrow> nat) \<Rightarrow> nat \<Rightarrow> 'l source \<Rightarrow> bool" where
  "real_open refs c s \<longleftrightarrow>
     (\<exists>r. s = RealSource r \<and> rl_initialized r \<and> \<not> rl_closed r \<and> refs (rl_lib r) = c)"

lemma real_open_closed:
  assumes "counts_refs L refs"
  shows "src_closed (source_poller L msin) (real_open refs c)"
proof -
  have a: "refs (lib_after L l) = refs l" for l using assms by (simp add: counts_refs_def)
  show ?thesis
    by (auto simp: src_closed_def real_open_def Real_Devices_def Real_ProcessSamples_def Let_def a
        split: prod.splits)
qed

lemma Real_Close_closed [simp]: "rl_closed r \<Longrightarrow> Real_Close L r = (None, r)"
  by (simp add: Real_Close_def)

lemma Run_real_refs:
  assumes refs: "counts_refs L refs" and src: "pl_source p = source_poller L msin"
    and run: "Run K ro now evs p wd = Some (r, p', wd')"
    and s: "wd_src wd = RealSource q" "\<not> rl_closed q"
  shows "\<exists>q'. wd_src wd' = RealSource q' \<and> refs (rl_lib q') = refs (rl_lib q)"
proof -
  obtain i q1 where i: "Real_Init L q = (i, q1)" by fastforce
  note ri = Real_Init_refs [OF refs i]
  have np: "np_Init (pl_source p) (wd_src wd) = (i, RealSource q1)" using i s src by simp
  show ?thesis
  proof (cases i)
    case (Some e)
    with np run ri(1) show ?thesis by (auto simp: Run_def)
  next
    case None
    have "real_open refs (refs (rl_lib q) + 1) (RealSource q1)"
      using ri None s(2) by (simp add: real_open_def)
    then obtain s2 where s2: "real_open refs (refs (rl_lib q) + 1) s2"
      "wd_src wd' = snd (np_Close (pl_source p) s2)"
      using Run_src [OF run np [unfolded None] real_open_closed [OF refs, of msin, folded src]] by blast
    then obtain q2 where q2: "s2 = RealSource q2" "rl_initialized q2" "\<not> rl_closed q2"
      "refs (rl_lib q2) = refs (rl_lib q) + 1" by (auto simp: real_open_def)
    obtain ce q3 where c: "Real_Close L q2 = (ce, q3)" by fastforce
    with Real_Close_refs(1) [OF refs c] q2 s2(2) src show ?thesis by auto
  qed
qed

lemma tryReal_not_closed:
  assumes "counts_refs (en_nvml E) refs" and "tryReal E l = (Inr (RealSource r), l')"
  shows "\<not> rl_closed r"
proof -
  obtain e p' where i: "Real_Init (en_nvml E) (NewReal l) = (e, p')" by fastforce
  with assms Real_Init_refs(3) [OF assms(1) i] show ?thesis
    by (auto simp: tryReal_def newRealPoller_def newRealPoller_real_def newRealPoller_stub_def NewReal_def
        split: if_splits option.splits)
qed

lemma chooseSource_not_closed:
  assumes "counts_refs (en_nvml E) refs" and "chooseSource E mode l = (Inr (RealSource r, nm), l')"
  shows "\<not> rl_closed r \<and> rl_lib r = l' \<and> refs l' = refs l + 1"
proof -
  obtain m where m: "startMock E = Inr (MockSource m)" using startMock_ok by blast
  obtain tr l1 where t: "tryReal E l = (tr, l1)" by fastforce
  with assms(2) m have tr: "tr = Inr (RealSource r)" "l1 = l'"
    by (auto simp: chooseSource_def split: if_splits sum.splits)
  with t tryReal_not_closed [OF assms(1), of l r l'] tryReal_refs [OF assms(1) t] tryReal_cases [OF t]
  show ?thesis by auto
qed

section \<open>Whole runs\<close>

lemma shutdown_src [simp]: "wd_src (shutdown K opt b wd) = wd_src wd"
  by (simp add: shutdown_def Let_def split: prod.splits)

lemma daemon_simps [simp]:
  "pl_source (daemon E opt b) = source_poller (en_nvml E) (en_sin E)" "pl_bridge (daemon E opt b) = b"
  "pl_helper (daemon E opt b) = word_of_int (en_pid E)" "pl_lastSeen (daemon E opt b) = []"
  by (simp_all add: daemon_def)

lemma run_daemon:
  assumes "started E args w l opt src l1 b w1" and "run E evs args w l = Some oc"
  obtains r p' wd where "Run (en_kernel E) (en_first E) (en_first_now E) evs (daemon E opt b)
      \<lparr>wd_kern = w1, wd_src = src, wd_log = []\<rparr> = Some (r, p', wd)"
    "oc_err oc = r" "oc_kern oc = wd_kern (shutdown (en_kernel E) opt b wd)"
    "oc_lib oc = lib_of l1 (wd_src wd)" "oc_log oc = wd_log (shutdown (en_kernel E) opt b wd)"
  using assms(2) run_started [OF assms(1), of evs]
  by (auto simp: Let_def split: option.splits)

text \<open>A run that starts returns when it is cancelled, or when the second \<open>Init\<close> of its source fails.\<close>

lemma run_returns:
  assumes "started E args w l opt src l1 b w1"
  shows "(\<exists>oc. run E evs args w l = Some oc) \<longleftrightarrow>
    CtxDone \<in> set evs \<or> fst (np_Init (source_poller (en_nvml E) (en_sin E)) src) \<noteq> None"
proof -
  have "(\<exists>oc. run E evs args w l = Some oc) \<longleftrightarrow>
      (\<exists>res. Run (en_kernel E) (en_first E) (en_first_now E) evs (daemon E opt b)
        \<lparr>wd_kern = w1, wd_src = src, wd_log = []\<rparr> = Some res)"
    unfolding run_started [OF assms, of evs] by (auto simp: Let_def split: option.splits)
  then show ?thesis unfolding Run_stops by simp
qed

lemma run_real_refs:
  assumes refs: "counts_refs (en_nvml E) refs" and st: "started E args w l opt (RealSource q) l1 b w1"
    and run: "run E evs args w l = Some oc"
  shows "refs (oc_lib oc) = refs l + 1"
proof -
  from st obtain nm where "chooseSource E (opt_mode opt) l = (Inr (RealSource q, nm), l1)"
    by (auto simp: started_def)
  from chooseSource_not_closed [OF refs this] have q: "\<not> rl_closed q" "refs (rl_lib q) = refs l + 1" by auto
  from run_daemon [OF st run] obtain r p' wd where
    "Run (en_kernel E) (en_first E) (en_first_now E) evs (daemon E opt b)
      \<lparr>wd_kern = w1, wd_src = RealSource q, wd_log = []\<rparr> = Some (r, p', wd)"
    and lib: "oc_lib oc = lib_of l1 (wd_src wd)" by blast
  from Run_real_refs [OF refs daemon_simps(1) this(1), of q] q(1)
  obtain q' where "wd_src wd = RealSource q'" "refs (rl_lib q') = refs (rl_lib q)" by auto
  with q(2) lib show ?thesis by (simp add: lib_of_def)
qed

context bpf_kernel
begin

text \<open>What the loop leaves in the maps is what stays behind a daemon that keeps its pins.\<close>

lemma run_keeps_contents:
  assumes K: "en_kernel E = K" and st: "started E args w l opt src l1 b w1" and keep: "opt_keepPins opt"
    and ro: "orders_ok (en_first E)" "list_all ev_ok evs"
    and v: "bview K b w1 = Some v" "view_ok (word_of_int (en_pid E)) v"
    and run: "run E evs args w l = Some oc"
  shows "k_fs K (oc_kern oc) = k_fs K w1 \<and>
    (\<exists>r p' wd v'. Run K (en_first E) (en_first_now E) evs (daemon E opt b)
        \<lparr>wd_kern = w1, wd_src = src, wd_log = []\<rparr> = Some (r, p', wd) \<and>
      bview K b (wd_kern wd) = Some v' \<and> view_ok (word_of_int (en_pid E)) v' \<and>
      pinned_in K b (br_pinDir b) v' (oc_kern oc))"
proof -
  let ?p = "daemon E opt b" and ?wd = "\<lparr>wd_kern = w1, wd_src = src, wd_log = []\<rparr>"
  from run_daemon [OF st run] K obtain r p' wd where
    R: "Run K (en_first E) (en_first_now E) evs ?p ?wd = Some (r, p', wd)"
    and kern: "oc_kern oc = wd_kern (shutdown K opt b wd)" by blast
  have "open_ok K (pl_bridge ?p) (pl_helper ?p) (k_fs K w1) ?wd"
    using v by (simp add: open_ok_def wview_def)
  from Run_open_ok [OF R ro this] obtain v' where fs: "k_fs K (wd_kern wd) = k_fs K w1"
    and v': "bview K b (wd_kern wd) = Some v'" "view_ok (word_of_int (en_pid E)) v'"
    by (auto simp: open_ok_def wview_def)
  from st K have op: "Open K (opt_pinDir opt) w = (Inr b, w1)" by (simp add: started_def)
  from fs have "k_pin K (wd_kern wd) = k_pin K w1" by (simp add: k_fs_def)
  then have pins: "pinned_in K b (br_pinDir b) v' (wd_kern wd)"
    using v'(1) Open_view(3-6) [OF op] by (simp add: pinned_in_def)
  from shutdown_keeps [OF keep pins] v' fs kern R show ?thesis by auto
qed

lemma run_keeps_pins:
  assumes K: "en_kernel E = K" and st: "started E args w l opt src l1 b w1" and keep: "opt_keepPins opt"
    and ro: "orders_ok (en_first E)" "list_all ev_ok evs"
    and v: "bview K b w1 = Some v" "view_ok (word_of_int (en_pid E)) v"
    and run: "run E evs args w l = Some oc"
  shows "k_fs K (oc_kern oc) = k_fs K w1"
  using run_keeps_contents [OF assms] by blast

lemma run_unpins:
  assumes K: "en_kernel E = K" and st: "started E args w l opt src l1 b w1" and keep: "\<not> opt_keepPins opt"
    and run: "run E evs args w l = Some oc"
  shows "unpin_warned (oc_log oc) \<or> (\<forall>p \<in> pin_paths (br_pinDir b). \<not> k_exists K (oc_kern oc) p)"
proof -
  obtain r p' wd where "Run K (en_first E) (en_first_now E) evs (daemon E opt b)
      \<lparr>wd_kern = w1, wd_src = src, wd_log = []\<rparr> = Some (r, p', wd)"
    and k: "oc_kern oc = wd_kern (shutdown K opt b wd)"
    and l: "oc_log oc = wd_log (shutdown K opt b wd)"
    by (rule run_daemon [OF st run, unfolded K])
  from shutdown_unpins [OF keep, of b wd] k l show ?thesis by auto
qed

end

end
