(* ===== verification/VmlinuxEnums.thy ===== *)
theory VmlinuxEnums
  imports CLayout
begin

text \<open>
  The enumerations of \<open>internal/maps/bpf/vmlinux.h\<close> that belong to BPF, as tables of enumerators and
  values: commands, map, program, attach, link and argument types, helper ids, flags, and the few
  other enumerations that list a BPF entry. An anonymous enumeration is named after its first
  enumerator. An enumeration occupies four bytes when its values fit \<open>int\<close> or \<open>unsigned int\<close>, and
  eight otherwise, as with the compilers for the targets.
\<close>

type_synonym enum_decl = "(string \<times> int) list"

definition enum_ctype :: "enum_decl \<Rightarrow> ctype" where
  "enum_ctype e =
     (if list_all (\<lambda>(n, v). - (2 ^ 31) \<le> v \<and> v < 2 ^ 31) e \<or> list_all (\<lambda>(n, v). 0 \<le> v \<and> v < 2 ^ 32) e
      then TInt 4 else TInt 8)"

definition enum_perf_sw_ids :: enum_decl where
  "enum_perf_sw_ids =
    [(''PERF_COUNT_SW_CPU_CLOCK'', 0),
     (''PERF_COUNT_SW_TASK_CLOCK'', 1),
     (''PERF_COUNT_SW_PAGE_FAULTS'', 2),
     (''PERF_COUNT_SW_CONTEXT_SWITCHES'', 3),
     (''PERF_COUNT_SW_CPU_MIGRATIONS'', 4),
     (''PERF_COUNT_SW_PAGE_FAULTS_MIN'', 5),
     (''PERF_COUNT_SW_PAGE_FAULTS_MAJ'', 6),
     (''PERF_COUNT_SW_ALIGNMENT_FAULTS'', 7),
     (''PERF_COUNT_SW_EMULATION_FAULTS'', 8),
     (''PERF_COUNT_SW_DUMMY'', 9),
     (''PERF_COUNT_SW_BPF_OUTPUT'', 10),
     (''PERF_COUNT_SW_CGROUP_SWITCHES'', 11),
     (''PERF_COUNT_SW_MAX'', 12)]"

definition enum_cgroup_bpf_attach_type :: enum_decl where
  "enum_cgroup_bpf_attach_type =
    [(''CGROUP_BPF_ATTACH_TYPE_INVALID'', -1),
     (''CGROUP_INET_INGRESS'', 0),
     (''CGROUP_INET_EGRESS'', 1),
     (''CGROUP_INET_SOCK_CREATE'', 2),
     (''CGROUP_SOCK_OPS'', 3),
     (''CGROUP_DEVICE'', 4),
     (''CGROUP_INET4_BIND'', 5),
     (''CGROUP_INET6_BIND'', 6),
     (''CGROUP_INET4_CONNECT'', 7),
     (''CGROUP_INET6_CONNECT'', 8),
     (''CGROUP_UNIX_CONNECT'', 9),
     (''CGROUP_INET4_POST_BIND'', 10),
     (''CGROUP_INET6_POST_BIND'', 11),
     (''CGROUP_UDP4_SENDMSG'', 12),
     (''CGROUP_UDP6_SENDMSG'', 13),
     (''CGROUP_UNIX_SENDMSG'', 14),
     (''CGROUP_SYSCTL'', 15),
     (''CGROUP_UDP4_RECVMSG'', 16),
     (''CGROUP_UDP6_RECVMSG'', 17),
     (''CGROUP_UNIX_RECVMSG'', 18),
     (''CGROUP_GETSOCKOPT'', 19),
     (''CGROUP_SETSOCKOPT'', 20),
     (''CGROUP_INET4_GETPEERNAME'', 21),
     (''CGROUP_INET6_GETPEERNAME'', 22),
     (''CGROUP_UNIX_GETPEERNAME'', 23),
     (''CGROUP_INET4_GETSOCKNAME'', 24),
     (''CGROUP_INET6_GETSOCKNAME'', 25),
     (''CGROUP_UNIX_GETSOCKNAME'', 26),
     (''CGROUP_INET_SOCK_RELEASE'', 27),
     (''CGROUP_LSM_START'', 28),
     (''CGROUP_LSM_END'', 37),
     (''MAX_CGROUP_BPF_ATTACH_TYPE'', 38)]"

definition enum_of_TP_ERR_FILE_NOT_FOUND :: enum_decl where
  "enum_of_TP_ERR_FILE_NOT_FOUND =
    [(''TP_ERR_FILE_NOT_FOUND'', 0),
     (''TP_ERR_NO_REGULAR_FILE'', 1),
     (''TP_ERR_BAD_REFCNT'', 2),
     (''TP_ERR_REFCNT_OPEN_BRACE'', 3),
     (''TP_ERR_BAD_REFCNT_SUFFIX'', 4),
     (''TP_ERR_BAD_UPROBE_OFFS'', 5),
     (''TP_ERR_BAD_MAXACT_TYPE'', 6),
     (''TP_ERR_BAD_MAXACT'', 7),
     (''TP_ERR_MAXACT_TOO_BIG'', 8),
     (''TP_ERR_BAD_PROBE_ADDR'', 9),
     (''TP_ERR_NON_UNIQ_SYMBOL'', 10),
     (''TP_ERR_BAD_RETPROBE'', 11),
     (''TP_ERR_NO_TRACEPOINT'', 12),
     (''TP_ERR_BAD_ADDR_SUFFIX'', 13),
     (''TP_ERR_NO_GROUP_NAME'', 14),
     (''TP_ERR_GROUP_TOO_LONG'', 15),
     (''TP_ERR_BAD_GROUP_NAME'', 16),
     (''TP_ERR_NO_EVENT_NAME'', 17),
     (''TP_ERR_EVENT_TOO_LONG'', 18),
     (''TP_ERR_BAD_EVENT_NAME'', 19),
     (''TP_ERR_EVENT_EXIST'', 20),
     (''TP_ERR_RETVAL_ON_PROBE'', 21),
     (''TP_ERR_NO_RETVAL'', 22),
     (''TP_ERR_BAD_STACK_NUM'', 23),
     (''TP_ERR_BAD_ARG_NUM'', 24),
     (''TP_ERR_BAD_VAR'', 25),
     (''TP_ERR_BAD_REG_NAME'', 26),
     (''TP_ERR_BAD_MEM_ADDR'', 27),
     (''TP_ERR_BAD_IMM'', 28),
     (''TP_ERR_IMMSTR_NO_CLOSE'', 29),
     (''TP_ERR_FILE_ON_KPROBE'', 30),
     (''TP_ERR_BAD_FILE_OFFS'', 31),
     (''TP_ERR_SYM_ON_UPROBE'', 32),
     (''TP_ERR_TOO_MANY_OPS'', 33),
     (''TP_ERR_DEREF_NEED_BRACE'', 34),
     (''TP_ERR_BAD_DEREF_OFFS'', 35),
     (''TP_ERR_DEREF_OPEN_BRACE'', 36),
     (''TP_ERR_COMM_CANT_DEREF'', 37),
     (''TP_ERR_BAD_FETCH_ARG'', 38),
     (''TP_ERR_ARRAY_NO_CLOSE'', 39),
     (''TP_ERR_BAD_ARRAY_SUFFIX'', 40),
     (''TP_ERR_BAD_ARRAY_NUM'', 41),
     (''TP_ERR_ARRAY_TOO_BIG'', 42),
     (''TP_ERR_BAD_TYPE'', 43),
     (''TP_ERR_BAD_STRING'', 44),
     (''TP_ERR_BAD_SYMSTRING'', 45),
     (''TP_ERR_BAD_BITFIELD'', 46),
     (''TP_ERR_ARG_NAME_TOO_LONG'', 47),
     (''TP_ERR_NO_ARG_NAME'', 48),
     (''TP_ERR_BAD_ARG_NAME'', 49),
     (''TP_ERR_USED_ARG_NAME'', 50),
     (''TP_ERR_ARG_TOO_LONG'', 51),
     (''TP_ERR_NO_ARG_BODY'', 52),
     (''TP_ERR_BAD_INSN_BNDRY'', 53),
     (''TP_ERR_FAIL_REG_PROBE'', 54),
     (''TP_ERR_DIFF_PROBE_TYPE'', 55),
     (''TP_ERR_DIFF_ARG_TYPE'', 56),
     (''TP_ERR_SAME_PROBE'', 57),
     (''TP_ERR_NO_EVENT_INFO'', 58),
     (''TP_ERR_BAD_ATTACH_EVENT'', 59),
     (''TP_ERR_BAD_ATTACH_ARG'', 60),
     (''TP_ERR_NO_EP_FILTER'', 61),
     (''TP_ERR_NOSUP_BTFARG'', 62),
     (''TP_ERR_NO_BTFARG'', 63),
     (''TP_ERR_NO_BTF_ENTRY'', 64),
     (''TP_ERR_BAD_VAR_ARGS'', 65),
     (''TP_ERR_NOFENTRY_ARGS'', 66),
     (''TP_ERR_DOUBLE_ARGS'', 67),
     (''TP_ERR_ARGS_2LONG'', 68),
     (''TP_ERR_ARGIDX_2BIG'', 69),
     (''TP_ERR_NO_PTR_STRCT'', 70),
     (''TP_ERR_NOSUP_DAT_ARG'', 71),
     (''TP_ERR_BAD_HYPHEN'', 72),
     (''TP_ERR_NO_BTF_FIELD'', 73),
     (''TP_ERR_BAD_BTF_TID'', 74),
     (''TP_ERR_BAD_TYPE4STR'', 75),
     (''TP_ERR_NEED_STRING_TYPE'', 76)]"

definition enum_bpf_cgroup_iter_order :: enum_decl where
  "enum_bpf_cgroup_iter_order =
    [(''BPF_CGROUP_ITER_ORDER_UNSPEC'', 0),
     (''BPF_CGROUP_ITER_SELF_ONLY'', 1),
     (''BPF_CGROUP_ITER_DESCENDANTS_PRE'', 2),
     (''BPF_CGROUP_ITER_DESCENDANTS_POST'', 3),
     (''BPF_CGROUP_ITER_ANCESTORS_UP'', 4)]"

definition enum_bpf_map_type :: enum_decl where
  "enum_bpf_map_type =
    [(''BPF_MAP_TYPE_UNSPEC'', 0),
     (''BPF_MAP_TYPE_HASH'', 1),
     (''BPF_MAP_TYPE_ARRAY'', 2),
     (''BPF_MAP_TYPE_PROG_ARRAY'', 3),
     (''BPF_MAP_TYPE_PERF_EVENT_ARRAY'', 4),
     (''BPF_MAP_TYPE_PERCPU_HASH'', 5),
     (''BPF_MAP_TYPE_PERCPU_ARRAY'', 6),
     (''BPF_MAP_TYPE_STACK_TRACE'', 7),
     (''BPF_MAP_TYPE_CGROUP_ARRAY'', 8),
     (''BPF_MAP_TYPE_LRU_HASH'', 9),
     (''BPF_MAP_TYPE_LRU_PERCPU_HASH'', 10),
     (''BPF_MAP_TYPE_LPM_TRIE'', 11),
     (''BPF_MAP_TYPE_ARRAY_OF_MAPS'', 12),
     (''BPF_MAP_TYPE_HASH_OF_MAPS'', 13),
     (''BPF_MAP_TYPE_DEVMAP'', 14),
     (''BPF_MAP_TYPE_SOCKMAP'', 15),
     (''BPF_MAP_TYPE_CPUMAP'', 16),
     (''BPF_MAP_TYPE_XSKMAP'', 17),
     (''BPF_MAP_TYPE_SOCKHASH'', 18),
     (''BPF_MAP_TYPE_CGROUP_STORAGE_DEPRECATED'', 19),
     (''BPF_MAP_TYPE_CGROUP_STORAGE'', 19),
     (''BPF_MAP_TYPE_REUSEPORT_SOCKARRAY'', 20),
     (''BPF_MAP_TYPE_PERCPU_CGROUP_STORAGE_DEPRECATED'', 21),
     (''BPF_MAP_TYPE_PERCPU_CGROUP_STORAGE'', 21),
     (''BPF_MAP_TYPE_QUEUE'', 22),
     (''BPF_MAP_TYPE_STACK'', 23),
     (''BPF_MAP_TYPE_SK_STORAGE'', 24),
     (''BPF_MAP_TYPE_DEVMAP_HASH'', 25),
     (''BPF_MAP_TYPE_STRUCT_OPS'', 26),
     (''BPF_MAP_TYPE_RINGBUF'', 27),
     (''BPF_MAP_TYPE_INODE_STORAGE'', 28),
     (''BPF_MAP_TYPE_TASK_STORAGE'', 29),
     (''BPF_MAP_TYPE_BLOOM_FILTER'', 30),
     (''BPF_MAP_TYPE_USER_RINGBUF'', 31),
     (''BPF_MAP_TYPE_CGRP_STORAGE'', 32)]"

definition enum_bpf_prog_type :: enum_decl where
  "enum_bpf_prog_type =
    [(''BPF_PROG_TYPE_UNSPEC'', 0),
     (''BPF_PROG_TYPE_SOCKET_FILTER'', 1),
     (''BPF_PROG_TYPE_KPROBE'', 2),
     (''BPF_PROG_TYPE_SCHED_CLS'', 3),
     (''BPF_PROG_TYPE_SCHED_ACT'', 4),
     (''BPF_PROG_TYPE_TRACEPOINT'', 5),
     (''BPF_PROG_TYPE_XDP'', 6),
     (''BPF_PROG_TYPE_PERF_EVENT'', 7),
     (''BPF_PROG_TYPE_CGROUP_SKB'', 8),
     (''BPF_PROG_TYPE_CGROUP_SOCK'', 9),
     (''BPF_PROG_TYPE_LWT_IN'', 10),
     (''BPF_PROG_TYPE_LWT_OUT'', 11),
     (''BPF_PROG_TYPE_LWT_XMIT'', 12),
     (''BPF_PROG_TYPE_SOCK_OPS'', 13),
     (''BPF_PROG_TYPE_SK_SKB'', 14),
     (''BPF_PROG_TYPE_CGROUP_DEVICE'', 15),
     (''BPF_PROG_TYPE_SK_MSG'', 16),
     (''BPF_PROG_TYPE_RAW_TRACEPOINT'', 17),
     (''BPF_PROG_TYPE_CGROUP_SOCK_ADDR'', 18),
     (''BPF_PROG_TYPE_LWT_SEG6LOCAL'', 19),
     (''BPF_PROG_TYPE_LIRC_MODE2'', 20),
     (''BPF_PROG_TYPE_SK_REUSEPORT'', 21),
     (''BPF_PROG_TYPE_FLOW_DISSECTOR'', 22),
     (''BPF_PROG_TYPE_CGROUP_SYSCTL'', 23),
     (''BPF_PROG_TYPE_RAW_TRACEPOINT_WRITABLE'', 24),
     (''BPF_PROG_TYPE_CGROUP_SOCKOPT'', 25),
     (''BPF_PROG_TYPE_TRACING'', 26),
     (''BPF_PROG_TYPE_STRUCT_OPS'', 27),
     (''BPF_PROG_TYPE_EXT'', 28),
     (''BPF_PROG_TYPE_LSM'', 29),
     (''BPF_PROG_TYPE_SK_LOOKUP'', 30),
     (''BPF_PROG_TYPE_SYSCALL'', 31),
     (''BPF_PROG_TYPE_NETFILTER'', 32)]"

definition enum_bpf_attach_type :: enum_decl where
  "enum_bpf_attach_type =
    [(''BPF_CGROUP_INET_INGRESS'', 0),
     (''BPF_CGROUP_INET_EGRESS'', 1),
     (''BPF_CGROUP_INET_SOCK_CREATE'', 2),
     (''BPF_CGROUP_SOCK_OPS'', 3),
     (''BPF_SK_SKB_STREAM_PARSER'', 4),
     (''BPF_SK_SKB_STREAM_VERDICT'', 5),
     (''BPF_CGROUP_DEVICE'', 6),
     (''BPF_SK_MSG_VERDICT'', 7),
     (''BPF_CGROUP_INET4_BIND'', 8),
     (''BPF_CGROUP_INET6_BIND'', 9),
     (''BPF_CGROUP_INET4_CONNECT'', 10),
     (''BPF_CGROUP_INET6_CONNECT'', 11),
     (''BPF_CGROUP_INET4_POST_BIND'', 12),
     (''BPF_CGROUP_INET6_POST_BIND'', 13),
     (''BPF_CGROUP_UDP4_SENDMSG'', 14),
     (''BPF_CGROUP_UDP6_SENDMSG'', 15),
     (''BPF_LIRC_MODE2'', 16),
     (''BPF_FLOW_DISSECTOR'', 17),
     (''BPF_CGROUP_SYSCTL'', 18),
     (''BPF_CGROUP_UDP4_RECVMSG'', 19),
     (''BPF_CGROUP_UDP6_RECVMSG'', 20),
     (''BPF_CGROUP_GETSOCKOPT'', 21),
     (''BPF_CGROUP_SETSOCKOPT'', 22),
     (''BPF_TRACE_RAW_TP'', 23),
     (''BPF_TRACE_FENTRY'', 24),
     (''BPF_TRACE_FEXIT'', 25),
     (''BPF_MODIFY_RETURN'', 26),
     (''BPF_LSM_MAC'', 27),
     (''BPF_TRACE_ITER'', 28),
     (''BPF_CGROUP_INET4_GETPEERNAME'', 29),
     (''BPF_CGROUP_INET6_GETPEERNAME'', 30),
     (''BPF_CGROUP_INET4_GETSOCKNAME'', 31),
     (''BPF_CGROUP_INET6_GETSOCKNAME'', 32),
     (''BPF_XDP_DEVMAP'', 33),
     (''BPF_CGROUP_INET_SOCK_RELEASE'', 34),
     (''BPF_XDP_CPUMAP'', 35),
     (''BPF_SK_LOOKUP'', 36),
     (''BPF_XDP'', 37),
     (''BPF_SK_SKB_VERDICT'', 38),
     (''BPF_SK_REUSEPORT_SELECT'', 39),
     (''BPF_SK_REUSEPORT_SELECT_OR_MIGRATE'', 40),
     (''BPF_PERF_EVENT'', 41),
     (''BPF_TRACE_KPROBE_MULTI'', 42),
     (''BPF_LSM_CGROUP'', 43),
     (''BPF_STRUCT_OPS'', 44),
     (''BPF_NETFILTER'', 45),
     (''BPF_TCX_INGRESS'', 46),
     (''BPF_TCX_EGRESS'', 47),
     (''BPF_TRACE_UPROBE_MULTI'', 48),
     (''BPF_CGROUP_UNIX_CONNECT'', 49),
     (''BPF_CGROUP_UNIX_SENDMSG'', 50),
     (''BPF_CGROUP_UNIX_RECVMSG'', 51),
     (''BPF_CGROUP_UNIX_GETPEERNAME'', 52),
     (''BPF_CGROUP_UNIX_GETSOCKNAME'', 53),
     (''BPF_NETKIT_PRIMARY'', 54),
     (''BPF_NETKIT_PEER'', 55),
     (''__MAX_BPF_ATTACH_TYPE'', 56)]"

definition enum_bpf_func_id_part1 :: enum_decl where
  "enum_bpf_func_id_part1 =
    [(''BPF_FUNC_unspec'', 0),
     (''BPF_FUNC_map_lookup_elem'', 1),
     (''BPF_FUNC_map_update_elem'', 2),
     (''BPF_FUNC_map_delete_elem'', 3),
     (''BPF_FUNC_probe_read'', 4),
     (''BPF_FUNC_ktime_get_ns'', 5),
     (''BPF_FUNC_trace_printk'', 6),
     (''BPF_FUNC_get_prandom_u32'', 7),
     (''BPF_FUNC_get_smp_processor_id'', 8),
     (''BPF_FUNC_skb_store_bytes'', 9),
     (''BPF_FUNC_l3_csum_replace'', 10),
     (''BPF_FUNC_l4_csum_replace'', 11),
     (''BPF_FUNC_tail_call'', 12),
     (''BPF_FUNC_clone_redirect'', 13),
     (''BPF_FUNC_get_current_pid_tgid'', 14),
     (''BPF_FUNC_get_current_uid_gid'', 15),
     (''BPF_FUNC_get_current_comm'', 16),
     (''BPF_FUNC_get_cgroup_classid'', 17),
     (''BPF_FUNC_skb_vlan_push'', 18),
     (''BPF_FUNC_skb_vlan_pop'', 19),
     (''BPF_FUNC_skb_get_tunnel_key'', 20),
     (''BPF_FUNC_skb_set_tunnel_key'', 21),
     (''BPF_FUNC_perf_event_read'', 22),
     (''BPF_FUNC_redirect'', 23),
     (''BPF_FUNC_get_route_realm'', 24),
     (''BPF_FUNC_perf_event_output'', 25),
     (''BPF_FUNC_skb_load_bytes'', 26),
     (''BPF_FUNC_get_stackid'', 27),
     (''BPF_FUNC_csum_diff'', 28),
     (''BPF_FUNC_skb_get_tunnel_opt'', 29),
     (''BPF_FUNC_skb_set_tunnel_opt'', 30),
     (''BPF_FUNC_skb_change_proto'', 31),
     (''BPF_FUNC_skb_change_type'', 32),
     (''BPF_FUNC_skb_under_cgroup'', 33),
     (''BPF_FUNC_get_hash_recalc'', 34),
     (''BPF_FUNC_get_current_task'', 35),
     (''BPF_FUNC_probe_write_user'', 36),
     (''BPF_FUNC_current_task_under_cgroup'', 37),
     (''BPF_FUNC_skb_change_tail'', 38),
     (''BPF_FUNC_skb_pull_data'', 39),
     (''BPF_FUNC_csum_update'', 40),
     (''BPF_FUNC_set_hash_invalid'', 41),
     (''BPF_FUNC_get_numa_node_id'', 42),
     (''BPF_FUNC_skb_change_head'', 43),
     (''BPF_FUNC_xdp_adjust_head'', 44),
     (''BPF_FUNC_probe_read_str'', 45),
     (''BPF_FUNC_get_socket_cookie'', 46),
     (''BPF_FUNC_get_socket_uid'', 47),
     (''BPF_FUNC_set_hash'', 48),
     (''BPF_FUNC_setsockopt'', 49),
     (''BPF_FUNC_skb_adjust_room'', 50),
     (''BPF_FUNC_redirect_map'', 51),
     (''BPF_FUNC_sk_redirect_map'', 52),
     (''BPF_FUNC_sock_map_update'', 53),
     (''BPF_FUNC_xdp_adjust_meta'', 54),
     (''BPF_FUNC_perf_event_read_value'', 55),
     (''BPF_FUNC_perf_prog_read_value'', 56),
     (''BPF_FUNC_getsockopt'', 57),
     (''BPF_FUNC_override_return'', 58),
     (''BPF_FUNC_sock_ops_cb_flags_set'', 59),
     (''BPF_FUNC_msg_redirect_map'', 60),
     (''BPF_FUNC_msg_apply_bytes'', 61),
     (''BPF_FUNC_msg_cork_bytes'', 62),
     (''BPF_FUNC_msg_pull_data'', 63),
     (''BPF_FUNC_bind'', 64),
     (''BPF_FUNC_xdp_adjust_tail'', 65),
     (''BPF_FUNC_skb_get_xfrm_state'', 66),
     (''BPF_FUNC_get_stack'', 67),
     (''BPF_FUNC_skb_load_bytes_relative'', 68),
     (''BPF_FUNC_fib_lookup'', 69),
     (''BPF_FUNC_sock_hash_update'', 70),
     (''BPF_FUNC_msg_redirect_hash'', 71),
     (''BPF_FUNC_sk_redirect_hash'', 72),
     (''BPF_FUNC_lwt_push_encap'', 73),
     (''BPF_FUNC_lwt_seg6_store_bytes'', 74),
     (''BPF_FUNC_lwt_seg6_adjust_srh'', 75),
     (''BPF_FUNC_lwt_seg6_action'', 76),
     (''BPF_FUNC_rc_repeat'', 77),
     (''BPF_FUNC_rc_keydown'', 78),
     (''BPF_FUNC_skb_cgroup_id'', 79),
     (''BPF_FUNC_get_current_cgroup_id'', 80),
     (''BPF_FUNC_get_local_storage'', 81),
     (''BPF_FUNC_sk_select_reuseport'', 82),
     (''BPF_FUNC_skb_ancestor_cgroup_id'', 83),
     (''BPF_FUNC_sk_lookup_tcp'', 84),
     (''BPF_FUNC_sk_lookup_udp'', 85),
     (''BPF_FUNC_sk_release'', 86),
     (''BPF_FUNC_map_push_elem'', 87),
     (''BPF_FUNC_map_pop_elem'', 88),
     (''BPF_FUNC_map_peek_elem'', 89),
     (''BPF_FUNC_msg_push_data'', 90),
     (''BPF_FUNC_msg_pop_data'', 91),
     (''BPF_FUNC_rc_pointer_rel'', 92),
     (''BPF_FUNC_spin_lock'', 93),
     (''BPF_FUNC_spin_unlock'', 94),
     (''BPF_FUNC_sk_fullsock'', 95),
     (''BPF_FUNC_tcp_sock'', 96),
     (''BPF_FUNC_skb_ecn_set_ce'', 97),
     (''BPF_FUNC_get_listener_sock'', 98),
     (''BPF_FUNC_skc_lookup_tcp'', 99),
     (''BPF_FUNC_tcp_check_syncookie'', 100),
     (''BPF_FUNC_sysctl_get_name'', 101),
     (''BPF_FUNC_sysctl_get_current_value'', 102),
     (''BPF_FUNC_sysctl_get_new_value'', 103),
     (''BPF_FUNC_sysctl_set_new_value'', 104),
     (''BPF_FUNC_strtol'', 105),
     (''BPF_FUNC_strtoul'', 106),
     (''BPF_FUNC_sk_storage_get'', 107),
     (''BPF_FUNC_sk_storage_delete'', 108),
     (''BPF_FUNC_send_signal'', 109)]"

definition enum_bpf_func_id_part2 :: enum_decl where
  "enum_bpf_func_id_part2 =
    [(''BPF_FUNC_tcp_gen_syncookie'', 110),
     (''BPF_FUNC_skb_output'', 111),
     (''BPF_FUNC_probe_read_user'', 112),
     (''BPF_FUNC_probe_read_kernel'', 113),
     (''BPF_FUNC_probe_read_user_str'', 114),
     (''BPF_FUNC_probe_read_kernel_str'', 115),
     (''BPF_FUNC_tcp_send_ack'', 116),
     (''BPF_FUNC_send_signal_thread'', 117),
     (''BPF_FUNC_jiffies64'', 118),
     (''BPF_FUNC_read_branch_records'', 119),
     (''BPF_FUNC_get_ns_current_pid_tgid'', 120),
     (''BPF_FUNC_xdp_output'', 121),
     (''BPF_FUNC_get_netns_cookie'', 122),
     (''BPF_FUNC_get_current_ancestor_cgroup_id'', 123),
     (''BPF_FUNC_sk_assign'', 124),
     (''BPF_FUNC_ktime_get_boot_ns'', 125),
     (''BPF_FUNC_seq_printf'', 126),
     (''BPF_FUNC_seq_write'', 127),
     (''BPF_FUNC_sk_cgroup_id'', 128),
     (''BPF_FUNC_sk_ancestor_cgroup_id'', 129),
     (''BPF_FUNC_ringbuf_output'', 130),
     (''BPF_FUNC_ringbuf_reserve'', 131),
     (''BPF_FUNC_ringbuf_submit'', 132),
     (''BPF_FUNC_ringbuf_discard'', 133),
     (''BPF_FUNC_ringbuf_query'', 134),
     (''BPF_FUNC_csum_level'', 135),
     (''BPF_FUNC_skc_to_tcp6_sock'', 136),
     (''BPF_FUNC_skc_to_tcp_sock'', 137),
     (''BPF_FUNC_skc_to_tcp_timewait_sock'', 138),
     (''BPF_FUNC_skc_to_tcp_request_sock'', 139),
     (''BPF_FUNC_skc_to_udp6_sock'', 140),
     (''BPF_FUNC_get_task_stack'', 141),
     (''BPF_FUNC_load_hdr_opt'', 142),
     (''BPF_FUNC_store_hdr_opt'', 143),
     (''BPF_FUNC_reserve_hdr_opt'', 144),
     (''BPF_FUNC_inode_storage_get'', 145),
     (''BPF_FUNC_inode_storage_delete'', 146),
     (''BPF_FUNC_d_path'', 147),
     (''BPF_FUNC_copy_from_user'', 148),
     (''BPF_FUNC_snprintf_btf'', 149),
     (''BPF_FUNC_seq_printf_btf'', 150),
     (''BPF_FUNC_skb_cgroup_classid'', 151),
     (''BPF_FUNC_redirect_neigh'', 152),
     (''BPF_FUNC_per_cpu_ptr'', 153),
     (''BPF_FUNC_this_cpu_ptr'', 154),
     (''BPF_FUNC_redirect_peer'', 155),
     (''BPF_FUNC_task_storage_get'', 156),
     (''BPF_FUNC_task_storage_delete'', 157),
     (''BPF_FUNC_get_current_task_btf'', 158),
     (''BPF_FUNC_bprm_opts_set'', 159),
     (''BPF_FUNC_ktime_get_coarse_ns'', 160),
     (''BPF_FUNC_ima_inode_hash'', 161),
     (''BPF_FUNC_sock_from_file'', 162),
     (''BPF_FUNC_check_mtu'', 163),
     (''BPF_FUNC_for_each_map_elem'', 164),
     (''BPF_FUNC_snprintf'', 165),
     (''BPF_FUNC_sys_bpf'', 166),
     (''BPF_FUNC_btf_find_by_name_kind'', 167),
     (''BPF_FUNC_sys_close'', 168),
     (''BPF_FUNC_timer_init'', 169),
     (''BPF_FUNC_timer_set_callback'', 170),
     (''BPF_FUNC_timer_start'', 171),
     (''BPF_FUNC_timer_cancel'', 172),
     (''BPF_FUNC_get_func_ip'', 173),
     (''BPF_FUNC_get_attach_cookie'', 174),
     (''BPF_FUNC_task_pt_regs'', 175),
     (''BPF_FUNC_get_branch_snapshot'', 176),
     (''BPF_FUNC_trace_vprintk'', 177),
     (''BPF_FUNC_skc_to_unix_sock'', 178),
     (''BPF_FUNC_kallsyms_lookup_name'', 179),
     (''BPF_FUNC_find_vma'', 180),
     (''BPF_FUNC_loop'', 181),
     (''BPF_FUNC_strncmp'', 182),
     (''BPF_FUNC_get_func_arg'', 183),
     (''BPF_FUNC_get_func_ret'', 184),
     (''BPF_FUNC_get_func_arg_cnt'', 185),
     (''BPF_FUNC_get_retval'', 186),
     (''BPF_FUNC_set_retval'', 187),
     (''BPF_FUNC_xdp_get_buff_len'', 188),
     (''BPF_FUNC_xdp_load_bytes'', 189),
     (''BPF_FUNC_xdp_store_bytes'', 190),
     (''BPF_FUNC_copy_from_user_task'', 191),
     (''BPF_FUNC_skb_set_tstamp'', 192),
     (''BPF_FUNC_ima_file_hash'', 193),
     (''BPF_FUNC_kptr_xchg'', 194),
     (''BPF_FUNC_map_lookup_percpu_elem'', 195),
     (''BPF_FUNC_skc_to_mptcp_sock'', 196),
     (''BPF_FUNC_dynptr_from_mem'', 197),
     (''BPF_FUNC_ringbuf_reserve_dynptr'', 198),
     (''BPF_FUNC_ringbuf_submit_dynptr'', 199),
     (''BPF_FUNC_ringbuf_discard_dynptr'', 200),
     (''BPF_FUNC_dynptr_read'', 201),
     (''BPF_FUNC_dynptr_write'', 202),
     (''BPF_FUNC_dynptr_data'', 203),
     (''BPF_FUNC_tcp_raw_gen_syncookie_ipv4'', 204),
     (''BPF_FUNC_tcp_raw_gen_syncookie_ipv6'', 205),
     (''BPF_FUNC_tcp_raw_check_syncookie_ipv4'', 206),
     (''BPF_FUNC_tcp_raw_check_syncookie_ipv6'', 207),
     (''BPF_FUNC_ktime_get_tai_ns'', 208),
     (''BPF_FUNC_user_ringbuf_drain'', 209),
     (''BPF_FUNC_cgrp_storage_get'', 210),
     (''BPF_FUNC_cgrp_storage_delete'', 211),
     (''__BPF_FUNC_MAX_ID'', 212)]"

definition enum_bpf_func_id :: enum_decl where
  "enum_bpf_func_id = enum_bpf_func_id_part1 @ enum_bpf_func_id_part2"

definition enum_btf_field_type :: enum_decl where
  "enum_btf_field_type =
    [(''BPF_SPIN_LOCK'', 1),
     (''BPF_TIMER'', 2),
     (''BPF_KPTR_UNREF'', 4),
     (''BPF_KPTR_REF'', 8),
     (''BPF_KPTR_PERCPU'', 16),
     (''BPF_KPTR'', 28),
     (''BPF_LIST_HEAD'', 32),
     (''BPF_LIST_NODE'', 64),
     (''BPF_RB_ROOT'', 128),
     (''BPF_RB_NODE'', 256),
     (''BPF_GRAPH_NODE'', 320),
     (''BPF_GRAPH_ROOT'', 160),
     (''BPF_REFCOUNT'', 512)]"

definition enum_bpf_iter_task_type :: enum_decl where
  "enum_bpf_iter_task_type =
    [(''BPF_TASK_ITER_ALL'', 0),
     (''BPF_TASK_ITER_TID'', 1),
     (''BPF_TASK_ITER_TGID'', 2)]"

definition enum_bpf_arg_type :: enum_decl where
  "enum_bpf_arg_type =
    [(''ARG_DONTCARE'', 0),
     (''ARG_CONST_MAP_PTR'', 1),
     (''ARG_PTR_TO_MAP_KEY'', 2),
     (''ARG_PTR_TO_MAP_VALUE'', 3),
     (''ARG_PTR_TO_MEM'', 4),
     (''ARG_CONST_SIZE'', 5),
     (''ARG_CONST_SIZE_OR_ZERO'', 6),
     (''ARG_PTR_TO_CTX'', 7),
     (''ARG_ANYTHING'', 8),
     (''ARG_PTR_TO_SPIN_LOCK'', 9),
     (''ARG_PTR_TO_SOCK_COMMON'', 10),
     (''ARG_PTR_TO_INT'', 11),
     (''ARG_PTR_TO_LONG'', 12),
     (''ARG_PTR_TO_SOCKET'', 13),
     (''ARG_PTR_TO_BTF_ID'', 14),
     (''ARG_PTR_TO_RINGBUF_MEM'', 15),
     (''ARG_CONST_ALLOC_SIZE_OR_ZERO'', 16),
     (''ARG_PTR_TO_BTF_ID_SOCK_COMMON'', 17),
     (''ARG_PTR_TO_PERCPU_BTF_ID'', 18),
     (''ARG_PTR_TO_FUNC'', 19),
     (''ARG_PTR_TO_STACK'', 20),
     (''ARG_PTR_TO_CONST_STR'', 21),
     (''ARG_PTR_TO_TIMER'', 22),
     (''ARG_PTR_TO_KPTR'', 23),
     (''ARG_PTR_TO_DYNPTR'', 24),
     (''__BPF_ARG_TYPE_MAX'', 25),
     (''ARG_PTR_TO_MAP_VALUE_OR_NULL'', 259),
     (''ARG_PTR_TO_MEM_OR_NULL'', 260),
     (''ARG_PTR_TO_CTX_OR_NULL'', 263),
     (''ARG_PTR_TO_SOCKET_OR_NULL'', 269),
     (''ARG_PTR_TO_STACK_OR_NULL'', 276),
     (''ARG_PTR_TO_BTF_ID_OR_NULL'', 270),
     (''ARG_PTR_TO_UNINIT_MEM'', 32772),
     (''ARG_PTR_TO_FIXED_SIZE_MEM'', 262148),
     (''__BPF_ARG_TYPE_LIMIT'', 33554431)]"

definition enum_bpf_return_type :: enum_decl where
  "enum_bpf_return_type =
    [(''RET_INTEGER'', 0),
     (''RET_VOID'', 1),
     (''RET_PTR_TO_MAP_VALUE'', 2),
     (''RET_PTR_TO_SOCKET'', 3),
     (''RET_PTR_TO_TCP_SOCK'', 4),
     (''RET_PTR_TO_SOCK_COMMON'', 5),
     (''RET_PTR_TO_MEM'', 6),
     (''RET_PTR_TO_MEM_OR_BTF_ID'', 7),
     (''RET_PTR_TO_BTF_ID'', 8),
     (''__BPF_RET_TYPE_MAX'', 9),
     (''RET_PTR_TO_MAP_VALUE_OR_NULL'', 258),
     (''RET_PTR_TO_SOCKET_OR_NULL'', 259),
     (''RET_PTR_TO_TCP_SOCK_OR_NULL'', 260),
     (''RET_PTR_TO_SOCK_COMMON_OR_NULL'', 261),
     (''RET_PTR_TO_RINGBUF_MEM_OR_NULL'', 1286),
     (''RET_PTR_TO_DYNPTR_MEM_OR_NULL'', 262),
     (''RET_PTR_TO_BTF_ID_OR_NULL'', 264),
     (''RET_PTR_TO_BTF_ID_TRUSTED'', 1048584),
     (''__BPF_RET_TYPE_LIMIT'', 33554431)]"

definition enum_bpf_reg_type :: enum_decl where
  "enum_bpf_reg_type =
    [(''NOT_INIT'', 0),
     (''SCALAR_VALUE'', 1),
     (''PTR_TO_CTX'', 2),
     (''CONST_PTR_TO_MAP'', 3),
     (''PTR_TO_MAP_VALUE'', 4),
     (''PTR_TO_MAP_KEY'', 5),
     (''PTR_TO_STACK'', 6),
     (''PTR_TO_PACKET_META'', 7),
     (''PTR_TO_PACKET'', 8),
     (''PTR_TO_PACKET_END'', 9),
     (''PTR_TO_FLOW_KEYS'', 10),
     (''PTR_TO_SOCKET'', 11),
     (''PTR_TO_SOCK_COMMON'', 12),
     (''PTR_TO_TCP_SOCK'', 13),
     (''PTR_TO_TP_BUFFER'', 14),
     (''PTR_TO_XDP_SOCK'', 15),
     (''PTR_TO_BTF_ID'', 16),
     (''PTR_TO_MEM'', 17),
     (''PTR_TO_BUF'', 18),
     (''PTR_TO_FUNC'', 19),
     (''CONST_PTR_TO_DYNPTR'', 20),
     (''__BPF_REG_TYPE_MAX'', 21),
     (''PTR_TO_MAP_VALUE_OR_NULL'', 260),
     (''PTR_TO_SOCKET_OR_NULL'', 267),
     (''PTR_TO_SOCK_COMMON_OR_NULL'', 268),
     (''PTR_TO_TCP_SOCK_OR_NULL'', 269),
     (''PTR_TO_BTF_ID_OR_NULL'', 272),
     (''__BPF_REG_TYPE_LIMIT'', 33554431)]"

definition enum_tc_setup_type :: enum_decl where
  "enum_tc_setup_type =
    [(''TC_QUERY_CAPS'', 0),
     (''TC_SETUP_QDISC_MQPRIO'', 1),
     (''TC_SETUP_CLSU32'', 2),
     (''TC_SETUP_CLSFLOWER'', 3),
     (''TC_SETUP_CLSMATCHALL'', 4),
     (''TC_SETUP_CLSBPF'', 5),
     (''TC_SETUP_BLOCK'', 6),
     (''TC_SETUP_QDISC_CBS'', 7),
     (''TC_SETUP_QDISC_RED'', 8),
     (''TC_SETUP_QDISC_PRIO'', 9),
     (''TC_SETUP_QDISC_MQ'', 10),
     (''TC_SETUP_QDISC_ETF'', 11),
     (''TC_SETUP_ROOT_QDISC'', 12),
     (''TC_SETUP_QDISC_GRED'', 13),
     (''TC_SETUP_QDISC_TAPRIO'', 14),
     (''TC_SETUP_FT'', 15),
     (''TC_SETUP_QDISC_ETS'', 16),
     (''TC_SETUP_QDISC_TBF'', 17),
     (''TC_SETUP_QDISC_FIFO'', 18),
     (''TC_SETUP_QDISC_HTB'', 19),
     (''TC_SETUP_ACT'', 20)]"

definition enum_bpf_netdev_command :: enum_decl where
  "enum_bpf_netdev_command =
    [(''XDP_SETUP_PROG'', 0),
     (''XDP_SETUP_PROG_HW'', 1),
     (''BPF_OFFLOAD_MAP_ALLOC'', 2),
     (''BPF_OFFLOAD_MAP_FREE'', 3),
     (''XDP_SETUP_XSK_POOL'', 4)]"

definition enum_bpf_xdp_mode :: enum_decl where
  "enum_bpf_xdp_mode =
    [(''XDP_MODE_SKB'', 0),
     (''XDP_MODE_DRV'', 1),
     (''XDP_MODE_HW'', 2),
     (''__MAX_XDP_MODE'', 3)]"

definition enum_skb_drop_reason :: enum_decl where
  "enum_skb_drop_reason =
    [(''SKB_NOT_DROPPED_YET'', 0),
     (''SKB_CONSUMED'', 1),
     (''SKB_DROP_REASON_NOT_SPECIFIED'', 2),
     (''SKB_DROP_REASON_NO_SOCKET'', 3),
     (''SKB_DROP_REASON_PKT_TOO_SMALL'', 4),
     (''SKB_DROP_REASON_TCP_CSUM'', 5),
     (''SKB_DROP_REASON_SOCKET_FILTER'', 6),
     (''SKB_DROP_REASON_UDP_CSUM'', 7),
     (''SKB_DROP_REASON_NETFILTER_DROP'', 8),
     (''SKB_DROP_REASON_OTHERHOST'', 9),
     (''SKB_DROP_REASON_IP_CSUM'', 10),
     (''SKB_DROP_REASON_IP_INHDR'', 11),
     (''SKB_DROP_REASON_IP_RPFILTER'', 12),
     (''SKB_DROP_REASON_UNICAST_IN_L2_MULTICAST'', 13),
     (''SKB_DROP_REASON_XFRM_POLICY'', 14),
     (''SKB_DROP_REASON_IP_NOPROTO'', 15),
     (''SKB_DROP_REASON_SOCKET_RCVBUFF'', 16),
     (''SKB_DROP_REASON_PROTO_MEM'', 17),
     (''SKB_DROP_REASON_TCP_AUTH_HDR'', 18),
     (''SKB_DROP_REASON_TCP_MD5NOTFOUND'', 19),
     (''SKB_DROP_REASON_TCP_MD5UNEXPECTED'', 20),
     (''SKB_DROP_REASON_TCP_MD5FAILURE'', 21),
     (''SKB_DROP_REASON_TCP_AONOTFOUND'', 22),
     (''SKB_DROP_REASON_TCP_AOUNEXPECTED'', 23),
     (''SKB_DROP_REASON_TCP_AOKEYNOTFOUND'', 24),
     (''SKB_DROP_REASON_TCP_AOFAILURE'', 25),
     (''SKB_DROP_REASON_SOCKET_BACKLOG'', 26),
     (''SKB_DROP_REASON_TCP_FLAGS'', 27),
     (''SKB_DROP_REASON_TCP_ZEROWINDOW'', 28),
     (''SKB_DROP_REASON_TCP_OLD_DATA'', 29),
     (''SKB_DROP_REASON_TCP_OVERWINDOW'', 30),
     (''SKB_DROP_REASON_TCP_OFOMERGE'', 31),
     (''SKB_DROP_REASON_TCP_RFC7323_PAWS'', 32),
     (''SKB_DROP_REASON_TCP_OLD_SEQUENCE'', 33),
     (''SKB_DROP_REASON_TCP_INVALID_SEQUENCE'', 34),
     (''SKB_DROP_REASON_TCP_RESET'', 35),
     (''SKB_DROP_REASON_TCP_INVALID_SYN'', 36),
     (''SKB_DROP_REASON_TCP_CLOSE'', 37),
     (''SKB_DROP_REASON_TCP_FASTOPEN'', 38),
     (''SKB_DROP_REASON_TCP_OLD_ACK'', 39),
     (''SKB_DROP_REASON_TCP_TOO_OLD_ACK'', 40),
     (''SKB_DROP_REASON_TCP_ACK_UNSENT_DATA'', 41),
     (''SKB_DROP_REASON_TCP_OFO_QUEUE_PRUNE'', 42),
     (''SKB_DROP_REASON_TCP_OFO_DROP'', 43),
     (''SKB_DROP_REASON_IP_OUTNOROUTES'', 44),
     (''SKB_DROP_REASON_BPF_CGROUP_EGRESS'', 45),
     (''SKB_DROP_REASON_IPV6DISABLED'', 46),
     (''SKB_DROP_REASON_NEIGH_CREATEFAIL'', 47),
     (''SKB_DROP_REASON_NEIGH_FAILED'', 48),
     (''SKB_DROP_REASON_NEIGH_QUEUEFULL'', 49),
     (''SKB_DROP_REASON_NEIGH_DEAD'', 50),
     (''SKB_DROP_REASON_TC_EGRESS'', 51),
     (''SKB_DROP_REASON_QDISC_DROP'', 52),
     (''SKB_DROP_REASON_CPU_BACKLOG'', 53),
     (''SKB_DROP_REASON_XDP'', 54),
     (''SKB_DROP_REASON_TC_INGRESS'', 55),
     (''SKB_DROP_REASON_UNHANDLED_PROTO'', 56),
     (''SKB_DROP_REASON_SKB_CSUM'', 57),
     (''SKB_DROP_REASON_SKB_GSO_SEG'', 58),
     (''SKB_DROP_REASON_SKB_UCOPY_FAULT'', 59),
     (''SKB_DROP_REASON_DEV_HDR'', 60),
     (''SKB_DROP_REASON_DEV_READY'', 61),
     (''SKB_DROP_REASON_FULL_RING'', 62),
     (''SKB_DROP_REASON_NOMEM'', 63),
     (''SKB_DROP_REASON_HDR_TRUNC'', 64),
     (''SKB_DROP_REASON_TAP_FILTER'', 65),
     (''SKB_DROP_REASON_TAP_TXFILTER'', 66),
     (''SKB_DROP_REASON_ICMP_CSUM'', 67),
     (''SKB_DROP_REASON_INVALID_PROTO'', 68),
     (''SKB_DROP_REASON_IP_INADDRERRORS'', 69),
     (''SKB_DROP_REASON_IP_INNOROUTES'', 70),
     (''SKB_DROP_REASON_PKT_TOO_BIG'', 71),
     (''SKB_DROP_REASON_DUP_FRAG'', 72),
     (''SKB_DROP_REASON_FRAG_REASM_TIMEOUT'', 73),
     (''SKB_DROP_REASON_FRAG_TOO_FAR'', 74),
     (''SKB_DROP_REASON_TCP_MINTTL'', 75),
     (''SKB_DROP_REASON_IPV6_BAD_EXTHDR'', 76),
     (''SKB_DROP_REASON_IPV6_NDISC_FRAG'', 77),
     (''SKB_DROP_REASON_IPV6_NDISC_HOP_LIMIT'', 78),
     (''SKB_DROP_REASON_IPV6_NDISC_BAD_CODE'', 79),
     (''SKB_DROP_REASON_IPV6_NDISC_BAD_OPTIONS'', 80),
     (''SKB_DROP_REASON_IPV6_NDISC_NS_OTHERHOST'', 81),
     (''SKB_DROP_REASON_QUEUE_PURGE'', 82),
     (''SKB_DROP_REASON_TC_COOKIE_ERROR'', 83),
     (''SKB_DROP_REASON_PACKET_SOCK_ERROR'', 84),
     (''SKB_DROP_REASON_TC_CHAIN_NOTFOUND'', 85),
     (''SKB_DROP_REASON_TC_RECLASSIFY_LOOP'', 86),
     (''SKB_DROP_REASON_MAX'', 87),
     (''SKB_DROP_REASON_SUBSYS_MASK'', 4294901760)]"

definition enum_of_BPF_SOCK_OPS_VOID :: enum_decl where
  "enum_of_BPF_SOCK_OPS_VOID =
    [(''BPF_SOCK_OPS_VOID'', 0),
     (''BPF_SOCK_OPS_TIMEOUT_INIT'', 1),
     (''BPF_SOCK_OPS_RWND_INIT'', 2),
     (''BPF_SOCK_OPS_TCP_CONNECT_CB'', 3),
     (''BPF_SOCK_OPS_ACTIVE_ESTABLISHED_CB'', 4),
     (''BPF_SOCK_OPS_PASSIVE_ESTABLISHED_CB'', 5),
     (''BPF_SOCK_OPS_NEEDS_ECN'', 6),
     (''BPF_SOCK_OPS_BASE_RTT'', 7),
     (''BPF_SOCK_OPS_RTO_CB'', 8),
     (''BPF_SOCK_OPS_RETRANS_CB'', 9),
     (''BPF_SOCK_OPS_STATE_CB'', 10),
     (''BPF_SOCK_OPS_TCP_LISTEN_CB'', 11),
     (''BPF_SOCK_OPS_RTT_CB'', 12),
     (''BPF_SOCK_OPS_PARSE_HDR_OPT_CB'', 13),
     (''BPF_SOCK_OPS_HDR_OPT_LEN_CB'', 14),
     (''BPF_SOCK_OPS_WRITE_HDR_OPT_CB'', 15)]"

definition enum_bpf_cgroup_storage_type :: enum_decl where
  "enum_bpf_cgroup_storage_type =
    [(''BPF_CGROUP_STORAGE_SHARED'', 0),
     (''BPF_CGROUP_STORAGE_PERCPU'', 1),
     (''__BPF_CGROUP_STORAGE_MAX'', 2)]"

definition enum_of_INET_DIAG_REQ_NONE :: enum_decl where
  "enum_of_INET_DIAG_REQ_NONE =
    [(''INET_DIAG_REQ_NONE'', 0),
     (''INET_DIAG_REQ_BYTECODE'', 1),
     (''INET_DIAG_REQ_SK_BPF_STORAGES'', 2),
     (''INET_DIAG_REQ_PROTOCOL'', 3),
     (''__INET_DIAG_REQ_MAX'', 4)]"

definition enum_netns_bpf_attach_type :: enum_decl where
  "enum_netns_bpf_attach_type =
    [(''NETNS_BPF_INVALID'', -1),
     (''NETNS_BPF_FLOW_DISSECTOR'', 0),
     (''NETNS_BPF_SK_LOOKUP'', 1),
     (''MAX_NETNS_BPF_ATTACH_TYPE'', 2)]"

definition enum_of_BPF_ANY :: enum_decl where
  "enum_of_BPF_ANY =
    [(''BPF_ANY'', 0),
     (''BPF_NOEXIST'', 1),
     (''BPF_EXIST'', 2),
     (''BPF_F_LOCK'', 4)]"

definition enum_of_BPF_F_NO_PREALLOC :: enum_decl where
  "enum_of_BPF_F_NO_PREALLOC =
    [(''BPF_F_NO_PREALLOC'', 1),
     (''BPF_F_NO_COMMON_LRU'', 2),
     (''BPF_F_NUMA_NODE'', 4),
     (''BPF_F_RDONLY'', 8),
     (''BPF_F_WRONLY'', 16),
     (''BPF_F_STACK_BUILD_ID'', 32),
     (''BPF_F_ZERO_SEED'', 64),
     (''BPF_F_RDONLY_PROG'', 128),
     (''BPF_F_WRONLY_PROG'', 256),
     (''BPF_F_CLONE'', 512),
     (''BPF_F_MMAPABLE'', 1024),
     (''BPF_F_PRESERVE_ELEMS'', 2048),
     (''BPF_F_INNER_MAP'', 4096),
     (''BPF_F_LINK'', 8192),
     (''BPF_F_PATH_FD'', 16384)]"

definition enum_of_BTF_KIND_UNKN :: enum_decl where
  "enum_of_BTF_KIND_UNKN =
    [(''BTF_KIND_UNKN'', 0),
     (''BTF_KIND_INT'', 1),
     (''BTF_KIND_PTR'', 2),
     (''BTF_KIND_ARRAY'', 3),
     (''BTF_KIND_STRUCT'', 4),
     (''BTF_KIND_UNION'', 5),
     (''BTF_KIND_ENUM'', 6),
     (''BTF_KIND_FWD'', 7),
     (''BTF_KIND_TYPEDEF'', 8),
     (''BTF_KIND_VOLATILE'', 9),
     (''BTF_KIND_CONST'', 10),
     (''BTF_KIND_RESTRICT'', 11),
     (''BTF_KIND_FUNC'', 12),
     (''BTF_KIND_FUNC_PROTO'', 13),
     (''BTF_KIND_VAR'', 14),
     (''BTF_KIND_DATASEC'', 15),
     (''BTF_KIND_FLOAT'', 16),
     (''BTF_KIND_DECL_TAG'', 17),
     (''BTF_KIND_TYPE_TAG'', 18),
     (''BTF_KIND_ENUM64'', 19),
     (''NR_BTF_KINDS'', 20),
     (''BTF_KIND_MAX'', 19)]"

definition enum_bpf_type_flag :: enum_decl where
  "enum_bpf_type_flag =
    [(''PTR_MAYBE_NULL'', 256),
     (''MEM_RDONLY'', 512),
     (''MEM_RINGBUF'', 1024),
     (''MEM_USER'', 2048),
     (''MEM_PERCPU'', 4096),
     (''OBJ_RELEASE'', 8192),
     (''PTR_UNTRUSTED'', 16384),
     (''MEM_UNINIT'', 32768),
     (''DYNPTR_TYPE_LOCAL'', 65536),
     (''DYNPTR_TYPE_RINGBUF'', 131072),
     (''MEM_FIXED_SIZE'', 262144),
     (''MEM_ALLOC'', 524288),
     (''PTR_TRUSTED'', 1048576),
     (''MEM_RCU'', 2097152),
     (''NON_OWN_REF'', 4194304),
     (''DYNPTR_TYPE_SKB'', 8388608),
     (''DYNPTR_TYPE_XDP'', 16777216),
     (''__BPF_TYPE_FLAG_MAX'', 16777217),
     (''__BPF_TYPE_LAST_FLAG'', 16777216)]"

definition enum_of_BPF_MAX_TRAMP_LINKS :: enum_decl where
  "enum_of_BPF_MAX_TRAMP_LINKS =
    [(''BPF_MAX_TRAMP_LINKS'', 38)]"

definition enum_bpf_tramp_prog_type :: enum_decl where
  "enum_bpf_tramp_prog_type =
    [(''BPF_TRAMP_FENTRY'', 0),
     (''BPF_TRAMP_FEXIT'', 1),
     (''BPF_TRAMP_MODIFY_RETURN'', 2),
     (''BPF_TRAMP_MAX'', 3),
     (''BPF_TRAMP_REPLACE'', 4)]"

definition enum_lockdown_reason :: enum_decl where
  "enum_lockdown_reason =
    [(''LOCKDOWN_NONE'', 0),
     (''LOCKDOWN_MODULE_SIGNATURE'', 1),
     (''LOCKDOWN_DEV_MEM'', 2),
     (''LOCKDOWN_EFI_TEST'', 3),
     (''LOCKDOWN_KEXEC'', 4),
     (''LOCKDOWN_HIBERNATION'', 5),
     (''LOCKDOWN_PCI_ACCESS'', 6),
     (''LOCKDOWN_IOPORT'', 7),
     (''LOCKDOWN_MSR'', 8),
     (''LOCKDOWN_ACPI_TABLES'', 9),
     (''LOCKDOWN_DEVICE_TREE'', 10),
     (''LOCKDOWN_PCMCIA_CIS'', 11),
     (''LOCKDOWN_TIOCSSERIAL'', 12),
     (''LOCKDOWN_MODULE_PARAMETERS'', 13),
     (''LOCKDOWN_MMIOTRACE'', 14),
     (''LOCKDOWN_DEBUGFS'', 15),
     (''LOCKDOWN_XMON_WR'', 16),
     (''LOCKDOWN_BPF_WRITE_USER'', 17),
     (''LOCKDOWN_DBG_WRITE_KERNEL'', 18),
     (''LOCKDOWN_RTAS_ERROR_INJECTION'', 19),
     (''LOCKDOWN_INTEGRITY_MAX'', 20),
     (''LOCKDOWN_KCORE'', 21),
     (''LOCKDOWN_KPROBES'', 22),
     (''LOCKDOWN_BPF_READ_KERNEL'', 23),
     (''LOCKDOWN_DBG_READ_KERNEL'', 24),
     (''LOCKDOWN_PERF'', 25),
     (''LOCKDOWN_TRACEFS'', 26),
     (''LOCKDOWN_XMON_RW'', 27),
     (''LOCKDOWN_XFRM_SECRET'', 28),
     (''LOCKDOWN_CONFIDENTIALITY_MAX'', 29)]"

definition enum_of_BPF_REG_0 :: enum_decl where
  "enum_of_BPF_REG_0 =
    [(''BPF_REG_0'', 0),
     (''BPF_REG_1'', 1),
     (''BPF_REG_2'', 2),
     (''BPF_REG_3'', 3),
     (''BPF_REG_4'', 4),
     (''BPF_REG_5'', 5),
     (''BPF_REG_6'', 6),
     (''BPF_REG_7'', 7),
     (''BPF_REG_8'', 8),
     (''BPF_REG_9'', 9),
     (''BPF_REG_10'', 10),
     (''__MAX_BPF_REG'', 11)]"

definition enum_bpf_jit_poke_reason :: enum_decl where
  "enum_bpf_jit_poke_reason =
    [(''BPF_POKE_REASON_TAIL_CALL'', 0)]"

definition enum_lwtunnel_encap_types :: enum_decl where
  "enum_lwtunnel_encap_types =
    [(''LWTUNNEL_ENCAP_NONE'', 0),
     (''LWTUNNEL_ENCAP_MPLS'', 1),
     (''LWTUNNEL_ENCAP_IP'', 2),
     (''LWTUNNEL_ENCAP_ILA'', 3),
     (''LWTUNNEL_ENCAP_IP6'', 4),
     (''LWTUNNEL_ENCAP_SEG6'', 5),
     (''LWTUNNEL_ENCAP_BPF'', 6),
     (''LWTUNNEL_ENCAP_SEG6_LOCAL'', 7),
     (''LWTUNNEL_ENCAP_RPL'', 8),
     (''LWTUNNEL_ENCAP_IOAM6'', 9),
     (''LWTUNNEL_ENCAP_XFRM'', 10),
     (''__LWTUNNEL_ENCAP_MAX'', 11)]"

definition enum_bpf_ret_code :: enum_decl where
  "enum_bpf_ret_code =
    [(''BPF_OK'', 0),
     (''BPF_DROP'', 2),
     (''BPF_REDIRECT'', 7),
     (''BPF_LWT_REROUTE'', 128),
     (''BPF_FLOW_DISSECTOR_CONTINUE'', 129)]"

definition enum_of_LWT_BPF_PROG_UNSPEC :: enum_decl where
  "enum_of_LWT_BPF_PROG_UNSPEC =
    [(''LWT_BPF_PROG_UNSPEC'', 0),
     (''LWT_BPF_PROG_FD'', 1),
     (''LWT_BPF_PROG_NAME'', 2),
     (''__LWT_BPF_PROG_MAX'', 3)]"

definition enum_of_LWT_BPF_UNSPEC :: enum_decl where
  "enum_of_LWT_BPF_UNSPEC =
    [(''LWT_BPF_UNSPEC'', 0),
     (''LWT_BPF_IN'', 1),
     (''LWT_BPF_OUT'', 2),
     (''LWT_BPF_XMIT'', 3),
     (''LWT_BPF_XMIT_HEADROOM'', 4),
     (''__LWT_BPF_MAX'', 5)]"

definition enum_nf_hook_ops_type :: enum_decl where
  "enum_nf_hook_ops_type =
    [(''NF_HOOK_OP_UNDEFINED'', 0),
     (''NF_HOOK_OP_NF_TABLES'', 1),
     (''NF_HOOK_OP_BPF'', 2)]"

definition enum_of_UDP_BPF_IPV4 :: enum_decl where
  "enum_of_UDP_BPF_IPV4 =
    [(''UDP_BPF_IPV4'', 0),
     (''UDP_BPF_IPV6'', 1),
     (''UDP_BPF_NUM_PROTS'', 2)]"

definition enum_bpf_link_type :: enum_decl where
  "enum_bpf_link_type =
    [(''BPF_LINK_TYPE_UNSPEC'', 0),
     (''BPF_LINK_TYPE_RAW_TRACEPOINT'', 1),
     (''BPF_LINK_TYPE_TRACING'', 2),
     (''BPF_LINK_TYPE_CGROUP'', 3),
     (''BPF_LINK_TYPE_ITER'', 4),
     (''BPF_LINK_TYPE_NETNS'', 5),
     (''BPF_LINK_TYPE_XDP'', 6),
     (''BPF_LINK_TYPE_PERF_EVENT'', 7),
     (''BPF_LINK_TYPE_KPROBE_MULTI'', 8),
     (''BPF_LINK_TYPE_STRUCT_OPS'', 9),
     (''BPF_LINK_TYPE_NETFILTER'', 10),
     (''BPF_LINK_TYPE_TCX'', 11),
     (''BPF_LINK_TYPE_UPROBE_MULTI'', 12),
     (''BPF_LINK_TYPE_NETKIT'', 13),
     (''__MAX_BPF_LINK_TYPE'', 14)]"

definition enum_bpf_dynptr_type :: enum_decl where
  "enum_bpf_dynptr_type =
    [(''BPF_DYNPTR_TYPE_INVALID'', 0),
     (''BPF_DYNPTR_TYPE_LOCAL'', 1),
     (''BPF_DYNPTR_TYPE_RINGBUF'', 2),
     (''BPF_DYNPTR_TYPE_SKB'', 3),
     (''BPF_DYNPTR_TYPE_XDP'', 4)]"

definition enum_bpf_iter_state :: enum_decl where
  "enum_bpf_iter_state =
    [(''BPF_ITER_STATE_INVALID'', 0),
     (''BPF_ITER_STATE_ACTIVE'', 1),
     (''BPF_ITER_STATE_DRAINED'', 2)]"

definition enum_bpf_reg_liveness :: enum_decl where
  "enum_bpf_reg_liveness =
    [(''REG_LIVE_NONE'', 0),
     (''REG_LIVE_READ32'', 1),
     (''REG_LIVE_READ64'', 2),
     (''REG_LIVE_READ'', 3),
     (''REG_LIVE_WRITTEN'', 4),
     (''REG_LIVE_DONE'', 8)]"

definition enum_bpf_access_type :: enum_decl where
  "enum_bpf_access_type =
    [(''BPF_READ'', 1),
     (''BPF_WRITE'', 2)]"

definition enum_bpf_text_poke_type :: enum_decl where
  "enum_bpf_text_poke_type =
    [(''BPF_MOD_CALL'', 0),
     (''BPF_MOD_JUMP'', 1)]"

definition enum_perf_record_ksymbol_type :: enum_decl where
  "enum_perf_record_ksymbol_type =
    [(''PERF_RECORD_KSYMBOL_TYPE_UNKNOWN'', 0),
     (''PERF_RECORD_KSYMBOL_TYPE_BPF'', 1),
     (''PERF_RECORD_KSYMBOL_TYPE_OOL'', 2),
     (''PERF_RECORD_KSYMBOL_TYPE_MAX'', 3)]"

definition enum_tca_id :: enum_decl where
  "enum_tca_id =
    [(''TCA_ID_UNSPEC'', 0),
     (''TCA_ID_POLICE'', 1),
     (''TCA_ID_GACT'', 5),
     (''TCA_ID_IPT'', 6),
     (''TCA_ID_PEDIT'', 7),
     (''TCA_ID_MIRRED'', 8),
     (''TCA_ID_NAT'', 9),
     (''TCA_ID_XT'', 10),
     (''TCA_ID_SKBEDIT'', 11),
     (''TCA_ID_VLAN'', 12),
     (''TCA_ID_BPF'', 13),
     (''TCA_ID_CONNMARK'', 14),
     (''TCA_ID_SKBMOD'', 15),
     (''TCA_ID_CSUM'', 16),
     (''TCA_ID_TUNNEL_KEY'', 17),
     (''TCA_ID_SIMP'', 22),
     (''TCA_ID_IFE'', 25),
     (''TCA_ID_SAMPLE'', 26),
     (''TCA_ID_CTINFO'', 27),
     (''TCA_ID_MPLS'', 28),
     (''TCA_ID_CT'', 29),
     (''TCA_ID_GATE'', 30),
     (''__TCA_ID_MAX'', 255)]"

definition enum_of_BPF_F_BPRM_SECUREEXEC :: enum_decl where
  "enum_of_BPF_F_BPRM_SECUREEXEC =
    [(''BPF_F_BPRM_SECUREEXEC'', 1)]"

definition enum_of_BTF_SOCK_TYPE_INET :: enum_decl where
  "enum_of_BTF_SOCK_TYPE_INET =
    [(''BTF_SOCK_TYPE_INET'', 0),
     (''BTF_SOCK_TYPE_INET_CONN'', 1),
     (''BTF_SOCK_TYPE_INET_REQ'', 2),
     (''BTF_SOCK_TYPE_INET_TW'', 3),
     (''BTF_SOCK_TYPE_REQ'', 4),
     (''BTF_SOCK_TYPE_SOCK'', 5),
     (''BTF_SOCK_TYPE_SOCK_COMMON'', 6),
     (''BTF_SOCK_TYPE_TCP'', 7),
     (''BTF_SOCK_TYPE_TCP_REQ'', 8),
     (''BTF_SOCK_TYPE_TCP_TW'', 9),
     (''BTF_SOCK_TYPE_TCP6'', 10),
     (''BTF_SOCK_TYPE_UDP'', 11),
     (''BTF_SOCK_TYPE_UDP6'', 12),
     (''BTF_SOCK_TYPE_UNIX'', 13),
     (''BTF_SOCK_TYPE_MPTCP'', 14),
     (''BTF_SOCK_TYPE_SOCKET'', 15),
     (''MAX_BTF_SOCK_TYPE'', 16)]"

definition enum_of_BPF_LOCAL_STORAGE_GET_F_CREATE :: enum_decl where
  "enum_of_BPF_LOCAL_STORAGE_GET_F_CREATE =
    [(''BPF_LOCAL_STORAGE_GET_F_CREATE'', 1),
     (''BPF_SK_STORAGE_GET_F_CREATE'', 1)]"

definition enum_of_SK_DIAG_BPF_STORAGE_REQ_NONE :: enum_decl where
  "enum_of_SK_DIAG_BPF_STORAGE_REQ_NONE =
    [(''SK_DIAG_BPF_STORAGE_REQ_NONE'', 0),
     (''SK_DIAG_BPF_STORAGE_REQ_MAP_FD'', 1),
     (''__SK_DIAG_BPF_STORAGE_REQ_MAX'', 2)]"

definition enum_of_SK_DIAG_BPF_STORAGE_REP_NONE :: enum_decl where
  "enum_of_SK_DIAG_BPF_STORAGE_REP_NONE =
    [(''SK_DIAG_BPF_STORAGE_REP_NONE'', 0),
     (''SK_DIAG_BPF_STORAGE'', 1),
     (''__SK_DIAG_BPF_STORAGE_REP_MAX'', 2)]"

definition enum_of_SK_DIAG_BPF_STORAGE_NONE :: enum_decl where
  "enum_of_SK_DIAG_BPF_STORAGE_NONE =
    [(''SK_DIAG_BPF_STORAGE_NONE'', 0),
     (''SK_DIAG_BPF_STORAGE_PAD'', 1),
     (''SK_DIAG_BPF_STORAGE_MAP_ID'', 2),
     (''SK_DIAG_BPF_STORAGE_MAP_VALUE'', 3),
     (''__SK_DIAG_BPF_STORAGE_MAX'', 4)]"

definition enum_of_INET_DIAG_NONE :: enum_decl where
  "enum_of_INET_DIAG_NONE =
    [(''INET_DIAG_NONE'', 0),
     (''INET_DIAG_MEMINFO'', 1),
     (''INET_DIAG_INFO'', 2),
     (''INET_DIAG_VEGASINFO'', 3),
     (''INET_DIAG_CONG'', 4),
     (''INET_DIAG_TOS'', 5),
     (''INET_DIAG_TCLASS'', 6),
     (''INET_DIAG_SKMEMINFO'', 7),
     (''INET_DIAG_SHUTDOWN'', 8),
     (''INET_DIAG_DCTCPINFO'', 9),
     (''INET_DIAG_PROTOCOL'', 10),
     (''INET_DIAG_SKV6ONLY'', 11),
     (''INET_DIAG_LOCALS'', 12),
     (''INET_DIAG_PEERS'', 13),
     (''INET_DIAG_PAD'', 14),
     (''INET_DIAG_MARK'', 15),
     (''INET_DIAG_BBRINFO'', 16),
     (''INET_DIAG_CLASS_ID'', 17),
     (''INET_DIAG_MD5SIG'', 18),
     (''INET_DIAG_ULP_INFO'', 19),
     (''INET_DIAG_SK_BPF_STORAGES'', 20),
     (''INET_DIAG_CGROUP_ID'', 21),
     (''INET_DIAG_SOCKOPT'', 22),
     (''__INET_DIAG_MAX'', 23)]"

definition enum_hid_bpf_prog_type :: enum_decl where
  "enum_hid_bpf_prog_type =
    [(''HID_BPF_PROG_TYPE_UNDEF'', -1),
     (''HID_BPF_PROG_TYPE_DEVICE_EVENT'', 0),
     (''HID_BPF_PROG_TYPE_RDESC_FIXUP'', 1),
     (''HID_BPF_PROG_TYPE_MAX'', 2)]"

definition enum_of_BPF_F_SYSCTL_BASE_NAME :: enum_decl where
  "enum_of_BPF_F_SYSCTL_BASE_NAME =
    [(''BPF_F_SYSCTL_BASE_NAME'', 1)]"

definition enum_of_BPF_F_BROADCAST :: enum_decl where
  "enum_of_BPF_F_BROADCAST =
    [(''BPF_F_BROADCAST'', 8),
     (''BPF_F_EXCLUDE_INGRESS'', 16)]"

definition enum_of_TCP_BPF_IPV4 :: enum_decl where
  "enum_of_TCP_BPF_IPV4 =
    [(''TCP_BPF_IPV4'', 0),
     (''TCP_BPF_IPV6'', 1),
     (''TCP_BPF_NUM_PROTS'', 2)]"

definition enum_of_TCP_BPF_BASE :: enum_decl where
  "enum_of_TCP_BPF_BASE =
    [(''TCP_BPF_BASE'', 0),
     (''TCP_BPF_TX'', 1),
     (''TCP_BPF_RX'', 2),
     (''TCP_BPF_TXRX'', 3),
     (''TCP_BPF_NUM_CFGS'', 4)]"

definition enum_btf_func_linkage :: enum_decl where
  "enum_btf_func_linkage =
    [(''BTF_FUNC_STATIC'', 0),
     (''BTF_FUNC_GLOBAL'', 1),
     (''BTF_FUNC_EXTERN'', 2)]"

definition enum_bpf_core_relo_kind :: enum_decl where
  "enum_bpf_core_relo_kind =
    [(''BPF_CORE_FIELD_BYTE_OFFSET'', 0),
     (''BPF_CORE_FIELD_BYTE_SIZE'', 1),
     (''BPF_CORE_FIELD_EXISTS'', 2),
     (''BPF_CORE_FIELD_SIGNED'', 3),
     (''BPF_CORE_FIELD_LSHIFT_U64'', 4),
     (''BPF_CORE_FIELD_RSHIFT_U64'', 5),
     (''BPF_CORE_TYPE_ID_LOCAL'', 6),
     (''BPF_CORE_TYPE_ID_TARGET'', 7),
     (''BPF_CORE_TYPE_EXISTS'', 8),
     (''BPF_CORE_TYPE_SIZE'', 9),
     (''BPF_CORE_ENUMVAL_EXISTS'', 10),
     (''BPF_CORE_ENUMVAL_VALUE'', 11),
     (''BPF_CORE_TYPE_MATCHES'', 12)]"

definition enum_of_BTF_TRACING_TYPE_TASK :: enum_decl where
  "enum_of_BTF_TRACING_TYPE_TASK =
    [(''BTF_TRACING_TYPE_TASK'', 0),
     (''BTF_TRACING_TYPE_FILE'', 1),
     (''BTF_TRACING_TYPE_VMA'', 2),
     (''MAX_BTF_TRACING_TYPE'', 3)]"

definition enum_of_BPF_MAX_LOOPS :: enum_decl where
  "enum_of_BPF_MAX_LOOPS =
    [(''BPF_MAX_LOOPS'', 8388608)]"

definition enum_bpf_stack_slot_type :: enum_decl where
  "enum_bpf_stack_slot_type =
    [(''STACK_INVALID'', 0),
     (''STACK_SPILL'', 1),
     (''STACK_MISC'', 2),
     (''STACK_ZERO'', 3),
     (''STACK_DYNPTR'', 4),
     (''STACK_ITER'', 5)]"

definition enum_bpf_access_src :: enum_decl where
  "enum_bpf_access_src =
    [(''ACCESS_DIRECT'', 1),
     (''ACCESS_HELPER'', 2)]"

definition enum_kfunc_ptr_arg_type :: enum_decl where
  "enum_kfunc_ptr_arg_type =
    [(''KF_ARG_PTR_TO_CTX'', 0),
     (''KF_ARG_PTR_TO_ALLOC_BTF_ID'', 1),
     (''KF_ARG_PTR_TO_REFCOUNTED_KPTR'', 2),
     (''KF_ARG_PTR_TO_DYNPTR'', 3),
     (''KF_ARG_PTR_TO_ITER'', 4),
     (''KF_ARG_PTR_TO_LIST_HEAD'', 5),
     (''KF_ARG_PTR_TO_LIST_NODE'', 6),
     (''KF_ARG_PTR_TO_BTF_ID'', 7),
     (''KF_ARG_PTR_TO_MEM'', 8),
     (''KF_ARG_PTR_TO_MEM_SIZE'', 9),
     (''KF_ARG_PTR_TO_CALLBACK'', 10),
     (''KF_ARG_PTR_TO_RB_ROOT'', 11),
     (''KF_ARG_PTR_TO_RB_NODE'', 12),
     (''KF_ARG_PTR_TO_NULL'', 13),
     (''KF_ARG_PTR_TO_CONST_STR'', 14)]"

definition enum_bpf_iter_feature :: enum_decl where
  "enum_bpf_iter_feature =
    [(''BPF_ITER_RESCHED'', 1)]"

definition enum_of_BPF_F_INGRESS :: enum_decl where
  "enum_of_BPF_F_INGRESS =
    [(''BPF_F_INGRESS'', 1)]"

definition enum_of_BPF_SOCK_OPS_RTO_CB_FLAG :: enum_decl where
  "enum_of_BPF_SOCK_OPS_RTO_CB_FLAG =
    [(''BPF_SOCK_OPS_RTO_CB_FLAG'', 1),
     (''BPF_SOCK_OPS_RETRANS_CB_FLAG'', 2),
     (''BPF_SOCK_OPS_STATE_CB_FLAG'', 4),
     (''BPF_SOCK_OPS_RTT_CB_FLAG'', 8),
     (''BPF_SOCK_OPS_PARSE_ALL_HDR_OPT_CB_FLAG'', 16),
     (''BPF_SOCK_OPS_PARSE_UNKNOWN_HDR_OPT_CB_FLAG'', 32),
     (''BPF_SOCK_OPS_WRITE_HDR_OPT_CB_FLAG'', 64),
     (''BPF_SOCK_OPS_ALL_CB_FLAGS'', 127)]"

definition enum_of_BPF_FLOW_DISSECTOR_F_PARSE_1ST_FRAG :: enum_decl where
  "enum_of_BPF_FLOW_DISSECTOR_F_PARSE_1ST_FRAG =
    [(''BPF_FLOW_DISSECTOR_F_PARSE_1ST_FRAG'', 1),
     (''BPF_FLOW_DISSECTOR_F_STOP_AT_FLOW_LABEL'', 2),
     (''BPF_FLOW_DISSECTOR_F_STOP_AT_ENCAP'', 4)]"

definition enum_bpf_type :: enum_decl where
  "enum_bpf_type =
    [(''BPF_TYPE_UNSPEC'', 0),
     (''BPF_TYPE_PROG'', 1),
     (''BPF_TYPE_MAP'', 2),
     (''BPF_TYPE_LINK'', 3)]"

definition enum_of_BTF_VAR_STATIC :: enum_decl where
  "enum_of_BTF_VAR_STATIC =
    [(''BTF_VAR_STATIC'', 0),
     (''BTF_VAR_GLOBAL_ALLOCATED'', 1),
     (''BTF_VAR_GLOBAL_EXTERN'', 2)]"

definition enum_of_BTF_F_COMPACT :: enum_decl where
  "enum_of_BTF_F_COMPACT =
    [(''BTF_F_COMPACT'', 1),
     (''BTF_F_NONAME'', 2),
     (''BTF_F_PTR_RAW'', 4),
     (''BTF_F_ZERO'', 8)]"

definition enum_of_BTF_FIELDS_MAX :: enum_decl where
  "enum_of_BTF_FIELDS_MAX =
    [(''BTF_FIELDS_MAX'', 10)]"

definition enum_btf_kfunc_hook :: enum_decl where
  "enum_btf_kfunc_hook =
    [(''BTF_KFUNC_HOOK_COMMON'', 0),
     (''BTF_KFUNC_HOOK_XDP'', 1),
     (''BTF_KFUNC_HOOK_TC'', 2),
     (''BTF_KFUNC_HOOK_STRUCT_OPS'', 3),
     (''BTF_KFUNC_HOOK_TRACING'', 4),
     (''BTF_KFUNC_HOOK_SYSCALL'', 5),
     (''BTF_KFUNC_HOOK_FMODRET'', 6),
     (''BTF_KFUNC_HOOK_CGROUP_SKB'', 7),
     (''BTF_KFUNC_HOOK_SCHED_ACT'', 8),
     (''BTF_KFUNC_HOOK_SK_SKB'', 9),
     (''BTF_KFUNC_HOOK_SOCKET_FILTER'', 10),
     (''BTF_KFUNC_HOOK_LWT'', 11),
     (''BTF_KFUNC_HOOK_NETFILTER'', 12),
     (''BTF_KFUNC_HOOK_MAX'', 13)]"

definition enum_of_BTF_KFUNC_SET_MAX_CNT :: enum_decl where
  "enum_of_BTF_KFUNC_SET_MAX_CNT =
    [(''BTF_KFUNC_SET_MAX_CNT'', 256),
     (''BTF_DTOR_KFUNC_MAX_CNT'', 256),
     (''BTF_KFUNC_FILTER_MAX_CNT'', 16)]"

definition enum_of_BTF_FIELD_IGNORE :: enum_decl where
  "enum_of_BTF_FIELD_IGNORE =
    [(''BTF_FIELD_IGNORE'', 0),
     (''BTF_FIELD_FOUND'', 1)]"

definition enum_of___ctx_convertBPF_PROG_TYPE_SOCKET_FILTER :: enum_decl where
  "enum_of___ctx_convertBPF_PROG_TYPE_SOCKET_FILTER =
    [(''__ctx_convertBPF_PROG_TYPE_SOCKET_FILTER'', 0),
     (''__ctx_convertBPF_PROG_TYPE_SCHED_CLS'', 1),
     (''__ctx_convertBPF_PROG_TYPE_SCHED_ACT'', 2),
     (''__ctx_convertBPF_PROG_TYPE_XDP'', 3),
     (''__ctx_convertBPF_PROG_TYPE_CGROUP_SKB'', 4),
     (''__ctx_convertBPF_PROG_TYPE_CGROUP_SOCK'', 5),
     (''__ctx_convertBPF_PROG_TYPE_CGROUP_SOCK_ADDR'', 6),
     (''__ctx_convertBPF_PROG_TYPE_LWT_IN'', 7),
     (''__ctx_convertBPF_PROG_TYPE_LWT_OUT'', 8),
     (''__ctx_convertBPF_PROG_TYPE_LWT_XMIT'', 9),
     (''__ctx_convertBPF_PROG_TYPE_LWT_SEG6LOCAL'', 10),
     (''__ctx_convertBPF_PROG_TYPE_SOCK_OPS'', 11),
     (''__ctx_convertBPF_PROG_TYPE_SK_SKB'', 12),
     (''__ctx_convertBPF_PROG_TYPE_SK_MSG'', 13),
     (''__ctx_convertBPF_PROG_TYPE_FLOW_DISSECTOR'', 14),
     (''__ctx_convertBPF_PROG_TYPE_KPROBE'', 15),
     (''__ctx_convertBPF_PROG_TYPE_TRACEPOINT'', 16),
     (''__ctx_convertBPF_PROG_TYPE_PERF_EVENT'', 17),
     (''__ctx_convertBPF_PROG_TYPE_RAW_TRACEPOINT'', 18),
     (''__ctx_convertBPF_PROG_TYPE_RAW_TRACEPOINT_WRITABLE'', 19),
     (''__ctx_convertBPF_PROG_TYPE_TRACING'', 20),
     (''__ctx_convertBPF_PROG_TYPE_CGROUP_DEVICE'', 21),
     (''__ctx_convertBPF_PROG_TYPE_CGROUP_SYSCTL'', 22),
     (''__ctx_convertBPF_PROG_TYPE_CGROUP_SOCKOPT'', 23),
     (''__ctx_convertBPF_PROG_TYPE_LIRC_MODE2'', 24),
     (''__ctx_convertBPF_PROG_TYPE_SK_REUSEPORT'', 25),
     (''__ctx_convertBPF_PROG_TYPE_SK_LOOKUP'', 26),
     (''__ctx_convertBPF_PROG_TYPE_STRUCT_OPS'', 27),
     (''__ctx_convertBPF_PROG_TYPE_EXT'', 28),
     (''__ctx_convertBPF_PROG_TYPE_LSM'', 29),
     (''__ctx_convertBPF_PROG_TYPE_SYSCALL'', 30),
     (''__ctx_convertBPF_PROG_TYPE_NETFILTER'', 31),
     (''__ctx_convert_unused'', 32)]"

definition enum_bpf_struct_walk_result :: enum_decl where
  "enum_bpf_struct_walk_result =
    [(''WALK_SCALAR'', 0),
     (''WALK_PTR'', 1),
     (''WALK_STRUCT'', 2)]"

definition enum_of_BTF_MODULE_F_LIVE :: enum_decl where
  "enum_of_BTF_MODULE_F_LIVE =
    [(''BTF_MODULE_F_LIVE'', 1)]"

definition enum_of_BPF_F_KPROBE_MULTI_RETURN :: enum_decl where
  "enum_of_BPF_F_KPROBE_MULTI_RETURN =
    [(''BPF_F_KPROBE_MULTI_RETURN'', 1)]"

definition enum_of_BPF_F_UPROBE_MULTI_RETURN :: enum_decl where
  "enum_of_BPF_F_UPROBE_MULTI_RETURN =
    [(''BPF_F_UPROBE_MULTI_RETURN'', 1)]"

definition enum_of_BPF_F_INDEX_MASK :: enum_decl where
  "enum_of_BPF_F_INDEX_MASK =
    [(''BPF_F_INDEX_MASK'', 4294967295),
     (''BPF_F_CURRENT_CPU'', 4294967295),
     (''BPF_F_CTXLEN_MASK'', 4503595332403200)]"

definition enum_of_BPF_F_GET_BRANCH_RECORDS_SIZE :: enum_decl where
  "enum_of_BPF_F_GET_BRANCH_RECORDS_SIZE =
    [(''BPF_F_GET_BRANCH_RECORDS_SIZE'', 1)]"

definition enum_bpf_task_fd_type :: enum_decl where
  "enum_bpf_task_fd_type =
    [(''BPF_FD_TYPE_RAW_TRACEPOINT'', 0),
     (''BPF_FD_TYPE_TRACEPOINT'', 1),
     (''BPF_FD_TYPE_KPROBE'', 2),
     (''BPF_FD_TYPE_KRETPROBE'', 3),
     (''BPF_FD_TYPE_UPROBE'', 4),
     (''BPF_FD_TYPE_URETPROBE'', 5)]"

definition enum_bpf_cmd :: enum_decl where
  "enum_bpf_cmd =
    [(''BPF_MAP_CREATE'', 0),
     (''BPF_MAP_LOOKUP_ELEM'', 1),
     (''BPF_MAP_UPDATE_ELEM'', 2),
     (''BPF_MAP_DELETE_ELEM'', 3),
     (''BPF_MAP_GET_NEXT_KEY'', 4),
     (''BPF_PROG_LOAD'', 5),
     (''BPF_OBJ_PIN'', 6),
     (''BPF_OBJ_GET'', 7),
     (''BPF_PROG_ATTACH'', 8),
     (''BPF_PROG_DETACH'', 9),
     (''BPF_PROG_TEST_RUN'', 10),
     (''BPF_PROG_RUN'', 10),
     (''BPF_PROG_GET_NEXT_ID'', 11),
     (''BPF_MAP_GET_NEXT_ID'', 12),
     (''BPF_PROG_GET_FD_BY_ID'', 13),
     (''BPF_MAP_GET_FD_BY_ID'', 14),
     (''BPF_OBJ_GET_INFO_BY_FD'', 15),
     (''BPF_PROG_QUERY'', 16),
     (''BPF_RAW_TRACEPOINT_OPEN'', 17),
     (''BPF_BTF_LOAD'', 18),
     (''BPF_BTF_GET_FD_BY_ID'', 19),
     (''BPF_TASK_FD_QUERY'', 20),
     (''BPF_MAP_LOOKUP_AND_DELETE_ELEM'', 21),
     (''BPF_MAP_FREEZE'', 22),
     (''BPF_BTF_GET_NEXT_ID'', 23),
     (''BPF_MAP_LOOKUP_BATCH'', 24),
     (''BPF_MAP_LOOKUP_AND_DELETE_BATCH'', 25),
     (''BPF_MAP_UPDATE_BATCH'', 26),
     (''BPF_MAP_DELETE_BATCH'', 27),
     (''BPF_LINK_CREATE'', 28),
     (''BPF_LINK_UPDATE'', 29),
     (''BPF_LINK_GET_FD_BY_ID'', 30),
     (''BPF_LINK_GET_NEXT_ID'', 31),
     (''BPF_ENABLE_STATS'', 32),
     (''BPF_ITER_CREATE'', 33),
     (''BPF_LINK_DETACH'', 34),
     (''BPF_PROG_BIND_MAP'', 35)]"

definition enum_bpf_perf_event_type :: enum_decl where
  "enum_bpf_perf_event_type =
    [(''BPF_PERF_EVENT_UNSPEC'', 0),
     (''BPF_PERF_EVENT_UPROBE'', 1),
     (''BPF_PERF_EVENT_URETPROBE'', 2),
     (''BPF_PERF_EVENT_KPROBE'', 3),
     (''BPF_PERF_EVENT_KRETPROBE'', 4),
     (''BPF_PERF_EVENT_TRACEPOINT'', 5),
     (''BPF_PERF_EVENT_EVENT'', 6)]"

definition enum_bpf_stats_type :: enum_decl where
  "enum_bpf_stats_type =
    [(''BPF_STATS_RUN_TIME'', 0)]"

definition enum_perf_bpf_event_type :: enum_decl where
  "enum_perf_bpf_event_type =
    [(''PERF_BPF_EVENT_UNKNOWN'', 0),
     (''PERF_BPF_EVENT_PROG_LOAD'', 1),
     (''PERF_BPF_EVENT_PROG_UNLOAD'', 2),
     (''PERF_BPF_EVENT_MAX'', 3)]"

definition enum_bpf_audit :: enum_decl where
  "enum_bpf_audit =
    [(''BPF_AUDIT_LOAD'', 0),
     (''BPF_AUDIT_UNLOAD'', 1),
     (''BPF_AUDIT_MAX'', 2)]"

definition enum_of_BPF_WRITE_HDR_TCP_CURRENT_MSS :: enum_decl where
  "enum_of_BPF_WRITE_HDR_TCP_CURRENT_MSS =
    [(''BPF_WRITE_HDR_TCP_CURRENT_MSS'', 1),
     (''BPF_WRITE_HDR_TCP_SYNACK_COOKIE'', 2)]"

definition enum_perf_event_type :: enum_decl where
  "enum_perf_event_type =
    [(''PERF_RECORD_MMAP'', 1),
     (''PERF_RECORD_LOST'', 2),
     (''PERF_RECORD_COMM'', 3),
     (''PERF_RECORD_EXIT'', 4),
     (''PERF_RECORD_THROTTLE'', 5),
     (''PERF_RECORD_UNTHROTTLE'', 6),
     (''PERF_RECORD_FORK'', 7),
     (''PERF_RECORD_READ'', 8),
     (''PERF_RECORD_SAMPLE'', 9),
     (''PERF_RECORD_MMAP2'', 10),
     (''PERF_RECORD_AUX'', 11),
     (''PERF_RECORD_ITRACE_START'', 12),
     (''PERF_RECORD_LOST_SAMPLES'', 13),
     (''PERF_RECORD_SWITCH'', 14),
     (''PERF_RECORD_SWITCH_CPU_WIDE'', 15),
     (''PERF_RECORD_NAMESPACES'', 16),
     (''PERF_RECORD_KSYMBOL'', 17),
     (''PERF_RECORD_BPF_EVENT'', 18),
     (''PERF_RECORD_CGROUP'', 19),
     (''PERF_RECORD_TEXT_POKE'', 20),
     (''PERF_RECORD_AUX_OUTPUT_HW_ID'', 21),
     (''PERF_RECORD_MAX'', 22)]"

definition enum_bpf_task_vma_iter_find_op :: enum_decl where
  "enum_bpf_task_vma_iter_find_op =
    [(''task_vma_iter_first_vma'', 0),
     (''task_vma_iter_next_vma'', 1),
     (''task_vma_iter_find_vma'', 2)]"

definition enum_of_BPF_TASK_ITER_ALL_PROCS :: enum_decl where
  "enum_of_BPF_TASK_ITER_ALL_PROCS =
    [(''BPF_TASK_ITER_ALL_PROCS'', 0),
     (''BPF_TASK_ITER_ALL_THREADS'', 1),
     (''BPF_TASK_ITER_PROC_THREADS'', 2)]"

definition enum_bpf_stack_build_id_status :: enum_decl where
  "enum_bpf_stack_build_id_status =
    [(''BPF_STACK_BUILD_ID_EMPTY'', 0),
     (''BPF_STACK_BUILD_ID_VALID'', 1),
     (''BPF_STACK_BUILD_ID_IP'', 2)]"

definition enum_of_BPF_F_SKIP_FIELD_MASK :: enum_decl where
  "enum_of_BPF_F_SKIP_FIELD_MASK =
    [(''BPF_F_SKIP_FIELD_MASK'', 255),
     (''BPF_F_USER_STACK'', 256),
     (''BPF_F_FAST_STACK_CMP'', 512),
     (''BPF_F_REUSE_STACKID'', 1024),
     (''BPF_F_USER_BUILD_ID'', 2048)]"

definition enum_of_BPF_F_RECOMPUTE_CSUM :: enum_decl where
  "enum_of_BPF_F_RECOMPUTE_CSUM =
    [(''BPF_F_RECOMPUTE_CSUM'', 1),
     (''BPF_F_INVALIDATE_HASH'', 2)]"

definition enum_of_BPF_F_HDR_FIELD_MASK :: enum_decl where
  "enum_of_BPF_F_HDR_FIELD_MASK =
    [(''BPF_F_HDR_FIELD_MASK'', 15)]"

definition enum_of_BPF_F_PSEUDO_HDR :: enum_decl where
  "enum_of_BPF_F_PSEUDO_HDR =
    [(''BPF_F_PSEUDO_HDR'', 16),
     (''BPF_F_MARK_MANGLED_0'', 32),
     (''BPF_F_MARK_ENFORCE'', 64)]"

definition enum_of_BPF_F_TUNINFO_IPV6 :: enum_decl where
  "enum_of_BPF_F_TUNINFO_IPV6 =
    [(''BPF_F_TUNINFO_IPV6'', 1)]"

definition enum_of_BPF_F_ZERO_CSUM_TX :: enum_decl where
  "enum_of_BPF_F_ZERO_CSUM_TX =
    [(''BPF_F_ZERO_CSUM_TX'', 2),
     (''BPF_F_DONT_FRAGMENT'', 4),
     (''BPF_F_SEQ_NUMBER'', 8),
     (''BPF_F_NO_TUNNEL_KEY'', 16)]"

definition enum_of_BPF_F_TUNINFO_FLAGS :: enum_decl where
  "enum_of_BPF_F_TUNINFO_FLAGS =
    [(''BPF_F_TUNINFO_FLAGS'', 16)]"

definition enum_of_BPF_CSUM_LEVEL_QUERY :: enum_decl where
  "enum_of_BPF_CSUM_LEVEL_QUERY =
    [(''BPF_CSUM_LEVEL_QUERY'', 0),
     (''BPF_CSUM_LEVEL_INC'', 1),
     (''BPF_CSUM_LEVEL_DEC'', 2),
     (''BPF_CSUM_LEVEL_RESET'', 3)]"

definition enum_of_BPF_F_ADJ_ROOM_FIXED_GSO :: enum_decl where
  "enum_of_BPF_F_ADJ_ROOM_FIXED_GSO =
    [(''BPF_F_ADJ_ROOM_FIXED_GSO'', 1),
     (''BPF_F_ADJ_ROOM_ENCAP_L3_IPV4'', 2),
     (''BPF_F_ADJ_ROOM_ENCAP_L3_IPV6'', 4),
     (''BPF_F_ADJ_ROOM_ENCAP_L4_GRE'', 8),
     (''BPF_F_ADJ_ROOM_ENCAP_L4_UDP'', 16),
     (''BPF_F_ADJ_ROOM_NO_CSUM_RESET'', 32),
     (''BPF_F_ADJ_ROOM_ENCAP_L2_ETH'', 64),
     (''BPF_F_ADJ_ROOM_DECAP_L3_IPV4'', 128),
     (''BPF_F_ADJ_ROOM_DECAP_L3_IPV6'', 256)]"

definition enum_of_BPF_ADJ_ROOM_ENCAP_L2_MASK :: enum_decl where
  "enum_of_BPF_ADJ_ROOM_ENCAP_L2_MASK =
    [(''BPF_ADJ_ROOM_ENCAP_L2_MASK'', 255),
     (''BPF_ADJ_ROOM_ENCAP_L2_SHIFT'', 56)]"

definition enum_of_BPF_SK_LOOKUP_F_REPLACE :: enum_decl where
  "enum_of_BPF_SK_LOOKUP_F_REPLACE =
    [(''BPF_SK_LOOKUP_F_REPLACE'', 1),
     (''BPF_SK_LOOKUP_F_NO_REUSEPORT'', 2)]"

definition enum_bpf_adj_room_mode :: enum_decl where
  "enum_bpf_adj_room_mode =
    [(''BPF_ADJ_ROOM_NET'', 0),
     (''BPF_ADJ_ROOM_MAC'', 1)]"

definition enum_bpf_hdr_start_off :: enum_decl where
  "enum_bpf_hdr_start_off =
    [(''BPF_HDR_START_MAC'', 0),
     (''BPF_HDR_START_NET'', 1)]"

definition enum_bpf_lwt_encap_mode :: enum_decl where
  "enum_bpf_lwt_encap_mode =
    [(''BPF_LWT_ENCAP_SEG6'', 0),
     (''BPF_LWT_ENCAP_SEG6_INLINE'', 1),
     (''BPF_LWT_ENCAP_IP'', 2)]"

definition enum_of_BPF_SKB_TSTAMP_UNSPEC :: enum_decl where
  "enum_of_BPF_SKB_TSTAMP_UNSPEC =
    [(''BPF_SKB_TSTAMP_UNSPEC'', 0),
     (''BPF_SKB_TSTAMP_DELIVERY_MONO'', 1)]"

definition enum_of_TCP_BPF_IW :: enum_decl where
  "enum_of_TCP_BPF_IW =
    [(''TCP_BPF_IW'', 1001),
     (''TCP_BPF_SNDCWND_CLAMP'', 1002),
     (''TCP_BPF_DELACK_MAX'', 1003),
     (''TCP_BPF_RTO_MIN'', 1004),
     (''TCP_BPF_SYN'', 1005),
     (''TCP_BPF_SYN_IP'', 1006),
     (''TCP_BPF_SYN_MAC'', 1007)]"

definition enum_of_BPF_LOAD_HDR_OPT_TCP_SYN :: enum_decl where
  "enum_of_BPF_LOAD_HDR_OPT_TCP_SYN =
    [(''BPF_LOAD_HDR_OPT_TCP_SYN'', 1)]"

definition enum_of_BPF_FIB_LOOKUP_DIRECT :: enum_decl where
  "enum_of_BPF_FIB_LOOKUP_DIRECT =
    [(''BPF_FIB_LOOKUP_DIRECT'', 1),
     (''BPF_FIB_LOOKUP_OUTPUT'', 2),
     (''BPF_FIB_LOOKUP_SKIP_NEIGH'', 4),
     (''BPF_FIB_LOOKUP_TBID'', 8),
     (''BPF_FIB_LOOKUP_SRC'', 16)]"

definition enum_of_BPF_FIB_LKUP_RET_SUCCESS :: enum_decl where
  "enum_of_BPF_FIB_LKUP_RET_SUCCESS =
    [(''BPF_FIB_LKUP_RET_SUCCESS'', 0),
     (''BPF_FIB_LKUP_RET_BLACKHOLE'', 1),
     (''BPF_FIB_LKUP_RET_UNREACHABLE'', 2),
     (''BPF_FIB_LKUP_RET_PROHIBIT'', 3),
     (''BPF_FIB_LKUP_RET_NOT_FWDED'', 4),
     (''BPF_FIB_LKUP_RET_FWD_DISABLED'', 5),
     (''BPF_FIB_LKUP_RET_UNSUPP_LWT'', 6),
     (''BPF_FIB_LKUP_RET_NO_NEIGH'', 7),
     (''BPF_FIB_LKUP_RET_FRAG_NEEDED'', 8),
     (''BPF_FIB_LKUP_RET_NO_SRC_ADDR'', 9)]"

definition enum_bpf_check_mtu_flags :: enum_decl where
  "enum_bpf_check_mtu_flags =
    [(''BPF_MTU_CHK_SEGS'', 1)]"

definition enum_bpf_check_mtu_ret :: enum_decl where
  "enum_bpf_check_mtu_ret =
    [(''BPF_MTU_CHK_RET_SUCCESS'', 0),
     (''BPF_MTU_CHK_RET_FRAG_NEEDED'', 1),
     (''BPF_MTU_CHK_RET_SEGS_TOOBIG'', 2)]"

definition enum_of_SEG6_LOCAL_ACTION_UNSPEC :: enum_decl where
  "enum_of_SEG6_LOCAL_ACTION_UNSPEC =
    [(''SEG6_LOCAL_ACTION_UNSPEC'', 0),
     (''SEG6_LOCAL_ACTION_END'', 1),
     (''SEG6_LOCAL_ACTION_END_X'', 2),
     (''SEG6_LOCAL_ACTION_END_T'', 3),
     (''SEG6_LOCAL_ACTION_END_DX2'', 4),
     (''SEG6_LOCAL_ACTION_END_DX6'', 5),
     (''SEG6_LOCAL_ACTION_END_DX4'', 6),
     (''SEG6_LOCAL_ACTION_END_DT6'', 7),
     (''SEG6_LOCAL_ACTION_END_DT4'', 8),
     (''SEG6_LOCAL_ACTION_END_B6'', 9),
     (''SEG6_LOCAL_ACTION_END_B6_ENCAP'', 10),
     (''SEG6_LOCAL_ACTION_END_BM'', 11),
     (''SEG6_LOCAL_ACTION_END_S'', 12),
     (''SEG6_LOCAL_ACTION_END_AS'', 13),
     (''SEG6_LOCAL_ACTION_END_AM'', 14),
     (''SEG6_LOCAL_ACTION_END_BPF'', 15),
     (''SEG6_LOCAL_ACTION_END_DT46'', 16),
     (''__SEG6_LOCAL_ACTION_MAX'', 17)]"

definition enum_of_BPF_F_NEIGH :: enum_decl where
  "enum_of_BPF_F_NEIGH =
    [(''BPF_F_NEIGH'', 2),
     (''BPF_F_PEER'', 4),
     (''BPF_F_NEXTHOP'', 8)]"

definition enum_of_BPF_F_TIMER_ABS :: enum_decl where
  "enum_of_BPF_F_TIMER_ABS =
    [(''BPF_F_TIMER_ABS'', 1),
     (''BPF_F_TIMER_CPU_PIN'', 2)]"

definition enum_of_BPF_F_CURRENT_NETNS :: enum_decl where
  "enum_of_BPF_F_CURRENT_NETNS =
    [(''BPF_F_CURRENT_NETNS'', -1)]"

definition enum_of_BPF_XFRM_STATE_OPTS_SZ :: enum_decl where
  "enum_of_BPF_XFRM_STATE_OPTS_SZ =
    [(''BPF_XFRM_STATE_OPTS_SZ'', 36)]"

definition enum_hid_bpf_attach_flags :: enum_decl where
  "enum_hid_bpf_attach_flags =
    [(''HID_BPF_FLAG_NONE'', 0),
     (''HID_BPF_FLAG_INSERT_HEAD'', 1),
     (''HID_BPF_FLAG_MAX'', 2)]"

definition enum_of_BPF_SKEL_KERNEL :: enum_decl where
  "enum_of_BPF_SKEL_KERNEL =
    [(''BPF_SKEL_KERNEL'', 1)]"

definition enum_of_SEG6_LOCAL_UNSPEC :: enum_decl where
  "enum_of_SEG6_LOCAL_UNSPEC =
    [(''SEG6_LOCAL_UNSPEC'', 0),
     (''SEG6_LOCAL_ACTION'', 1),
     (''SEG6_LOCAL_SRH'', 2),
     (''SEG6_LOCAL_TABLE'', 3),
     (''SEG6_LOCAL_NH4'', 4),
     (''SEG6_LOCAL_NH6'', 5),
     (''SEG6_LOCAL_IIF'', 6),
     (''SEG6_LOCAL_OIF'', 7),
     (''SEG6_LOCAL_BPF'', 8),
     (''SEG6_LOCAL_VRFTABLE'', 9),
     (''SEG6_LOCAL_COUNTERS'', 10),
     (''SEG6_LOCAL_FLAVORS'', 11),
     (''__SEG6_LOCAL_MAX'', 12)]"

definition enum_of_SEG6_LOCAL_BPF_PROG_UNSPEC :: enum_decl where
  "enum_of_SEG6_LOCAL_BPF_PROG_UNSPEC =
    [(''SEG6_LOCAL_BPF_PROG_UNSPEC'', 0),
     (''SEG6_LOCAL_BPF_PROG'', 1),
     (''SEG6_LOCAL_BPF_PROG_NAME'', 2),
     (''__SEG6_LOCAL_BPF_PROG_MAX'', 3)]"

definition enum_of_BPF_TCP_ESTABLISHED :: enum_decl where
  "enum_of_BPF_TCP_ESTABLISHED =
    [(''BPF_TCP_ESTABLISHED'', 1),
     (''BPF_TCP_SYN_SENT'', 2),
     (''BPF_TCP_SYN_RECV'', 3),
     (''BPF_TCP_FIN_WAIT1'', 4),
     (''BPF_TCP_FIN_WAIT2'', 5),
     (''BPF_TCP_TIME_WAIT'', 6),
     (''BPF_TCP_CLOSE'', 7),
     (''BPF_TCP_CLOSE_WAIT'', 8),
     (''BPF_TCP_LAST_ACK'', 9),
     (''BPF_TCP_LISTEN'', 10),
     (''BPF_TCP_CLOSING'', 11),
     (''BPF_TCP_NEW_SYN_RECV'', 12),
     (''BPF_TCP_BOUND_INACTIVE'', 13),
     (''BPF_TCP_MAX_STATES'', 14)]"

definition enum_bpf_lru_list_type :: enum_decl where
  "enum_bpf_lru_list_type =
    [(''BPF_LRU_LIST_T_ACTIVE'', 0),
     (''BPF_LRU_LIST_T_INACTIVE'', 1),
     (''BPF_LRU_LIST_T_FREE'', 2),
     (''BPF_LRU_LOCAL_LIST_T_FREE'', 3),
     (''BPF_LRU_LOCAL_LIST_T_PENDING'', 4)]"

definition enum_of_BPF_RB_NO_WAKEUP :: enum_decl where
  "enum_of_BPF_RB_NO_WAKEUP =
    [(''BPF_RB_NO_WAKEUP'', 1),
     (''BPF_RB_FORCE_WAKEUP'', 2)]"

definition enum_of_BPF_RB_AVAIL_DATA :: enum_decl where
  "enum_of_BPF_RB_AVAIL_DATA =
    [(''BPF_RB_AVAIL_DATA'', 0),
     (''BPF_RB_RING_SIZE'', 1),
     (''BPF_RB_CONS_POS'', 2),
     (''BPF_RB_PROD_POS'', 3)]"

definition enum_of_BPF_RINGBUF_BUSY_BIT :: enum_decl where
  "enum_of_BPF_RINGBUF_BUSY_BIT =
    [(''BPF_RINGBUF_BUSY_BIT'', 2147483648),
     (''BPF_RINGBUF_DISCARD_BIT'', 1073741824),
     (''BPF_RINGBUF_HDR_SZ'', 8)]"

definition enum_bpf_struct_ops_state :: enum_decl where
  "enum_bpf_struct_ops_state =
    [(''BPF_STRUCT_OPS_STATE_INIT'', 0),
     (''BPF_STRUCT_OPS_STATE_INUSE'', 1),
     (''BPF_STRUCT_OPS_STATE_TOBEFREE'', 2),
     (''BPF_STRUCT_OPS_STATE_READY'', 3)]"

definition enum_of_BPF_STRUCT_OPS_TYPE_bpf_dummy_ops :: enum_decl where
  "enum_of_BPF_STRUCT_OPS_TYPE_bpf_dummy_ops =
    [(''BPF_STRUCT_OPS_TYPE_bpf_dummy_ops'', 0),
     (''BPF_STRUCT_OPS_TYPE_tcp_congestion_ops'', 1),
     (''__NR_BPF_STRUCT_OPS_TYPE'', 2)]"

end
