(* ===== verification/VmlinuxTypes.thy ===== *)
theory VmlinuxTypes
  imports VmlinuxEnums
begin

text \<open>
  The kernel types of \<open>internal/maps/bpf/vmlinux.h\<close> that the BPF types contain by value and that are
  not BPF themselves: integer typedefs, atomics, locks, lists, work items, counters. Each is the
  layout descriptor of its declaration: pointers and function pointers are \<open>TPtr\<close>, an anonymous
  struct or union stands where it is declared under the empty name, and a full-width unnamed bit
  field (\<open>long: 64\<close>), which bpftool writes for padding, is an unnamed field of that
  width (in every such type another field has at least its alignment).
\<close>

named_theorems layout

definition typedef___u8 :: ctype where
  "typedef___u8 = TInt 1"

definition typedef___u16 :: ctype where
  "typedef___u16 = TInt 2"

definition typedef___u32 :: ctype where
  "typedef___u32 = TInt 4"

definition typedef___u64 :: ctype where
  "typedef___u64 = TInt 8"

definition typedef_u8 :: ctype where
  "typedef_u8 = typedef___u8"

definition typedef_u16 :: ctype where
  "typedef_u16 = typedef___u16"

definition typedef_u32 :: ctype where
  "typedef_u32 = typedef___u32"

definition typedef_u64 :: ctype where
  "typedef_u64 = typedef___u64"

definition typedef___kernel_ulong_t :: ctype where
  "typedef___kernel_ulong_t = TInt 8"

definition typedef___kernel_size_t :: ctype where
  "typedef___kernel_size_t = typedef___kernel_ulong_t"

definition typedef_bool :: ctype where
  "typedef_bool = TInt 1"

definition typedef_size_t :: ctype where
  "typedef_size_t = typedef___kernel_size_t"

definition typedef___s32 :: ctype where
  "typedef___s32 = TInt 4"

definition typedef___s64 :: ctype where
  "typedef___s64 = TInt 8"

definition typedef_s32 :: ctype where
  "typedef_s32 = typedef___s32"

definition typedef_s64 :: ctype where
  "typedef_s64 = typedef___s64"

definition typedef_atomic_t :: ctype where
  "typedef_atomic_t = TStruct
    [(''counter'', TInt 4)]"

definition typedef_atomic64_t :: ctype where
  "typedef_atomic64_t = TStruct
    [(''counter'', typedef_s64)]"

definition struct_list_head :: ctype where
  "struct_list_head = TStruct
    [(''next'', TPtr),
     (''prev'', TPtr)]"

definition struct_hlist_head :: ctype where
  "struct_hlist_head = TStruct
    [(''first'', TPtr)]"

definition struct_hlist_node :: ctype where
  "struct_hlist_node = TStruct
    [(''next'', TPtr),
     (''pprev'', TPtr)]"

definition struct_callback_head :: ctype where
  "struct_callback_head = TStruct
    [(''next'', TPtr),
     (''func'', TPtr)]"

definition struct_lock_class_key :: ctype where
  "struct_lock_class_key = TStruct []"

definition struct_qspinlock :: ctype where
  "struct_qspinlock = TStruct
    [('''', TUnion
       [(''val'', typedef_atomic_t),
        ('''', TStruct
          [(''locked'', typedef_u8),
           (''pending'', typedef_u8)]),
        ('''', TStruct
          [(''locked_pending'', typedef_u16),
           (''tail'', typedef_u16)])])]"

definition typedef_arch_spinlock_t :: ctype where
  "typedef_arch_spinlock_t = struct_qspinlock"

definition struct_raw_spinlock :: ctype where
  "struct_raw_spinlock = TStruct
    [(''raw_lock'', typedef_arch_spinlock_t)]"

definition typedef_raw_spinlock_t :: ctype where
  "typedef_raw_spinlock_t = struct_raw_spinlock"

definition struct_refcount_struct :: ctype where
  "struct_refcount_struct = TStruct
    [(''refs'', typedef_atomic_t)]"

definition typedef_refcount_t :: ctype where
  "typedef_refcount_t = struct_refcount_struct"

definition typedef_atomic_long_t :: ctype where
  "typedef_atomic_long_t = typedef_atomic64_t"

definition struct_optimistic_spin_queue :: ctype where
  "struct_optimistic_spin_queue = TStruct
    [(''tail'', typedef_atomic_t)]"

definition struct_mutex :: ctype where
  "struct_mutex = TStruct
    [(''owner'', typedef_atomic_long_t),
     (''wait_lock'', typedef_raw_spinlock_t),
     (''osq'', struct_optimistic_spin_queue),
     (''wait_list'', struct_list_head)]"

definition struct_rb_node :: ctype where
  "struct_rb_node = TStruct
    [(''__rb_parent_color'', TInt 8),
     (''rb_right'', TPtr),
     (''rb_left'', TPtr)]"

definition struct_latch_tree_node :: ctype where
  "struct_latch_tree_node = TStruct
    [(''node'', TArr struct_rb_node 2)]"

definition struct_llist_node :: ctype where
  "struct_llist_node = TStruct
    [(''next'', TPtr)]"

definition struct___call_single_node :: ctype where
  "struct___call_single_node = TStruct
    [(''llist'', struct_llist_node),
     ('''', TUnion
       [(''u_flags'', TInt 4),
        (''a_flags'', typedef_atomic_t)]),
     (''src'', typedef_u16),
     (''dst'', typedef_u16)]"

definition struct_rb_root :: ctype where
  "struct_rb_root = TStruct
    [(''rb_node'', TPtr)]"

definition struct_spinlock :: ctype where
  "struct_spinlock = TStruct
    [('''', TUnion
       [(''rlock'', struct_raw_spinlock)])]"

definition typedef_spinlock_t :: ctype where
  "typedef_spinlock_t = struct_spinlock"

definition struct_llist_head :: ctype where
  "struct_llist_head = TStruct
    [(''first'', TPtr)]"

definition struct_percpu_counter :: ctype where
  "struct_percpu_counter = TStruct
    [(''lock'', typedef_raw_spinlock_t),
     (''count'', typedef_s64),
     (''list'', struct_list_head),
     (''counters'', TPtr)]"

definition typedef_work_func_t :: ctype where
  "typedef_work_func_t = TPtr"

definition struct_work_struct :: ctype where
  "struct_work_struct = TStruct
    [(''data'', typedef_atomic_long_t),
     (''entry'', struct_list_head),
     (''func'', typedef_work_func_t)]"

definition struct_swait_queue_head :: ctype where
  "struct_swait_queue_head = TStruct
    [(''lock'', typedef_raw_spinlock_t),
     (''task_list'', struct_list_head)]"

definition struct_completion :: ctype where
  "struct_completion = TStruct
    [(''done'', TInt 4),
     (''wait'', struct_swait_queue_head)]"

definition struct_path :: ctype where
  "struct_path = TStruct
    [(''mnt'', TPtr),
     (''dentry'', TPtr)]"

definition struct_rcuwait :: ctype where
  "struct_rcuwait = TStruct
    [(''task'', TPtr)]"

definition typedef_local_t :: ctype where
  "typedef_local_t = TStruct
    [(''a'', typedef_atomic_long_t)]"

definition struct_irq_work :: ctype where
  "struct_irq_work = TStruct
    [(''node'', struct___call_single_node),
     (''func'', TPtr),
     (''irqwait'', struct_rcuwait)]"

definition typedef_ftrace_func_t :: ctype where
  "typedef_ftrace_func_t = TPtr"

definition struct_ftrace_ops_hash :: ctype where
  "struct_ftrace_ops_hash = TStruct
    [(''notrace_hash'', TPtr),
     (''filter_hash'', TPtr),
     (''regex_lock'', struct_mutex)]"

definition typedef_ftrace_ops_func_t :: ctype where
  "typedef_ftrace_ops_func_t = TPtr"

definition struct_ftrace_ops :: ctype where
  "struct_ftrace_ops = TStruct
    [(''func'', typedef_ftrace_func_t),
     (''next'', TPtr),
     (''flags'', TInt 8),
     (''private'', TPtr),
     (''saved_func'', typedef_ftrace_func_t),
     (''local_hash'', struct_ftrace_ops_hash),
     (''func_hash'', TPtr),
     (''old_hash'', struct_ftrace_ops_hash),
     (''trampoline'', TInt 8),
     (''trampoline_size'', TInt 8),
     (''list'', struct_list_head),
     (''ops_func'', typedef_ftrace_ops_func_t),
     (''direct_call'', TInt 8)]"

definition struct_rcu_work :: ctype where
  "struct_rcu_work = TStruct
    [(''work'', struct_work_struct),
     (''rcu'', struct_callback_head),
     (''wq'', TPtr)]"

definition struct_percpu_ref :: ctype where
  "struct_percpu_ref = TStruct
    [(''percpu_count_ptr'', TInt 8),
     (''data'', TPtr)]"

definition typedef___be16 :: ctype where
  "typedef___be16 = typedef___u16"

definition typedef___be32 :: ctype where
  "typedef___be32 = typedef___u32"

definition struct_pcpu_freelist_head :: ctype where
  "struct_pcpu_freelist_head = TStruct
    [(''first'', TPtr),
     (''lock'', typedef_raw_spinlock_t)]"

definition struct_pcpu_freelist :: ctype where
  "struct_pcpu_freelist = TStruct
    [(''freelist'', TPtr),
     (''extralist'', struct_pcpu_freelist_head)]"

definition struct_sk_psock_progs :: ctype where
  "struct_sk_psock_progs = TStruct
    [(''msg_parser'', TPtr),
     (''stream_parser'', TPtr),
     (''stream_verdict'', TPtr),
     (''skb_verdict'', TPtr)]"

definition struct_fprobe :: ctype where
  "struct_fprobe = TStruct
    [(''ops'', struct_ftrace_ops),
     (''nmissed'', TInt 8),
     (''flags'', TInt 4),
     (''rethook'', TPtr),
     (''entry_data_size'', typedef_size_t),
     (''nr_maxactive'', TInt 4),
     (''entry_handler'', TPtr),
     (''exit_handler'', TPtr)]"

definition typedef_del_from_htab_func :: ctype where
  "typedef_del_from_htab_func = TPtr"

section \<open>Sizes and alignments\<close>

lemma enum_layouts [layout]:
  "enum_ctype enum_bpf_map_type = TInt 4"
  "enum_ctype enum_bpf_prog_type = TInt 4"
  by (simp_all add: enum_ctype_def enum_bpf_map_type_def enum_bpf_prog_type_def)

lemma layout_typedef___u8 [layout]: "csize 8 typedef___u8 = 1" "calign 8 typedef___u8 = 1"
  by (simp_all add: typedef___u8_def pad_up_def layout del: One_nat_def)

lemma layout_typedef___u16 [layout]: "csize 8 typedef___u16 = 2" "calign 8 typedef___u16 = 2"
  by (simp_all add: typedef___u16_def pad_up_def layout del: One_nat_def)

lemma layout_typedef___u32 [layout]: "csize 8 typedef___u32 = 4" "calign 8 typedef___u32 = 4"
  by (simp_all add: typedef___u32_def pad_up_def layout del: One_nat_def)

lemma layout_typedef___u64 [layout]: "csize 8 typedef___u64 = 8" "calign 8 typedef___u64 = 8"
  by (simp_all add: typedef___u64_def pad_up_def layout del: One_nat_def)

lemma layout_typedef_u8 [layout]: "csize 8 typedef_u8 = 1" "calign 8 typedef_u8 = 1"
  by (simp_all add: typedef_u8_def pad_up_def layout del: One_nat_def)

lemma layout_typedef_u16 [layout]: "csize 8 typedef_u16 = 2" "calign 8 typedef_u16 = 2"
  by (simp_all add: typedef_u16_def pad_up_def layout del: One_nat_def)

lemma layout_typedef_u32 [layout]: "csize 8 typedef_u32 = 4" "calign 8 typedef_u32 = 4"
  by (simp_all add: typedef_u32_def pad_up_def layout del: One_nat_def)

lemma layout_typedef_u64 [layout]: "csize 8 typedef_u64 = 8" "calign 8 typedef_u64 = 8"
  by (simp_all add: typedef_u64_def pad_up_def layout del: One_nat_def)

lemma layout_typedef_bool [layout]: "csize 8 typedef_bool = 1" "calign 8 typedef_bool = 1"
  by (simp_all add: typedef_bool_def pad_up_def layout del: One_nat_def)

lemma layout_typedef___s32 [layout]: "csize 8 typedef___s32 = 4" "calign 8 typedef___s32 = 4"
  by (simp_all add: typedef___s32_def pad_up_def layout del: One_nat_def)

lemma layout_typedef___s64 [layout]: "csize 8 typedef___s64 = 8" "calign 8 typedef___s64 = 8"
  by (simp_all add: typedef___s64_def pad_up_def layout del: One_nat_def)

lemma layout_typedef_s64 [layout]: "csize 8 typedef_s64 = 8" "calign 8 typedef_s64 = 8"
  by (simp_all add: typedef_s64_def pad_up_def layout del: One_nat_def)

lemma layout_typedef_atomic_t [layout]: "csize 8 typedef_atomic_t = 4" "calign 8 typedef_atomic_t = 4"
  by (simp_all add: typedef_atomic_t_def pad_up_def layout del: One_nat_def)

lemma layout_typedef_atomic64_t [layout]: "csize 8 typedef_atomic64_t = 8" "calign 8 typedef_atomic64_t = 8"
  by (simp_all add: typedef_atomic64_t_def pad_up_def layout del: One_nat_def)

lemma layout_struct_list_head [layout]: "csize 8 struct_list_head = 16" "calign 8 struct_list_head = 8"
  by (simp_all add: struct_list_head_def pad_up_def layout del: One_nat_def)

lemma layout_struct_hlist_node [layout]: "csize 8 struct_hlist_node = 16" "calign 8 struct_hlist_node = 8"
  by (simp_all add: struct_hlist_node_def pad_up_def layout del: One_nat_def)

lemma layout_struct_callback_head [layout]: "csize 8 struct_callback_head = 16" "calign 8 struct_callback_head = 8"
  by (simp_all add: struct_callback_head_def pad_up_def layout del: One_nat_def)

lemma layout_struct_lock_class_key [layout]: "csize 8 struct_lock_class_key = 0" "calign 8 struct_lock_class_key = 1"
  by (simp_all add: struct_lock_class_key_def pad_up_def layout del: One_nat_def)

lemma layout_struct_qspinlock [layout]: "csize 8 struct_qspinlock = 4" "calign 8 struct_qspinlock = 4"
  by (simp_all add: struct_qspinlock_def pad_up_def layout del: One_nat_def)

lemma layout_typedef_arch_spinlock_t [layout]: "csize 8 typedef_arch_spinlock_t = 4" "calign 8 typedef_arch_spinlock_t = 4"
  by (simp_all add: typedef_arch_spinlock_t_def pad_up_def layout del: One_nat_def)

lemma layout_struct_raw_spinlock [layout]: "csize 8 struct_raw_spinlock = 4" "calign 8 struct_raw_spinlock = 4"
  by (simp_all add: struct_raw_spinlock_def pad_up_def layout del: One_nat_def)

lemma layout_typedef_raw_spinlock_t [layout]: "csize 8 typedef_raw_spinlock_t = 4" "calign 8 typedef_raw_spinlock_t = 4"
  by (simp_all add: typedef_raw_spinlock_t_def pad_up_def layout del: One_nat_def)

lemma layout_typedef_atomic_long_t [layout]: "csize 8 typedef_atomic_long_t = 8" "calign 8 typedef_atomic_long_t = 8"
  by (simp_all add: typedef_atomic_long_t_def pad_up_def layout del: One_nat_def)

lemma layout_struct_optimistic_spin_queue [layout]: "csize 8 struct_optimistic_spin_queue = 4" "calign 8 struct_optimistic_spin_queue = 4"
  by (simp_all add: struct_optimistic_spin_queue_def pad_up_def layout del: One_nat_def)

lemma layout_struct_mutex [layout]: "csize 8 struct_mutex = 32" "calign 8 struct_mutex = 8"
  by (simp_all add: struct_mutex_def pad_up_def layout del: One_nat_def)

lemma layout_struct_rb_node [layout]: "csize 8 struct_rb_node = 24" "calign 8 struct_rb_node = 8"
  by (simp_all add: struct_rb_node_def pad_up_def layout del: One_nat_def)

lemma layout_struct_llist_node [layout]: "csize 8 struct_llist_node = 8" "calign 8 struct_llist_node = 8"
  by (simp_all add: struct_llist_node_def pad_up_def layout del: One_nat_def)

lemma layout_struct___call_single_node [layout]: "csize 8 struct___call_single_node = 16" "calign 8 struct___call_single_node = 8"
  by (simp_all add: struct___call_single_node_def pad_up_def layout del: One_nat_def)

lemma layout_struct_rb_root [layout]: "csize 8 struct_rb_root = 8" "calign 8 struct_rb_root = 8"
  by (simp_all add: struct_rb_root_def pad_up_def layout del: One_nat_def)

lemma layout_struct_spinlock [layout]: "csize 8 struct_spinlock = 4" "calign 8 struct_spinlock = 4"
  by (simp_all add: struct_spinlock_def pad_up_def layout del: One_nat_def)

lemma layout_typedef_spinlock_t [layout]: "csize 8 typedef_spinlock_t = 4" "calign 8 typedef_spinlock_t = 4"
  by (simp_all add: typedef_spinlock_t_def pad_up_def layout del: One_nat_def)

lemma layout_struct_llist_head [layout]: "csize 8 struct_llist_head = 8" "calign 8 struct_llist_head = 8"
  by (simp_all add: struct_llist_head_def pad_up_def layout del: One_nat_def)

lemma layout_struct_percpu_counter [layout]: "csize 8 struct_percpu_counter = 40" "calign 8 struct_percpu_counter = 8"
  by (simp_all add: struct_percpu_counter_def pad_up_def layout del: One_nat_def)

lemma layout_typedef_work_func_t [layout]: "csize 8 typedef_work_func_t = 8" "calign 8 typedef_work_func_t = 8"
  by (simp_all add: typedef_work_func_t_def pad_up_def layout del: One_nat_def)

lemma layout_struct_work_struct [layout]: "csize 8 struct_work_struct = 32" "calign 8 struct_work_struct = 8"
  by (simp_all add: struct_work_struct_def pad_up_def layout del: One_nat_def)

lemma layout_struct_swait_queue_head [layout]: "csize 8 struct_swait_queue_head = 24" "calign 8 struct_swait_queue_head = 8"
  by (simp_all add: struct_swait_queue_head_def pad_up_def layout del: One_nat_def)

lemma layout_struct_completion [layout]: "csize 8 struct_completion = 32" "calign 8 struct_completion = 8"
  by (simp_all add: struct_completion_def pad_up_def layout del: One_nat_def)

lemma layout_struct_rcuwait [layout]: "csize 8 struct_rcuwait = 8" "calign 8 struct_rcuwait = 8"
  by (simp_all add: struct_rcuwait_def pad_up_def layout del: One_nat_def)

lemma layout_typedef_local_t [layout]: "csize 8 typedef_local_t = 8" "calign 8 typedef_local_t = 8"
  by (simp_all add: typedef_local_t_def pad_up_def layout del: One_nat_def)

lemma layout_struct_irq_work [layout]: "csize 8 struct_irq_work = 32" "calign 8 struct_irq_work = 8"
  by (simp_all add: struct_irq_work_def pad_up_def layout del: One_nat_def)

lemma layout_struct_rcu_work [layout]: "csize 8 struct_rcu_work = 56" "calign 8 struct_rcu_work = 8"
  by (simp_all add: struct_rcu_work_def pad_up_def layout del: One_nat_def)

lemma layout_typedef___be16 [layout]: "csize 8 typedef___be16 = 2" "calign 8 typedef___be16 = 2"
  by (simp_all add: typedef___be16_def pad_up_def layout del: One_nat_def)

lemma layout_typedef___be32 [layout]: "csize 8 typedef___be32 = 4" "calign 8 typedef___be32 = 4"
  by (simp_all add: typedef___be32_def pad_up_def layout del: One_nat_def)

lemma layout_struct_pcpu_freelist_head [layout]: "csize 8 struct_pcpu_freelist_head = 16" "calign 8 struct_pcpu_freelist_head = 8"
  by (simp_all add: struct_pcpu_freelist_head_def pad_up_def layout del: One_nat_def)

lemma layout_struct_pcpu_freelist [layout]: "csize 8 struct_pcpu_freelist = 24" "calign 8 struct_pcpu_freelist = 8"
  by (simp_all add: struct_pcpu_freelist_def pad_up_def layout del: One_nat_def)

lemma layout_struct_sk_psock_progs [layout]: "csize 8 struct_sk_psock_progs = 32" "calign 8 struct_sk_psock_progs = 8"
  by (simp_all add: struct_sk_psock_progs_def pad_up_def layout del: One_nat_def)

lemma layout_typedef_del_from_htab_func [layout]: "csize 8 typedef_del_from_htab_func = 8" "calign 8 typedef_del_from_htab_func = 8"
  by (simp_all add: typedef_del_from_htab_func_def pad_up_def layout del: One_nat_def)

end
