(* ===== verification/VmlinuxUapi.thy ===== *)
theory VmlinuxUapi
  imports VmlinuxTypes
begin

text \<open>
  The user interface of BPF in \<open>internal/maps/bpf/vmlinux.h\<close>: the argument of the \<open>bpf\<close> system call, the
  information structs it fills, the contexts and arguments of BPF programs and helpers, and the
  records of BTF.
\<close>

definition struct_btf_type :: ctype where
  "struct_btf_type = TStruct
    [(''name_off'', typedef___u32),
     (''info'', typedef___u32),
     ('''', TUnion
       [(''size'', typedef___u32),
        (''type'', typedef___u32)])]"

definition struct_btf_param :: ctype where
  "struct_btf_param = TStruct
    [(''name_off'', typedef___u32),
     (''type'', typedef___u32)]"

definition union_bpf_attr_part1 :: "field list" where
  "union_bpf_attr_part1 =
    [('''', TStruct
       [(''map_type'', typedef___u32),
        (''key_size'', typedef___u32),
        (''value_size'', typedef___u32),
        (''max_entries'', typedef___u32),
        (''map_flags'', typedef___u32),
        (''inner_map_fd'', typedef___u32),
        (''numa_node'', typedef___u32),
        (''map_name'', TArr (TInt 1) 16),
        (''map_ifindex'', typedef___u32),
        (''btf_fd'', typedef___u32),
        (''btf_key_type_id'', typedef___u32),
        (''btf_value_type_id'', typedef___u32),
        (''btf_vmlinux_value_type_id'', typedef___u32),
        (''map_extra'', typedef___u64)]),
     ('''', TStruct
       [(''map_fd'', typedef___u32),
        (''key'', typedef___u64),
        ('''', TUnion
          [(''value'', typedef___u64),
           (''next_key'', typedef___u64)]),
        (''flags'', typedef___u64)]),
     (''batch'', TStruct
       [(''in_batch'', typedef___u64),
        (''out_batch'', typedef___u64),
        (''keys'', typedef___u64),
        (''values'', typedef___u64),
        (''count'', typedef___u32),
        (''map_fd'', typedef___u32),
        (''elem_flags'', typedef___u64),
        (''flags'', typedef___u64)]),
     ('''', TStruct
       [(''prog_type'', typedef___u32),
        (''insn_cnt'', typedef___u32),
        (''insns'', typedef___u64),
        (''license'', typedef___u64),
        (''log_level'', typedef___u32),
        (''log_size'', typedef___u32),
        (''log_buf'', typedef___u64),
        (''kern_version'', typedef___u32),
        (''prog_flags'', typedef___u32),
        (''prog_name'', TArr (TInt 1) 16),
        (''prog_ifindex'', typedef___u32),
        (''expected_attach_type'', typedef___u32),
        (''prog_btf_fd'', typedef___u32),
        (''func_info_rec_size'', typedef___u32),
        (''func_info'', typedef___u64),
        (''func_info_cnt'', typedef___u32),
        (''line_info_rec_size'', typedef___u32),
        (''line_info'', typedef___u64),
        (''line_info_cnt'', typedef___u32),
        (''attach_btf_id'', typedef___u32),
        ('''', TUnion
          [(''attach_prog_fd'', typedef___u32),
           (''attach_btf_obj_fd'', typedef___u32)]),
        (''core_relo_cnt'', typedef___u32),
        (''fd_array'', typedef___u64),
        (''core_relos'', typedef___u64),
        (''core_relo_rec_size'', typedef___u32),
        (''log_true_size'', typedef___u32)]),
     ('''', TStruct
       [(''pathname'', typedef___u64),
        (''bpf_fd'', typedef___u32),
        (''file_flags'', typedef___u32),
        (''path_fd'', typedef___s32)]),
     ('''', TStruct
       [('''', TUnion
          [(''target_fd'', typedef___u32),
           (''target_ifindex'', typedef___u32)]),
        (''attach_bpf_fd'', typedef___u32),
        (''attach_type'', typedef___u32),
        (''attach_flags'', typedef___u32),
        (''replace_bpf_fd'', typedef___u32),
        ('''', TUnion
          [(''relative_fd'', typedef___u32),
           (''relative_id'', typedef___u32)]),
        (''expected_revision'', typedef___u64)]),
     (''test'', TStruct
       [(''prog_fd'', typedef___u32),
        (''retval'', typedef___u32),
        (''data_size_in'', typedef___u32),
        (''data_size_out'', typedef___u32),
        (''data_in'', typedef___u64),
        (''data_out'', typedef___u64),
        (''repeat'', typedef___u32),
        (''duration'', typedef___u32),
        (''ctx_size_in'', typedef___u32),
        (''ctx_size_out'', typedef___u32),
        (''ctx_in'', typedef___u64),
        (''ctx_out'', typedef___u64),
        (''flags'', typedef___u32),
        (''cpu'', typedef___u32),
        (''batch_size'', typedef___u32)]),
     ('''', TStruct
       [('''', TUnion
          [(''start_id'', typedef___u32),
           (''prog_id'', typedef___u32),
           (''map_id'', typedef___u32),
           (''btf_id'', typedef___u32),
           (''link_id'', typedef___u32)]),
        (''next_id'', typedef___u32),
        (''open_flags'', typedef___u32)]),
     (''info'', TStruct
       [(''bpf_fd'', typedef___u32),
        (''info_len'', typedef___u32),
        (''info'', typedef___u64)])]"

definition union_bpf_attr_part2 :: "field list" where
  "union_bpf_attr_part2 =
    [(''query'', TStruct
       [('''', TUnion
          [(''target_fd'', typedef___u32),
           (''target_ifindex'', typedef___u32)]),
        (''attach_type'', typedef___u32),
        (''query_flags'', typedef___u32),
        (''attach_flags'', typedef___u32),
        (''prog_ids'', typedef___u64),
        ('''', TUnion
          [(''prog_cnt'', typedef___u32),
           (''count'', typedef___u32)]),
        (''prog_attach_flags'', typedef___u64),
        (''link_ids'', typedef___u64),
        (''link_attach_flags'', typedef___u64),
        (''revision'', typedef___u64)]),
     (''raw_tracepoint'', TStruct
       [(''name'', typedef___u64),
        (''prog_fd'', typedef___u32)]),
     ('''', TStruct
       [(''btf'', typedef___u64),
        (''btf_log_buf'', typedef___u64),
        (''btf_size'', typedef___u32),
        (''btf_log_size'', typedef___u32),
        (''btf_log_level'', typedef___u32),
        (''btf_log_true_size'', typedef___u32)]),
     (''task_fd_query'', TStruct
       [(''pid'', typedef___u32),
        (''fd'', typedef___u32),
        (''flags'', typedef___u32),
        (''buf_len'', typedef___u32),
        (''buf'', typedef___u64),
        (''prog_id'', typedef___u32),
        (''fd_type'', typedef___u32),
        (''probe_offset'', typedef___u64),
        (''probe_addr'', typedef___u64)]),
     (''link_create'', TStruct
       [('''', TUnion
          [(''prog_fd'', typedef___u32),
           (''map_fd'', typedef___u32)]),
        ('''', TUnion
          [(''target_fd'', typedef___u32),
           (''target_ifindex'', typedef___u32)]),
        (''attach_type'', typedef___u32),
        (''flags'', typedef___u32),
        ('''', TUnion
          [(''target_btf_id'', typedef___u32),
           ('''', TStruct
             [(''iter_info'', typedef___u64),
              (''iter_info_len'', typedef___u32)]),
           (''perf_event'', TStruct
             [(''bpf_cookie'', typedef___u64)]),
           (''kprobe_multi'', TStruct
             [(''flags'', typedef___u32),
              (''cnt'', typedef___u32),
              (''syms'', typedef___u64),
              (''addrs'', typedef___u64),
              (''cookies'', typedef___u64)]),
           (''tracing'', TStruct
             [(''target_btf_id'', typedef___u32),
              (''cookie'', typedef___u64)]),
           (''netfilter'', TStruct
             [(''pf'', typedef___u32),
              (''hooknum'', typedef___u32),
              (''priority'', typedef___s32),
              (''flags'', typedef___u32)]),
           (''tcx'', TStruct
             [('''', TUnion
                [(''relative_fd'', typedef___u32),
                 (''relative_id'', typedef___u32)]),
              (''expected_revision'', typedef___u64)]),
           (''uprobe_multi'', TStruct
             [(''path'', typedef___u64),
              (''offsets'', typedef___u64),
              (''ref_ctr_offsets'', typedef___u64),
              (''cookies'', typedef___u64),
              (''cnt'', typedef___u32),
              (''flags'', typedef___u32),
              (''pid'', typedef___u32)]),
           (''netkit'', TStruct
             [('''', TUnion
                [(''relative_fd'', typedef___u32),
                 (''relative_id'', typedef___u32)]),
              (''expected_revision'', typedef___u64)])])]),
     (''link_update'', TStruct
       [(''link_fd'', typedef___u32),
        ('''', TUnion
          [(''new_prog_fd'', typedef___u32),
           (''new_map_fd'', typedef___u32)]),
        (''flags'', typedef___u32),
        ('''', TUnion
          [(''old_prog_fd'', typedef___u32),
           (''old_map_fd'', typedef___u32)])]),
     (''link_detach'', TStruct
       [(''link_fd'', typedef___u32)]),
     (''enable_stats'', TStruct
       [(''type'', typedef___u32)]),
     (''iter_create'', TStruct
       [(''link_fd'', typedef___u32),
        (''flags'', typedef___u32)]),
     (''prog_bind_map'', TStruct
       [(''prog_fd'', typedef___u32),
        (''map_fd'', typedef___u32),
        (''flags'', typedef___u32)])]"

definition union_bpf_attr :: ctype where
  "union_bpf_attr = TUnion (union_bpf_attr_part1 @ union_bpf_attr_part2)"

definition struct_bpf_link_info :: ctype where
  "struct_bpf_link_info = TStruct
    [(''type'', typedef___u32),
     (''id'', typedef___u32),
     (''prog_id'', typedef___u32),
     ('''', TUnion
       [(''raw_tracepoint'', TStruct
          [(''tp_name'', typedef___u64),
           (''tp_name_len'', typedef___u32)]),
        (''tracing'', TStruct
          [(''attach_type'', typedef___u32),
           (''target_obj_id'', typedef___u32),
           (''target_btf_id'', typedef___u32)]),
        (''cgroup'', TStruct
          [(''cgroup_id'', typedef___u64),
           (''attach_type'', typedef___u32)]),
        (''iter'', TStruct
          [(''target_name'', typedef___u64),
           (''target_name_len'', typedef___u32),
           ('''', TUnion
             [(''map'', TStruct
                [(''map_id'', typedef___u32)])]),
           ('''', TUnion
             [(''cgroup'', TStruct
                [(''cgroup_id'', typedef___u64),
                 (''order'', typedef___u32)]),
              (''task'', TStruct
                [(''tid'', typedef___u32),
                 (''pid'', typedef___u32)])])]),
        (''netns'', TStruct
          [(''netns_ino'', typedef___u32),
           (''attach_type'', typedef___u32)]),
        (''xdp'', TStruct
          [(''ifindex'', typedef___u32)]),
        (''struct_ops'', TStruct
          [(''map_id'', typedef___u32)]),
        (''netfilter'', TStruct
          [(''pf'', typedef___u32),
           (''hooknum'', typedef___u32),
           (''priority'', typedef___s32),
           (''flags'', typedef___u32)]),
        (''kprobe_multi'', TStruct
          [(''addrs'', typedef___u64),
           (''count'', typedef___u32),
           (''flags'', typedef___u32),
           (''missed'', typedef___u64)]),
        (''uprobe_multi'', TStruct
          [(''path'', typedef___u64),
           (''offsets'', typedef___u64),
           (''ref_ctr_offsets'', typedef___u64),
           (''cookies'', typedef___u64),
           (''path_size'', typedef___u32),
           (''count'', typedef___u32),
           (''flags'', typedef___u32),
           (''pid'', typedef___u32)]),
        (''perf_event'', TStruct
          [(''type'', typedef___u32),
           ('''', TUnion
             [(''uprobe'', TStruct
                [(''file_name'', typedef___u64),
                 (''name_len'', typedef___u32),
                 (''offset'', typedef___u32)]),
              (''kprobe'', TStruct
                [(''func_name'', typedef___u64),
                 (''name_len'', typedef___u32),
                 (''offset'', typedef___u32),
                 (''addr'', typedef___u64),
                 (''missed'', typedef___u64)]),
              (''tracepoint'', TStruct
                [(''tp_name'', typedef___u64),
                 (''name_len'', typedef___u32)]),
              (''event'', TStruct
                [(''config'', typedef___u64),
                 (''type'', typedef___u32)])])]),
        (''tcx'', TStruct
          [(''ifindex'', typedef___u32),
           (''attach_type'', typedef___u32)]),
        (''netkit'', TStruct
          [(''ifindex'', typedef___u32),
           (''attach_type'', typedef___u32)])])]"

definition struct_bpf_func_info :: ctype where
  "struct_bpf_func_info = TStruct
    [(''insn_off'', typedef___u32),
     (''type_id'', typedef___u32)]"

definition struct_bpf_line_info :: ctype where
  "struct_bpf_line_info = TStruct
    [(''insn_off'', typedef___u32),
     (''file_name_off'', typedef___u32),
     (''line_off'', typedef___u32),
     (''line_col'', typedef___u32)]"

definition struct_btf_header :: ctype where
  "struct_btf_header = TStruct
    [(''magic'', typedef___u16),
     (''version'', typedef___u8),
     (''flags'', typedef___u8),
     (''hdr_len'', typedef___u32),
     (''type_off'', typedef___u32),
     (''type_len'', typedef___u32),
     (''str_off'', typedef___u32),
     (''str_len'', typedef___u32)]"

definition struct_bpf_flow_keys :: ctype where
  "struct_bpf_flow_keys = TStruct
    [(''nhoff'', typedef___u16),
     (''thoff'', typedef___u16),
     (''addr_proto'', typedef___u16),
     (''is_frag'', typedef___u8),
     (''is_first_frag'', typedef___u8),
     (''is_encap'', typedef___u8),
     (''ip_proto'', typedef___u8),
     (''n_proto'', typedef___be16),
     (''sport'', typedef___be16),
     (''dport'', typedef___be16),
     ('''', TUnion
       [('''', TStruct
          [(''ipv4_src'', typedef___be32),
           (''ipv4_dst'', typedef___be32)]),
        ('''', TStruct
          [(''ipv6_src'', TArr typedef___u32 4),
           (''ipv6_dst'', TArr typedef___u32 4)])]),
     (''flags'', typedef___u32),
     (''flow_label'', typedef___be32)]"

definition struct_bpf_sock :: ctype where
  "struct_bpf_sock = TStruct
    [(''bound_dev_if'', typedef___u32),
     (''family'', typedef___u32),
     (''type'', typedef___u32),
     (''protocol'', typedef___u32),
     (''mark'', typedef___u32),
     (''priority'', typedef___u32),
     (''src_ip4'', typedef___u32),
     (''src_ip6'', TArr typedef___u32 4),
     (''src_port'', typedef___u32),
     (''dst_port'', typedef___be16),
     (''dst_ip4'', typedef___u32),
     (''dst_ip6'', TArr typedef___u32 4),
     (''state'', typedef___u32),
     (''rx_queue_mapping'', typedef___s32)]"

definition struct_btf_member :: ctype where
  "struct_btf_member = TStruct
    [(''name_off'', typedef___u32),
     (''type'', typedef___u32),
     (''offset'', typedef___u32)]"

definition struct_bpf_cgroup_dev_ctx :: ctype where
  "struct_bpf_cgroup_dev_ctx = TStruct
    [(''access_type'', typedef___u32),
     (''major'', typedef___u32),
     (''minor'', typedef___u32)]"

definition struct_btf_array :: ctype where
  "struct_btf_array = TStruct
    [(''type'', typedef___u32),
     (''index_type'', typedef___u32),
     (''nelems'', typedef___u32)]"

definition struct_bpf_devmap_val :: ctype where
  "struct_bpf_devmap_val = TStruct
    [(''ifindex'', typedef___u32),
     (''bpf_prog'', TUnion
       [(''fd'', TInt 4),
        (''id'', typedef___u32)])]"

definition struct_btf_var_secinfo :: ctype where
  "struct_btf_var_secinfo = TStruct
    [(''type'', typedef___u32),
     (''offset'', typedef___u32),
     (''size'', typedef___u32)]"

definition struct_bpf_core_relo :: ctype where
  "struct_bpf_core_relo = TStruct
    [(''insn_off'', typedef___u32),
     (''type_id'', typedef___u32),
     (''access_str_off'', typedef___u32),
     (''kind'', enum_ctype enum_bpf_core_relo_kind)]"

definition struct_bpf_map_info :: ctype where
  "struct_bpf_map_info = TStruct
    [(''type'', typedef___u32),
     (''id'', typedef___u32),
     (''key_size'', typedef___u32),
     (''value_size'', typedef___u32),
     (''max_entries'', typedef___u32),
     (''map_flags'', typedef___u32),
     (''name'', TArr (TInt 1) 16),
     (''ifindex'', typedef___u32),
     (''btf_vmlinux_value_type_id'', typedef___u32),
     (''netns_dev'', typedef___u64),
     (''netns_ino'', typedef___u64),
     (''btf_id'', typedef___u32),
     (''btf_key_type_id'', typedef___u32),
     (''btf_value_type_id'', typedef___u32),
     (''map_extra'', typedef___u64)]"

definition struct_bpf_cpumap_val :: ctype where
  "struct_bpf_cpumap_val = TStruct
    [(''qsize'', typedef___u32),
     (''bpf_prog'', TUnion
       [(''fd'', TInt 4),
        (''id'', typedef___u32)])]"

definition struct_btf_enum :: ctype where
  "struct_btf_enum = TStruct
    [(''name_off'', typedef___u32),
     (''val'', typedef___s32)]"

definition struct_btf_var :: ctype where
  "struct_btf_var = TStruct
    [(''linkage'', typedef___u32)]"

definition struct_btf_decl_tag :: ctype where
  "struct_btf_decl_tag = TStruct
    [(''component_idx'', typedef___s32)]"

definition struct_btf_enum64 :: ctype where
  "struct_btf_enum64 = TStruct
    [(''name_off'', typedef___u32),
     (''val_lo32'', typedef___u32),
     (''val_hi32'', typedef___u32)]"

definition struct_bpf_btf_info :: ctype where
  "struct_bpf_btf_info = TStruct
    [(''btf'', typedef___u64),
     (''btf_size'', typedef___u32),
     (''id'', typedef___u32),
     (''name'', typedef___u64),
     (''name_len'', typedef___u32),
     (''kernel_btf'', typedef___u32)]"

definition struct_bpf_sock_addr :: ctype where
  "struct_bpf_sock_addr = TStruct
    [(''user_family'', typedef___u32),
     (''user_ip4'', typedef___u32),
     (''user_ip6'', TArr typedef___u32 4),
     (''user_port'', typedef___u32),
     (''family'', typedef___u32),
     (''type'', typedef___u32),
     (''protocol'', typedef___u32),
     (''msg_src_ip4'', typedef___u32),
     (''msg_src_ip6'', TArr typedef___u32 4),
     ('''', TUnion
       [(''sk'', TPtr)])]"

definition struct_bpf_sock_ops :: ctype where
  "struct_bpf_sock_ops = TStruct
    [(''op'', typedef___u32),
     ('''', TUnion
       [(''args'', TArr typedef___u32 4),
        (''reply'', typedef___u32),
        (''replylong'', TArr typedef___u32 4)]),
     (''family'', typedef___u32),
     (''remote_ip4'', typedef___u32),
     (''local_ip4'', typedef___u32),
     (''remote_ip6'', TArr typedef___u32 4),
     (''local_ip6'', TArr typedef___u32 4),
     (''remote_port'', typedef___u32),
     (''local_port'', typedef___u32),
     (''is_fullsock'', typedef___u32),
     (''snd_cwnd'', typedef___u32),
     (''srtt_us'', typedef___u32),
     (''bpf_sock_ops_cb_flags'', typedef___u32),
     (''state'', typedef___u32),
     (''rtt_min'', typedef___u32),
     (''snd_ssthresh'', typedef___u32),
     (''rcv_nxt'', typedef___u32),
     (''snd_nxt'', typedef___u32),
     (''snd_una'', typedef___u32),
     (''mss_cache'', typedef___u32),
     (''ecn_flags'', typedef___u32),
     (''rate_delivered'', typedef___u32),
     (''rate_interval_us'', typedef___u32),
     (''packets_out'', typedef___u32),
     (''retrans_out'', typedef___u32),
     (''total_retrans'', typedef___u32),
     (''segs_in'', typedef___u32),
     (''data_segs_in'', typedef___u32),
     (''segs_out'', typedef___u32),
     (''data_segs_out'', typedef___u32),
     (''lost_out'', typedef___u32),
     (''sacked_out'', typedef___u32),
     (''sk_txhash'', typedef___u32),
     (''bytes_received'', typedef___u64),
     (''bytes_acked'', typedef___u64),
     ('''', TUnion
       [(''sk'', TPtr)]),
     ('''', TUnion
       [(''skb_data'', TPtr)]),
     ('''', TUnion
       [(''skb_data_end'', TPtr)]),
     (''skb_len'', typedef___u32),
     (''skb_tcp_flags'', typedef___u32),
     (''skb_hwtstamp'', typedef___u64)]"

definition struct_bpf_sockopt :: ctype where
  "struct_bpf_sockopt = TStruct
    [('''', TUnion
       [(''sk'', TPtr)]),
     ('''', TUnion
       [(''optval'', TPtr)]),
     ('''', TUnion
       [(''optval_end'', TPtr)]),
     (''level'', typedef___s32),
     (''optname'', typedef___s32),
     (''optlen'', typedef___s32),
     (''retval'', typedef___s32)]"

definition struct_bpf_sk_lookup :: ctype where
  "struct_bpf_sk_lookup = TStruct
    [('''', TUnion
       [('''', TUnion
          [(''sk'', TPtr)]),
        (''cookie'', typedef___u64)]),
     (''family'', typedef___u32),
     (''protocol'', typedef___u32),
     (''remote_ip4'', typedef___u32),
     (''remote_ip6'', TArr typedef___u32 4),
     (''remote_port'', typedef___be16),
     (''local_ip4'', typedef___u32),
     (''local_ip6'', TArr typedef___u32 4),
     (''local_port'', typedef___u32),
     (''ingress_ifindex'', typedef___u32)]"

definition struct_bpf_perf_event_value :: ctype where
  "struct_bpf_perf_event_value = TStruct
    [(''counter'', typedef___u64),
     (''enabled'', typedef___u64),
     (''running'', typedef___u64)]"

definition struct_btf_ptr :: ctype where
  "struct_btf_ptr = TStruct
    [(''ptr'', TPtr),
     (''type_id'', typedef___u32),
     (''flags'', typedef___u32)]"

definition struct_bpf_spin_lock :: ctype where
  "struct_bpf_spin_lock = TStruct
    [(''val'', typedef___u32)]"

definition struct_bpf_stack_build_id :: ctype where
  "struct_bpf_stack_build_id = TStruct
    [(''status'', typedef___s32),
     (''build_id'', TArr (TInt 1) 20),
     ('''', TUnion
       [(''offset'', typedef___u64),
        (''ip'', typedef___u64)])]"

definition struct_bpf_tunnel_key :: ctype where
  "struct_bpf_tunnel_key = TStruct
    [(''tunnel_id'', typedef___u32),
     ('''', TUnion
       [(''remote_ipv4'', typedef___u32),
        (''remote_ipv6'', TArr typedef___u32 4)]),
     (''tunnel_tos'', typedef___u8),
     (''tunnel_ttl'', typedef___u8),
     ('''', TUnion
       [(''tunnel_ext'', typedef___u16),
        (''tunnel_flags'', typedef___be16)]),
     (''tunnel_label'', typedef___u32),
     ('''', TUnion
       [(''local_ipv4'', typedef___u32),
        (''local_ipv6'', TArr typedef___u32 4)])]"

definition struct_bpf_xfrm_state :: ctype where
  "struct_bpf_xfrm_state = TStruct
    [(''reqid'', typedef___u32),
     (''spi'', typedef___u32),
     (''family'', typedef___u16),
     (''ext'', typedef___u16),
     ('''', TUnion
       [(''remote_ipv4'', typedef___u32),
        (''remote_ipv6'', TArr typedef___u32 4)])]"

definition struct_bpf_tcp_sock :: ctype where
  "struct_bpf_tcp_sock = TStruct
    [(''snd_cwnd'', typedef___u32),
     (''srtt_us'', typedef___u32),
     (''rtt_min'', typedef___u32),
     (''snd_ssthresh'', typedef___u32),
     (''rcv_nxt'', typedef___u32),
     (''snd_nxt'', typedef___u32),
     (''snd_una'', typedef___u32),
     (''mss_cache'', typedef___u32),
     (''ecn_flags'', typedef___u32),
     (''rate_delivered'', typedef___u32),
     (''rate_interval_us'', typedef___u32),
     (''packets_out'', typedef___u32),
     (''retrans_out'', typedef___u32),
     (''total_retrans'', typedef___u32),
     (''segs_in'', typedef___u32),
     (''data_segs_in'', typedef___u32),
     (''segs_out'', typedef___u32),
     (''data_segs_out'', typedef___u32),
     (''lost_out'', typedef___u32),
     (''sacked_out'', typedef___u32),
     (''bytes_received'', typedef___u64),
     (''bytes_acked'', typedef___u64),
     (''dsack_dups'', typedef___u32),
     (''delivered'', typedef___u32),
     (''delivered_ce'', typedef___u32),
     (''icsk_retransmits'', typedef___u32)]"

definition struct_bpf_sock_tuple :: ctype where
  "struct_bpf_sock_tuple = TStruct
    [('''', TUnion
       [(''ipv4'', TStruct
          [(''saddr'', typedef___be32),
           (''daddr'', typedef___be32),
           (''sport'', typedef___be16),
           (''dport'', typedef___be16)]),
        (''ipv6'', TStruct
          [(''saddr'', TArr typedef___be32 4),
           (''daddr'', TArr typedef___be32 4),
           (''sport'', typedef___be16),
           (''dport'', typedef___be16)])])]"

definition struct_bpf_fib_lookup :: ctype where
  "struct_bpf_fib_lookup = TStruct
    [(''family'', typedef___u8),
     (''l4_protocol'', typedef___u8),
     (''sport'', typedef___be16),
     (''dport'', typedef___be16),
     ('''', TUnion
       [(''tot_len'', typedef___u16),
        (''mtu_result'', typedef___u16)]),
     (''ifindex'', typedef___u32),
     ('''', TUnion
       [(''tos'', typedef___u8),
        (''flowinfo'', typedef___be32),
        (''rt_metric'', typedef___u32)]),
     ('''', TUnion
       [(''ipv4_src'', typedef___be32),
        (''ipv6_src'', TArr typedef___u32 4)]),
     ('''', TUnion
       [(''ipv4_dst'', typedef___be32),
        (''ipv6_dst'', TArr typedef___u32 4)]),
     ('''', TUnion
       [('''', TStruct
          [(''h_vlan_proto'', typedef___be16),
           (''h_vlan_TCI'', typedef___be16)]),
        (''tbid'', typedef___u32)]),
     (''smac'', TArr typedef___u8 6),
     (''dmac'', TArr typedef___u8 6)]"

definition struct_bpf_redir_neigh :: ctype where
  "struct_bpf_redir_neigh = TStruct
    [(''nh_family'', typedef___u32),
     ('''', TUnion
       [(''ipv4_nh'', typedef___be32),
        (''ipv6_nh'', TArr typedef___u32 4)])]"

definition struct_bpf_timer :: ctype where
  "struct_bpf_timer = TStruct
    [(''__opaque'', TArr typedef___u64 2)]"

definition struct_bpf_dynptr :: ctype where
  "struct_bpf_dynptr = TStruct
    [(''__opaque'', TArr typedef___u64 2)]"

definition struct_bpf_list_head :: ctype where
  "struct_bpf_list_head = TStruct
    [(''__opaque'', TArr typedef___u64 2)]"

definition struct_bpf_list_node :: ctype where
  "struct_bpf_list_node = TStruct
    [(''__opaque'', TArr typedef___u64 3)]"

definition struct_bpf_rb_root :: ctype where
  "struct_bpf_rb_root = TStruct
    [(''__opaque'', TArr typedef___u64 2)]"

definition struct_bpf_rb_node :: ctype where
  "struct_bpf_rb_node = TStruct
    [(''__opaque'', TArr typedef___u64 4)]"

definition struct_bpf_refcount :: ctype where
  "struct_bpf_refcount = TStruct
    [(''__opaque'', TArr typedef___u32 1)]"

definition struct_bpf_pidns_info :: ctype where
  "struct_bpf_pidns_info = TStruct
    [(''pid'', typedef___u32),
     (''tgid'', typedef___u32)]"

section \<open>Sizes and alignments\<close>

lemma layout_union_bpf_attr [layout]: "csize 8 union_bpf_attr = 144" "calign 8 union_bpf_attr = 8"
  by (simp_all add: union_bpf_attr_def union_bpf_attr_part1_def union_bpf_attr_part2_def pad_up_def layout del: One_nat_def)

lemma layout_struct_bpf_link_info [layout]: "csize 8 struct_bpf_link_info = 64" "calign 8 struct_bpf_link_info = 8"
  by (simp_all add: struct_bpf_link_info_def pad_up_def layout del: One_nat_def)

lemma layout_struct_bpf_devmap_val [layout]: "csize 8 struct_bpf_devmap_val = 8" "calign 8 struct_bpf_devmap_val = 4"
  by (simp_all add: struct_bpf_devmap_val_def pad_up_def layout del: One_nat_def)

lemma layout_struct_bpf_map_info [layout]: "csize 8 struct_bpf_map_info = 88" "calign 8 struct_bpf_map_info = 8"
  by (simp_all add: struct_bpf_map_info_def pad_up_def layout del: One_nat_def)

lemma layout_struct_bpf_cpumap_val [layout]: "csize 8 struct_bpf_cpumap_val = 8" "calign 8 struct_bpf_cpumap_val = 4"
  by (simp_all add: struct_bpf_cpumap_val_def pad_up_def layout del: One_nat_def)

lemma layout_struct_bpf_btf_info [layout]: "csize 8 struct_bpf_btf_info = 32" "calign 8 struct_bpf_btf_info = 8"
  by (simp_all add: struct_bpf_btf_info_def pad_up_def layout del: One_nat_def)

lemma layout_struct_bpf_sock_ops [layout]: "csize 8 struct_bpf_sock_ops = 224" "calign 8 struct_bpf_sock_ops = 8"
  by (simp_all add: struct_bpf_sock_ops_def pad_up_def layout del: One_nat_def)

lemma layout_struct_bpf_fib_lookup [layout]: "csize 8 struct_bpf_fib_lookup = 64" "calign 8 struct_bpf_fib_lookup = 4"
  by (simp_all add: struct_bpf_fib_lookup_def pad_up_def layout del: One_nat_def)

end
