(* ===== verification/VmlinuxMaps.thy ===== *)
theory VmlinuxMaps
  imports VmlinuxUapi
begin

text \<open>
  The kernel side of BPF maps in \<open>internal/maps/bpf/vmlinux.h\<close>: \<open>struct bpf_map\<close>, its operations, and the
  map implementations. The maps of the bridge are a \<open>bpf_array\<close> each for the metadata and the devices
  and a \<open>bpf_htab\<close> with its \<open>bpf_lru\<close> for the two per-pid maps.
\<close>

definition struct_bpf_map_ops :: ctype where
  "struct_bpf_map_ops = TStruct
    [(''map_alloc_check'', TPtr),
     (''map_alloc'', TPtr),
     (''map_release'', TPtr),
     (''map_free'', TPtr),
     (''map_get_next_key'', TPtr),
     (''map_release_uref'', TPtr),
     (''map_lookup_elem_sys_only'', TPtr),
     (''map_lookup_batch'', TPtr),
     (''map_lookup_and_delete_elem'', TPtr),
     (''map_lookup_and_delete_batch'', TPtr),
     (''map_update_batch'', TPtr),
     (''map_delete_batch'', TPtr),
     (''map_lookup_elem'', TPtr),
     (''map_update_elem'', TPtr),
     (''map_delete_elem'', TPtr),
     (''map_push_elem'', TPtr),
     (''map_pop_elem'', TPtr),
     (''map_peek_elem'', TPtr),
     (''map_lookup_percpu_elem'', TPtr),
     (''map_fd_get_ptr'', TPtr),
     (''map_fd_put_ptr'', TPtr),
     (''map_gen_lookup'', TPtr),
     (''map_fd_sys_lookup_elem'', TPtr),
     (''map_seq_show_elem'', TPtr),
     (''map_check_btf'', TPtr),
     (''map_poke_track'', TPtr),
     (''map_poke_untrack'', TPtr),
     (''map_poke_run'', TPtr),
     (''map_direct_value_addr'', TPtr),
     (''map_direct_value_meta'', TPtr),
     (''map_mmap'', TPtr),
     (''map_poll'', TPtr),
     (''map_local_storage_charge'', TPtr),
     (''map_local_storage_uncharge'', TPtr),
     (''map_owner_storage_ptr'', TPtr),
     (''map_redirect'', TPtr),
     (''map_meta_equal'', TPtr),
     (''map_set_for_each_callback_args'', TPtr),
     (''map_for_each_callback'', TPtr),
     (''map_mem_usage'', TPtr),
     (''map_btf_id'', TPtr),
     (''iter_seq_info'', TPtr)]"

definition struct_bpf_map :: ctype where
  "struct_bpf_map = TStruct
    [(''ops'', TPtr),
     (''inner_map_meta'', TPtr),
     (''security'', TPtr),
     (''map_type'', enum_ctype enum_bpf_map_type),
     (''key_size'', typedef_u32),
     (''value_size'', typedef_u32),
     (''max_entries'', typedef_u32),
     (''map_extra'', typedef_u64),
     (''map_flags'', typedef_u32),
     (''id'', typedef_u32),
     (''record'', TPtr),
     (''numa_node'', TInt 4),
     (''btf_key_type_id'', typedef_u32),
     (''btf_value_type_id'', typedef_u32),
     (''btf_vmlinux_value_type_id'', typedef_u32),
     (''btf'', TPtr),
     (''objcg'', TPtr),
     (''name'', TArr (TInt 1) 16),
     ('''', TInt 8),
     ('''', TInt 8),
     (''refcnt'', typedef_atomic64_t),
     (''usercnt'', typedef_atomic64_t),
     ('''', TUnion
       [(''work'', struct_work_struct),
        (''rcu'', struct_callback_head)]),
     (''freeze_mutex'', struct_mutex),
     (''writecnt'', typedef_atomic64_t),
     (''owner'', TStruct
       [(''lock'', typedef_spinlock_t),
        (''type'', enum_ctype enum_bpf_prog_type),
        (''jited'', typedef_bool),
        (''xdp_has_frags'', typedef_bool)]),
     (''bypass_spec_v1'', typedef_bool),
     (''frozen'', typedef_bool),
     (''free_after_mult_rcu_gp'', typedef_bool),
     (''free_after_rcu_gp'', typedef_bool),
     (''sleepable_refcnt'', typedef_atomic64_t),
     (''elem_count'', TPtr),
     ('''', TInt 8)]"

definition struct_bpf_map_dev_ops :: ctype where
  "struct_bpf_map_dev_ops = TStruct
    [(''map_get_next_key'', TPtr),
     (''map_lookup_elem'', TPtr),
     (''map_update_elem'', TPtr),
     (''map_delete_elem'', TPtr)]"

definition struct_bpf_offloaded_map :: ctype where
  "struct_bpf_offloaded_map = TStruct
    [(''map'', struct_bpf_map),
     (''netdev'', TPtr),
     (''dev_ops'', TPtr),
     (''dev_priv'', TPtr),
     (''offloads'', struct_list_head),
     ('''', TInt 8),
     ('''', TInt 8),
     ('''', TInt 8)]"

definition struct_bpf_cgroup_storage_key :: ctype where
  "struct_bpf_cgroup_storage_key = TStruct
    [(''cgroup_inode_id'', typedef___u64),
     (''attach_type'', typedef___u32)]"

definition struct_bpf_cgroup_storage :: ctype where
  "struct_bpf_cgroup_storage = TStruct
    [('''', TUnion
       [(''buf'', TPtr),
        (''percpu_buf'', TPtr)]),
     (''map'', TPtr),
     (''key'', struct_bpf_cgroup_storage_key),
     (''list_map'', struct_list_head),
     (''list_cg'', struct_list_head),
     (''node'', struct_rb_node),
     (''rcu'', struct_callback_head)]"

definition struct_bpf_array_aux :: ctype where
  "struct_bpf_array_aux = TStruct
    [(''poke_progs'', struct_list_head),
     (''map'', TPtr),
     (''poke_mutex'', struct_mutex),
     (''work'', struct_work_struct)]"

definition struct_bpf_array :: ctype where
  "struct_bpf_array = TStruct
    [(''map'', struct_bpf_map),
     (''elem_size'', typedef_u32),
     (''index_mask'', typedef_u32),
     (''aux'', TPtr),
     ('''', TUnion
       [('''', TStruct
          [(''__empty_value'', TStruct []),
           (''value'', TArr (TInt 1) 0)]),
        ('''', TStruct
          [(''__empty_ptrs'', TStruct []),
           (''ptrs'', TArr TPtr 0)]),
        ('''', TStruct
          [(''__empty_pptrs'', TStruct []),
           (''pptrs'', TArr TPtr 0)])]),
     ('''', TInt 8),
     ('''', TInt 8),
     ('''', TInt 8),
     ('''', TInt 8),
     ('''', TInt 8),
     ('''', TInt 8)]"

definition struct_bpf_mem_alloc :: ctype where
  "struct_bpf_mem_alloc = TStruct
    [(''caches'', TPtr),
     (''cache'', TPtr),
     (''objcg'', TPtr),
     (''percpu'', typedef_bool),
     (''work'', struct_work_struct)]"

definition struct_bpf_local_storage_map :: ctype where
  "struct_bpf_local_storage_map = TStruct
    [(''map'', struct_bpf_map),
     (''buckets'', TPtr),
     (''bucket_log'', typedef_u32),
     (''elem_size'', typedef_u16),
     (''cache_idx'', typedef_u16),
     (''selem_ma'', struct_bpf_mem_alloc),
     (''storage_ma'', struct_bpf_mem_alloc),
     (''bpf_ma'', typedef_bool),
     ('''', TInt 8),
     ('''', TInt 8),
     ('''', TInt 8),
     ('''', TInt 8),
     ('''', TInt 8)]"

definition struct_bpf_local_storage_data :: ctype where
  "struct_bpf_local_storage_data = TStruct
    [(''smap'', TPtr),
     (''data'', TArr typedef_u8 0)]"

definition struct_bpf_local_storage_elem :: ctype where
  "struct_bpf_local_storage_elem = TStruct
    [(''map_node'', struct_hlist_node),
     (''snode'', struct_hlist_node),
     (''local_storage'', TPtr),
     (''rcu'', struct_callback_head),
     ('''', TInt 8),
     (''sdata'', struct_bpf_local_storage_data),
     ('''', TInt 8),
     ('''', TInt 8),
     ('''', TInt 8),
     ('''', TInt 8),
     ('''', TInt 8),
     ('''', TInt 8),
     ('''', TInt 8)]"

definition struct_bpf_dtab_netdev :: ctype where
  "struct_bpf_dtab_netdev = TStruct
    [(''dev'', TPtr),
     (''index_hlist'', struct_hlist_node),
     (''xdp_prog'', TPtr),
     (''rcu'', struct_callback_head),
     (''idx'', TInt 4),
     (''val'', struct_bpf_devmap_val)]"

definition struct_bpf_dtab :: ctype where
  "struct_bpf_dtab = TStruct
    [(''map'', struct_bpf_map),
     (''netdev_map'', TPtr),
     (''list'', struct_list_head),
     (''dev_index_head'', TPtr),
     (''index_lock'', typedef_spinlock_t),
     (''items'', TInt 4),
     (''n_buckets'', typedef_u32),
     ('''', TInt 8),
     ('''', TInt 8)]"

definition struct_bpf_bloom_filter :: ctype where
  "struct_bpf_bloom_filter = TStruct
    [(''map'', struct_bpf_map),
     (''bitset_mask'', typedef_u32),
     (''hash_seed'', typedef_u32),
     (''nr_hash_funcs'', typedef_u32),
     (''bitset'', TArr (TInt 8) 0),
     ('''', TInt 8),
     ('''', TInt 8),
     ('''', TInt 8),
     ('''', TInt 8),
     ('''', TInt 8),
     ('''', TInt 8)]"

definition struct_bpf_cpu_map_entry :: ctype where
  "struct_bpf_cpu_map_entry = TStruct
    [(''cpu'', typedef_u32),
     (''map_id'', TInt 4),
     (''bulkq'', TPtr),
     (''queue'', TPtr),
     (''kthread'', TPtr),
     (''value'', struct_bpf_cpumap_val),
     (''prog'', TPtr),
     (''kthread_running'', struct_completion),
     (''free_work'', struct_rcu_work)]"

definition struct_bpf_cpu_map :: ctype where
  "struct_bpf_cpu_map = TStruct
    [(''map'', struct_bpf_map),
     (''cpu_map'', TPtr),
     ('''', TInt 8),
     ('''', TInt 8),
     ('''', TInt 8),
     ('''', TInt 8),
     ('''', TInt 8),
     ('''', TInt 8),
     ('''', TInt 8)]"

definition struct_bpf_lru_list :: ctype where
  "struct_bpf_lru_list = TStruct
    [(''lists'', TArr struct_list_head 3),
     (''counts'', TArr (TInt 4) 2),
     (''next_inactive_rotation'', TPtr),
     (''lock'', typedef_raw_spinlock_t),
     ('''', TInt 8),
     ('''', TInt 8),
     ('''', TInt 8),
     ('''', TInt 8),
     ('''', TInt 8),
     ('''', TInt 8),
     ('''', TInt 8)]"

definition struct_bpf_common_lru :: ctype where
  "struct_bpf_common_lru = TStruct
    [(''lru_list'', struct_bpf_lru_list),
     (''local_list'', TPtr),
     ('''', TInt 8),
     ('''', TInt 8),
     ('''', TInt 8),
     ('''', TInt 8),
     ('''', TInt 8),
     ('''', TInt 8),
     ('''', TInt 8)]"

definition struct_bpf_lru :: ctype where
  "struct_bpf_lru = TStruct
    [('''', TUnion
       [(''common_lru'', struct_bpf_common_lru),
        (''percpu_lru'', TPtr)]),
     (''del_from_htab'', typedef_del_from_htab_func),
     (''del_arg'', TPtr),
     (''hash_offset'', TInt 4),
     (''nr_scans'', TInt 4),
     (''percpu'', typedef_bool),
     ('''', TInt 8),
     ('''', TInt 8),
     ('''', TInt 8),
     ('''', TInt 8)]"

definition struct_bpf_htab :: ctype where
  "struct_bpf_htab = TStruct
    [(''map'', struct_bpf_map),
     (''ma'', struct_bpf_mem_alloc),
     (''pcpu_ma'', struct_bpf_mem_alloc),
     (''buckets'', TPtr),
     (''elems'', TPtr),
     ('''', TInt 8),
     ('''', TInt 8),
     ('''', TInt 8),
     ('''', TInt 8),
     ('''', TInt 8),
     ('''', TInt 8),
     ('''', TUnion
       [(''freelist'', struct_pcpu_freelist),
        (''lru'', struct_bpf_lru)]),
     (''extra_elems'', TPtr),
     (''pcount'', struct_percpu_counter),
     (''count'', typedef_atomic_t),
     (''use_percpu_counter'', typedef_bool),
     (''n_buckets'', typedef_u32),
     (''elem_size'', typedef_u32),
     (''hashrnd'', typedef_u32),
     (''lockdep_key'', struct_lock_class_key),
     (''map_locked'', TArr TPtr 8),
     ('''', TInt 8),
     ('''', TInt 8),
     ('''', TInt 8),
     ('''', TInt 8),
     ('''', TInt 8),
     ('''', TInt 8),
     ('''', TInt 8)]"

definition struct_bpf_stab :: ctype where
  "struct_bpf_stab = TStruct
    [(''map'', struct_bpf_map),
     (''sks'', TPtr),
     (''progs'', struct_sk_psock_progs),
     (''lock'', typedef_spinlock_t),
     ('''', TInt 8),
     ('''', TInt 8)]"

definition struct_bpf_shtab :: ctype where
  "struct_bpf_shtab = TStruct
    [(''map'', struct_bpf_map),
     (''buckets'', TPtr),
     (''buckets_num'', typedef_u32),
     (''elem_size'', typedef_u32),
     (''progs'', struct_sk_psock_progs),
     (''count'', typedef_atomic_t),
     ('''', TInt 8)]"

definition struct_bpf_cgroup_storage_map :: ctype where
  "struct_bpf_cgroup_storage_map = TStruct
    [(''map'', struct_bpf_map),
     (''lock'', typedef_spinlock_t),
     (''root'', struct_rb_root),
     (''list'', struct_list_head),
     ('''', TInt 8),
     ('''', TInt 8),
     ('''', TInt 8),
     ('''', TInt 8)]"

definition struct_bpf_stack_map :: ctype where
  "struct_bpf_stack_map = TStruct
    [(''map'', struct_bpf_map),
     (''elems'', TPtr),
     (''freelist'', struct_pcpu_freelist),
     (''n_buckets'', typedef_u32),
     (''buckets'', TArr TPtr 0),
     ('''', TInt 8),
     ('''', TInt 8),
     ('''', TInt 8)]"

definition struct_bpf_queue_stack :: ctype where
  "struct_bpf_queue_stack = TStruct
    [(''map'', struct_bpf_map),
     (''lock'', typedef_raw_spinlock_t),
     (''head'', typedef_u32),
     (''tail'', typedef_u32),
     (''size'', typedef_u32),
     (''elements'', TArr (TInt 1) 0),
     ('''', TInt 8),
     ('''', TInt 8),
     ('''', TInt 8),
     ('''', TInt 8),
     ('''', TInt 8),
     ('''', TInt 8)]"

definition struct_bpf_mem_cache :: ctype where
  "struct_bpf_mem_cache = TStruct
    [(''free_llist'', struct_llist_head),
     (''active'', typedef_local_t),
     (''free_llist_extra'', struct_llist_head),
     (''refill_work'', struct_irq_work),
     (''objcg'', TPtr),
     (''unit_size'', TInt 4),
     (''free_cnt'', TInt 4),
     (''low_watermark'', TInt 4),
     (''high_watermark'', TInt 4),
     (''batch'', TInt 4),
     (''percpu_size'', TInt 4),
     (''draining'', typedef_bool),
     (''tgt'', TPtr),
     (''free_by_rcu'', struct_llist_head),
     (''free_by_rcu_tail'', TPtr),
     (''waiting_for_gp'', struct_llist_head),
     (''waiting_for_gp_tail'', TPtr),
     (''rcu'', struct_callback_head),
     (''call_rcu_in_progress'', typedef_atomic_t),
     (''free_llist_extra_rcu'', struct_llist_head),
     (''free_by_rcu_ttrace'', struct_llist_head),
     (''waiting_for_gp_ttrace'', struct_llist_head),
     (''rcu_ttrace'', struct_callback_head),
     (''call_rcu_ttrace_in_progress'', typedef_atomic_t)]"

definition struct_bpf_mem_caches :: ctype where
  "struct_bpf_mem_caches = TStruct
    [(''cache'', TArr struct_bpf_mem_cache 11)]"

definition struct_bpf_ringbuf_map :: ctype where
  "struct_bpf_ringbuf_map = TStruct
    [(''map'', struct_bpf_map),
     (''rb'', TPtr),
     ('''', TInt 8),
     ('''', TInt 8),
     ('''', TInt 8),
     ('''', TInt 8),
     ('''', TInt 8),
     ('''', TInt 8),
     ('''', TInt 8)]"

section \<open>Sizes and alignments\<close>

lemma layout_struct_bpf_map_ops [layout]: "csize 8 struct_bpf_map_ops = 336" "calign 8 struct_bpf_map_ops = 8"
  by (simp_all add: struct_bpf_map_ops_def pad_up_def layout del: One_nat_def)

lemma layout_struct_bpf_map [layout]: "csize 8 struct_bpf_map = 256" "calign 8 struct_bpf_map = 8"
  by (simp_all add: struct_bpf_map_def pad_up_def layout del: One_nat_def)

lemma layout_struct_bpf_map_dev_ops [layout]: "csize 8 struct_bpf_map_dev_ops = 32" "calign 8 struct_bpf_map_dev_ops = 8"
  by (simp_all add: struct_bpf_map_dev_ops_def pad_up_def layout del: One_nat_def)

lemma layout_struct_bpf_offloaded_map [layout]: "csize 8 struct_bpf_offloaded_map = 320" "calign 8 struct_bpf_offloaded_map = 8"
  by (simp_all add: struct_bpf_offloaded_map_def pad_up_def layout del: One_nat_def)

lemma layout_struct_bpf_cgroup_storage_key [layout]: "csize 8 struct_bpf_cgroup_storage_key = 16" "calign 8 struct_bpf_cgroup_storage_key = 8"
  by (simp_all add: struct_bpf_cgroup_storage_key_def pad_up_def layout del: One_nat_def)

lemma layout_struct_bpf_cgroup_storage [layout]: "csize 8 struct_bpf_cgroup_storage = 104" "calign 8 struct_bpf_cgroup_storage = 8"
  by (simp_all add: struct_bpf_cgroup_storage_def pad_up_def layout del: One_nat_def)

lemma layout_struct_bpf_array_aux [layout]: "csize 8 struct_bpf_array_aux = 88" "calign 8 struct_bpf_array_aux = 8"
  by (simp_all add: struct_bpf_array_aux_def pad_up_def layout del: One_nat_def)

lemma layout_struct_bpf_array [layout]: "csize 8 struct_bpf_array = 320" "calign 8 struct_bpf_array = 8"
  by (simp_all add: struct_bpf_array_def pad_up_def layout del: One_nat_def)

lemma layout_struct_bpf_mem_alloc [layout]: "csize 8 struct_bpf_mem_alloc = 64" "calign 8 struct_bpf_mem_alloc = 8"
  by (simp_all add: struct_bpf_mem_alloc_def pad_up_def layout del: One_nat_def)

lemma layout_struct_bpf_local_storage_map [layout]: "csize 8 struct_bpf_local_storage_map = 448" "calign 8 struct_bpf_local_storage_map = 8"
  by (simp_all add: struct_bpf_local_storage_map_def pad_up_def layout del: One_nat_def)

lemma layout_struct_bpf_local_storage_data [layout]: "csize 8 struct_bpf_local_storage_data = 8" "calign 8 struct_bpf_local_storage_data = 8"
  by (simp_all add: struct_bpf_local_storage_data_def pad_up_def layout del: One_nat_def)

lemma layout_struct_bpf_local_storage_elem [layout]: "csize 8 struct_bpf_local_storage_elem = 128" "calign 8 struct_bpf_local_storage_elem = 8"
  by (simp_all add: struct_bpf_local_storage_elem_def pad_up_def layout del: One_nat_def)

lemma layout_struct_bpf_dtab_netdev [layout]: "csize 8 struct_bpf_dtab_netdev = 64" "calign 8 struct_bpf_dtab_netdev = 8"
  by (simp_all add: struct_bpf_dtab_netdev_def pad_up_def layout del: One_nat_def)

lemma layout_struct_bpf_dtab [layout]: "csize 8 struct_bpf_dtab = 320" "calign 8 struct_bpf_dtab = 8"
  by (simp_all add: struct_bpf_dtab_def pad_up_def layout del: One_nat_def)

lemma layout_struct_bpf_bloom_filter [layout]: "csize 8 struct_bpf_bloom_filter = 320" "calign 8 struct_bpf_bloom_filter = 8"
  by (simp_all add: struct_bpf_bloom_filter_def pad_up_def layout del: One_nat_def)

lemma layout_struct_bpf_cpu_map_entry [layout]: "csize 8 struct_bpf_cpu_map_entry = 136" "calign 8 struct_bpf_cpu_map_entry = 8"
  by (simp_all add: struct_bpf_cpu_map_entry_def pad_up_def layout del: One_nat_def)

lemma layout_struct_bpf_cpu_map [layout]: "csize 8 struct_bpf_cpu_map = 320" "calign 8 struct_bpf_cpu_map = 8"
  by (simp_all add: struct_bpf_cpu_map_def pad_up_def layout del: One_nat_def)

lemma layout_struct_bpf_lru_list [layout]: "csize 8 struct_bpf_lru_list = 128" "calign 8 struct_bpf_lru_list = 8"
  by (simp_all add: struct_bpf_lru_list_def pad_up_def layout del: One_nat_def)

lemma layout_struct_bpf_common_lru [layout]: "csize 8 struct_bpf_common_lru = 192" "calign 8 struct_bpf_common_lru = 8"
  by (simp_all add: struct_bpf_common_lru_def pad_up_def layout del: One_nat_def)

lemma layout_struct_bpf_lru [layout]: "csize 8 struct_bpf_lru = 256" "calign 8 struct_bpf_lru = 8"
  by (simp_all add: struct_bpf_lru_def pad_up_def layout del: One_nat_def)

lemma layout_struct_bpf_htab [layout]: "csize 8 struct_bpf_htab = 896" "calign 8 struct_bpf_htab = 8"
  by (simp_all add: struct_bpf_htab_def pad_up_def layout del: One_nat_def)

lemma layout_struct_bpf_stab [layout]: "csize 8 struct_bpf_stab = 320" "calign 8 struct_bpf_stab = 8"
  by (simp_all add: struct_bpf_stab_def pad_up_def layout del: One_nat_def)

lemma layout_struct_bpf_shtab [layout]: "csize 8 struct_bpf_shtab = 320" "calign 8 struct_bpf_shtab = 8"
  by (simp_all add: struct_bpf_shtab_def pad_up_def layout del: One_nat_def)

lemma layout_struct_bpf_cgroup_storage_map [layout]: "csize 8 struct_bpf_cgroup_storage_map = 320" "calign 8 struct_bpf_cgroup_storage_map = 8"
  by (simp_all add: struct_bpf_cgroup_storage_map_def pad_up_def layout del: One_nat_def)

lemma layout_struct_bpf_stack_map [layout]: "csize 8 struct_bpf_stack_map = 320" "calign 8 struct_bpf_stack_map = 8"
  by (simp_all add: struct_bpf_stack_map_def pad_up_def layout del: One_nat_def)

lemma layout_struct_bpf_queue_stack [layout]: "csize 8 struct_bpf_queue_stack = 320" "calign 8 struct_bpf_queue_stack = 8"
  by (simp_all add: struct_bpf_queue_stack_def pad_up_def layout del: One_nat_def)

lemma layout_struct_bpf_mem_cache [layout]: "csize 8 struct_bpf_mem_cache = 208" "calign 8 struct_bpf_mem_cache = 8"
  by (simp_all add: struct_bpf_mem_cache_def pad_up_def layout del: One_nat_def)

lemma layout_struct_bpf_mem_caches [layout]: "csize 8 struct_bpf_mem_caches = 2288" "calign 8 struct_bpf_mem_caches = 8"
  by (simp_all add: struct_bpf_mem_caches_def pad_up_def layout del: One_nat_def)

lemma layout_struct_bpf_ringbuf_map [layout]: "csize 8 struct_bpf_ringbuf_map = 320" "calign 8 struct_bpf_ringbuf_map = 8"
  by (simp_all add: struct_bpf_ringbuf_map_def pad_up_def layout del: One_nat_def)

end
