(* ===== verification/VmlinuxProgs.thy ===== *)
theory VmlinuxProgs
  imports VmlinuxMaps
begin

text \<open>
  BPF programs, links, trampolines, iterators and BTF inside the kernel, from
  \<open>internal/maps/bpf/vmlinux.h\<close>. The bridge loads no program; these are the types a consumer's programs
  meet.
\<close>

definition struct_bpf_run_ctx :: ctype where
  "struct_bpf_run_ctx = TStruct []"

definition typedef_btf_dtor_kfunc_t :: ctype where
  "typedef_btf_dtor_kfunc_t = TPtr"

definition struct_btf_field_kptr :: ctype where
  "struct_btf_field_kptr = TStruct
    [(''btf'', TPtr),
     (''module'', TPtr),
     (''dtor'', typedef_btf_dtor_kfunc_t),
     (''btf_id'', typedef_u32)]"

definition struct_btf_field_graph_root :: ctype where
  "struct_btf_field_graph_root = TStruct
    [(''btf'', TPtr),
     (''value_btf_id'', typedef_u32),
     (''node_offset'', typedef_u32),
     (''value_rec'', TPtr)]"

definition struct_btf_field :: ctype where
  "struct_btf_field = TStruct
    [(''offset'', typedef_u32),
     (''size'', typedef_u32),
     (''type'', enum_ctype enum_btf_field_type),
     ('''', TUnion
       [(''kptr'', struct_btf_field_kptr),
        (''graph_root'', struct_btf_field_graph_root)])]"

definition struct_btf_record :: ctype where
  "struct_btf_record = TStruct
    [(''cnt'', typedef_u32),
     (''field_mask'', typedef_u32),
     (''spin_lock_off'', TInt 4),
     (''timer_off'', TInt 4),
     (''refcount_off'', TInt 4),
     (''fields'', TArr struct_btf_field 0)]"

definition struct_bpf_prog_array_item :: ctype where
  "struct_bpf_prog_array_item = TStruct
    [(''prog'', TPtr),
     ('''', TUnion
       [(''cgroup_storage'', TArr TPtr 2),
        (''bpf_cookie'', typedef_u64)])]"

definition struct_bpf_prog_array :: ctype where
  "struct_bpf_prog_array = TStruct
    [(''rcu'', struct_callback_head),
     (''items'', TArr struct_bpf_prog_array_item 0)]"

definition struct_bpf_iter_aux_info :: ctype where
  "struct_bpf_iter_aux_info = TStruct
    [(''map'', TPtr),
     (''cgroup'', TStruct
       [(''start'', TPtr),
        (''order'', enum_ctype enum_bpf_cgroup_iter_order)]),
     (''task'', TStruct
       [(''type'', enum_ctype enum_bpf_iter_task_type),
        (''pid'', typedef_u32)])]"

definition struct_btf :: ctype where
  "struct_btf = TStruct
    [(''data'', TPtr),
     (''types'', TPtr),
     (''resolved_ids'', TPtr),
     (''resolved_sizes'', TPtr),
     (''strings'', TPtr),
     (''nohdr_data'', TPtr),
     (''hdr'', struct_btf_header),
     (''nr_types'', typedef_u32),
     (''types_size'', typedef_u32),
     (''data_size'', typedef_u32),
     (''refcnt'', typedef_refcount_t),
     (''id'', typedef_u32),
     (''rcu'', struct_callback_head),
     (''kfunc_set_tab'', TPtr),
     (''dtor_kfunc_tab'', TPtr),
     (''struct_meta_tab'', TPtr),
     (''base_btf'', TPtr),
     (''start_id'', typedef_u32),
     (''start_str_off'', typedef_u32),
     (''name'', TArr (TInt 1) 56),
     (''kernel_btf'', typedef_bool)]"

definition struct_bpf_ksym :: ctype where
  "struct_bpf_ksym = TStruct
    [(''start'', TInt 8),
     (''end'', TInt 8),
     (''name'', TArr (TInt 1) 512),
     (''lnode'', struct_list_head),
     (''tnode'', struct_latch_tree_node),
     (''prog'', typedef_bool)]"

definition struct_bpf_prog_aux :: ctype where
  "struct_bpf_prog_aux = TStruct
    [(''refcnt'', typedef_atomic64_t),
     (''used_map_cnt'', typedef_u32),
     (''used_btf_cnt'', typedef_u32),
     (''max_ctx_offset'', typedef_u32),
     (''max_pkt_offset'', typedef_u32),
     (''max_tp_access'', typedef_u32),
     (''stack_depth'', typedef_u32),
     (''id'', typedef_u32),
     (''func_cnt'', typedef_u32),
     (''real_func_cnt'', typedef_u32),
     (''func_idx'', typedef_u32),
     (''attach_btf_id'', typedef_u32),
     (''ctx_arg_info_size'', typedef_u32),
     (''max_rdonly_access'', typedef_u32),
     (''max_rdwr_access'', typedef_u32),
     (''attach_btf'', TPtr),
     (''ctx_arg_info'', TPtr),
     (''dst_mutex'', struct_mutex),
     (''dst_prog'', TPtr),
     (''dst_trampoline'', TPtr),
     (''saved_dst_prog_type'', enum_ctype enum_bpf_prog_type),
     (''saved_dst_attach_type'', enum_ctype enum_bpf_attach_type),
     (''verifier_zext'', typedef_bool),
     (''dev_bound'', typedef_bool),
     (''offload_requested'', typedef_bool),
     (''attach_btf_trace'', typedef_bool),
     (''attach_tracing_prog'', typedef_bool),
     (''func_proto_unreliable'', typedef_bool),
     (''sleepable'', typedef_bool),
     (''tail_call_reachable'', typedef_bool),
     (''xdp_has_frags'', typedef_bool),
     (''exception_cb'', typedef_bool),
     (''exception_boundary'', typedef_bool),
     (''attach_func_proto'', TPtr),
     (''attach_func_name'', TPtr),
     (''func'', TPtr),
     (''jit_data'', TPtr),
     (''poke_tab'', TPtr),
     (''kfunc_tab'', TPtr),
     (''kfunc_btf_tab'', TPtr),
     (''size_poke_tab'', typedef_u32),
     (''ksym'', struct_bpf_ksym),
     (''ops'', TPtr),
     (''used_maps'', TPtr),
     (''used_maps_mutex'', struct_mutex),
     (''used_btfs'', TPtr),
     (''prog'', TPtr),
     (''user'', TPtr),
     (''load_time'', typedef_u64),
     (''verified_insns'', typedef_u32),
     (''cgroup_atype'', TInt 4),
     (''cgroup_storage'', TArr TPtr 2),
     (''name'', TArr (TInt 1) 16),
     (''bpf_exception_cb'', TPtr),
     (''security'', TPtr),
     (''offload'', TPtr),
     (''btf'', TPtr),
     (''func_info'', TPtr),
     (''func_info_aux'', TPtr),
     (''linfo'', TPtr),
     (''jited_linfo'', TPtr),
     (''func_info_cnt'', typedef_u32),
     (''nr_linfo'', typedef_u32),
     (''linfo_idx'', typedef_u32),
     (''mod'', TPtr),
     (''num_exentries'', typedef_u32),
     (''extable'', TPtr),
     ('''', TUnion
       [(''work'', struct_work_struct),
        (''rcu'', struct_callback_head)])]"

definition struct_bpf_func_proto :: ctype where
  "struct_bpf_func_proto = TStruct
    [(''func'', TPtr),
     (''gpl_only'', typedef_bool),
     (''pkt_access'', typedef_bool),
     (''might_sleep'', typedef_bool),
     (''ret_type'', enum_ctype enum_bpf_return_type),
     ('''', TUnion
       [('''', TStruct
          [(''arg1_type'', enum_ctype enum_bpf_arg_type),
           (''arg2_type'', enum_ctype enum_bpf_arg_type),
           (''arg3_type'', enum_ctype enum_bpf_arg_type),
           (''arg4_type'', enum_ctype enum_bpf_arg_type),
           (''arg5_type'', enum_ctype enum_bpf_arg_type)]),
        (''arg_type'', TArr (enum_ctype enum_bpf_arg_type) 5)]),
     ('''', TUnion
       [('''', TStruct
          [(''arg1_btf_id'', TPtr),
           (''arg2_btf_id'', TPtr),
           (''arg3_btf_id'', TPtr),
           (''arg4_btf_id'', TPtr),
           (''arg5_btf_id'', TPtr)]),
        (''arg_btf_id'', TArr TPtr 5),
        ('''', TStruct
          [(''arg1_size'', typedef_size_t),
           (''arg2_size'', typedef_size_t),
           (''arg3_size'', typedef_size_t),
           (''arg4_size'', typedef_size_t),
           (''arg5_size'', typedef_size_t)]),
        (''arg_size'', TArr typedef_size_t 5)]),
     (''ret_btf_id'', TPtr),
     (''allowed'', TPtr)]"

definition struct_bpf_prog_ops :: ctype where
  "struct_bpf_prog_ops = TStruct
    [(''test_run'', TPtr)]"

definition struct_bpf_prog_offload :: ctype where
  "struct_bpf_prog_offload = TStruct
    [(''prog'', TPtr),
     (''netdev'', TPtr),
     (''offdev'', TPtr),
     (''dev_priv'', TPtr),
     (''offloads'', struct_list_head),
     (''dev_state'', typedef_bool),
     (''opt_failed'', typedef_bool),
     (''jited_image'', TPtr),
     (''jited_len'', typedef_u32)]"

definition struct_btf_func_model :: ctype where
  "struct_btf_func_model = TStruct
    [(''ret_size'', typedef_u8),
     (''ret_flags'', typedef_u8),
     (''nr_args'', typedef_u8),
     (''arg_size'', TArr typedef_u8 12),
     (''arg_flags'', TArr typedef_u8 12)]"

definition struct_bpf_tramp_image :: ctype where
  "struct_bpf_tramp_image = TStruct
    [(''image'', TPtr),
     (''size'', TInt 4),
     (''ksym'', struct_bpf_ksym),
     (''pcref'', struct_percpu_ref),
     (''ip_after_call'', TPtr),
     (''ip_epilogue'', TPtr),
     ('''', TUnion
       [(''rcu'', struct_callback_head),
        (''work'', struct_work_struct)])]"

definition struct_bpf_trampoline :: ctype where
  "struct_bpf_trampoline = TStruct
    [(''hlist'', struct_hlist_node),
     (''fops'', TPtr),
     (''mutex'', struct_mutex),
     (''refcnt'', typedef_refcount_t),
     (''flags'', typedef_u32),
     (''key'', typedef_u64),
     (''func'', TStruct
       [(''model'', struct_btf_func_model),
        (''addr'', TPtr),
        (''ftrace_managed'', typedef_bool)]),
     (''extension_prog'', TPtr),
     (''progs_hlist'', TArr struct_hlist_head 3),
     (''progs_cnt'', TArr (TInt 4) 3),
     (''cur_image'', TPtr),
     (''mod'', TPtr)]"

definition struct_bpf_jit_poke_descriptor :: ctype where
  "struct_bpf_jit_poke_descriptor = TStruct
    [(''tailcall_target'', TPtr),
     (''tailcall_bypass'', TPtr),
     (''bypass_addr'', TPtr),
     (''aux'', TPtr),
     ('''', TUnion
       [(''tail_call'', TStruct
          [(''map'', TPtr),
           (''key'', typedef_u32)])]),
     (''tailcall_target_stable'', typedef_bool),
     (''adj_off'', typedef_u8),
     (''reason'', typedef_u16),
     (''insn_idx'', typedef_u32)]"

definition struct_bpf_ctx_arg_aux :: ctype where
  "struct_bpf_ctx_arg_aux = TStruct
    [(''offset'', typedef_u32),
     (''reg_type'', enum_ctype enum_bpf_reg_type),
     (''btf_id'', typedef_u32)]"

definition typedef_bpf_iter_attach_target_t :: ctype where
  "typedef_bpf_iter_attach_target_t = TPtr"

definition typedef_bpf_iter_detach_target_t :: ctype where
  "typedef_bpf_iter_detach_target_t = TPtr"

definition typedef_bpf_iter_show_fdinfo_t :: ctype where
  "typedef_bpf_iter_show_fdinfo_t = TPtr"

definition typedef_bpf_iter_fill_link_info_t :: ctype where
  "typedef_bpf_iter_fill_link_info_t = TPtr"

definition typedef_bpf_iter_get_func_proto_t :: ctype where
  "typedef_bpf_iter_get_func_proto_t = TPtr"

definition struct_bpf_iter_reg :: ctype where
  "struct_bpf_iter_reg = TStruct
    [(''target'', TPtr),
     (''attach_target'', typedef_bpf_iter_attach_target_t),
     (''detach_target'', typedef_bpf_iter_detach_target_t),
     (''show_fdinfo'', typedef_bpf_iter_show_fdinfo_t),
     (''fill_link_info'', typedef_bpf_iter_fill_link_info_t),
     (''get_func_proto'', typedef_bpf_iter_get_func_proto_t),
     (''ctx_arg_info_size'', typedef_u32),
     (''feature'', typedef_u32),
     (''ctx_arg_info'', TArr struct_bpf_ctx_arg_aux 2),
     (''seq_info'', TPtr)]"

definition struct_bpf_verifier_ops :: ctype where
  "struct_bpf_verifier_ops = TStruct
    [(''get_func_proto'', TPtr),
     (''is_valid_access'', TPtr),
     (''gen_prologue'', TPtr),
     (''gen_ld_abs'', TPtr),
     (''convert_ctx_access'', TPtr),
     (''btf_struct_access'', TPtr)]"

definition struct_bpf_link :: ctype where
  "struct_bpf_link = TStruct
    [(''refcnt'', typedef_atomic64_t),
     (''id'', typedef_u32),
     (''type'', enum_ctype enum_bpf_link_type),
     (''ops'', TPtr),
     (''prog'', TPtr),
     ('''', TUnion
       [(''rcu'', struct_callback_head),
        (''work'', struct_work_struct)])]"

definition struct_bpf_tramp_link :: ctype where
  "struct_bpf_tramp_link = TStruct
    [(''link'', struct_bpf_link),
     (''tramp_hlist'', struct_hlist_node),
     (''cookie'', typedef_u64)]"

definition struct_bpf_link_ops :: ctype where
  "struct_bpf_link_ops = TStruct
    [(''release'', TPtr),
     (''dealloc'', TPtr),
     (''dealloc_deferred'', TPtr),
     (''detach'', TPtr),
     (''update_prog'', TPtr),
     (''show_fdinfo'', TPtr),
     (''fill_link_info'', TPtr),
     (''update_map'', TPtr)]"

definition struct_bpf_shim_tramp_link :: ctype where
  "struct_bpf_shim_tramp_link = TStruct
    [(''link'', struct_bpf_tramp_link),
     (''trampoline'', TPtr)]"

definition struct_bpf_struct_ops :: ctype where
  "struct_bpf_struct_ops = TStruct
    [(''verifier_ops'', TPtr),
     (''init'', TPtr),
     (''check_member'', TPtr),
     (''init_member'', TPtr),
     (''reg'', TPtr),
     (''unreg'', TPtr),
     (''update'', TPtr),
     (''validate'', TPtr),
     (''type'', TPtr),
     (''value_type'', TPtr),
     (''name'', TPtr),
     (''func_models'', TArr struct_btf_func_model 64),
     (''type_id'', typedef_u32),
     (''value_id'', typedef_u32),
     (''cfi_stubs'', TPtr)]"

definition struct_bpf_cgroup_link :: ctype where
  "struct_bpf_cgroup_link = TStruct
    [(''link'', struct_bpf_link),
     (''cgroup'', TPtr),
     (''type'', enum_ctype enum_bpf_attach_type)]"

definition struct_bpf_kfunc_desc :: ctype where
  "struct_bpf_kfunc_desc = TStruct
    [(''func_model'', struct_btf_func_model),
     (''func_id'', typedef_u32),
     (''imm'', typedef_s32),
     (''offset'', typedef_u16),
     (''addr'', TInt 8)]"

definition struct_bpf_kfunc_desc_tab :: ctype where
  "struct_bpf_kfunc_desc_tab = TStruct
    [(''descs'', TArr struct_bpf_kfunc_desc 256),
     (''nr_descs'', typedef_u32)]"

definition struct_bpf_kfunc_btf :: ctype where
  "struct_bpf_kfunc_btf = TStruct
    [(''btf'', TPtr),
     (''module'', TPtr),
     (''offset'', typedef_u16)]"

definition struct_bpf_kfunc_btf_tab :: ctype where
  "struct_bpf_kfunc_btf_tab = TStruct
    [(''descs'', TArr struct_bpf_kfunc_btf 256),
     (''nr_descs'', typedef_u32)]"

definition struct_bpf_iter_link :: ctype where
  "struct_bpf_iter_link = TStruct
    [(''link'', struct_bpf_link),
     (''aux'', struct_bpf_iter_aux_info),
     (''tinfo'', TPtr)]"

definition struct_bpf_kprobe_multi_link :: ctype where
  "struct_bpf_kprobe_multi_link = TStruct
    [(''link'', struct_bpf_link),
     (''fp'', struct_fprobe),
     (''addrs'', TPtr),
     (''cookies'', TPtr),
     (''cnt'', typedef_u32),
     (''mods_cnt'', typedef_u32),
     (''mods'', TPtr),
     (''flags'', typedef_u32)]"

definition struct_bpf_uprobe_multi_link :: ctype where
  "struct_bpf_uprobe_multi_link = TStruct
    [(''path'', struct_path),
     (''link'', struct_bpf_link),
     (''cnt'', typedef_u32),
     (''flags'', typedef_u32),
     (''uprobes'', TPtr),
     (''task'', TPtr)]"

definition struct_bpf_tracing_link :: ctype where
  "struct_bpf_tracing_link = TStruct
    [(''link'', struct_bpf_tramp_link),
     (''attach_type'', enum_ctype enum_bpf_attach_type),
     (''trampoline'', TPtr),
     (''tgt_prog'', TPtr)]"

definition struct_bpf_raw_tp_link :: ctype where
  "struct_bpf_raw_tp_link = TStruct
    [(''link'', struct_bpf_link),
     (''btp'', TPtr)]"

definition struct_bpf_perf_link :: ctype where
  "struct_bpf_perf_link = TStruct
    [(''link'', struct_bpf_link),
     (''perf_file'', TPtr)]"

definition struct_bpf_dispatcher_prog :: ctype where
  "struct_bpf_dispatcher_prog = TStruct
    [(''prog'', TPtr),
     (''users'', typedef_refcount_t)]"

definition struct_bpf_dispatcher :: ctype where
  "struct_bpf_dispatcher = TStruct
    [(''mutex'', struct_mutex),
     (''func'', TPtr),
     (''progs'', TArr struct_bpf_dispatcher_prog 48),
     (''num_progs'', TInt 4),
     (''image'', TPtr),
     (''rw_image'', TPtr),
     (''image_off'', typedef_u32),
     (''ksym'', struct_bpf_ksym),
     (''sc_key'', TPtr),
     (''sc_tramp'', TPtr)]"

definition struct_bpf_xdp_link :: ctype where
  "struct_bpf_xdp_link = TStruct
    [(''link'', struct_bpf_link),
     (''dev'', TPtr),
     (''flags'', TInt 4)]"

definition struct_bpf_netns_link :: ctype where
  "struct_bpf_netns_link = TStruct
    [(''link'', struct_bpf_link),
     (''type'', enum_ctype enum_bpf_attach_type),
     (''netns_type'', enum_ctype enum_netns_bpf_attach_type),
     (''net'', TPtr),
     (''node'', struct_list_head)]"

definition struct_bpf_struct_ops_link :: ctype where
  "struct_bpf_struct_ops_link = TStruct
    [(''link'', struct_bpf_link),
     (''map'', TPtr)]"

end
