(* ===== verification/VmlinuxProps.thy ===== *)
theory VmlinuxProps
  imports VmlinuxProgs BpfObject
begin

text \<open>
  What the kernel types of \<open>vmlinux.h\<close> say about the maps of the bridge: the declarations of
  \<open>gpu_types.bpf.c\<close> fit the argument of the system call that creates a map, and the implementations
  the kernel picks for them start with the common part that generic map code reads.
\<close>

fun fields_of :: "ctype \<Rightarrow> field list" where
  "fields_of (TStruct fs) = fs"
| "fields_of (TUnion fs) = fs"
| "fields_of _ = []"

section \<open>Creating a map\<close>

text \<open>The name of a map type in \<open>enum bpf_map_type\<close> and its number there.\<close>

fun map_type_name :: "bpf_map_type \<Rightarrow> string" where
  "map_type_name BPF_MAP_TYPE_ARRAY = ''BPF_MAP_TYPE_ARRAY''"
| "map_type_name BPF_MAP_TYPE_LRU_HASH = ''BPF_MAP_TYPE_LRU_HASH''"

definition map_type_number :: "bpf_map_type \<Rightarrow> int option" where
  "map_type_number t = map_of enum_bpf_map_type (map_type_name t)"

lemma map_type_number_simps [simp]:
  "map_type_number BPF_MAP_TYPE_ARRAY = Some 2" "map_type_number BPF_MAP_TYPE_LRU_HASH = Some 9"
  by (simp_all add: map_type_number_def enum_bpf_map_type_def)









section \<open>The map objects of the kernel\<close>

text \<open>The implementations of maps: the bridge uses the first for its array maps and the second for its LRU maps.\<close>

definition map_objects :: "(string \<times> ctype) list" where
  "map_objects =
    [(''bpf_array'', struct_bpf_array), (''bpf_htab'', struct_bpf_htab), (''bpf_local_storage_map'', struct_bpf_local_storage_map),
     (''bpf_stack_map'', struct_bpf_stack_map), (''bpf_shtab'', struct_bpf_shtab), (''bpf_stab'', struct_bpf_stab),
     (''bpf_queue_stack'', struct_bpf_queue_stack), (''bpf_bloom_filter'', struct_bpf_bloom_filter),
     (''bpf_cgroup_storage_map'', struct_bpf_cgroup_storage_map), (''bpf_dtab'', struct_bpf_dtab),
     (''bpf_cpu_map'', struct_bpf_cpu_map), (''bpf_ringbuf_map'', struct_bpf_ringbuf_map),
     (''bpf_offloaded_map'', struct_bpf_offloaded_map)]"

lemmas map_object_defs =
  struct_bpf_array_def struct_bpf_htab_def struct_bpf_local_storage_map_def struct_bpf_stack_map_def
  struct_bpf_shtab_def struct_bpf_stab_def struct_bpf_queue_stack_def struct_bpf_bloom_filter_def
  struct_bpf_cgroup_storage_map_def struct_bpf_dtab_def struct_bpf_cpu_map_def struct_bpf_ringbuf_map_def
  struct_bpf_offloaded_map_def

lemma map_objects_first:
  "list_all (\<lambda>(n, t). \<exists>fs. t = TStruct ((''map'', struct_bpf_map) # fs)) map_objects"
  by (simp add: map_objects_def map_object_defs)

lemma map_objects_lines: "list_all (\<lambda>(n, t). csize 8 t mod 64 = 0) (take 2 map_objects)"
  by (simp add: map_objects_def layout)

text \<open>The offset of a field of \<open>struct bpf_map\<close> seen from a map object.\<close>

definition common_offset :: "ctype \<Rightarrow> string \<Rightarrow> nat option" where
  "common_offset t f =
     (case map_of (field_slots 8 (fields_of t)) ''map'' of
        None \<Rightarrow> None
      | Some (off, sz) \<Rightarrow>
          map_option (\<lambda>(o2, z). off + o2) (map_of (field_slots 8 (fields_of struct_bpf_map)) f))"

lemma bpf_map_slots:
  "map (map_of (field_slots 8 (fields_of struct_bpf_map)))
     [''ops'', ''map_type'', ''key_size'', ''value_size'', ''max_entries''] =
   map Some [(0, 8), (24, 4), (28, 4), (32, 4), (36, 4)]"
  by (simp add: struct_bpf_map_def field_slots_def pad_up_def layout del: One_nat_def)

text \<open>Generic map code finds the operations, the type, the sizes and the capacity of a map at the same offsets
  in every implementation: each starts with \<open>struct bpf_map\<close>, entirely inside the object. The two
  implementations the bridge uses are whole cache lines.\<close>

lemma map_objects_share_header:
  assumes "(n, t) \<in> set map_objects"
  shows "map (common_offset t) [''ops'', ''map_type'', ''key_size'', ''value_size'', ''max_entries''] =
      map Some [0, 24, 28, 32, 36] \<and>
    csize 8 struct_bpf_map \<le> csize 8 t \<and>
    (t \<in> {struct_bpf_array, struct_bpf_htab} \<longrightarrow> csize 8 t mod 64 = 0)"
proof -
  from assms map_objects_first obtain fs where t: "t = TStruct ((''map'', struct_bpf_map) # fs)"
    by (auto simp: list_all_iff)
  have "map_of (field_slots 8 (fields_of t)) ''map'' = Some (0, csize 8 struct_bpf_map)"
    by (simp add: t field_slots_def pad_up_def)
  moreover have "slots_ok 0 (csize 8 t) (field_slots 8 (fields_of t))"
    using field_slots_ok [of 8 "fields_of t"] by (simp only: t fields_of.simps)
  then have "csize 8 struct_bpf_map \<le> csize 8 t"
    using slots_ok_bounds [of 0 "csize 8 t" "field_slots 8 (fields_of t)" "''map''" 0 "csize 8 struct_bpf_map"]
    by (simp add: t field_slots_def pad_up_def)
  ultimately show ?thesis using bpf_map_slots by (auto simp: common_offset_def layout)
qed

lemma map_objects_share_header_witness:
  "common_offset struct_bpf_htab ''max_entries'' = Some 36 \<and> csize 8 struct_bpf_htab mod 64 = 0"
  using map_objects_share_header [of "''bpf_htab''" struct_bpf_htab] by (simp add: map_objects_def)

section \<open>Enumerations with a sentinel\<close>

text \<open>The enumerations that end with the number of their other entries, used in range checks.\<close>

definition sentinel_enums :: "enum_decl list" where
  "sentinel_enums = [
    enum_perf_sw_ids, enum_bpf_attach_type, enum_bpf_func_id, enum_bpf_xdp_mode, enum_of_INET_DIAG_REQ_NONE,
    enum_lockdown_reason, enum_of_BPF_REG_0, enum_lwtunnel_encap_types, enum_of_LWT_BPF_PROG_UNSPEC,
    enum_of_LWT_BPF_UNSPEC, enum_bpf_link_type, enum_perf_record_ksymbol_type, enum_of_BTF_SOCK_TYPE_INET,
    enum_of_SK_DIAG_BPF_STORAGE_NONE, enum_of_INET_DIAG_NONE, enum_of_TCP_BPF_BASE,
    enum_of_BTF_TRACING_TYPE_TASK, enum_btf_kfunc_hook, enum_perf_bpf_event_type,
    enum_of_SEG6_LOCAL_ACTION_UNSPEC, enum_of_SEG6_LOCAL_UNSPEC, enum_of_SEG6_LOCAL_BPF_PROG_UNSPEC]"

fun counts_up :: "int \<Rightarrow> enum_decl \<Rightarrow> bool" where
  "counts_up k [] = True"
| "counts_up k ((n, v) # e) = (v = k \<and> counts_up (k + 1) e)"

lemma counts_up_append: "counts_up k (e @ e') \<longleftrightarrow> counts_up k e \<and> counts_up (k + int (length e)) e'"
  by (induction k e rule: counts_up.induct) (auto simp: algebra_simps)

lemma counts_up_values: "counts_up k e \<Longrightarrow> snd ` set e = {k..<k + int (length e)}"
  by (induction k e rule: counts_up.induct) auto

lemmas sentinel_enum_defs =
    enum_perf_sw_ids_def enum_bpf_attach_type_def enum_bpf_func_id_def enum_bpf_xdp_mode_def
    enum_of_INET_DIAG_REQ_NONE_def enum_lockdown_reason_def enum_of_BPF_REG_0_def
    enum_lwtunnel_encap_types_def enum_of_LWT_BPF_PROG_UNSPEC_def enum_of_LWT_BPF_UNSPEC_def
    enum_bpf_link_type_def enum_perf_record_ksymbol_type_def enum_of_BTF_SOCK_TYPE_INET_def
    enum_of_SK_DIAG_BPF_STORAGE_NONE_def enum_of_INET_DIAG_NONE_def enum_of_TCP_BPF_BASE_def
    enum_of_BTF_TRACING_TYPE_TASK_def enum_btf_kfunc_hook_def enum_perf_bpf_event_type_def
    enum_of_SEG6_LOCAL_ACTION_UNSPEC_def enum_of_SEG6_LOCAL_UNSPEC_def enum_of_SEG6_LOCAL_BPF_PROG_UNSPEC_def
    enum_bpf_func_id_part1_def enum_bpf_func_id_part2_def

lemma sentinel_enums_count: "list_all (\<lambda>e. e \<noteq> [] \<and> counts_up 0 e) sentinel_enums"
  by (simp add: sentinel_enums_def sentinel_enum_defs)

text \<open>In each of these enumerations a number is the value of a proper entry exactly when it is at least 0 and
  below the sentinel, so a range check against the sentinel admits no gap and no unknown value.\<close>

lemma sentinels_bound_their_enums:
  assumes "e \<in> set sentinel_enums"
  shows "(\<exists>n. (n, v) \<in> set (butlast e)) \<longleftrightarrow> 0 \<le> v \<and> v < snd (last e)"
proof -
  from assms sentinel_enums_count have ne: "e \<noteq> []" and c: "counts_up 0 e" by (auto simp: list_all_iff)
  then have "counts_up 0 (butlast e @ [last e])" by simp
  then have b: "counts_up 0 (butlast e)" and l: "snd (last e) = int (length (butlast e))"
    unfolding counts_up_append by (simp, cases "last e", simp)
  have "(\<exists>n. (n, v) \<in> set (butlast e)) \<longleftrightarrow> v \<in> snd ` set (butlast e)" by force
  then show ?thesis unfolding counts_up_values [OF b] l by simp
qed

lemma sentinels_bound_their_enums_witness:
  "(\<exists>n. (n, 1) \<in> set (butlast enum_bpf_func_id)) \<and> snd (last enum_bpf_func_id) = 212"
proof -
  have l: "snd (last enum_bpf_func_id) = 212" by (simp add: enum_bpf_func_id_def enum_bpf_func_id_part2_def)
  have "enum_bpf_func_id \<in> set sentinel_enums" by (simp add: sentinel_enums_def)
  from sentinels_bound_their_enums [OF this, of 1] l show ?thesis by simp
qed

section \<open>All enumerations\<close>

definition bpf_enums :: "(string \<times> enum_decl) list" where
  "bpf_enums = [
    (''enum_perf_sw_ids'', enum_perf_sw_ids), (''enum_cgroup_bpf_attach_type'', enum_cgroup_bpf_attach_type),
    (''enum_of_TP_ERR_FILE_NOT_FOUND'', enum_of_TP_ERR_FILE_NOT_FOUND),
    (''enum_bpf_cgroup_iter_order'', enum_bpf_cgroup_iter_order), (''enum_bpf_map_type'', enum_bpf_map_type),
    (''enum_bpf_prog_type'', enum_bpf_prog_type), (''enum_bpf_attach_type'', enum_bpf_attach_type),
    (''enum_bpf_func_id'', enum_bpf_func_id), (''enum_btf_field_type'', enum_btf_field_type),
    (''enum_bpf_iter_task_type'', enum_bpf_iter_task_type), (''enum_bpf_arg_type'', enum_bpf_arg_type),
    (''enum_bpf_return_type'', enum_bpf_return_type), (''enum_bpf_reg_type'', enum_bpf_reg_type),
    (''enum_tc_setup_type'', enum_tc_setup_type), (''enum_bpf_netdev_command'', enum_bpf_netdev_command),
    (''enum_bpf_xdp_mode'', enum_bpf_xdp_mode), (''enum_skb_drop_reason'', enum_skb_drop_reason),
    (''enum_of_BPF_SOCK_OPS_VOID'', enum_of_BPF_SOCK_OPS_VOID),
    (''enum_bpf_cgroup_storage_type'', enum_bpf_cgroup_storage_type),
    (''enum_of_INET_DIAG_REQ_NONE'', enum_of_INET_DIAG_REQ_NONE),
    (''enum_netns_bpf_attach_type'', enum_netns_bpf_attach_type), (''enum_of_BPF_ANY'', enum_of_BPF_ANY),
    (''enum_of_BPF_F_NO_PREALLOC'', enum_of_BPF_F_NO_PREALLOC),
    (''enum_of_BTF_KIND_UNKN'', enum_of_BTF_KIND_UNKN), (''enum_bpf_type_flag'', enum_bpf_type_flag),
    (''enum_of_BPF_MAX_TRAMP_LINKS'', enum_of_BPF_MAX_TRAMP_LINKS),
    (''enum_bpf_tramp_prog_type'', enum_bpf_tramp_prog_type),
    (''enum_lockdown_reason'', enum_lockdown_reason), (''enum_of_BPF_REG_0'', enum_of_BPF_REG_0),
    (''enum_bpf_jit_poke_reason'', enum_bpf_jit_poke_reason),
    (''enum_lwtunnel_encap_types'', enum_lwtunnel_encap_types), (''enum_bpf_ret_code'', enum_bpf_ret_code),
    (''enum_of_LWT_BPF_PROG_UNSPEC'', enum_of_LWT_BPF_PROG_UNSPEC),
    (''enum_of_LWT_BPF_UNSPEC'', enum_of_LWT_BPF_UNSPEC), (''enum_nf_hook_ops_type'', enum_nf_hook_ops_type),
    (''enum_of_UDP_BPF_IPV4'', enum_of_UDP_BPF_IPV4), (''enum_bpf_link_type'', enum_bpf_link_type),
    (''enum_bpf_dynptr_type'', enum_bpf_dynptr_type), (''enum_bpf_iter_state'', enum_bpf_iter_state),
    (''enum_bpf_reg_liveness'', enum_bpf_reg_liveness), (''enum_bpf_access_type'', enum_bpf_access_type),
    (''enum_bpf_text_poke_type'', enum_bpf_text_poke_type),
    (''enum_perf_record_ksymbol_type'', enum_perf_record_ksymbol_type), (''enum_tca_id'', enum_tca_id),
    (''enum_of_BPF_F_BPRM_SECUREEXEC'', enum_of_BPF_F_BPRM_SECUREEXEC),
    (''enum_of_BTF_SOCK_TYPE_INET'', enum_of_BTF_SOCK_TYPE_INET),
    (''enum_of_BPF_LOCAL_STORAGE_GET_F_CREATE'', enum_of_BPF_LOCAL_STORAGE_GET_F_CREATE),
    (''enum_of_SK_DIAG_BPF_STORAGE_REQ_NONE'', enum_of_SK_DIAG_BPF_STORAGE_REQ_NONE),
    (''enum_of_SK_DIAG_BPF_STORAGE_REP_NONE'', enum_of_SK_DIAG_BPF_STORAGE_REP_NONE),
    (''enum_of_SK_DIAG_BPF_STORAGE_NONE'', enum_of_SK_DIAG_BPF_STORAGE_NONE),
    (''enum_of_INET_DIAG_NONE'', enum_of_INET_DIAG_NONE),
    (''enum_hid_bpf_prog_type'', enum_hid_bpf_prog_type),
    (''enum_of_BPF_F_SYSCTL_BASE_NAME'', enum_of_BPF_F_SYSCTL_BASE_NAME),
    (''enum_of_BPF_F_BROADCAST'', enum_of_BPF_F_BROADCAST), (''enum_of_TCP_BPF_IPV4'', enum_of_TCP_BPF_IPV4),
    (''enum_of_TCP_BPF_BASE'', enum_of_TCP_BPF_BASE), (''enum_btf_func_linkage'', enum_btf_func_linkage),
    (''enum_bpf_core_relo_kind'', enum_bpf_core_relo_kind),
    (''enum_of_BTF_TRACING_TYPE_TASK'', enum_of_BTF_TRACING_TYPE_TASK),
    (''enum_of_BPF_MAX_LOOPS'', enum_of_BPF_MAX_LOOPS),
    (''enum_bpf_stack_slot_type'', enum_bpf_stack_slot_type), (''enum_bpf_access_src'', enum_bpf_access_src),
    (''enum_kfunc_ptr_arg_type'', enum_kfunc_ptr_arg_type),
    (''enum_bpf_iter_feature'', enum_bpf_iter_feature), (''enum_of_BPF_F_INGRESS'', enum_of_BPF_F_INGRESS),
    (''enum_of_BPF_SOCK_OPS_RTO_CB_FLAG'', enum_of_BPF_SOCK_OPS_RTO_CB_FLAG),
    (''enum_of_BPF_FLOW_DISSECTOR_F_PARSE_1ST_FRAG'', enum_of_BPF_FLOW_DISSECTOR_F_PARSE_1ST_FRAG),
    (''enum_bpf_type'', enum_bpf_type), (''enum_of_BTF_VAR_STATIC'', enum_of_BTF_VAR_STATIC),
    (''enum_of_BTF_F_COMPACT'', enum_of_BTF_F_COMPACT), (''enum_of_BTF_FIELDS_MAX'', enum_of_BTF_FIELDS_MAX),
    (''enum_btf_kfunc_hook'', enum_btf_kfunc_hook),
    (''enum_of_BTF_KFUNC_SET_MAX_CNT'', enum_of_BTF_KFUNC_SET_MAX_CNT),
    (''enum_of_BTF_FIELD_IGNORE'', enum_of_BTF_FIELD_IGNORE),
    (''enum_of___ctx_convertBPF_PROG_TYPE_SOCKET_FILTER'', enum_of___ctx_convertBPF_PROG_TYPE_SOCKET_FILTER),
    (''enum_bpf_struct_walk_result'', enum_bpf_struct_walk_result),
    (''enum_of_BTF_MODULE_F_LIVE'', enum_of_BTF_MODULE_F_LIVE),
    (''enum_of_BPF_F_KPROBE_MULTI_RETURN'', enum_of_BPF_F_KPROBE_MULTI_RETURN),
    (''enum_of_BPF_F_UPROBE_MULTI_RETURN'', enum_of_BPF_F_UPROBE_MULTI_RETURN),
    (''enum_of_BPF_F_INDEX_MASK'', enum_of_BPF_F_INDEX_MASK),
    (''enum_of_BPF_F_GET_BRANCH_RECORDS_SIZE'', enum_of_BPF_F_GET_BRANCH_RECORDS_SIZE),
    (''enum_bpf_task_fd_type'', enum_bpf_task_fd_type), (''enum_bpf_cmd'', enum_bpf_cmd),
    (''enum_bpf_perf_event_type'', enum_bpf_perf_event_type), (''enum_bpf_stats_type'', enum_bpf_stats_type),
    (''enum_perf_bpf_event_type'', enum_perf_bpf_event_type), (''enum_bpf_audit'', enum_bpf_audit),
    (''enum_of_BPF_WRITE_HDR_TCP_CURRENT_MSS'', enum_of_BPF_WRITE_HDR_TCP_CURRENT_MSS),
    (''enum_perf_event_type'', enum_perf_event_type),
    (''enum_bpf_task_vma_iter_find_op'', enum_bpf_task_vma_iter_find_op),
    (''enum_of_BPF_TASK_ITER_ALL_PROCS'', enum_of_BPF_TASK_ITER_ALL_PROCS),
    (''enum_bpf_stack_build_id_status'', enum_bpf_stack_build_id_status),
    (''enum_of_BPF_F_SKIP_FIELD_MASK'', enum_of_BPF_F_SKIP_FIELD_MASK),
    (''enum_of_BPF_F_RECOMPUTE_CSUM'', enum_of_BPF_F_RECOMPUTE_CSUM),
    (''enum_of_BPF_F_HDR_FIELD_MASK'', enum_of_BPF_F_HDR_FIELD_MASK),
    (''enum_of_BPF_F_PSEUDO_HDR'', enum_of_BPF_F_PSEUDO_HDR),
    (''enum_of_BPF_F_TUNINFO_IPV6'', enum_of_BPF_F_TUNINFO_IPV6),
    (''enum_of_BPF_F_ZERO_CSUM_TX'', enum_of_BPF_F_ZERO_CSUM_TX),
    (''enum_of_BPF_F_TUNINFO_FLAGS'', enum_of_BPF_F_TUNINFO_FLAGS),
    (''enum_of_BPF_CSUM_LEVEL_QUERY'', enum_of_BPF_CSUM_LEVEL_QUERY),
    (''enum_of_BPF_F_ADJ_ROOM_FIXED_GSO'', enum_of_BPF_F_ADJ_ROOM_FIXED_GSO),
    (''enum_of_BPF_ADJ_ROOM_ENCAP_L2_MASK'', enum_of_BPF_ADJ_ROOM_ENCAP_L2_MASK),
    (''enum_of_BPF_SK_LOOKUP_F_REPLACE'', enum_of_BPF_SK_LOOKUP_F_REPLACE),
    (''enum_bpf_adj_room_mode'', enum_bpf_adj_room_mode),
    (''enum_bpf_hdr_start_off'', enum_bpf_hdr_start_off),
    (''enum_bpf_lwt_encap_mode'', enum_bpf_lwt_encap_mode),
    (''enum_of_BPF_SKB_TSTAMP_UNSPEC'', enum_of_BPF_SKB_TSTAMP_UNSPEC),
    (''enum_of_TCP_BPF_IW'', enum_of_TCP_BPF_IW),
    (''enum_of_BPF_LOAD_HDR_OPT_TCP_SYN'', enum_of_BPF_LOAD_HDR_OPT_TCP_SYN),
    (''enum_of_BPF_FIB_LOOKUP_DIRECT'', enum_of_BPF_FIB_LOOKUP_DIRECT),
    (''enum_of_BPF_FIB_LKUP_RET_SUCCESS'', enum_of_BPF_FIB_LKUP_RET_SUCCESS),
    (''enum_bpf_check_mtu_flags'', enum_bpf_check_mtu_flags),
    (''enum_bpf_check_mtu_ret'', enum_bpf_check_mtu_ret),
    (''enum_of_SEG6_LOCAL_ACTION_UNSPEC'', enum_of_SEG6_LOCAL_ACTION_UNSPEC),
    (''enum_of_BPF_F_NEIGH'', enum_of_BPF_F_NEIGH), (''enum_of_BPF_F_TIMER_ABS'', enum_of_BPF_F_TIMER_ABS),
    (''enum_of_BPF_F_CURRENT_NETNS'', enum_of_BPF_F_CURRENT_NETNS),
    (''enum_of_BPF_XFRM_STATE_OPTS_SZ'', enum_of_BPF_XFRM_STATE_OPTS_SZ),
    (''enum_hid_bpf_attach_flags'', enum_hid_bpf_attach_flags),
    (''enum_of_BPF_SKEL_KERNEL'', enum_of_BPF_SKEL_KERNEL),
    (''enum_of_SEG6_LOCAL_UNSPEC'', enum_of_SEG6_LOCAL_UNSPEC),
    (''enum_of_SEG6_LOCAL_BPF_PROG_UNSPEC'', enum_of_SEG6_LOCAL_BPF_PROG_UNSPEC),
    (''enum_of_BPF_TCP_ESTABLISHED'', enum_of_BPF_TCP_ESTABLISHED),
    (''enum_bpf_lru_list_type'', enum_bpf_lru_list_type),
    (''enum_of_BPF_RB_NO_WAKEUP'', enum_of_BPF_RB_NO_WAKEUP),
    (''enum_of_BPF_RB_AVAIL_DATA'', enum_of_BPF_RB_AVAIL_DATA),
    (''enum_of_BPF_RINGBUF_BUSY_BIT'', enum_of_BPF_RINGBUF_BUSY_BIT),
    (''enum_bpf_struct_ops_state'', enum_bpf_struct_ops_state),
    (''enum_of_BPF_STRUCT_OPS_TYPE_bpf_dummy_ops'', enum_of_BPF_STRUCT_OPS_TYPE_bpf_dummy_ops)]"

lemmas bpf_enum_defs =
    enum_perf_sw_ids_def enum_cgroup_bpf_attach_type_def enum_of_TP_ERR_FILE_NOT_FOUND_def
    enum_bpf_cgroup_iter_order_def enum_bpf_map_type_def enum_bpf_prog_type_def enum_bpf_attach_type_def
    enum_bpf_func_id_def enum_btf_field_type_def enum_bpf_iter_task_type_def enum_bpf_arg_type_def
    enum_bpf_return_type_def enum_bpf_reg_type_def enum_tc_setup_type_def enum_bpf_netdev_command_def
    enum_bpf_xdp_mode_def enum_skb_drop_reason_def enum_of_BPF_SOCK_OPS_VOID_def
    enum_bpf_cgroup_storage_type_def enum_of_INET_DIAG_REQ_NONE_def enum_netns_bpf_attach_type_def
    enum_of_BPF_ANY_def enum_of_BPF_F_NO_PREALLOC_def enum_of_BTF_KIND_UNKN_def enum_bpf_type_flag_def
    enum_of_BPF_MAX_TRAMP_LINKS_def enum_bpf_tramp_prog_type_def enum_lockdown_reason_def
    enum_of_BPF_REG_0_def enum_bpf_jit_poke_reason_def enum_lwtunnel_encap_types_def enum_bpf_ret_code_def
    enum_of_LWT_BPF_PROG_UNSPEC_def enum_of_LWT_BPF_UNSPEC_def enum_nf_hook_ops_type_def
    enum_of_UDP_BPF_IPV4_def enum_bpf_link_type_def enum_bpf_dynptr_type_def enum_bpf_iter_state_def
    enum_bpf_reg_liveness_def enum_bpf_access_type_def enum_bpf_text_poke_type_def
    enum_perf_record_ksymbol_type_def enum_tca_id_def enum_of_BPF_F_BPRM_SECUREEXEC_def
    enum_of_BTF_SOCK_TYPE_INET_def enum_of_BPF_LOCAL_STORAGE_GET_F_CREATE_def
    enum_of_SK_DIAG_BPF_STORAGE_REQ_NONE_def enum_of_SK_DIAG_BPF_STORAGE_REP_NONE_def
    enum_of_SK_DIAG_BPF_STORAGE_NONE_def enum_of_INET_DIAG_NONE_def enum_hid_bpf_prog_type_def
    enum_of_BPF_F_SYSCTL_BASE_NAME_def enum_of_BPF_F_BROADCAST_def enum_of_TCP_BPF_IPV4_def
    enum_of_TCP_BPF_BASE_def enum_btf_func_linkage_def enum_bpf_core_relo_kind_def
    enum_of_BTF_TRACING_TYPE_TASK_def enum_of_BPF_MAX_LOOPS_def enum_bpf_stack_slot_type_def
    enum_bpf_access_src_def enum_kfunc_ptr_arg_type_def enum_bpf_iter_feature_def enum_of_BPF_F_INGRESS_def
    enum_of_BPF_SOCK_OPS_RTO_CB_FLAG_def enum_of_BPF_FLOW_DISSECTOR_F_PARSE_1ST_FRAG_def enum_bpf_type_def
    enum_of_BTF_VAR_STATIC_def enum_of_BTF_F_COMPACT_def enum_of_BTF_FIELDS_MAX_def enum_btf_kfunc_hook_def
    enum_of_BTF_KFUNC_SET_MAX_CNT_def enum_of_BTF_FIELD_IGNORE_def
    enum_of___ctx_convertBPF_PROG_TYPE_SOCKET_FILTER_def enum_bpf_struct_walk_result_def
    enum_of_BTF_MODULE_F_LIVE_def enum_of_BPF_F_KPROBE_MULTI_RETURN_def enum_of_BPF_F_UPROBE_MULTI_RETURN_def
    enum_of_BPF_F_INDEX_MASK_def enum_of_BPF_F_GET_BRANCH_RECORDS_SIZE_def enum_bpf_task_fd_type_def
    enum_bpf_cmd_def enum_bpf_perf_event_type_def enum_bpf_stats_type_def enum_perf_bpf_event_type_def
    enum_bpf_audit_def enum_of_BPF_WRITE_HDR_TCP_CURRENT_MSS_def enum_perf_event_type_def
    enum_bpf_task_vma_iter_find_op_def enum_of_BPF_TASK_ITER_ALL_PROCS_def enum_bpf_stack_build_id_status_def
    enum_of_BPF_F_SKIP_FIELD_MASK_def enum_of_BPF_F_RECOMPUTE_CSUM_def enum_of_BPF_F_HDR_FIELD_MASK_def
    enum_of_BPF_F_PSEUDO_HDR_def enum_of_BPF_F_TUNINFO_IPV6_def enum_of_BPF_F_ZERO_CSUM_TX_def
    enum_of_BPF_F_TUNINFO_FLAGS_def enum_of_BPF_CSUM_LEVEL_QUERY_def enum_of_BPF_F_ADJ_ROOM_FIXED_GSO_def
    enum_of_BPF_ADJ_ROOM_ENCAP_L2_MASK_def enum_of_BPF_SK_LOOKUP_F_REPLACE_def enum_bpf_adj_room_mode_def
    enum_bpf_hdr_start_off_def enum_bpf_lwt_encap_mode_def enum_of_BPF_SKB_TSTAMP_UNSPEC_def
    enum_of_TCP_BPF_IW_def enum_of_BPF_LOAD_HDR_OPT_TCP_SYN_def enum_of_BPF_FIB_LOOKUP_DIRECT_def
    enum_of_BPF_FIB_LKUP_RET_SUCCESS_def enum_bpf_check_mtu_flags_def enum_bpf_check_mtu_ret_def
    enum_of_SEG6_LOCAL_ACTION_UNSPEC_def enum_of_BPF_F_NEIGH_def enum_of_BPF_F_TIMER_ABS_def
    enum_of_BPF_F_CURRENT_NETNS_def enum_of_BPF_XFRM_STATE_OPTS_SZ_def enum_hid_bpf_attach_flags_def
    enum_of_BPF_SKEL_KERNEL_def enum_of_SEG6_LOCAL_UNSPEC_def enum_of_SEG6_LOCAL_BPF_PROG_UNSPEC_def
    enum_of_BPF_TCP_ESTABLISHED_def enum_bpf_lru_list_type_def enum_of_BPF_RB_NO_WAKEUP_def
    enum_of_BPF_RB_AVAIL_DATA_def enum_of_BPF_RINGBUF_BUSY_BIT_def enum_bpf_struct_ops_state_def
    enum_of_BPF_STRUCT_OPS_TYPE_bpf_dummy_ops_def enum_bpf_func_id_part1_def enum_bpf_func_id_part2_def

definition wide_enum :: string where "wide_enum = ''enum_of_BPF_F_INDEX_MASK''"

lemma bpf_enum_sizes:
  "list_all (\<lambda>(n, e). enum_ctype e = (if n = wide_enum then TInt 8 else TInt 4)) bpf_enums"
  by (simp add: bpf_enums_def bpf_enum_defs enum_ctype_def wide_enum_def)

text \<open>Every value of a BPF enumeration fits the 32-bit fields that carry it through \<open>union bpf_attr\<close> and the
  map and program objects; the one exception are the 64-bit flags of \<open>BPF_F_INDEX_MASK\<close>.\<close>

lemma bpf_enums_are_32_bit:
  assumes "(n, e) \<in> set bpf_enums" and "n \<noteq> wide_enum"
  shows "csize 8 (enum_ctype e) = csize 8 typedef___u32"
  using bpf_enum_sizes assms by (fastforce simp: list_all_iff typedef___u32_def)

lemma bpf_enums_are_32_bit_witness: "csize 8 (enum_ctype enum_bpf_cmd) = csize 8 typedef___u32"
  by (rule bpf_enums_are_32_bit [of "''enum_bpf_cmd''"]) (simp_all add: bpf_enums_def wide_enum_def)

text \<open>The enumerations with two names for one value, and those not in increasing order.\<close>

definition aliased :: "string set" where
  "aliased = {''enum_bpf_map_type'', ''enum_of_BTF_KIND_UNKN'', ''enum_bpf_type_flag'',
     ''enum_of_BPF_LOCAL_STORAGE_GET_F_CREATE'', ''enum_of_BTF_KFUNC_SET_MAX_CNT'',
     ''enum_of_BPF_F_INDEX_MASK'', ''enum_bpf_cmd''}"

definition unordered :: "string set" where
  "unordered = {''enum_btf_field_type'', ''enum_bpf_arg_type'', ''enum_bpf_return_type'',
     ''enum_of_BPF_ADJ_ROOM_ENCAP_L2_MASK'', ''enum_of_BPF_RINGBUF_BUSY_BIT''}"

fun increasing :: "enum_decl \<Rightarrow> bool" where
  "increasing (x # y # e) = (snd x < snd y \<and> increasing (y # e))"
| "increasing e = True"

lemma increasing_distinct: "increasing e \<Longrightarrow> distinct (map snd e)"
proof -
  assume "increasing e"
  then have "successively (<) (map snd e)" by (induction e rule: increasing.induct) simp_all
  then have "sorted_wrt (<) (map snd e)" by (simp add: successively_conv_sorted_wrt)
  then show ?thesis by (simp add: strict_sorted_iff)
qed

lemma bpf_enums_order:
  "list_all (\<lambda>(n, e). if n \<in> aliased then True
     else if n \<in> unordered then distinct (map snd e) else increasing e) bpf_enums"
  by (simp add: bpf_enums_def bpf_enum_defs aliased_def unordered_def)

text \<open>The first name of a value, as a table of names has it.\<close>

definition enum_name :: "enum_decl \<Rightarrow> int \<Rightarrow> string option" where
  "enum_name e = map_of (map (\<lambda>(m, v). (v, m)) e)"

text \<open>Outside the seven enumerations of \<open>aliased\<close>, which name a value twice, a value of a BPF enumeration identifies its
  enumerator: looking the value of any enumerator up gives back that enumerator, and a value that is found
  is the value of the name found.\<close>

lemma enum_values_identify:
  assumes "(n, e) \<in> set bpf_enums" and "n \<notin> aliased"
  shows "enum_name e v = Some m \<longleftrightarrow> (m, v) \<in> set e"
proof -
  have "distinct (map snd e)"
    using bpf_enums_order assms increasing_distinct by (fastforce simp: list_all_iff split: if_splits)
  then have "distinct (map fst (map (\<lambda>(m, v). (v, m)) e))"
    by (simp add: comp_def case_prod_unfold)
  from map_of_eq_Some_iff [OF this, of v m] show ?thesis by (force simp: enum_name_def)
qed

lemma enum_values_identify_witness: "enum_name enum_bpf_prog_type 6 = Some ''BPF_PROG_TYPE_XDP''"
  using enum_values_identify [of "''enum_bpf_prog_type''" enum_bpf_prog_type 6 "''BPF_PROG_TYPE_XDP''"]
  by (simp add: bpf_enums_def aliased_def enum_bpf_prog_type_def)

section \<open>Records of the user interface\<close>

definition uapi_types :: "(string \<times> ctype) list" where
  "uapi_types = [
    (''struct_btf_type'', struct_btf_type), (''struct_btf_param'', struct_btf_param),
    (''union_bpf_attr'', union_bpf_attr), (''struct_bpf_link_info'', struct_bpf_link_info),
    (''struct_bpf_func_info'', struct_bpf_func_info), (''struct_bpf_line_info'', struct_bpf_line_info),
    (''struct_btf_header'', struct_btf_header), (''struct_bpf_flow_keys'', struct_bpf_flow_keys),
    (''struct_bpf_sock'', struct_bpf_sock), (''struct_btf_member'', struct_btf_member),
    (''struct_bpf_cgroup_dev_ctx'', struct_bpf_cgroup_dev_ctx), (''struct_btf_array'', struct_btf_array),
    (''struct_bpf_devmap_val'', struct_bpf_devmap_val), (''struct_btf_var_secinfo'', struct_btf_var_secinfo),
    (''struct_bpf_core_relo'', struct_bpf_core_relo), (''struct_bpf_map_info'', struct_bpf_map_info),
    (''struct_bpf_cpumap_val'', struct_bpf_cpumap_val), (''struct_btf_enum'', struct_btf_enum),
    (''struct_btf_var'', struct_btf_var), (''struct_btf_decl_tag'', struct_btf_decl_tag),
    (''struct_btf_enum64'', struct_btf_enum64), (''struct_bpf_btf_info'', struct_bpf_btf_info),
    (''struct_bpf_sock_addr'', struct_bpf_sock_addr), (''struct_bpf_sock_ops'', struct_bpf_sock_ops),
    (''struct_bpf_sockopt'', struct_bpf_sockopt), (''struct_bpf_sk_lookup'', struct_bpf_sk_lookup),
    (''struct_bpf_perf_event_value'', struct_bpf_perf_event_value), (''struct_btf_ptr'', struct_btf_ptr),
    (''struct_bpf_spin_lock'', struct_bpf_spin_lock),
    (''struct_bpf_stack_build_id'', struct_bpf_stack_build_id),
    (''struct_bpf_tunnel_key'', struct_bpf_tunnel_key), (''struct_bpf_xfrm_state'', struct_bpf_xfrm_state),
    (''struct_bpf_tcp_sock'', struct_bpf_tcp_sock), (''struct_bpf_sock_tuple'', struct_bpf_sock_tuple),
    (''struct_bpf_fib_lookup'', struct_bpf_fib_lookup), (''struct_bpf_redir_neigh'', struct_bpf_redir_neigh),
    (''struct_bpf_timer'', struct_bpf_timer), (''struct_bpf_dynptr'', struct_bpf_dynptr),
    (''struct_bpf_list_head'', struct_bpf_list_head), (''struct_bpf_list_node'', struct_bpf_list_node),
    (''struct_bpf_rb_root'', struct_bpf_rb_root), (''struct_bpf_rb_node'', struct_bpf_rb_node),
    (''struct_bpf_refcount'', struct_bpf_refcount), (''struct_bpf_pidns_info'', struct_bpf_pidns_info)]"

text \<open>The bytes of a type that hold data, padding inside nested records excluded; of a union those of its fullest arm.\<close>

fun payload :: "ctype \<Rightarrow> nat" where
  "payload (TInt n) = n"
| "payload TPtr = 8"
| "payload (TArr t n) = n * payload t"
| "payload (TStruct fs) = sum_list (map (\<lambda>f. payload (snd f)) fs)"
| "payload (TUnion fs) = foldr (\<lambda>f s. max (payload (snd f)) s) fs 0"

definition hole_bytes :: "ctype \<Rightarrow> nat" where
  "hole_bytes t = csize 8 t - payload t"

definition holey :: "string set" where
  "holey = {''struct_bpf_link_info'', ''struct_bpf_sock'', ''struct_bpf_map_info'', ''struct_bpf_sock_addr'',
     ''struct_bpf_sk_lookup''}"

lemmas uapi_type_defs =
    struct_btf_type_def struct_btf_param_def union_bpf_attr_def struct_bpf_link_info_def
    struct_bpf_func_info_def struct_bpf_line_info_def struct_btf_header_def struct_bpf_flow_keys_def
    struct_bpf_sock_def struct_btf_member_def struct_bpf_cgroup_dev_ctx_def struct_btf_array_def
    struct_bpf_devmap_val_def struct_btf_var_secinfo_def struct_bpf_core_relo_def struct_bpf_map_info_def
    struct_bpf_cpumap_val_def struct_btf_enum_def struct_btf_var_def struct_btf_decl_tag_def
    struct_btf_enum64_def struct_bpf_btf_info_def struct_bpf_sock_addr_def struct_bpf_sock_ops_def
    struct_bpf_sockopt_def struct_bpf_sk_lookup_def struct_bpf_perf_event_value_def struct_btf_ptr_def
    struct_bpf_spin_lock_def struct_bpf_stack_build_id_def struct_bpf_tunnel_key_def
    struct_bpf_xfrm_state_def struct_bpf_tcp_sock_def struct_bpf_sock_tuple_def struct_bpf_fib_lookup_def
    struct_bpf_redir_neigh_def struct_bpf_timer_def struct_bpf_dynptr_def struct_bpf_list_head_def
    struct_bpf_list_node_def struct_bpf_rb_root_def struct_bpf_rb_node_def struct_bpf_refcount_def
    struct_bpf_pidns_info_def union_bpf_attr_part1_def union_bpf_attr_part2_def

lemma core_relo_kind_ctype: "enum_ctype enum_bpf_core_relo_kind = TInt 4"
  by (simp add: enum_ctype_def enum_bpf_core_relo_kind_def)

lemma payload_typedefs:
  "payload typedef___u8 = 1"
  "payload typedef___u16 = 2"
  "payload typedef___u32 = 4"
  "payload typedef___u64 = 8"
  "payload typedef___s32 = 4"
  "payload typedef___be16 = 2"
  "payload typedef___be32 = 4"
  by (simp_all add: typedef___u8_def typedef___u16_def typedef___u32_def typedef___u64_def typedef_u8_def typedef_u16_def typedef_u32_def typedef_u64_def typedef___kernel_ulong_t_def typedef___kernel_size_t_def typedef_bool_def typedef_size_t_def typedef___s32_def typedef___s64_def typedef_s32_def typedef_s64_def typedef___be16_def typedef___be32_def)

lemma uapi_holes: "list_all (\<lambda>(n, t). 0 < hole_bytes t \<longleftrightarrow> n \<in> holey) uapi_types"
  by (simp add: uapi_types_def uapi_type_defs holey_def hole_bytes_def pad_up_def layout core_relo_kind_ctype
      payload_typedefs del: One_nat_def)

text \<open>Of the records of the BPF user interface exactly the five in \<open>holey\<close> have padding, between their fields,
  after them or in a nested record. In every other one each byte belongs to a field (of a union, to the fullest
  arm), so filling the fields initialises the whole record.\<close>

lemma uapi_records_without_holes:
  assumes "(n, t) \<in> set uapi_types"
  shows "0 < hole_bytes t \<longleftrightarrow> n \<in> holey"
  using uapi_holes assms by (fastforce simp: list_all_iff)

lemma uapi_records_without_holes_witness: "hole_bytes union_bpf_attr = 0 \<and> 0 < hole_bytes struct_bpf_map_info"
  using uapi_records_without_holes [of "''union_bpf_attr''" union_bpf_attr]
    uapi_records_without_holes [of "''struct_bpf_map_info''" struct_bpf_map_info]
  by (simp add: uapi_types_def holey_def)

end
