(* ===== verification/CBitFields.thy ===== *)
theory CBitFields
  imports CLayout
begin

unbundle bit_operations_syntax

text \<open>
  C structs with bit fields. A member is an ordinary field or a bit field with the size of its
  declared type and its width; an unnamed bit field is padding, and one of width 0 ends the storage
  unit. \<open>bit_slots\<close> places the members as the System V ABI does on the targets: offsets and widths
  are in bits, an ordinary field is aligned to its type, and a bit field goes to the next bit unless
  it would cross a storage unit of its declared type. \<open>bstruct\<close> is the descriptor of such a struct
  inside another type: it has its size and alignment, to which only named bit fields contribute.

  The second half is reading and writing a bit field in a memory image, a natural number in little
  endian.
\<close>

section \<open>Layout\<close>

datatype member = Fld string ctype | Bits string nat nat

fun member_name :: "member \<Rightarrow> string" where
  "member_name (Fld n t) = n"
| "member_name (Bits n s w) = n"

fun member_bits :: "member \<Rightarrow> nat" where
  "member_bits (Fld n t) = 8 * csize 8 t"
| "member_bits (Bits n s w) = w"

fun member_start :: "nat \<Rightarrow> member \<Rightarrow> nat" where
  "member_start off (Fld n t) = pad_up off (8 * calign 8 t)"
| "member_start off (Bits n s w) =
     (if w = 0 \<or> 8 * s < off mod (8 * s) + w then pad_up off (8 * s) else off)"

fun member_align :: "member \<Rightarrow> nat" where
  "member_align (Fld n t) = calign 8 t"
| "member_align (Bits n s w) = (if n = [] then 1 else s)"

fun bit_slots :: "nat \<Rightarrow> member list \<Rightarrow> (string \<times> nat \<times> nat) list" where
  "bit_slots off [] = []"
| "bit_slots off (m # ms) =
     (member_name m, member_start off m, member_bits m) # bit_slots (member_start off m + member_bits m) ms"

fun bit_end :: "nat \<Rightarrow> member list \<Rightarrow> nat" where
  "bit_end off [] = off"
| "bit_end off (m # ms) = bit_end (member_start off m + member_bits m) ms"

definition balign :: "member list \<Rightarrow> nat" where
  "balign ms = foldr (\<lambda>m a. max (member_align m) a) ms 1"

definition bsize :: "member list \<Rightarrow> nat" where
  "bsize ms = pad_up ((bit_end 0 ms + 7) div 8) (balign ms)"

definition bstruct :: "member list \<Rightarrow> ctype" where
  "bstruct ms = TStruct [([], TArr (TInt (balign ms)) (bsize ms div balign ms))]"

lemma balign_simps [simp]:
  "balign [] = 1" "balign (m # ms) = max (member_align m) (balign ms)"
  by (simp_all add: balign_def)

lemma balign_pos: "0 < balign ms"
  by (induction ms) (simp_all add: max_def)

lemma bstruct_layout:
  assumes "balign ms \<in> {1, 2, 4, 8}"
  shows "calign 8 (bstruct ms) = balign ms" and "csize 8 (bstruct ms) = bsize ms"
proof -
  have "balign ms dvd bsize ms" unfolding bsize_def by (rule pad_up_dvd [OF balign_pos])
  with assms balign_pos [of ms] show "calign 8 (bstruct ms) = balign ms" "csize 8 (bstruct ms) = bsize ms"
    by (auto simp: bstruct_def pad_up_def)
qed

lemma member_start_ge: "off \<le> member_start off m"
  by (cases m) (simp_all add: pad_up_ge)

lemma bit_slots_ok: "bit_end off ms \<le> hi \<Longrightarrow> slots_ok off hi (bit_slots off ms)"
  by (induction ms arbitrary: off) (simp_all add: member_start_ge)

lemma bit_slots_in_struct: "slots_ok 0 (8 * bsize ms) (bit_slots 0 ms)"
proof (rule bit_slots_ok)
  have "bit_end 0 ms \<le> 8 * ((bit_end 0 ms + 7) div 8)" by simp
  also have "\<dots> \<le> 8 * bsize ms" by (simp add: bsize_def pad_up_ge)
  finally show "bit_end 0 ms \<le> 8 * bsize ms" .
qed

lemma length_bit_slots [simp]: "length (bit_slots off ms) = length ms"
  by (induction ms arbitrary: off) simp_all

text \<open>Two slots at different positions do not overlap.\<close>

lemma slots_ok_disjoint:
  assumes "slots_ok lo hi ss" and "i < j" and "j < length ss"
    and "ss ! i = (a, off, sz)" and "ss ! j = (b, off', sz')"
  shows "off + sz \<le> off'"
  using assms
proof (induction ss arbitrary: lo i j)
  case Nil
  then show ?case by simp
next
  case (Cons s ss)
  obtain c o2 z where s: "s = (c, o2, z)" by (cases s) auto
  from Cons.prems(2) obtain j' where j: "j = Suc j'" by (cases j) auto
  show ?case
  proof (cases i)
    case 0
    from Cons.prems s j have "(b, off', sz') \<in> set ss" "slots_ok (o2 + z) hi ss"
      by (auto intro: nth_mem simp flip: Cons.prems(5))
    from slots_ok_bounds [OF this(2,1)] 0 Cons.prems s show ?thesis by simp
  next
    case (Suc i')
    with Cons.prems s j Cons.IH [of "o2 + z" i' j'] show ?thesis by simp
  qed
qed

text \<open>A bit field that starts in a storage unit ends in it.\<close>

lemma bits_in_unit:
  assumes "0 < w" and "w \<le> 8 * s"
  shows "member_start off (Bits n s w) div (8 * s) = (member_start off (Bits n s w) + w - 1) div (8 * s)"
proof -
  let ?u = "8 * s" and ?b = "member_start off (Bits n s w)"
  have u: "0 < ?u" using assms by simp
  have fit: "?b mod ?u + w \<le> ?u"
  proof (cases "?u < off mod ?u + w")
    case True
    with pad_up_dvd [OF u, of off] assms show ?thesis by simp
  next
    case False
    with assms show ?thesis by simp
  qed
  have "?b + w - 1 = ?u * (?b div ?u) + (?b mod ?u + w - 1)"
    using assms(1) mult_div_mod_eq [of ?u ?b] by linarith
  moreover have "?b mod ?u + w - 1 < ?u" using fit assms(1) by linarith
  ultimately show ?thesis using u by (simp del: member_start.simps)
qed

section \<open>Access\<close>

definition bf_get :: "nat \<Rightarrow> nat \<Rightarrow> nat \<Rightarrow> nat" where
  "bf_get off w m = take_bit w (drop_bit off m)"

definition bf_set :: "nat \<Rightarrow> nat \<Rightarrow> nat \<Rightarrow> nat \<Rightarrow> nat" where
  "bf_set off w v m = take_bit off m OR push_bit off (take_bit w v) OR push_bit (off + w) (drop_bit (off + w) m)"

lemma bit_bf_get: "bit (bf_get off w m) k \<longleftrightarrow> k < w \<and> bit m (off + k)"
  by (simp add: bf_get_def bit_simps)

lemma bit_bf_set:
  "bit (bf_set off w v m) k \<longleftrightarrow> (if off \<le> k \<and> k < off + w then bit v (k - off) else bit m k)"
  by (auto simp: bf_set_def bit_simps)

lemma bf_get_set_same: "bf_get off w (bf_set off w v m) = take_bit w v"
  by (rule bit_eqI) (auto simp: bit_bf_get bit_bf_set bit_take_bit_iff)

lemma bf_get_set_other:
  "off + w \<le> off' \<or> off' + w' \<le> off \<Longrightarrow> bf_get off' w' (bf_set off w v m) = bf_get off' w' m"
  by (rule bit_eqI) (auto simp: bit_bf_get bit_bf_set)

lemma less_pow_bits: "m < 2 ^ n \<longleftrightarrow> (\<forall>k \<ge> n. \<not> bit m k)" for m :: nat
proof -
  have "m < 2 ^ n \<longleftrightarrow> take_bit n m = m" by (simp add: take_bit_nat_eq_self_iff)
  also have "\<dots> \<longleftrightarrow> (\<forall>k. bit m k \<longrightarrow> k < n)" by (auto simp: bit_eq_iff bit_take_bit_iff)
  finally show ?thesis by (metis not_less)
qed

lemma bf_set_less: "m < 2 ^ n \<Longrightarrow> off + w \<le> n \<Longrightarrow> bf_set off w v m < 2 ^ n"
  by (simp add: less_pow_bits bit_bf_set)

text \<open>All slots of a struct written in turn, and read back.\<close>

fun put_fields :: "(string \<times> nat \<times> nat) list \<Rightarrow> nat list \<Rightarrow> nat \<Rightarrow> nat" where
  "put_fields ((n, off, w) # ss) (v # vs) m = put_fields ss vs (bf_set off w v m)"
| "put_fields _ _ m = m"

definition get_fields :: "(string \<times> nat \<times> nat) list \<Rightarrow> nat \<Rightarrow> nat list" where
  "get_fields ss m = map (\<lambda>(n, off, w). bf_get off w m) ss"

lemma bf_get_put_before:
  "slots_ok lo hi ss \<Longrightarrow> off + w \<le> lo \<Longrightarrow> bf_get off w (put_fields ss vs m) = bf_get off w m"
proof (induction ss vs m arbitrary: lo rule: put_fields.induct)
  case (1 n off' w' ss v vs m)
  then have "bf_get off w (put_fields ss vs (bf_set off' w' v m)) = bf_get off w (bf_set off' w' v m)"
    by (intro "1.IH" [of "off' + w'"]) auto
  with 1 show ?case by (simp add: bf_get_set_other)
qed auto

lemma get_put_fields:
  "slots_ok lo hi ss \<Longrightarrow> list_all2 (\<lambda>(n, off, w) v. v < 2 ^ w) ss vs \<Longrightarrow> get_fields ss (put_fields ss vs m) = vs"
proof (induction ss vs m arbitrary: lo rule: put_fields.induct)
  case (1 n off w ss v vs m)
  from 1 have "bf_get off w (put_fields ss vs (bf_set off w v m)) = bf_get off w (bf_set off w v m)"
    by (intro bf_get_put_before [of "off + w" hi]) auto
  with 1 show ?case by (auto simp: get_fields_def bf_get_set_same take_bit_nat_eq_self)
qed (auto simp: get_fields_def)

end
