(* ===== verification/VmlinuxContexts.thy ===== *)
theory VmlinuxContexts
  imports VmlinuxProgs
begin

text \<open>
  The other BPF types of \<open>internal/maps/bpf/vmlinux.h\<close>: the contexts of iterators, of tracing and of
  network programs, the opaque objects that programs keep in map values together with what the kernel
  sees behind them, and records of the verifier, of BTF and of the loaders, with the types they
  contain. The conventions are those of \<open>VmlinuxTypes\<close>.
\<close>

definition typedef___kernel_uid32_t :: ctype where
  "typedef___kernel_uid32_t = TInt 4"

definition typedef___kernel_gid32_t :: ctype where
  "typedef___kernel_gid32_t = TInt 4"

definition typedef___kernel_loff_t :: ctype where
  "typedef___kernel_loff_t = TInt 8"

definition typedef_umode_t :: ctype where
  "typedef_umode_t = TInt 2"

definition typedef_uid_t :: ctype where
  "typedef_uid_t = typedef___kernel_uid32_t"

definition typedef_gid_t :: ctype where
  "typedef_gid_t = typedef___kernel_gid32_t"

definition typedef_loff_t :: ctype where
  "typedef_loff_t = typedef___kernel_loff_t"

definition typedef_ktime_t :: ctype where
  "typedef_ktime_t = typedef_s64"

definition struct_timerqueue_node :: ctype where
  "struct_timerqueue_node = TStruct
    [(''node'', struct_rb_node),
     (''expires'', typedef_ktime_t)]"

definition struct_hrtimer :: ctype where
  "struct_hrtimer = TStruct
    [(''node'', struct_timerqueue_node),
     (''_softexpires'', typedef_ktime_t),
     (''function'', TPtr),
     (''base'', TPtr),
     (''state'', typedef_u8),
     (''is_rel'', typedef_u8),
     (''is_soft'', typedef_u8),
     (''is_hard'', typedef_u8)]"

definition struct_cpumask :: ctype where
  "struct_cpumask = TStruct
    [(''bits'', TArr (TInt 8) 128)]"

definition typedef_cpumask_t :: ctype where
  "typedef_cpumask_t = struct_cpumask"

definition typedef_kuid_t :: ctype where
  "typedef_kuid_t = TStruct
    [(''val'', typedef_uid_t)]"

definition struct_pt_regs :: ctype where
  "struct_pt_regs = TStruct
    [(''r15'', TInt 8),
     (''r14'', TInt 8),
     (''r13'', TInt 8),
     (''r12'', TInt 8),
     (''bp'', TInt 8),
     (''bx'', TInt 8),
     (''r11'', TInt 8),
     (''r10'', TInt 8),
     (''r9'', TInt 8),
     (''r8'', TInt 8),
     (''ax'', TInt 8),
     (''cx'', TInt 8),
     (''dx'', TInt 8),
     (''si'', TInt 8),
     (''di'', TInt 8),
     (''orig_ax'', TInt 8),
     (''ip'', TInt 8),
     (''cs'', TInt 8),
     (''flags'', TInt 8),
     (''sp'', TInt 8),
     (''ss'', TInt 8)]"

definition struct_bpf_raw_event_map :: ctype where
  "struct_bpf_raw_event_map = TStruct
    [(''tp'', TPtr),
     (''bpf_func'', TPtr),
     (''num_args'', typedef_u32),
     (''writable_size'', typedef_u32),
     ('''', TInt 8)]"

definition typedef_kgid_t :: ctype where
  "typedef_kgid_t = TStruct
    [(''val'', typedef_gid_t)]"

definition typedef_local64_t :: ctype where
  "typedef_local64_t = TStruct
    [(''a'', typedef_local_t)]"

definition struct_rhash_head :: ctype where
  "struct_rhash_head = TStruct
    [(''next'', TPtr)]"

definition struct_cgroup_bpf :: ctype where
  "struct_cgroup_bpf = TStruct
    [(''effective'', TArr TPtr 38),
     (''progs'', TArr struct_hlist_head 38),
     (''flags'', TArr typedef_u8 38),
     (''storages'', struct_list_head),
     (''inactive'', TPtr),
     (''refcnt'', struct_percpu_ref),
     (''release_work'', struct_work_struct)]"

definition struct_u64_stats_sync :: ctype where
  "struct_u64_stats_sync = TStruct []"

definition struct_trace_entry :: ctype where
  "struct_trace_entry = TStruct
    [(''type'', TInt 2),
     (''flags'', TInt 1),
     (''preempt_count'', TInt 1),
     (''pid'', TInt 4)]"

definition union_bpf_iter_link_info :: ctype where
  "union_bpf_iter_link_info = TUnion
    [(''map'', TStruct
       [(''map_fd'', typedef___u32)]),
     (''cgroup'', TStruct
       [(''order'', enum_ctype enum_bpf_cgroup_iter_order),
        (''cgroup_fd'', typedef___u32),
        (''cgroup_id'', typedef___u64)]),
     (''task'', TStruct
       [(''tid'', typedef___u32),
        (''pid'', typedef___u32),
        (''pid_fd'', typedef___u32)])]"

definition struct_netns_bpf :: ctype where
  "struct_netns_bpf = TStruct
    [(''run_array'', TArr TPtr 2),
     (''progs'', TArr TPtr 2),
     (''links'', TArr struct_list_head 2)]"

definition typedef_u64_stats_t :: ctype where
  "typedef_u64_stats_t = TStruct
    [(''v'', typedef_local64_t)]"

definition typedef_bpf_iter_init_seq_priv_t :: ctype where
  "typedef_bpf_iter_init_seq_priv_t = TPtr"

definition typedef_bpf_iter_fini_seq_priv_t :: ctype where
  "typedef_bpf_iter_fini_seq_priv_t = TPtr"

definition struct_bpf_iter_seq_info :: ctype where
  "struct_bpf_iter_seq_info = TStruct
    [(''seq_ops'', TPtr),
     (''init_seq_private'', typedef_bpf_iter_init_seq_priv_t),
     (''fini_seq_private'', typedef_bpf_iter_fini_seq_priv_t),
     (''seq_priv_size'', typedef_u32)]"

definition struct_bpf_xdp_entity :: ctype where
  "struct_bpf_xdp_entity = TStruct
    [(''prog'', TPtr),
     (''link'', TPtr)]"

definition struct_btf_mod_pair :: ctype where
  "struct_btf_mod_pair = TStruct
    [(''btf'', TPtr),
     (''module'', TPtr)]"

definition struct_bpf_prog_stats :: ctype where
  "struct_bpf_prog_stats = TStruct
    [(''cnt'', typedef_u64_stats_t),
     (''nsecs'', typedef_u64_stats_t),
     (''misses'', typedef_u64_stats_t),
     (''syncp'', struct_u64_stats_sync),
     ('''', TInt 8)]"

definition struct_bpf_iter_meta :: ctype where
  "struct_bpf_iter_meta = TStruct
    [('''', TUnion
       [(''seq'', TPtr)]),
     (''session_id'', typedef_u64),
     (''seq_num'', typedef_u64)]"

definition struct_in6_addr :: ctype where
  "struct_in6_addr = TStruct
    [(''in6_u'', TUnion
       [(''u6_addr8'', TArr typedef___u8 16),
        (''u6_addr16'', TArr typedef___be16 8),
        (''u6_addr32'', TArr typedef___be32 4)])]"

definition struct_tcp_congestion_ops :: ctype where
  "struct_tcp_congestion_ops = TStruct
    [(''ssthresh'', TPtr),
     (''cong_avoid'', TPtr),
     (''set_state'', TPtr),
     (''cwnd_event'', TPtr),
     (''in_ack_event'', TPtr),
     (''pkts_acked'', TPtr),
     (''min_tso_segs'', TPtr),
     (''cong_control'', TPtr),
     (''undo_cwnd'', TPtr),
     (''sndbuf_expand'', TPtr),
     (''get_info'', TPtr),
     (''name'', TArr (TInt 1) 16),
     (''owner'', TPtr),
     (''list'', struct_list_head),
     (''key'', typedef_u32),
     (''flags'', typedef_u32),
     (''init'', TPtr),
     (''release'', TPtr),
     ('''', TInt 8),
     ('''', TInt 8),
     ('''', TInt 8),
     ('''', TInt 8),
     ('''', TInt 8)]"

definition struct_netdev_bpf :: ctype where
  "struct_netdev_bpf = TStruct
    [(''command'', enum_ctype enum_bpf_netdev_command),
     ('''', TUnion
       [('''', TStruct
          [(''flags'', typedef_u32),
           (''prog'', TPtr),
           (''extack'', TPtr)]),
        ('''', TStruct
          [(''offmap'', TPtr)]),
        (''xsk'', TStruct
          [(''pool'', TPtr),
           (''queue_id'', typedef_u16)])])]"

definition struct_bpf_iter_seq_prog_info :: ctype where
  "struct_bpf_iter_seq_prog_info = TStruct
    [(''prog_id'', typedef_u32)]"

definition struct_bpf_iter__bpf_prog :: ctype where
  "struct_bpf_iter__bpf_prog = TStruct
    [('''', TUnion
       [(''meta'', TPtr)]),
     ('''', TUnion
       [(''prog'', TPtr)])]"

definition typedef_netns_tracker :: ctype where
  "typedef_netns_tracker = TStruct []"

definition struct_seq_net_private :: ctype where
  "struct_seq_net_private = TStruct
    [(''net'', TPtr),
     (''ns_tracker'', typedef_netns_tracker)]"

definition struct_bpf_iter__netlink :: ctype where
  "struct_bpf_iter__netlink = TStruct
    [('''', TUnion
       [(''meta'', TPtr)]),
     ('''', TUnion
       [(''sk'', TPtr)])]"

definition typedef_xfrm_address_t :: ctype where
  "typedef_xfrm_address_t = TUnion
    [(''a4'', typedef___be32),
     (''a6'', TArr typedef___be32 4),
     (''in6'', struct_in6_addr)]"

definition struct_bpf_sock_ops_kern :: ctype where
  "struct_bpf_sock_ops_kern = TStruct
    [(''sk'', TPtr),
     ('''', TUnion
       [(''args'', TArr typedef_u32 4),
        (''reply'', typedef_u32),
        (''replylong'', TArr typedef_u32 4)]),
     (''syn_skb'', TPtr),
     (''skb'', TPtr),
     (''skb_data_end'', TPtr),
     (''op'', typedef_u8),
     (''is_fullsock'', typedef_u8),
     (''remaining_opt_len'', typedef_u8),
     (''temp'', typedef_u64)]"

definition struct_bpf_storage_buffer :: ctype where
  "struct_bpf_storage_buffer = TStruct
    [(''rcu'', struct_callback_head),
     (''data'', TArr (TInt 1) 0)]"

definition struct_bpf_lpm_trie_key :: ctype where
  "struct_bpf_lpm_trie_key = TStruct
    [(''prefixlen'', typedef___u32),
     (''data'', TArr typedef___u8 0)]"

definition enum_maple_status :: enum_decl where
  "enum_maple_status =
    [(''ma_active'', 0),
     (''ma_start'', 1),
     (''ma_root'', 2),
     (''ma_none'', 3),
     (''ma_pause'', 4),
     (''ma_overflow'', 5),
     (''ma_underflow'', 6),
     (''ma_error'', 7)]"

definition struct_ma_state :: ctype where
  "struct_ma_state = TStruct
    [(''tree'', TPtr),
     (''index'', TInt 8),
     (''last'', TInt 8),
     (''node'', TPtr),
     (''min'', TInt 8),
     (''max'', TInt 8),
     (''alloc'', TPtr),
     (''status'', enum_ctype enum_maple_status),
     (''depth'', TInt 1),
     (''offset'', TInt 1),
     (''mas_flags'', TInt 1),
     (''end'', TInt 1)]"

definition struct_bpf_event_entry :: ctype where
  "struct_bpf_event_entry = TStruct
    [(''event'', TPtr),
     (''perf_file'', TPtr),
     (''map_file'', TPtr),
     (''rcu'', struct_callback_head)]"

definition struct_bpf_iter__bpf_map_elem :: ctype where
  "struct_bpf_iter__bpf_map_elem = TStruct
    [('''', TUnion
       [(''meta'', TPtr)]),
     ('''', TUnion
       [(''map'', TPtr)]),
     ('''', TUnion
       [(''key'', TPtr)]),
     ('''', TUnion
       [(''value'', TPtr)])]"

definition struct_bpf_iter_seq_array_map_info :: ctype where
  "struct_bpf_iter_seq_array_map_info = TStruct
    [(''map'', TPtr),
     (''percpu_value_buf'', TPtr),
     (''index'', typedef_u32)]"

definition struct_ipv6_bpf_stub :: ctype where
  "struct_ipv6_bpf_stub = TStruct
    [(''inet6_bind'', TPtr),
     (''udp6_lib_lookup'', TPtr),
     (''ipv6_setsockopt'', TPtr),
     (''ipv6_getsockopt'', TPtr),
     (''ipv6_dev_get_saddr'', TPtr)]"

definition struct_qdisc_skb_cb :: ctype where
  "struct_qdisc_skb_cb = TStruct
    [('''', TStruct
       [(''pkt_len'', TInt 4),
        (''slave_dev_queue_mapping'', typedef_u16),
        (''tc_classid'', typedef_u16)]),
     (''data'', TArr (TInt 1) 20)]"

definition struct_bpf_skb_data_end :: ctype where
  "struct_bpf_skb_data_end = TStruct
    [(''qdisc_cb'', struct_qdisc_skb_cb),
     (''data_meta'', TPtr),
     (''data_end'', TPtr)]"

definition struct_bpf_lwt_prog :: ctype where
  "struct_bpf_lwt_prog = TStruct
    [(''prog'', TPtr),
     (''name'', TPtr)]"

definition struct_bpf_lwt :: ctype where
  "struct_bpf_lwt = TStruct
    [(''in'', struct_bpf_lwt_prog),
     (''out'', struct_bpf_lwt_prog),
     (''xmit'', struct_bpf_lwt_prog),
     (''family'', TInt 4)]"

definition struct_vma_iterator :: ctype where
  "struct_vma_iterator = TStruct
    [(''mas'', struct_ma_state)]"

definition struct_btf_struct_meta :: ctype where
  "struct_btf_struct_meta = TStruct
    [(''btf_id'', typedef_u32),
     (''record'', TPtr)]"

definition struct_bpf_verifier_log :: ctype where
  "struct_bpf_verifier_log = TStruct
    [(''start_pos'', typedef_u64),
     (''end_pos'', typedef_u64),
     (''ubuf'', TPtr),
     (''level'', typedef_u32),
     (''len_total'', typedef_u32),
     (''len_max'', typedef_u32),
     (''kbuf'', TArr (TInt 1) 1024)]"

definition struct_bpf_subprog_arg_info :: ctype where
  "struct_bpf_subprog_arg_info = TStruct
    [(''arg_type'', enum_ctype enum_bpf_arg_type),
     ('''', TUnion
       [(''mem_size'', typedef_u32)])]"

definition struct_bpf_id_pair :: ctype where
  "struct_bpf_id_pair = TStruct
    [(''old'', typedef_u32),
     (''cur'', typedef_u32)]"

definition struct_bpf_idmap :: ctype where
  "struct_bpf_idmap = TStruct
    [(''tmp_id_gen'', typedef_u32),
     (''map'', TArr struct_bpf_id_pair 600)]"

definition struct_bpf_idset :: ctype where
  "struct_bpf_idset = TStruct
    [(''count'', typedef_u32),
     (''ids'', TArr typedef_u32 600)]"

definition struct_bpf_retval_range :: ctype where
  "struct_bpf_retval_range = TStruct
    [(''minval'', typedef_s32),
     (''maxval'', typedef_s32)]"

definition struct_bpf_insn_access_aux :: ctype where
  "struct_bpf_insn_access_aux = TStruct
    [(''reg_type'', enum_ctype enum_bpf_reg_type),
     ('''', TUnion
       [(''ctx_field_size'', TInt 4),
        ('''', TStruct
          [(''btf'', TPtr),
           (''btf_id'', typedef_u32)])]),
     (''log'', TPtr)]"

definition struct_bpf_tramp_links :: ctype where
  "struct_bpf_tramp_links = TStruct
    [(''links'', TArr TPtr 38),
     (''nr_links'', TInt 4)]"

definition struct_bpf_tramp_run_ctx :: ctype where
  "struct_bpf_tramp_run_ctx = TStruct
    [(''run_ctx'', struct_bpf_run_ctx),
     (''bpf_cookie'', typedef_u64),
     (''saved_run_ctx'', TPtr)]"

definition struct_bpf_attach_target_info :: ctype where
  "struct_bpf_attach_target_info = TStruct
    [(''fmodel'', struct_btf_func_model),
     (''tgt_addr'', TInt 8),
     (''tgt_mod'', TPtr),
     (''tgt_name'', TPtr),
     (''tgt_type'', TPtr)]"

definition struct_bpf_active_lock :: ctype where
  "struct_bpf_active_lock = TStruct
    [(''ptr'', TPtr),
     (''id'', typedef_u32)]"

definition struct_bpf_reference_state :: ctype where
  "struct_bpf_reference_state = TStruct
    [(''id'', TInt 4),
     (''insn_idx'', TInt 4),
     (''callback_ref'', TInt 4)]"

definition struct_bpf_verifier_state :: ctype where
  "struct_bpf_verifier_state = TStruct
    [(''frame'', TArr TPtr 8),
     (''parent'', TPtr),
     (''branches'', typedef_u32),
     (''insn_idx'', typedef_u32),
     (''curframe'', typedef_u32),
     (''active_lock'', struct_bpf_active_lock),
     (''speculative'', typedef_bool),
     (''active_rcu_lock'', typedef_bool),
     (''used_as_loop_entry'', typedef_bool),
     (''first_insn_idx'', typedef_u32),
     (''last_insn_idx'', typedef_u32),
     (''loop_entry'', TPtr),
     (''jmp_history'', TPtr),
     (''jmp_history_cnt'', typedef_u32),
     (''dfs_depth'', typedef_u32),
     (''callback_unroll_depth'', typedef_u32)]"

definition struct_bpf_verifier_state_list :: ctype where
  "struct_bpf_verifier_state_list = TStruct
    [(''state'', struct_bpf_verifier_state),
     (''next'', TPtr),
     (''miss_cnt'', TInt 4),
     (''hit_cnt'', TInt 4)]"

definition struct_bpf_local_storage :: ctype where
  "struct_bpf_local_storage = TStruct
    [(''cache'', TArr TPtr 16),
     (''smap'', TPtr),
     (''list'', struct_hlist_head),
     (''owner'', TPtr),
     (''rcu'', struct_callback_head),
     (''lock'', typedef_raw_spinlock_t)]"

definition struct_btf_id_set :: ctype where
  "struct_btf_id_set = TStruct
    [(''cnt'', typedef_u32),
     (''ids'', TArr typedef_u32 0)]"

definition struct_bpf_trace_run_ctx :: ctype where
  "struct_bpf_trace_run_ctx = TStruct
    [(''run_ctx'', struct_bpf_run_ctx),
     (''bpf_cookie'', typedef_u64),
     (''is_uprobe'', typedef_bool)]"

definition struct_bpf_local_storage_map_bucket :: ctype where
  "struct_bpf_local_storage_map_bucket = TStruct
    [(''list'', struct_hlist_head),
     (''lock'', typedef_raw_spinlock_t)]"

definition struct_bpf_local_storage_cache :: ctype where
  "struct_bpf_local_storage_cache = TStruct
    [(''idx_lock'', typedef_spinlock_t),
     (''idx_usage_counts'', TArr typedef_u64 16)]"

definition struct_bpf_sk_storage_diag :: ctype where
  "struct_bpf_sk_storage_diag = TStruct
    [(''nr_maps'', typedef_u32),
     (''maps'', TArr TPtr 0)]"

definition struct_bpf_iter_seq_sk_storage_map_info :: ctype where
  "struct_bpf_iter_seq_sk_storage_map_info = TStruct
    [(''map'', TPtr),
     (''bucket_id'', TInt 4),
     (''skip_elems'', TInt 4)]"

definition struct_bpf_iter__bpf_sk_storage_map :: ctype where
  "struct_bpf_iter__bpf_sk_storage_map = TStruct
    [('''', TUnion
       [(''meta'', TPtr)]),
     ('''', TUnion
       [(''map'', TPtr)]),
     ('''', TUnion
       [(''sk'', TPtr)]),
     ('''', TUnion
       [(''value'', TPtr)])]"

definition struct_btf_id_set8 :: ctype where
  "struct_btf_id_set8 = TStruct
    [(''cnt'', typedef_u32),
     (''flags'', typedef_u32),
     (''pairs'', TArr (TStruct
       [(''id'', typedef_u32),
        (''flags'', typedef_u32)]) 0)]"

definition typedef_btf_kfunc_filter_t :: ctype where
  "typedef_btf_kfunc_filter_t = TPtr"

definition struct_btf_kfunc_id_set :: ctype where
  "struct_btf_kfunc_id_set = TStruct
    [(''owner'', TPtr),
     (''set'', TPtr),
     (''filter'', typedef_btf_kfunc_filter_t)]"

definition struct_bpf_iter_seq_map_info :: ctype where
  "struct_bpf_iter_seq_map_info = TStruct
    [(''map_id'', typedef_u32)]"

definition struct_bpf_iter__bpf_map :: ctype where
  "struct_bpf_iter__bpf_map = TStruct
    [('''', TUnion
       [(''meta'', TPtr)]),
     ('''', TUnion
       [(''map'', TPtr)])]"

definition enum_hid_report_type :: enum_decl where
  "enum_hid_report_type =
    [(''HID_INPUT_REPORT'', 0),
     (''HID_OUTPUT_REPORT'', 1),
     (''HID_FEATURE_REPORT'', 2),
     (''HID_REPORT_TYPES'', 3)]"

definition struct_hid_bpf :: ctype where
  "struct_hid_bpf = TStruct
    [(''device_data'', TPtr),
     (''allocated_data'', typedef_u32),
     (''progs'', TArr TPtr 2),
     (''destroyed'', typedef_bool),
     (''progs_lock'', typedef_spinlock_t)]"

definition struct_hid_bpf_prog_list :: ctype where
  "struct_hid_bpf_prog_list = TStruct
    [(''prog_idx'', TArr typedef_u16 64),
     (''prog_cnt'', typedef_u8)]"

definition struct_bpf_storage_blob :: ctype where
  "struct_bpf_storage_blob = TStruct
    [(''storage'', TPtr)]"

definition struct_bpf_empty_prog_array :: ctype where
  "struct_bpf_empty_prog_array = TStruct
    [(''hdr'', struct_bpf_prog_array),
     (''null_prog'', TPtr)]"

definition struct_bpf_sysctl :: ctype where
  "struct_bpf_sysctl = TStruct
    [(''write'', typedef___u32),
     (''file_pos'', typedef___u32)]"

definition struct_bpf_link_primer :: ctype where
  "struct_bpf_link_primer = TStruct
    [(''link'', TPtr),
     (''file'', TPtr),
     (''fd'', TInt 4),
     (''id'', typedef_u32)]"

definition struct_bpf_cg_run_ctx :: ctype where
  "struct_bpf_cg_run_ctx = TStruct
    [(''run_ctx'', struct_bpf_run_ctx),
     (''prog_item'', TPtr),
     (''retval'', TInt 4)]"

definition struct_bpf_sock_addr_kern :: ctype where
  "struct_bpf_sock_addr_kern = TStruct
    [(''sk'', TPtr),
     (''uaddr'', TPtr),
     (''tmp_reg'', typedef_u64),
     (''t_ctx'', TPtr),
     (''uaddrlen'', typedef_u32)]"

definition struct_bpf_sysctl_kern :: ctype where
  "struct_bpf_sysctl_kern = TStruct
    [(''head'', TPtr),
     (''table'', TPtr),
     (''cur_val'', TPtr),
     (''cur_len'', typedef_size_t),
     (''new_val'', TPtr),
     (''new_len'', typedef_size_t),
     (''new_updated'', TInt 4),
     (''write'', TInt 4),
     (''ppos'', TPtr),
     (''tmp_reg'', typedef_u64)]"

definition struct_bpf_sockopt_buf :: ctype where
  "struct_bpf_sockopt_buf = TStruct
    [(''data'', TArr typedef_u8 32)]"

definition struct_bpf_sockopt_kern :: ctype where
  "struct_bpf_sockopt_kern = TStruct
    [(''sk'', TPtr),
     (''optval'', TPtr),
     (''optval_end'', TPtr),
     (''level'', typedef_s32),
     (''optname'', typedef_s32),
     (''optlen'', typedef_s32),
     (''current_task'', TPtr),
     (''tmp_reg'', typedef_u64)]"

definition struct_bpf_prog_list :: ctype where
  "struct_bpf_prog_list = TStruct
    [(''node'', struct_hlist_node),
     (''prog'', TPtr),
     (''link'', TPtr),
     (''storage'', TArr TPtr 2)]"

definition struct_bpf_iter__ipv6_route :: ctype where
  "struct_bpf_iter__ipv6_route = TStruct
    [('''', TUnion
       [(''meta'', TPtr)]),
     ('''', TUnion
       [(''rt'', TPtr)])]"

definition struct_bpf_sk_lookup_kern :: ctype where
  "struct_bpf_sk_lookup_kern = TStruct
    [(''family'', typedef_u16),
     (''protocol'', typedef_u16),
     (''sport'', typedef___be16),
     (''dport'', typedef_u16),
     (''v4'', TStruct
       [(''saddr'', typedef___be32),
        (''daddr'', typedef___be32)]),
     (''v6'', TStruct
       [(''saddr'', TPtr),
        (''daddr'', TPtr)]),
     (''selected_sk'', TPtr),
     (''ingress_ifindex'', typedef_u32),
     (''no_reuseport'', typedef_bool)]"

definition struct_bpf_nh_params :: ctype where
  "struct_bpf_nh_params = TStruct
    [(''nh_family'', typedef_u32),
     ('''', TUnion
       [(''ipv4_nh'', typedef_u32),
        (''ipv6_nh'', struct_in6_addr)])]"

definition struct_bpf_redirect_info :: ctype where
  "struct_bpf_redirect_info = TStruct
    [(''tgt_index'', typedef_u64),
     (''tgt_value'', TPtr),
     (''map'', TPtr),
     (''flags'', typedef_u32),
     (''kern_flags'', typedef_u32),
     (''map_id'', typedef_u32),
     (''map_type'', enum_ctype enum_bpf_map_type),
     (''nh'', struct_bpf_nh_params)]"

definition struct_bpf_dummy_ops_state :: ctype where
  "struct_bpf_dummy_ops_state = TStruct
    [(''val'', TInt 4)]"

definition struct_bpf_dummy_ops :: ctype where
  "struct_bpf_dummy_ops = TStruct
    [(''test_1'', TPtr),
     (''test_2'', TPtr),
     (''test_sleepable'', TPtr)]"

definition struct_bpf_dummy_ops_test_args :: ctype where
  "struct_bpf_dummy_ops_test_args = TStruct
    [(''args'', TArr typedef_u64 12),
     (''state'', struct_bpf_dummy_ops_state)]"

definition struct_bpf_dynptr_kern :: ctype where
  "struct_bpf_dynptr_kern = TStruct
    [(''data'', TPtr),
     (''size'', typedef_u32),
     (''offset'', typedef_u32)]"

definition struct_bpf_core_ctx :: ctype where
  "struct_bpf_core_ctx = TStruct
    [(''log'', TPtr),
     (''btf'', TPtr)]"

definition struct_bpf_bprintf_data :: ctype where
  "struct_bpf_bprintf_data = TStruct
    [(''bin_args'', TPtr),
     (''buf'', TPtr),
     (''get_bin_args'', typedef_bool),
     (''get_buf'', typedef_bool)]"

definition struct_bpf_verifier_stack_elem :: ctype where
  "struct_bpf_verifier_stack_elem = TStruct
    [(''st'', struct_bpf_verifier_state),
     (''insn_idx'', TInt 4),
     (''prev_insn_idx'', TInt 4),
     (''next'', TPtr),
     (''log_pos'', typedef_u32)]"

definition typedef_bpf_insn_print_t :: ctype where
  "typedef_bpf_insn_print_t = TPtr"

definition typedef_bpf_insn_revmap_call_t :: ctype where
  "typedef_bpf_insn_revmap_call_t = TPtr"

definition typedef_bpf_insn_print_imm_t :: ctype where
  "typedef_bpf_insn_print_imm_t = TPtr"

definition struct_bpf_insn_cbs :: ctype where
  "struct_bpf_insn_cbs = TStruct
    [(''cb_print'', typedef_bpf_insn_print_t),
     (''cb_call'', typedef_bpf_insn_revmap_call_t),
     (''cb_imm'', typedef_bpf_insn_print_imm_t),
     (''private_data'', TPtr)]"

definition struct_bpf_call_arg_meta :: ctype where
  "struct_bpf_call_arg_meta = TStruct
    [(''map_ptr'', TPtr),
     (''raw_mode'', typedef_bool),
     (''pkt_access'', typedef_bool),
     (''release_regno'', typedef_u8),
     (''regno'', TInt 4),
     (''access_size'', TInt 4),
     (''mem_size'', TInt 4),
     (''msize_max_value'', typedef_u64),
     (''ref_obj_id'', TInt 4),
     (''dynptr_id'', TInt 4),
     (''map_uid'', TInt 4),
     (''func_id'', TInt 4),
     (''btf'', TPtr),
     (''btf_id'', typedef_u32),
     (''ret_btf'', TPtr),
     (''ret_btf_id'', typedef_u32),
     (''subprogno'', typedef_u32),
     (''kptr_field'', TPtr)]"

definition struct_bpf_kfunc_call_arg_meta :: ctype where
  "struct_bpf_kfunc_call_arg_meta = TStruct
    [(''btf'', TPtr),
     (''func_id'', typedef_u32),
     (''kfunc_flags'', typedef_u32),
     (''func_proto'', TPtr),
     (''func_name'', TPtr),
     (''ref_obj_id'', typedef_u32),
     (''release_regno'', typedef_u8),
     (''r0_rdonly'', typedef_bool),
     (''ret_btf_id'', typedef_u32),
     (''r0_size'', typedef_u64),
     (''subprogno'', typedef_u32),
     (''arg_constant'', TStruct
       [(''value'', typedef_u64),
        (''found'', typedef_bool)]),
     (''arg_btf'', TPtr),
     (''arg_btf_id'', typedef_u32),
     (''arg_owning_ref'', typedef_bool),
     (''arg_list_head'', TStruct
       [(''field'', TPtr)]),
     (''arg_rbtree_root'', TStruct
       [(''field'', TPtr)]),
     (''initialized_dynptr'', TStruct
       [(''type'', enum_ctype enum_bpf_dynptr_type),
        (''id'', typedef_u32),
        (''ref_obj_id'', typedef_u32)]),
     (''iter'', TStruct
       [(''spi'', typedef_u8),
        (''frameno'', typedef_u8)]),
     (''mem_size'', typedef_u64)]"

definition struct_bpf_iter_meta__safe_trusted :: ctype where
  "struct_bpf_iter_meta__safe_trusted = TStruct
    [(''seq'', TPtr)]"

definition struct_bpf_iter__task__safe_trusted :: ctype where
  "struct_bpf_iter__task__safe_trusted = TStruct
    [(''meta'', TPtr),
     (''task'', TPtr)]"

definition struct_bpf_reg_types :: ctype where
  "struct_bpf_reg_types = TStruct
    [(''types'', TArr (enum_ctype enum_bpf_reg_type) 10),
     (''btf_id'', TPtr)]"

definition struct_bpf_prog_offload_ops :: ctype where
  "struct_bpf_prog_offload_ops = TStruct
    [(''insn_hook'', TPtr),
     (''finalize'', TPtr),
     (''replace_insn'', TPtr),
     (''remove_insns'', TPtr),
     (''prepare'', TPtr),
     (''translate'', TPtr),
     (''destroy'', TPtr)]"

definition struct_bpf_offload_dev :: ctype where
  "struct_bpf_offload_dev = TStruct
    [(''ops'', TPtr),
     (''netdevs'', struct_list_head),
     (''priv'', TPtr)]"

definition struct_bpf_offload_netdev :: ctype where
  "struct_bpf_offload_netdev = TStruct
    [(''l'', struct_rhash_head),
     (''netdev'', TPtr),
     (''offdev'', TPtr),
     (''progs'', struct_list_head),
     (''maps'', struct_list_head),
     (''offdev_netdevs'', struct_list_head)]"

definition struct_ns_get_path_bpf_prog_args :: ctype where
  "struct_ns_get_path_bpf_prog_args = TStruct
    [(''prog'', TPtr),
     (''info'', TPtr)]"

definition struct_ns_get_path_bpf_map_args :: ctype where
  "struct_ns_get_path_bpf_map_args = TStruct
    [(''offmap'', TPtr),
     (''info'', TPtr)]"

definition struct_bpf_iter_num :: ctype where
  "struct_bpf_iter_num = TStruct
    [(''__opaque'', TArr typedef___u64 1)]"

definition struct_bpf_iter_target_info :: ctype where
  "struct_bpf_iter_target_info = TStruct
    [(''list'', struct_list_head),
     (''reg_info'', TPtr),
     (''btf_id'', typedef_u32)]"

definition struct_bpf_iter_num_kern :: ctype where
  "struct_bpf_iter_num_kern = TStruct
    [(''cur'', TInt 4),
     (''end'', TInt 4)]"

definition struct_bpf_iter_seq_link_info :: ctype where
  "struct_bpf_iter_seq_link_info = TStruct
    [(''link_id'', typedef_u32)]"

definition struct_bpf_iter__bpf_link :: ctype where
  "struct_bpf_iter__bpf_link = TStruct
    [('''', TUnion
       [(''meta'', TPtr)]),
     ('''', TUnion
       [(''link'', TPtr)])]"

definition struct_bpf_mprog_fp :: ctype where
  "struct_bpf_mprog_fp = TStruct
    [(''prog'', TPtr)]"

definition struct_bpf_mprog_cp :: ctype where
  "struct_bpf_mprog_cp = TStruct
    [(''link'', TPtr)]"

definition struct_bpf_mprog_entry :: ctype where
  "struct_bpf_mprog_entry = TStruct
    [(''fp_items'', TArr struct_bpf_mprog_fp 64),
     (''parent'', TPtr)]"

definition struct_bpf_mprog_bundle :: ctype where
  "struct_bpf_mprog_bundle = TStruct
    [(''a'', struct_bpf_mprog_entry),
     (''b'', struct_bpf_mprog_entry),
     (''cp_items'', TArr struct_bpf_mprog_cp 64),
     (''ref'', TPtr),
     (''revision'', typedef_atomic64_t),
     (''count'', typedef_u32)]"

definition struct_bpf_tuple :: ctype where
  "struct_bpf_tuple = TStruct
    [(''prog'', TPtr),
     (''link'', TPtr)]"

definition struct_bpf_flow_dissector :: ctype where
  "struct_bpf_flow_dissector = TStruct
    [(''flow_keys'', TPtr),
     (''skb'', TPtr),
     (''data'', TPtr),
     (''data_end'', TPtr)]"

definition struct_bpf_preload_info :: ctype where
  "struct_bpf_preload_info = TStruct
    [(''link_name'', TArr (TInt 1) 16),
     (''link'', TPtr)]"

definition struct_bpf_preload_ops :: ctype where
  "struct_bpf_preload_ops = TStruct
    [(''preload'', TPtr),
     (''owner'', TPtr)]"

definition struct_bpf_mount_opts :: ctype where
  "struct_bpf_mount_opts = TStruct
    [(''uid'', typedef_kuid_t),
     (''gid'', typedef_kgid_t),
     (''mode'', typedef_umode_t)]"

definition struct_bpf_raw_tracepoint_args :: ctype where
  "struct_bpf_raw_tracepoint_args = TStruct
    [(''args'', TArr typedef___u64 0)]"

definition typedef_bpf_user_pt_regs_t :: ctype where
  "typedef_bpf_user_pt_regs_t = struct_pt_regs"

definition struct_bpf_perf_event_data :: ctype where
  "struct_bpf_perf_event_data = TStruct
    [(''regs'', typedef_bpf_user_pt_regs_t),
     (''sample_period'', typedef___u64),
     (''addr'', typedef___u64)]"

definition struct_btf_id_dtor_kfunc :: ctype where
  "struct_btf_id_dtor_kfunc = TStruct
    [(''btf_id'', typedef_u32),
     (''kfunc_btf_id'', typedef_u32)]"

definition struct_btf_struct_metas :: ctype where
  "struct_btf_struct_metas = TStruct
    [(''cnt'', typedef_u32),
     (''types'', TArr struct_btf_struct_meta 0)]"

definition struct_bpf_perf_event_data_kern :: ctype where
  "struct_bpf_perf_event_data_kern = TStruct
    [(''regs'', TPtr),
     (''data'', TPtr),
     (''event'', TPtr)]"

definition struct_bpf_nf_ctx :: ctype where
  "struct_bpf_nf_ctx = TStruct
    [(''state'', TPtr),
     (''skb'', TPtr)]"

definition struct_bpf_core_cand :: ctype where
  "struct_bpf_core_cand = TStruct
    [(''btf'', TPtr),
     (''id'', typedef___u32)]"

definition struct_bpf_core_cand_list :: ctype where
  "struct_bpf_core_cand_list = TStruct
    [(''cands'', TPtr),
     (''len'', TInt 4)]"

definition struct_bpf_core_accessor :: ctype where
  "struct_bpf_core_accessor = TStruct
    [(''type_id'', typedef___u32),
     (''idx'', typedef___u32),
     (''name'', TPtr)]"

definition struct_bpf_core_spec :: ctype where
  "struct_bpf_core_spec = TStruct
    [(''btf'', TPtr),
     (''spec'', TArr struct_bpf_core_accessor 64),
     (''root_type_id'', typedef___u32),
     (''relo_kind'', enum_ctype enum_bpf_core_relo_kind),
     (''len'', TInt 4),
     (''raw_spec'', TArr (TInt 4) 64),
     (''raw_len'', TInt 4),
     (''bit_offset'', typedef___u32)]"

definition struct_bpf_core_relo_res :: ctype where
  "struct_bpf_core_relo_res = TStruct
    [(''orig_val'', typedef___u64),
     (''new_val'', typedef___u64),
     (''poison'', typedef_bool),
     (''validate'', typedef_bool),
     (''fail_memsz_adjust'', typedef_bool),
     (''orig_sz'', typedef___u32),
     (''orig_type_id'', typedef___u32),
     (''new_sz'', typedef___u32),
     (''new_type_id'', typedef___u32)]"

definition struct_btf_kfunc_hook_filter :: ctype where
  "struct_btf_kfunc_hook_filter = TStruct
    [(''filters'', TArr typedef_btf_kfunc_filter_t 16),
     (''nr_filters'', typedef_u32)]"

definition struct_btf_kfunc_set_tab :: ctype where
  "struct_btf_kfunc_set_tab = TStruct
    [(''sets'', TArr TPtr 13),
     (''hook_filters'', TArr struct_btf_kfunc_hook_filter 13)]"

definition struct_btf_id_dtor_kfunc_tab :: ctype where
  "struct_btf_id_dtor_kfunc_tab = TStruct
    [(''cnt'', typedef_u32),
     (''dtors'', TArr struct_btf_id_dtor_kfunc 0)]"

definition enum_verifier_phase :: enum_decl where
  "enum_verifier_phase =
    [(''CHECK_META'', 0),
     (''CHECK_TYPE'', 1)]"

definition struct_resolve_vertex :: ctype where
  "struct_resolve_vertex = TStruct
    [(''t'', TPtr),
     (''type_id'', typedef_u32),
     (''next_member'', typedef_u16)]"

definition enum_resolve_mode :: enum_decl where
  "enum_resolve_mode =
    [(''RESOLVE_TBD'', 0),
     (''RESOLVE_PTR'', 1),
     (''RESOLVE_STRUCT_OR_ARRAY'', 2)]"

definition struct_btf_sec_info :: ctype where
  "struct_btf_sec_info = TStruct
    [(''off'', typedef_u32),
     (''len'', typedef_u32)]"

definition struct_btf_verifier_env :: ctype where
  "struct_btf_verifier_env = TStruct
    [(''btf'', TPtr),
     (''visit_states'', TPtr),
     (''stack'', TArr struct_resolve_vertex 32),
     (''log'', struct_bpf_verifier_log),
     (''log_type_id'', typedef_u32),
     (''top_stack'', typedef_u32),
     (''phase'', enum_ctype enum_verifier_phase),
     (''resolve_mode'', enum_ctype enum_resolve_mode)]"

definition struct_btf_kind_operations :: ctype where
  "struct_btf_kind_operations = TStruct
    [(''check_meta'', TPtr),
     (''resolve'', TPtr),
     (''check_member'', TPtr),
     (''check_kflag_member'', TPtr),
     (''log_details'', TPtr),
     (''show'', TPtr)]"

definition struct_btf_field_info :: ctype where
  "struct_btf_field_info = TStruct
    [(''type'', enum_ctype enum_btf_field_type),
     (''off'', typedef_u32),
     ('''', TUnion
       [(''kptr'', TStruct
          [(''type_id'', typedef_u32)]),
        (''graph_root'', TStruct
          [(''node_name'', TPtr),
           (''value_btf_id'', typedef_u32)])])]"

definition struct_btf_module :: ctype where
  "struct_btf_module = TStruct
    [(''list'', struct_list_head),
     (''module'', TPtr),
     (''btf'', TPtr),
     (''sysfs_attr'', TPtr),
     (''flags'', TInt 4)]"

definition struct_bpf_cand_cache :: ctype where
  "struct_bpf_cand_cache = TStruct
    [(''name'', TPtr),
     (''name_len'', typedef_u32),
     (''kind'', typedef_u16),
     (''cnt'', typedef_u16),
     (''cands'', TArr (TStruct
       [(''btf'', TPtr),
        (''id'', typedef_u32)]) 0)]"

definition struct_uprobe_consumer :: ctype where
  "struct_uprobe_consumer = TStruct
    [(''handler'', TPtr),
     (''ret_handler'', TPtr),
     (''filter'', TPtr),
     (''next'', TPtr)]"

definition struct_hid_bpf_ops :: ctype where
  "struct_hid_bpf_ops = TStruct
    [(''hid_get_report'', TPtr),
     (''hid_hw_raw_request'', TPtr),
     (''owner'', TPtr),
     (''bus_type'', TPtr)]"

definition struct_bpf_iter__ksym :: ctype where
  "struct_bpf_iter__ksym = TStruct
    [('''', TUnion
       [(''meta'', TPtr)]),
     ('''', TUnion
       [(''ksym'', TPtr)])]"

definition struct_bpf_lru_node :: ctype where
  "struct_bpf_lru_node = TStruct
    [(''list'', struct_list_head),
     (''cpu'', typedef_u16),
     (''type'', typedef_u8),
     (''ref'', typedef_u8)]"

definition struct_bpf_lru_locallist :: ctype where
  "struct_bpf_lru_locallist = TStruct
    [(''lists'', TArr struct_list_head 2),
     (''next_steal'', typedef_u16),
     (''lock'', typedef_raw_spinlock_t)]"

definition struct_bpf_iter_seq_hash_map_info :: ctype where
  "struct_bpf_iter_seq_hash_map_info = TStruct
    [(''map'', TPtr),
     (''htab'', TPtr),
     (''percpu_value_buf'', TPtr),
     (''bucket_id'', typedef_u32),
     (''skip_elems'', typedef_u32)]"

definition struct_bpf_key :: ctype where
  "struct_bpf_key = TStruct
    [(''key'', TPtr),
     (''has_ref'', typedef_bool)]"

definition struct_perf_event_query_bpf :: ctype where
  "struct_perf_event_query_bpf = TStruct
    [(''ids_len'', typedef___u32),
     (''prog_cnt'', typedef___u32),
     (''ids'', TArr typedef___u32 0)]"

definition struct_trace_event_raw_bpf_trace_printk :: ctype where
  "struct_trace_event_raw_bpf_trace_printk = TStruct
    [(''ent'', struct_trace_entry),
     (''__data_loc_bpf_string'', typedef_u32),
     (''__data'', TArr (TInt 1) 0)]"

definition struct_trace_event_data_offsets_bpf_trace_printk :: ctype where
  "struct_trace_event_data_offsets_bpf_trace_printk = TStruct
    [(''bpf_string'', typedef_u32)]"

definition struct_bpf_trace_module :: ctype where
  "struct_bpf_trace_module = TStruct
    [(''module'', TPtr),
     (''list'', struct_list_head)]"

definition struct_bpf_nested_pt_regs :: ctype where
  "struct_bpf_nested_pt_regs = TStruct
    [(''regs'', TArr struct_pt_regs 3)]"

definition struct_bpf_raw_tp_regs :: ctype where
  "struct_bpf_raw_tp_regs = TStruct
    [(''regs'', TArr struct_pt_regs 3)]"

definition struct_bpf_kprobe_multi_run_ctx :: ctype where
  "struct_bpf_kprobe_multi_run_ctx = TStruct
    [(''run_ctx'', struct_bpf_run_ctx),
     (''link'', TPtr),
     (''entry_ip'', TInt 8)]"

definition struct_bpf_uprobe :: ctype where
  "struct_bpf_uprobe = TStruct
    [(''link'', TPtr),
     (''offset'', typedef_loff_t),
     (''ref_ctr_offset'', TInt 8),
     (''cookie'', typedef_u64),
     (''consumer'', struct_uprobe_consumer)]"

definition struct_bpf_uprobe_multi_run_ctx :: ctype where
  "struct_bpf_uprobe_multi_run_ctx = TStruct
    [(''run_ctx'', struct_bpf_run_ctx),
     (''entry_ip'', TInt 8),
     (''uprobe'', TPtr)]"

definition struct_bpf_prog_kstats :: ctype where
  "struct_bpf_prog_kstats = TStruct
    [(''nsecs'', typedef_u64),
     (''cnt'', typedef_u64),
     (''misses'', typedef_u64)]"

definition struct_perf_event_header :: ctype where
  "struct_perf_event_header = TStruct
    [(''type'', typedef___u32),
     (''misc'', typedef___u16),
     (''size'', typedef___u16)]"

definition enum_tcp_seq_states :: enum_decl where
  "enum_tcp_seq_states =
    [(''TCP_SEQ_STATE_LISTENING'', 0),
     (''TCP_SEQ_STATE_ESTABLISHED'', 1)]"

definition struct_tcp_iter_state :: ctype where
  "struct_tcp_iter_state = TStruct
    [(''p'', struct_seq_net_private),
     (''state'', enum_ctype enum_tcp_seq_states),
     (''syn_wait_sk'', TPtr),
     (''bucket'', TInt 4),
     (''offset'', TInt 4),
     (''sbucket'', TInt 4),
     (''num'', TInt 4),
     (''last_pos'', typedef_loff_t)]"

definition struct_bpf_iter__sockmap :: ctype where
  "struct_bpf_iter__sockmap = TStruct
    [('''', TUnion
       [(''meta'', TPtr)]),
     ('''', TUnion
       [(''map'', TPtr)]),
     ('''', TUnion
       [(''key'', TPtr)]),
     ('''', TUnion
       [(''sk'', TPtr)])]"

definition struct_bpf_shtab_elem :: ctype where
  "struct_bpf_shtab_elem = TStruct
    [(''rcu'', struct_callback_head),
     (''hash'', typedef_u32),
     (''sk'', TPtr),
     (''node'', struct_hlist_node),
     (''key'', TArr typedef_u8 0)]"

definition struct_bpf_shtab_bucket :: ctype where
  "struct_bpf_shtab_bucket = TStruct
    [(''head'', struct_hlist_head),
     (''lock'', typedef_spinlock_t)]"

definition struct_bpf_iter__cgroup :: ctype where
  "struct_bpf_iter__cgroup = TStruct
    [('''', TUnion
       [(''meta'', TPtr)]),
     ('''', TUnion
       [(''cgroup'', TPtr)])]"

definition struct_bpf_iter_css :: ctype where
  "struct_bpf_iter_css = TStruct
    [(''__opaque'', TArr typedef___u64 3)]"

definition struct_bpf_iter_css_kern :: ctype where
  "struct_bpf_iter_css_kern = TStruct
    [(''start'', TPtr),
     (''pos'', TPtr),
     (''flags'', TInt 4)]"

definition struct_udp_iter_state :: ctype where
  "struct_udp_iter_state = TStruct
    [(''p'', struct_seq_net_private),
     (''bucket'', TInt 4)]"

definition struct_bpf_iter_seq_task_common :: ctype where
  "struct_bpf_iter_seq_task_common = TStruct
    [(''ns'', TPtr),
     (''type'', enum_ctype enum_bpf_iter_task_type),
     (''pid'', typedef_u32),
     (''pid_visiting'', typedef_u32)]"

definition struct_bpf_iter_seq_task_info :: ctype where
  "struct_bpf_iter_seq_task_info = TStruct
    [(''common'', struct_bpf_iter_seq_task_common),
     (''tid'', typedef_u32)]"

definition struct_bpf_iter__task :: ctype where
  "struct_bpf_iter__task = TStruct
    [('''', TUnion
       [(''meta'', TPtr)]),
     ('''', TUnion
       [(''task'', TPtr)])]"

definition struct_bpf_iter_seq_task_file_info :: ctype where
  "struct_bpf_iter_seq_task_file_info = TStruct
    [(''common'', struct_bpf_iter_seq_task_common),
     (''task'', TPtr),
     (''tid'', typedef_u32),
     (''fd'', typedef_u32)]"

definition struct_bpf_iter__task_file :: ctype where
  "struct_bpf_iter__task_file = TStruct
    [('''', TUnion
       [(''meta'', TPtr)]),
     ('''', TUnion
       [(''task'', TPtr)]),
     (''fd'', typedef_u32),
     ('''', TUnion
       [(''file'', TPtr)])]"

definition struct_bpf_iter_seq_task_vma_info :: ctype where
  "struct_bpf_iter_seq_task_vma_info = TStruct
    [(''common'', struct_bpf_iter_seq_task_common),
     (''task'', TPtr),
     (''mm'', TPtr),
     (''vma'', TPtr),
     (''tid'', typedef_u32),
     (''prev_vm_start'', TInt 8),
     (''prev_vm_end'', TInt 8)]"

definition struct_bpf_iter__task_vma :: ctype where
  "struct_bpf_iter__task_vma = TStruct
    [('''', TUnion
       [(''meta'', TPtr)]),
     ('''', TUnion
       [(''task'', TPtr)]),
     ('''', TUnion
       [(''vma'', TPtr)])]"

definition struct_bpf_iter_task_vma_kern_data :: ctype where
  "struct_bpf_iter_task_vma_kern_data = TStruct
    [(''task'', TPtr),
     (''mm'', TPtr),
     (''work'', TPtr),
     (''vmi'', struct_vma_iterator)]"

definition struct_bpf_iter_task_vma :: ctype where
  "struct_bpf_iter_task_vma = TStruct
    [(''__opaque'', TArr typedef___u64 1)]"

definition struct_bpf_iter_task_vma_kern :: ctype where
  "struct_bpf_iter_task_vma_kern = TStruct
    [(''data'', TPtr)]"

definition struct_bpf_iter_css_task :: ctype where
  "struct_bpf_iter_css_task = TStruct
    [(''__opaque'', TArr typedef___u64 1)]"

definition struct_bpf_iter_css_task_kern :: ctype where
  "struct_bpf_iter_css_task_kern = TStruct
    [(''css_it'', TPtr)]"

definition struct_bpf_iter_task :: ctype where
  "struct_bpf_iter_task = TStruct
    [(''__opaque'', TArr typedef___u64 3)]"

definition struct_bpf_iter_task_kern :: ctype where
  "struct_bpf_iter_task_kern = TStruct
    [(''task'', TPtr),
     (''pos'', TPtr),
     (''flags'', TInt 4)]"

definition struct_bpf_xdp_sock :: ctype where
  "struct_bpf_xdp_sock = TStruct
    [(''queue_id'', typedef___u32)]"

definition struct_seg6_bpf_srh_state :: ctype where
  "struct_seg6_bpf_srh_state = TStruct
    [(''srh'', TPtr),
     (''hdrlen'', typedef_u16),
     (''valid'', typedef_bool)]"

definition struct_bpf_scratchpad :: ctype where
  "struct_bpf_scratchpad = TStruct
    [('''', TUnion
       [(''diff'', TArr typedef___be32 128),
        (''buff'', TArr typedef_u8 512)])]"

definition struct_bpf_rb_node_kern :: ctype where
  "struct_bpf_rb_node_kern = TStruct
    [(''rb_node'', struct_rb_node),
     (''owner'', TPtr)]"

definition struct_bpf_list_node_kern :: ctype where
  "struct_bpf_list_node_kern = TStruct
    [(''list_head'', struct_list_head),
     (''owner'', TPtr)]"

definition struct_bpf_bprintf_buffers :: ctype where
  "struct_bpf_bprintf_buffers = TStruct
    [(''bin_args'', TArr (TInt 1) 512),
     (''buf'', TArr (TInt 1) 1024)]"

definition struct_bpf_hrtimer :: ctype where
  "struct_bpf_hrtimer = TStruct
    [(''timer'', struct_hrtimer),
     (''map'', TPtr),
     (''prog'', TPtr),
     (''callback_fn'', TPtr),
     (''value'', TPtr),
     (''rcu'', struct_callback_head)]"

definition struct_bpf_timer_kern :: ctype where
  "struct_bpf_timer_kern = TStruct
    [(''timer'', TPtr),
     (''lock'', struct_bpf_spin_lock)]"

definition struct_bpf_throw_ctx :: ctype where
  "struct_bpf_throw_ctx = TStruct
    [(''aux'', TPtr),
     (''sp'', typedef_u64),
     (''bp'', typedef_u64),
     (''cnt'', TInt 4)]"

definition struct_bpf_unix_iter_state :: ctype where
  "struct_bpf_unix_iter_state = TStruct
    [(''p'', struct_seq_net_private),
     (''cur_sk'', TInt 4),
     (''end_sk'', TInt 4),
     (''max_sk'', TInt 4),
     (''batch'', TPtr),
     (''st_bucket_done'', typedef_bool)]"

definition struct_bpf_iter__unix :: ctype where
  "struct_bpf_iter__unix = TStruct
    [('''', TUnion
       [(''meta'', TPtr)]),
     ('''', TUnion
       [(''unix_sk'', TPtr)]),
     (''uid'', typedef_uid_t)]"

definition struct_bpf_xfrm_state_opts :: ctype where
  "struct_bpf_xfrm_state_opts = TStruct
    [(''error'', typedef_s32),
     (''netns_id'', typedef_s32),
     (''mark'', typedef_u32),
     (''daddr'', typedef_xfrm_address_t),
     (''spi'', typedef___be32),
     (''proto'', typedef_u8),
     (''family'', typedef_u16)]"

definition struct_bpf_prog_pack :: ctype where
  "struct_bpf_prog_pack = TStruct
    [(''list'', struct_list_head),
     (''ptr'', TPtr),
     (''bitmap'', TArr (TInt 8) 0)]"

definition struct__bpf_dtab_netdev :: ctype where
  "struct__bpf_dtab_netdev = TStruct
    [(''dev'', TPtr)]"

definition struct_trace_event_raw_bpf_xdp_link_attach_failed :: ctype where
  "struct_trace_event_raw_bpf_xdp_link_attach_failed = TStruct
    [(''ent'', struct_trace_entry),
     (''__data_loc_msg'', typedef_u32),
     (''__data'', TArr (TInt 1) 0)]"

definition struct_trace_event_data_offsets_bpf_xdp_link_attach_failed :: ctype where
  "struct_trace_event_data_offsets_bpf_xdp_link_attach_failed = TStruct
    [(''msg'', typedef_u32)]"

definition struct_hid_bpf_ctx :: ctype where
  "struct_hid_bpf_ctx = TStruct
    [(''index'', typedef___u32),
     (''hid'', TPtr),
     (''allocated_size'', typedef___u32),
     (''report_type'', enum_ctype enum_hid_report_type),
     ('''', TUnion
       [(''retval'', typedef___s32),
        (''size'', typedef___s32)])]"

definition struct_hid_bpf_link :: ctype where
  "struct_hid_bpf_link = TStruct
    [(''link'', struct_bpf_link),
     (''hid_table_index'', TInt 4)]"

definition struct_hid_bpf_ctx_kern :: ctype where
  "struct_hid_bpf_ctx_kern = TStruct
    [(''ctx'', struct_hid_bpf_ctx),
     (''data'', TPtr)]"

definition struct_bpf_map_desc :: ctype where
  "struct_bpf_map_desc = TStruct
    [(''map_fd'', TInt 4),
     (''max_entries'', typedef___u32),
     (''initial_value'', typedef___u64)]"

definition struct_bpf_prog_desc :: ctype where
  "struct_bpf_prog_desc = TStruct
    [(''prog_fd'', TInt 4)]"

definition struct_bpf_loader_ctx :: ctype where
  "struct_bpf_loader_ctx = TStruct
    [(''sz'', typedef___u32),
     (''flags'', typedef___u32),
     (''log_level'', typedef___u32),
     (''log_size'', typedef___u32),
     (''log_buf'', typedef___u64)]"

definition struct_bpf_load_and_run_opts :: ctype where
  "struct_bpf_load_and_run_opts = TStruct
    [(''ctx'', TPtr),
     (''data'', TPtr),
     (''insns'', TPtr),
     (''data_sz'', typedef___u32),
     (''insns_sz'', typedef___u32),
     (''errstr'', TPtr)]"

definition struct_entrypoints_bpf :: ctype where
  "struct_entrypoints_bpf = TStruct
    [(''ctx'', struct_bpf_loader_ctx),
     (''maps'', TStruct
       [(''hid_jmp_table'', struct_bpf_map_desc)]),
     (''progs'', TStruct
       [(''hid_tail_call'', struct_bpf_prog_desc)]),
     (''links'', TStruct
       [(''hid_tail_call_fd'', TInt 4)])]"

definition struct_hid_bpf_prog_entry :: ctype where
  "struct_hid_bpf_prog_entry = TStruct
    [(''prog'', TPtr),
     (''hdev'', TPtr),
     (''type'', enum_ctype enum_hid_bpf_prog_type),
     (''idx'', typedef_u16)]"

definition struct_hid_bpf_jmp_table :: ctype where
  "struct_hid_bpf_jmp_table = TStruct
    [(''map'', TPtr),
     (''entries'', TArr struct_hid_bpf_prog_entry 1024),
     (''tail'', TInt 4),
     (''head'', TInt 4),
     (''progs'', TArr TPtr 1024),
     (''enabled'', TArr (TInt 8) 16)]"

definition struct_bpf_cpumask :: ctype where
  "struct_bpf_cpumask = TStruct
    [(''cpumask'', typedef_cpumask_t),
     (''usage'', typedef_refcount_t)]"

definition struct_bpf_security_struct :: ctype where
  "struct_bpf_security_struct = TStruct
    [(''sid'', typedef_u32)]"

definition struct_bpf_ringbuf_hdr :: ctype where
  "struct_bpf_ringbuf_hdr = TStruct
    [(''len'', typedef_u32),
     (''pg_off'', typedef_u32)]"

definition struct_bpf_udp_iter_state :: ctype where
  "struct_bpf_udp_iter_state = TStruct
    [(''state'', struct_udp_iter_state),
     (''cur_sk'', TInt 4),
     (''end_sk'', TInt 4),
     (''max_sk'', TInt 4),
     (''offset'', TInt 4),
     (''batch'', TPtr),
     (''st_bucket_done'', typedef_bool)]"

definition struct_bpf_struct_ops_bpf_dummy_ops :: ctype where
  "struct_bpf_struct_ops_bpf_dummy_ops = TStruct
    [(''refcnt'', typedef_refcount_t),
     (''state'', enum_ctype enum_bpf_struct_ops_state),
     ('''', TInt 8),
     ('''', TInt 8),
     ('''', TInt 8),
     ('''', TInt 8),
     ('''', TInt 8),
     ('''', TInt 8),
     ('''', TInt 8),
     (''data'', struct_bpf_dummy_ops),
     ('''', TInt 8),
     ('''', TInt 8),
     ('''', TInt 8),
     ('''', TInt 8),
     ('''', TInt 8)]"

definition struct_bpf_struct_ops_tcp_congestion_ops :: ctype where
  "struct_bpf_struct_ops_tcp_congestion_ops = TStruct
    [(''refcnt'', typedef_refcount_t),
     (''state'', enum_ctype enum_bpf_struct_ops_state),
     ('''', TInt 8),
     ('''', TInt 8),
     ('''', TInt 8),
     ('''', TInt 8),
     ('''', TInt 8),
     ('''', TInt 8),
     ('''', TInt 8),
     (''data'', struct_tcp_congestion_ops)]"

definition struct_bpf_tcp_iter_state :: ctype where
  "struct_bpf_tcp_iter_state = TStruct
    [(''state'', struct_tcp_iter_state),
     (''cur_sk'', TInt 4),
     (''end_sk'', TInt 4),
     (''max_sk'', TInt 4),
     (''batch'', TPtr),
     (''st_bucket_done'', typedef_bool)]"

definition struct_bpf_iter__tcp :: ctype where
  "struct_bpf_iter__tcp = TStruct
    [('''', TUnion
       [(''meta'', TPtr)]),
     ('''', TUnion
       [(''sk_common'', TPtr)]),
     (''uid'', typedef_uid_t)]"

definition struct_trace_event_raw_bpf_test_finish :: ctype where
  "struct_trace_event_raw_bpf_test_finish = TStruct
    [(''ent'', struct_trace_entry),
     (''err'', TInt 4),
     (''__data'', TArr (TInt 1) 0)]"

definition struct_trace_event_data_offsets_bpf_test_finish :: ctype where
  "struct_trace_event_data_offsets_bpf_test_finish = TStruct []"

definition struct_bpf_fentry_test_t :: ctype where
  "struct_bpf_fentry_test_t = TStruct
    [(''a'', TPtr)]"

definition struct_bpf_raw_tp_test_run_info :: ctype where
  "struct_bpf_raw_tp_test_run_info = TStruct
    [(''prog'', TPtr),
     (''ctx'', TPtr),
     (''retval'', typedef_u32)]"

definition struct_btf_anon_stack :: ctype where
  "struct_btf_anon_stack = TStruct
    [(''tid'', typedef_u32),
     (''offset'', typedef_u32)]"

definition struct_perf_bpf_event :: ctype where
  "struct_perf_bpf_event = TStruct
    [(''prog'', TPtr),
     (''event_id'', TStruct
       [(''header'', struct_perf_event_header),
        (''type'', typedef_u16),
        (''flags'', typedef_u16),
        (''id'', typedef_u32),
        (''tag'', TArr typedef_u8 8)])]"

section \<open>Sizes and alignments\<close>

lemma layout_struct_bpf_spin_lock [layout]: "csize 8 struct_bpf_spin_lock = 4" "calign 8 struct_bpf_spin_lock = 4"
  by (simp_all add: struct_bpf_spin_lock_def pad_up_def layout del: One_nat_def)

lemma layout_struct_bpf_timer [layout]: "csize 8 struct_bpf_timer = 16" "calign 8 struct_bpf_timer = 8"
  by (simp_all add: struct_bpf_timer_def pad_up_def layout del: One_nat_def)

lemma layout_struct_bpf_dynptr [layout]: "csize 8 struct_bpf_dynptr = 16" "calign 8 struct_bpf_dynptr = 8"
  by (simp_all add: struct_bpf_dynptr_def pad_up_def layout del: One_nat_def)

lemma layout_struct_bpf_list_node [layout]: "csize 8 struct_bpf_list_node = 24" "calign 8 struct_bpf_list_node = 8"
  by (simp_all add: struct_bpf_list_node_def pad_up_def layout del: One_nat_def)

lemma layout_struct_bpf_rb_node [layout]: "csize 8 struct_bpf_rb_node = 32" "calign 8 struct_bpf_rb_node = 8"
  by (simp_all add: struct_bpf_rb_node_def pad_up_def layout del: One_nat_def)

lemma layout_struct_bpf_dynptr_kern [layout]: "csize 8 struct_bpf_dynptr_kern = 16" "calign 8 struct_bpf_dynptr_kern = 8"
  by (simp_all add: struct_bpf_dynptr_kern_def pad_up_def layout del: One_nat_def)

lemma layout_struct_bpf_iter_num [layout]: "csize 8 struct_bpf_iter_num = 8" "calign 8 struct_bpf_iter_num = 8"
  by (simp_all add: struct_bpf_iter_num_def pad_up_def layout del: One_nat_def)

lemma layout_struct_bpf_iter_num_kern [layout]: "csize 8 struct_bpf_iter_num_kern = 8" "calign 8 struct_bpf_iter_num_kern = 4"
  by (simp_all add: struct_bpf_iter_num_kern_def pad_up_def layout del: One_nat_def)

lemma layout_struct_bpf_iter_css [layout]: "csize 8 struct_bpf_iter_css = 24" "calign 8 struct_bpf_iter_css = 8"
  by (simp_all add: struct_bpf_iter_css_def pad_up_def layout del: One_nat_def)

lemma layout_struct_bpf_iter_css_kern [layout]: "csize 8 struct_bpf_iter_css_kern = 24" "calign 8 struct_bpf_iter_css_kern = 8"
  by (simp_all add: struct_bpf_iter_css_kern_def pad_up_def layout del: One_nat_def)

lemma layout_struct_bpf_iter_task_vma [layout]: "csize 8 struct_bpf_iter_task_vma = 8" "calign 8 struct_bpf_iter_task_vma = 8"
  by (simp_all add: struct_bpf_iter_task_vma_def pad_up_def layout del: One_nat_def)

lemma layout_struct_bpf_iter_task_vma_kern [layout]: "csize 8 struct_bpf_iter_task_vma_kern = 8" "calign 8 struct_bpf_iter_task_vma_kern = 8"
  by (simp_all add: struct_bpf_iter_task_vma_kern_def pad_up_def layout del: One_nat_def)

lemma layout_struct_bpf_iter_css_task [layout]: "csize 8 struct_bpf_iter_css_task = 8" "calign 8 struct_bpf_iter_css_task = 8"
  by (simp_all add: struct_bpf_iter_css_task_def pad_up_def layout del: One_nat_def)

lemma layout_struct_bpf_iter_css_task_kern [layout]: "csize 8 struct_bpf_iter_css_task_kern = 8" "calign 8 struct_bpf_iter_css_task_kern = 8"
  by (simp_all add: struct_bpf_iter_css_task_kern_def pad_up_def layout del: One_nat_def)

lemma layout_struct_bpf_iter_task [layout]: "csize 8 struct_bpf_iter_task = 24" "calign 8 struct_bpf_iter_task = 8"
  by (simp_all add: struct_bpf_iter_task_def pad_up_def layout del: One_nat_def)

lemma layout_struct_bpf_iter_task_kern [layout]: "csize 8 struct_bpf_iter_task_kern = 24" "calign 8 struct_bpf_iter_task_kern = 8"
  by (simp_all add: struct_bpf_iter_task_kern_def pad_up_def layout del: One_nat_def)

lemma layout_struct_bpf_rb_node_kern [layout]: "csize 8 struct_bpf_rb_node_kern = 32" "calign 8 struct_bpf_rb_node_kern = 8"
  by (simp_all add: struct_bpf_rb_node_kern_def pad_up_def layout del: One_nat_def)

lemma layout_struct_bpf_list_node_kern [layout]: "csize 8 struct_bpf_list_node_kern = 24" "calign 8 struct_bpf_list_node_kern = 8"
  by (simp_all add: struct_bpf_list_node_kern_def pad_up_def layout del: One_nat_def)

lemma layout_struct_bpf_timer_kern [layout]: "csize 8 struct_bpf_timer_kern = 16" "calign 8 struct_bpf_timer_kern = 8"
  by (simp_all add: struct_bpf_timer_kern_def pad_up_def layout del: One_nat_def)

end
