(* ===== verification/VmlinuxVerifier.thy ===== *)
theory VmlinuxVerifier
  imports CBitFields VmlinuxContexts
begin

text \<open>
  BPF programs and the verifier in \<open>internal/maps/bpf/vmlinux.h\<close>, as far as the declarations have bit
  fields or contain some that do: instructions, programs, register and stack states, the verifier's
  environment. A struct with bit fields is its list of members, and the descriptor \<open>bstruct\<close> of it.
\<close>

definition typedef___s16 :: ctype where
  "typedef___s16 = TInt 2"

definition struct_bpf_insn_members :: "member list" where
  "struct_bpf_insn_members =
    [Fld ''code'' typedef___u8,
     Bits ''dst_reg'' 1 4,
     Bits ''src_reg'' 1 4,
     Fld ''off'' typedef___s16,
     Fld ''imm'' typedef___s32]"

definition struct_bpf_insn :: ctype where
  "struct_bpf_insn = bstruct struct_bpf_insn_members"

definition struct_sock_filter :: ctype where
  "struct_sock_filter = TStruct
    [(''code'', typedef___u16),
     (''jt'', typedef___u8),
     (''jf'', typedef___u8),
     (''k'', typedef___u32)]"

definition struct_bpf_prog_members :: "member list" where
  "struct_bpf_prog_members =
    [Fld ''pages'' typedef_u16,
     Bits ''jited'' 2 1,
     Bits ''jit_requested'' 2 1,
     Bits ''gpl_compatible'' 2 1,
     Bits ''cb_access'' 2 1,
     Bits ''dst_needed'' 2 1,
     Bits ''blinding_requested'' 2 1,
     Bits ''blinded'' 2 1,
     Bits ''is_func'' 2 1,
     Bits ''kprobe_override'' 2 1,
     Bits ''has_callchain_buf'' 2 1,
     Bits ''enforce_expected_attach_type'' 2 1,
     Bits ''call_get_stack'' 2 1,
     Bits ''call_get_func_ip'' 2 1,
     Bits ''tstamp_type_access'' 2 1,
     Fld ''type'' (enum_ctype enum_bpf_prog_type),
     Fld ''expected_attach_type'' (enum_ctype enum_bpf_attach_type),
     Fld ''len'' typedef_u32,
     Fld ''jited_len'' typedef_u32,
     Fld ''tag'' (TArr typedef_u8 8),
     Fld ''stats'' TPtr,
     Fld ''active'' TPtr,
     Fld ''bpf_func'' TPtr,
     Fld ''aux'' TPtr,
     Fld ''orig_prog'' TPtr,
     Fld '''' (TUnion
       [('''', TStruct
          [(''__empty_insns'', TStruct []),
           (''insns'', TArr struct_sock_filter 0)]),
        ('''', TStruct
          [(''__empty_insnsi'', TStruct []),
           (''insnsi'', TArr struct_bpf_insn 0)])])]"

definition struct_bpf_prog :: ctype where
  "struct_bpf_prog = bstruct struct_bpf_prog_members"

definition struct_bpf_func_info_aux_members :: "member list" where
  "struct_bpf_func_info_aux_members =
    [Fld ''linkage'' typedef_u16,
     Fld ''unreliable'' typedef_bool,
     Bits ''called'' 1 1,
     Bits ''verified'' 1 1]"

definition struct_bpf_func_info_aux :: ctype where
  "struct_bpf_func_info_aux = bstruct struct_bpf_func_info_aux_members"

definition typedef_sockptr_t_members :: "member list" where
  "typedef_sockptr_t_members =
    [Fld '''' (TUnion
       [(''kernel'', TPtr),
        (''user'', TPtr)]),
     Bits ''is_kernel'' 1 1]"

definition typedef_sockptr_t :: ctype where
  "typedef_sockptr_t = bstruct typedef_sockptr_t_members"

definition typedef_bpfptr_t :: ctype where
  "typedef_bpfptr_t = typedef_sockptr_t"

definition struct_bpf_subprog_info_members :: "member list" where
  "struct_bpf_subprog_info_members =
    [Fld ''start'' typedef_u32,
     Fld ''linfo_idx'' typedef_u32,
     Fld ''stack_depth'' typedef_u16,
     Bits ''has_tail_call'' 1 1,
     Bits ''tail_call_reachable'' 1 1,
     Bits ''has_ld_abs'' 1 1,
     Bits ''is_cb'' 1 1,
     Bits ''is_async_cb'' 1 1,
     Bits ''is_exception_cb'' 1 1,
     Bits ''args_cached'' 1 1,
     Fld ''arg_cnt'' typedef_u8,
     Fld ''args'' (TArr struct_bpf_subprog_arg_info 5)]"

definition struct_bpf_subprog_info :: ctype where
  "struct_bpf_subprog_info = bstruct struct_bpf_subprog_info_members"

definition struct_backtrack_state :: ctype where
  "struct_backtrack_state = TStruct
    [(''env'', TPtr),
     (''frame'', typedef_u32),
     (''reg_masks'', TArr typedef_u32 8),
     (''stack_masks'', TArr typedef_u64 8)]"

definition struct_bpf_verifier_env :: ctype where
  "struct_bpf_verifier_env = TStruct
    [(''insn_idx'', typedef_u32),
     (''prev_insn_idx'', typedef_u32),
     (''prog'', TPtr),
     (''ops'', TPtr),
     (''head'', TPtr),
     (''stack_size'', TInt 4),
     (''strict_alignment'', typedef_bool),
     (''test_state_freq'', typedef_bool),
     (''test_reg_invariants'', typedef_bool),
     (''cur_state'', TPtr),
     (''explored_states'', TPtr),
     (''free_list'', TPtr),
     (''used_maps'', TArr TPtr 64),
     (''used_btfs'', TArr struct_btf_mod_pair 64),
     (''used_map_cnt'', typedef_u32),
     (''used_btf_cnt'', typedef_u32),
     (''id_gen'', typedef_u32),
     (''hidden_subprog_cnt'', typedef_u32),
     (''exception_callback_subprog'', TInt 4),
     (''explore_alu_limits'', typedef_bool),
     (''allow_ptr_leaks'', typedef_bool),
     (''allow_uninit_stack'', typedef_bool),
     (''bpf_capable'', typedef_bool),
     (''bypass_spec_v1'', typedef_bool),
     (''bypass_spec_v4'', typedef_bool),
     (''seen_direct_write'', typedef_bool),
     (''seen_exception'', typedef_bool),
     (''insn_aux_data'', TPtr),
     (''prev_linfo'', TPtr),
     (''log'', struct_bpf_verifier_log),
     (''subprog_info'', TArr struct_bpf_subprog_info 258),
     ('''', TUnion
       [(''idmap_scratch'', struct_bpf_idmap),
        (''idset_scratch'', struct_bpf_idset)]),
     (''cfg'', TStruct
       [(''insn_state'', TPtr),
        (''insn_stack'', TPtr),
        (''cur_stack'', TInt 4)]),
     (''bt'', struct_backtrack_state),
     (''cur_hist_ent'', TPtr),
     (''pass_cnt'', typedef_u32),
     (''subprog_cnt'', typedef_u32),
     (''prev_insn_processed'', typedef_u32),
     (''insn_processed'', typedef_u32),
     (''prev_jmps_processed'', typedef_u32),
     (''jmps_processed'', typedef_u32),
     (''verification_time'', typedef_u64),
     (''max_states_per_insn'', typedef_u32),
     (''total_states'', typedef_u32),
     (''peak_states'', typedef_u32),
     (''longest_mark_read_walk'', typedef_u32),
     (''fd_array'', typedef_bpfptr_t),
     (''scratched_regs'', typedef_u32),
     (''scratched_stack_slots'', typedef_u64),
     (''prev_log_pos'', typedef_u64),
     (''prev_insn_print_pos'', typedef_u64),
     (''tmp_str_buf'', TArr (TInt 1) 320)]"

definition struct_tnum :: ctype where
  "struct_tnum = TStruct
    [(''value'', typedef_u64),
     (''mask'', typedef_u64)]"

definition struct_bpf_reg_state :: ctype where
  "struct_bpf_reg_state = TStruct
    [(''type'', enum_ctype enum_bpf_reg_type),
     (''off'', typedef_s32),
     ('''', TUnion
       [(''range'', TInt 4),
        ('''', TStruct
          [(''map_ptr'', TPtr),
           (''map_uid'', typedef_u32)]),
        ('''', TStruct
          [(''btf'', TPtr),
           (''btf_id'', typedef_u32)]),
        ('''', TStruct
          [(''mem_size'', typedef_u32),
           (''dynptr_id'', typedef_u32)]),
        (''dynptr'', TStruct
          [(''type'', enum_ctype enum_bpf_dynptr_type),
           (''first_slot'', typedef_bool)]),
        (''iter'', bstruct
          [Fld ''btf'' TPtr,
           Fld ''btf_id'' typedef_u32,
           Bits ''state'' 4 2,
           Bits ''depth'' 4 30]),
        (''raw'', TStruct
          [(''raw1'', TInt 8),
           (''raw2'', TInt 8)]),
        (''subprogno'', typedef_u32)]),
     (''var_off'', struct_tnum),
     (''smin_value'', typedef_s64),
     (''smax_value'', typedef_s64),
     (''umin_value'', typedef_u64),
     (''umax_value'', typedef_u64),
     (''s32_min_value'', typedef_s32),
     (''s32_max_value'', typedef_s32),
     (''u32_min_value'', typedef_u32),
     (''u32_max_value'', typedef_u32),
     (''id'', typedef_u32),
     (''ref_obj_id'', typedef_u32),
     (''parent'', TPtr),
     (''frameno'', typedef_u32),
     (''subreg_def'', typedef_s32),
     (''live'', enum_ctype enum_bpf_reg_liveness),
     (''precise'', typedef_bool)]"

definition struct_bpf_func_state :: ctype where
  "struct_bpf_func_state = TStruct
    [(''regs'', TArr struct_bpf_reg_state 11),
     (''callsite'', TInt 4),
     (''frameno'', typedef_u32),
     (''subprogno'', typedef_u32),
     (''async_entry_cnt'', typedef_u32),
     (''callback_ret_range'', struct_bpf_retval_range),
     (''in_callback_fn'', typedef_bool),
     (''in_async_callback_fn'', typedef_bool),
     (''in_exception_callback_fn'', typedef_bool),
     (''callback_depth'', typedef_u32),
     (''acquired_refs'', TInt 4),
     (''refs'', TPtr),
     (''stack'', TPtr),
     (''allocated_stack'', TInt 4)]"

definition struct_bpf_stack_state :: ctype where
  "struct_bpf_stack_state = TStruct
    [(''spilled_ptr'', struct_bpf_reg_state),
     (''slot_type'', TArr typedef_u8 8)]"

definition struct_bpf_jmp_history_entry_members :: "member list" where
  "struct_bpf_jmp_history_entry_members =
    [Fld ''idx'' typedef_u32,
     Bits ''prev_idx'' 4 22,
     Bits ''flags'' 4 10]"

definition struct_bpf_jmp_history_entry :: ctype where
  "struct_bpf_jmp_history_entry = bstruct struct_bpf_jmp_history_entry_members"

definition struct_bpf_loop_inline_state_members :: "member list" where
  "struct_bpf_loop_inline_state_members =
    [Bits ''initialized'' 4 1,
     Bits ''fit_for_inline'' 4 1,
     Fld ''callback_subprogno'' typedef_u32]"

definition struct_bpf_loop_inline_state :: ctype where
  "struct_bpf_loop_inline_state = bstruct struct_bpf_loop_inline_state_members"

definition struct_bpf_insn_aux_data :: ctype where
  "struct_bpf_insn_aux_data = TStruct
    [('''', TUnion
       [(''ptr_type'', enum_ctype enum_bpf_reg_type),
        (''map_ptr_state'', TInt 8),
        (''call_imm'', typedef_s32),
        (''alu_limit'', typedef_u32),
        ('''', TStruct
          [(''map_index'', typedef_u32),
           (''map_off'', typedef_u32)]),
        (''btf_var'', TStruct
          [(''reg_type'', enum_ctype enum_bpf_reg_type),
           ('''', TUnion
             [('''', TStruct
                [(''btf'', TPtr),
                 (''btf_id'', typedef_u32)]),
              (''mem_size'', typedef_u32)])]),
        (''loop_inline_state'', struct_bpf_loop_inline_state)]),
     ('''', TUnion
       [(''obj_new_size'', typedef_u64),
        (''insert_off'', typedef_u64)]),
     (''kptr_struct_meta'', TPtr),
     (''map_key_state'', typedef_u64),
     (''ctx_field_size'', TInt 4),
     (''seen'', typedef_u32),
     (''sanitize_stack_spill'', typedef_bool),
     (''zext_dst'', typedef_bool),
     (''storage_get_func_atomic'', typedef_bool),
     (''is_iter_next'', typedef_bool),
     (''call_with_percpu_alloc_ptr'', typedef_bool),
     (''alu_state'', typedef_u8),
     (''orig_idx'', TInt 4),
     (''jmp_point'', typedef_bool),
     (''prune_point'', typedef_bool),
     (''force_checkpoint'', typedef_bool),
     (''calls_callback'', typedef_bool)]"

definition struct_bpf_sanitize_info :: ctype where
  "struct_bpf_sanitize_info = TStruct
    [(''aux'', struct_bpf_insn_aux_data),
     (''mask_to_left'', typedef_bool)]"

definition struct_bpf_prog_info_members :: "member list" where
  "struct_bpf_prog_info_members =
    [Fld ''type'' typedef___u32,
     Fld ''id'' typedef___u32,
     Fld ''tag'' (TArr typedef___u8 8),
     Fld ''jited_prog_len'' typedef___u32,
     Fld ''xlated_prog_len'' typedef___u32,
     Fld ''jited_prog_insns'' typedef___u64,
     Fld ''xlated_prog_insns'' typedef___u64,
     Fld ''load_time'' typedef___u64,
     Fld ''created_by_uid'' typedef___u32,
     Fld ''nr_map_ids'' typedef___u32,
     Fld ''map_ids'' typedef___u64,
     Fld ''name'' (TArr (TInt 1) 16),
     Fld ''ifindex'' typedef___u32,
     Bits ''gpl_compatible'' 4 1,
     Fld ''netns_dev'' typedef___u64,
     Fld ''netns_ino'' typedef___u64,
     Fld ''nr_jited_ksyms'' typedef___u32,
     Fld ''nr_jited_func_lens'' typedef___u32,
     Fld ''jited_ksyms'' typedef___u64,
     Fld ''jited_func_lens'' typedef___u64,
     Fld ''btf_id'' typedef___u32,
     Fld ''func_info_rec_size'' typedef___u32,
     Fld ''func_info'' typedef___u64,
     Fld ''nr_func_info'' typedef___u32,
     Fld ''nr_line_info'' typedef___u32,
     Fld ''line_info'' typedef___u64,
     Fld ''jited_line_info'' typedef___u64,
     Fld ''nr_jited_line_info'' typedef___u32,
     Fld ''line_info_rec_size'' typedef___u32,
     Fld ''jited_line_info_rec_size'' typedef___u32,
     Fld ''nr_prog_tags'' typedef___u32,
     Fld ''prog_tags'' typedef___u64,
     Fld ''run_time_ns'' typedef___u64,
     Fld ''run_cnt'' typedef___u64,
     Fld ''recursion_misses'' typedef___u64,
     Fld ''verified_insns'' typedef___u32,
     Fld ''attach_btf_obj_id'' typedef___u32,
     Fld ''attach_btf_id'' typedef___u32]"

definition struct_bpf_prog_info :: ctype where
  "struct_bpf_prog_info = bstruct struct_bpf_prog_info_members"

definition struct_bpf_iter_priv_data_members :: "member list" where
  "struct_bpf_iter_priv_data_members =
    [Fld ''tinfo'' TPtr,
     Fld ''seq_info'' TPtr,
     Fld ''prog'' TPtr,
     Fld ''session_id'' typedef_u64,
     Fld ''seq_num'' typedef_u64,
     Fld ''done_stop'' typedef_bool,
     Bits '''' 8 0,
     Fld ''target_private'' (TArr typedef_u8 0)]"

definition struct_bpf_iter_priv_data :: ctype where
  "struct_bpf_iter_priv_data = bstruct struct_bpf_iter_priv_data_members"

definition struct_btf_show :: ctype where
  "struct_btf_show = TStruct
    [(''flags'', typedef_u64),
     (''target'', TPtr),
     (''showfn'', TPtr),
     (''btf'', TPtr),
     (''state'', bstruct
       [Fld ''depth'' typedef_u8,
        Fld ''depth_to_show'' typedef_u8,
        Fld ''depth_check'' typedef_u8,
        Bits ''array_member'' 1 1,
        Bits ''array_terminated'' 1 1,
        Fld ''array_encoding'' typedef_u16,
        Fld ''type_id'' typedef_u32,
        Fld ''status'' (TInt 4),
        Fld ''type'' TPtr,
        Fld ''member'' TPtr,
        Fld ''name'' (TArr (TInt 1) 80)]),
     (''obj'', TStruct
       [(''size'', typedef_u32),
        (''head'', TPtr),
        (''data'', TPtr),
        (''safe'', TArr typedef_u8 32)])]"

definition struct_btf_show_snprintf :: ctype where
  "struct_btf_show_snprintf = TStruct
    [(''show'', struct_btf_show),
     (''len_left'', TInt 4),
     (''len'', TInt 4)]"

definition struct_bpf_binary_header_members :: "member list" where
  "struct_bpf_binary_header_members =
    [Fld ''size'' typedef_u32,
     Bits '''' 8 0,
     Fld ''image'' (TArr typedef_u8 0)]"

definition struct_bpf_binary_header :: ctype where
  "struct_bpf_binary_header = bstruct struct_bpf_binary_header_members"

definition struct_bpf_prog_dummy :: ctype where
  "struct_bpf_prog_dummy = TStruct
    [(''prog'', struct_bpf_prog)]"

definition struct_bpf_test_timer :: ctype where
  "struct_bpf_test_timer = TStruct
    [(''mode'', TInt 4),
     (''i'', typedef_u32),
     (''time_start'', typedef_u64),
     (''time_spent'', typedef_u64)]"

end
