(* ===== verification/VmlinuxSockets.thy ===== *)
theory VmlinuxSockets
  imports VmlinuxVerifier
begin

text \<open>
  What network programs see, from \<open>internal/maps/bpf/vmlinux.h\<close>: packets, sockets, messages, and the type
  \<open>bpf_ctx_convert\<close> that relates the contexts of programs to the kernel's objects; also the sample data of
  tracing programs, netfilter links, and the ring buffer.
\<close>

definition typedef_gfp_t :: ctype where
  "typedef_gfp_t = TInt 4"

definition struct_qrwlock :: ctype where
  "struct_qrwlock = TStruct
    [('''', TUnion
       [(''cnts'', typedef_atomic_t),
        ('''', TStruct
          [(''wlocked'', typedef_u8),
           (''__lstate'', TArr typedef_u8 3)])]),
     (''wait_lock'', typedef_arch_spinlock_t)]"

definition typedef_arch_rwlock_t :: ctype where
  "typedef_arch_rwlock_t = struct_qrwlock"

definition struct_page_frag :: ctype where
  "struct_page_frag = TStruct
    [(''page'', TPtr),
     (''offset'', typedef___u32),
     (''size'', typedef___u32)]"

definition struct_timer_list :: ctype where
  "struct_timer_list = TStruct
    [(''entry'', struct_hlist_node),
     (''expires'', TInt 8),
     (''function'', TPtr),
     (''flags'', typedef_u32)]"

definition typedef_rwlock_t :: ctype where
  "typedef_rwlock_t = TStruct
    [(''raw_lock'', typedef_arch_rwlock_t)]"

definition struct_wait_queue_head :: ctype where
  "struct_wait_queue_head = TStruct
    [(''lock'', typedef_spinlock_t),
     (''head'', struct_list_head)]"

definition typedef_wait_queue_head_t :: ctype where
  "typedef_wait_queue_head_t = struct_wait_queue_head"

definition typedef_dma_addr_t :: ctype where
  "typedef_dma_addr_t = typedef_u64"

definition union_perf_mem_data_src :: ctype where
  "union_perf_mem_data_src = TUnion
    [(''val'', typedef___u64),
     ('''', bstruct
       [Bits ''mem_op'' 8 5,
        Bits ''mem_lvl'' 8 14,
        Bits ''mem_snoop'' 8 5,
        Bits ''mem_lock'' 8 2,
        Bits ''mem_dtlb'' 8 7,
        Bits ''mem_lvl_num'' 8 4,
        Bits ''mem_remote'' 8 1,
        Bits ''mem_snoopx'' 8 2,
        Bits ''mem_blk'' 8 3,
        Bits ''mem_hops'' 8 3,
        Bits ''mem_rsvd'' 8 18])]"

definition union_perf_sample_weight :: ctype where
  "union_perf_sample_weight = TUnion
    [(''full'', typedef___u64),
     ('''', TStruct
       [(''var1_dw'', typedef___u32),
        (''var2_w'', typedef___u16),
        (''var3_w'', typedef___u16)])]"

definition struct_perf_regs :: ctype where
  "struct_perf_regs = TStruct
    [(''abi'', typedef___u64),
     (''regs'', TPtr)]"

definition struct_perf_sample_data_members :: "member list" where
  "struct_perf_sample_data_members =
    [Fld ''sample_flags'' typedef_u64,
     Fld ''period'' typedef_u64,
     Fld ''dyn_size'' typedef_u64,
     Fld ''type'' typedef_u64,
     Fld ''tid_entry'' (TStruct
       [(''pid'', typedef_u32),
        (''tid'', typedef_u32)]),
     Fld ''time'' typedef_u64,
     Fld ''id'' typedef_u64,
     Fld ''cpu_entry'' (TStruct
       [(''cpu'', typedef_u32),
        (''reserved'', typedef_u32)]),
     Fld ''ip'' typedef_u64,
     Fld ''callchain'' TPtr,
     Fld ''raw'' TPtr,
     Fld ''br_stack'' TPtr,
     Fld ''br_stack_cntr'' TPtr,
     Fld ''weight'' union_perf_sample_weight,
     Fld ''data_src'' union_perf_mem_data_src,
     Fld ''txn'' typedef_u64,
     Fld ''regs_user'' struct_perf_regs,
     Fld ''regs_intr'' struct_perf_regs,
     Fld ''stack_user_size'' typedef_u64,
     Fld ''stream_id'' typedef_u64,
     Fld ''cgroup'' typedef_u64,
     Fld ''addr'' typedef_u64,
     Fld ''phys_addr'' typedef_u64,
     Fld ''data_page_size'' typedef_u64,
     Fld ''code_page_size'' typedef_u64,
     Fld ''aux_size'' typedef_u64,
     Bits '''' 8 64,
     Bits '''' 8 64,
     Bits '''' 8 64,
     Bits '''' 8 64]"

definition struct_perf_sample_data :: ctype where
  "struct_perf_sample_data = bstruct struct_perf_sample_data_members"

definition struct_hlist_nulls_node :: ctype where
  "struct_hlist_nulls_node = TStruct
    [(''next'', TPtr),
     (''pprev'', TPtr)]"

definition typedef___wsum :: ctype where
  "typedef___wsum = typedef___u32"

definition typedef_sk_buff_data_t :: ctype where
  "typedef_sk_buff_data_t = TInt 4"

definition struct_sk_buff_part1 :: "member list" where
  "struct_sk_buff_part1 =
    [Fld '''' (TUnion
       [('''', TStruct
          [(''next'', TPtr),
           (''prev'', TPtr),
           ('''', TUnion
             [(''dev'', TPtr),
              (''dev_scratch'', TInt 8)])]),
        (''rbnode'', struct_rb_node),
        (''list'', struct_list_head),
        (''ll_node'', struct_llist_node)]),
     Fld ''sk'' TPtr,
     Fld '''' (TUnion
       [(''tstamp'', typedef_ktime_t),
        (''skb_mstamp_ns'', typedef_u64)]),
     Fld ''cb'' (TArr (TInt 1) 48),
     Fld '''' (TUnion
       [('''', TStruct
          [(''_skb_refdst'', TInt 8),
           (''destructor'', TPtr)]),
        (''tcp_tsorted_anchor'', struct_list_head),
        (''_sk_redir'', TInt 8)]),
     Fld ''_nfct'' (TInt 8),
     Fld ''len'' (TInt 4),
     Fld ''data_len'' (TInt 4),
     Fld ''mac_len'' typedef___u16,
     Fld ''hdr_len'' typedef___u16,
     Fld ''queue_mapping'' typedef___u16,
     Fld ''__cloned_offset'' (TArr typedef___u8 0),
     Bits ''cloned'' 1 1,
     Bits ''nohdr'' 1 1,
     Bits ''fclone'' 1 2,
     Bits ''peeked'' 1 1,
     Bits ''head_frag'' 1 1,
     Bits ''pfmemalloc'' 1 1,
     Bits ''pp_recycle'' 1 1,
     Fld ''active_extensions'' typedef___u8]"

definition struct_sk_buff_part2 :: "member list" where
  "struct_sk_buff_part2 =
    [Fld '''' (TUnion
       [('''', bstruct
          [Fld ''__pkt_type_offset'' (TArr typedef___u8 0),
           Bits ''pkt_type'' 1 3,
           Bits ''ignore_df'' 1 1,
           Bits ''dst_pending_confirm'' 1 1,
           Bits ''ip_summed'' 1 2,
           Bits ''ooo_okay'' 1 1,
           Fld ''__mono_tc_offset'' (TArr typedef___u8 0),
           Bits ''mono_delivery_time'' 1 1,
           Bits ''tc_at_ingress'' 1 1,
           Bits ''tc_skip_classify'' 1 1,
           Bits ''remcsum_offload'' 1 1,
           Bits ''csum_complete_sw'' 1 1,
           Bits ''csum_level'' 1 2,
           Bits ''inner_protocol_type'' 1 1,
           Bits ''l4_hash'' 1 1,
           Bits ''sw_hash'' 1 1,
           Bits ''wifi_acked_valid'' 1 1,
           Bits ''wifi_acked'' 1 1,
           Bits ''no_fcs'' 1 1,
           Bits ''encapsulation'' 1 1,
           Bits ''encap_hdr_csum'' 1 1,
           Bits ''csum_valid'' 1 1,
           Bits ''ndisc_nodetype'' 1 2,
           Bits ''ipvs_property'' 1 1,
           Bits ''nf_trace'' 1 1,
           Bits ''offload_fwd_mark'' 1 1,
           Bits ''offload_l3_fwd_mark'' 1 1,
           Bits ''redirected'' 1 1,
           Bits ''from_ingress'' 1 1,
           Bits ''nf_skip_egress'' 1 1,
           Bits ''decrypted'' 1 1,
           Bits ''slow_gro'' 1 1,
           Bits ''csum_not_inet'' 1 1,
           Fld ''tc_index'' typedef___u16,
           Fld ''alloc_cpu'' typedef_u16,
           Fld '''' (TUnion
             [(''csum'', typedef___wsum),
              ('''', TStruct
                [(''csum_start'', typedef___u16),
                 (''csum_offset'', typedef___u16)])]),
           Fld ''priority'' typedef___u32,
           Fld ''skb_iif'' (TInt 4),
           Fld ''hash'' typedef___u32,
           Fld '''' (TUnion
             [(''vlan_all'', typedef_u32),
              ('''', TStruct
                [(''vlan_proto'', typedef___be16),
                 (''vlan_tci'', typedef___u16)])]),
           Fld '''' (TUnion
             [(''napi_id'', TInt 4),
              (''sender_cpu'', TInt 4)]),
           Fld ''secmark'' typedef___u32,
           Fld '''' (TUnion
             [(''mark'', typedef___u32),
              (''reserved_tailroom'', typedef___u32)]),
           Fld '''' (TUnion
             [(''inner_protocol'', typedef___be16),
              (''inner_ipproto'', typedef___u8)]),
           Fld ''inner_transport_header'' typedef___u16,
           Fld ''inner_network_header'' typedef___u16,
           Fld ''inner_mac_header'' typedef___u16,
           Fld ''protocol'' typedef___be16,
           Fld ''transport_header'' typedef___u16,
           Fld ''network_header'' typedef___u16,
           Fld ''mac_header'' typedef___u16]),
        (''headers'', bstruct
          [Fld ''__pkt_type_offset'' (TArr typedef___u8 0),
           Bits ''pkt_type'' 1 3,
           Bits ''ignore_df'' 1 1,
           Bits ''dst_pending_confirm'' 1 1,
           Bits ''ip_summed'' 1 2,
           Bits ''ooo_okay'' 1 1,
           Fld ''__mono_tc_offset'' (TArr typedef___u8 0),
           Bits ''mono_delivery_time'' 1 1,
           Bits ''tc_at_ingress'' 1 1,
           Bits ''tc_skip_classify'' 1 1,
           Bits ''remcsum_offload'' 1 1,
           Bits ''csum_complete_sw'' 1 1,
           Bits ''csum_level'' 1 2,
           Bits ''inner_protocol_type'' 1 1,
           Bits ''l4_hash'' 1 1,
           Bits ''sw_hash'' 1 1,
           Bits ''wifi_acked_valid'' 1 1,
           Bits ''wifi_acked'' 1 1,
           Bits ''no_fcs'' 1 1,
           Bits ''encapsulation'' 1 1,
           Bits ''encap_hdr_csum'' 1 1,
           Bits ''csum_valid'' 1 1,
           Bits ''ndisc_nodetype'' 1 2,
           Bits ''ipvs_property'' 1 1,
           Bits ''nf_trace'' 1 1,
           Bits ''offload_fwd_mark'' 1 1,
           Bits ''offload_l3_fwd_mark'' 1 1,
           Bits ''redirected'' 1 1,
           Bits ''from_ingress'' 1 1,
           Bits ''nf_skip_egress'' 1 1,
           Bits ''decrypted'' 1 1,
           Bits ''slow_gro'' 1 1,
           Bits ''csum_not_inet'' 1 1,
           Fld ''tc_index'' typedef___u16,
           Fld ''alloc_cpu'' typedef_u16,
           Fld '''' (TUnion
             [(''csum'', typedef___wsum),
              ('''', TStruct
                [(''csum_start'', typedef___u16),
                 (''csum_offset'', typedef___u16)])]),
           Fld ''priority'' typedef___u32,
           Fld ''skb_iif'' (TInt 4),
           Fld ''hash'' typedef___u32,
           Fld '''' (TUnion
             [(''vlan_all'', typedef_u32),
              ('''', TStruct
                [(''vlan_proto'', typedef___be16),
                 (''vlan_tci'', typedef___u16)])]),
           Fld '''' (TUnion
             [(''napi_id'', TInt 4),
              (''sender_cpu'', TInt 4)]),
           Fld ''secmark'' typedef___u32,
           Fld '''' (TUnion
             [(''mark'', typedef___u32),
              (''reserved_tailroom'', typedef___u32)]),
           Fld '''' (TUnion
             [(''inner_protocol'', typedef___be16),
              (''inner_ipproto'', typedef___u8)]),
           Fld ''inner_transport_header'' typedef___u16,
           Fld ''inner_network_header'' typedef___u16,
           Fld ''inner_mac_header'' typedef___u16,
           Fld ''protocol'' typedef___be16,
           Fld ''transport_header'' typedef___u16,
           Fld ''network_header'' typedef___u16,
           Fld ''mac_header'' typedef___u16])])]"

definition struct_sk_buff_part3 :: "member list" where
  "struct_sk_buff_part3 =
    [Fld ''tail'' typedef_sk_buff_data_t,
     Fld ''end'' typedef_sk_buff_data_t,
     Fld ''head'' TPtr,
     Fld ''data'' TPtr,
     Fld ''truesize'' (TInt 4),
     Fld ''users'' typedef_refcount_t,
     Fld ''extensions'' TPtr]"

definition struct_sk_buff_members :: "member list" where
  "struct_sk_buff_members = struct_sk_buff_part1 @ struct_sk_buff_part2 @ struct_sk_buff_part3"

definition struct_sk_buff :: ctype where
  "struct_sk_buff = bstruct struct_sk_buff_members"

definition struct_sk_buff_list :: ctype where
  "struct_sk_buff_list = TStruct
    [(''next'', TPtr),
     (''prev'', TPtr)]"

definition struct_sk_buff_head :: ctype where
  "struct_sk_buff_head = TStruct
    [('''', TUnion
       [('''', TStruct
          [(''next'', TPtr),
           (''prev'', TPtr)]),
        (''list'', struct_sk_buff_list)]),
     (''qlen'', typedef___u32),
     (''lock'', typedef_spinlock_t)]"

definition typedef_netdev_features_t :: ctype where
  "typedef_netdev_features_t = typedef_u64"

definition typedef_possible_net_t :: ctype where
  "typedef_possible_net_t = TStruct
    [(''net'', TPtr)]"

definition struct_scatterlist :: ctype where
  "struct_scatterlist = TStruct
    [(''page_link'', TInt 8),
     (''offset'', TInt 4),
     (''length'', TInt 4),
     (''dma_address'', typedef_dma_addr_t),
     (''dma_length'', TInt 4),
     (''dma_flags'', TInt 4)]"

definition typedef___addrpair :: ctype where
  "typedef___addrpair = typedef___u64"

definition typedef___portpair :: ctype where
  "typedef___portpair = typedef___u32"

definition struct_sock_common_members :: "member list" where
  "struct_sock_common_members =
    [Fld '''' (TUnion
       [(''skc_addrpair'', typedef___addrpair),
        ('''', TStruct
          [(''skc_daddr'', typedef___be32),
           (''skc_rcv_saddr'', typedef___be32)])]),
     Fld '''' (TUnion
       [(''skc_hash'', TInt 4),
        (''skc_u16hashes'', TArr typedef___u16 2)]),
     Fld '''' (TUnion
       [(''skc_portpair'', typedef___portpair),
        ('''', TStruct
          [(''skc_dport'', typedef___be16),
           (''skc_num'', typedef___u16)])]),
     Fld ''skc_family'' (TInt 2),
     Fld ''skc_state'' (TInt 1),
     Bits ''skc_reuse'' 1 4,
     Bits ''skc_reuseport'' 1 1,
     Bits ''skc_ipv6only'' 1 1,
     Bits ''skc_net_refcnt'' 1 1,
     Fld ''skc_bound_dev_if'' (TInt 4),
     Fld '''' (TUnion
       [(''skc_bind_node'', struct_hlist_node),
        (''skc_portaddr_node'', struct_hlist_node)]),
     Fld ''skc_prot'' TPtr,
     Fld ''skc_net'' typedef_possible_net_t,
     Fld ''skc_v6_daddr'' struct_in6_addr,
     Fld ''skc_v6_rcv_saddr'' struct_in6_addr,
     Fld ''skc_cookie'' typedef_atomic64_t,
     Fld '''' (TUnion
       [(''skc_flags'', TInt 8),
        (''skc_listener'', TPtr),
        (''skc_tw_dr'', TPtr)]),
     Fld ''skc_dontcopy_begin'' (TArr (TInt 4) 0),
     Fld '''' (TUnion
       [(''skc_node'', struct_hlist_node),
        (''skc_nulls_node'', struct_hlist_nulls_node)]),
     Fld ''skc_tx_queue_mapping'' (TInt 2),
     Fld ''skc_rx_queue_mapping'' (TInt 2),
     Fld '''' (TUnion
       [(''skc_incoming_cpu'', TInt 4),
        (''skc_rcv_wnd'', typedef_u32),
        (''skc_tw_rcv_nxt'', typedef_u32)]),
     Fld ''skc_refcnt'' typedef_refcount_t,
     Fld ''skc_dontcopy_end'' (TArr (TInt 4) 0),
     Fld '''' (TUnion
       [(''skc_rxhash'', typedef_u32),
        (''skc_window_clamp'', typedef_u32),
        (''skc_tw_snd_nxt'', typedef_u32)])]"

definition struct_sock_common :: ctype where
  "struct_sock_common = bstruct struct_sock_common_members"

definition typedef_socket_lock_t :: ctype where
  "typedef_socket_lock_t = TStruct
    [(''slock'', typedef_spinlock_t),
     (''owned'', TInt 4),
     (''wq'', typedef_wait_queue_head_t)]"

definition struct_sock_cgroup_data :: ctype where
  "struct_sock_cgroup_data = TStruct
    [(''cgroup'', TPtr),
     (''classid'', typedef_u32),
     (''prioidx'', typedef_u16)]"

definition struct_sock_members :: "member list" where
  "struct_sock_members =
    [Fld ''__sk_common'' struct_sock_common,
     Fld ''sk_rx_dst'' TPtr,
     Fld ''sk_rx_dst_ifindex'' (TInt 4),
     Fld ''sk_rx_dst_cookie'' typedef_u32,
     Fld ''sk_lock'' typedef_socket_lock_t,
     Fld ''sk_drops'' typedef_atomic_t,
     Fld ''sk_rcvlowat'' (TInt 4),
     Fld ''sk_error_queue'' struct_sk_buff_head,
     Fld ''sk_receive_queue'' struct_sk_buff_head,
     Fld ''sk_backlog'' (TStruct
       [(''rmem_alloc'', typedef_atomic_t),
        (''len'', TInt 4),
        (''head'', TPtr),
        (''tail'', TPtr)]),
     Fld ''sk_forward_alloc'' (TInt 4),
     Fld ''sk_reserved_mem'' typedef_u32,
     Fld ''sk_ll_usec'' (TInt 4),
     Fld ''sk_napi_id'' (TInt 4),
     Fld ''sk_rcvbuf'' (TInt 4),
     Fld ''sk_disconnects'' (TInt 4),
     Fld ''sk_filter'' TPtr,
     Fld '''' (TUnion
       [(''sk_wq'', TPtr),
        (''sk_wq_raw'', TPtr)]),
     Fld ''sk_policy'' (TArr TPtr 2),
     Fld ''sk_dst_cache'' TPtr,
     Fld ''sk_omem_alloc'' typedef_atomic_t,
     Fld ''sk_sndbuf'' (TInt 4),
     Fld ''sk_wmem_queued'' (TInt 4),
     Fld ''sk_wmem_alloc'' typedef_refcount_t,
     Fld ''sk_tsq_flags'' (TInt 8),
     Fld '''' (TUnion
       [(''sk_send_head'', TPtr),
        (''tcp_rtx_queue'', struct_rb_root)]),
     Fld ''sk_write_queue'' struct_sk_buff_head,
     Fld ''sk_peek_off'' typedef___s32,
     Fld ''sk_write_pending'' (TInt 4),
     Fld ''sk_dst_pending_confirm'' typedef___u32,
     Fld ''sk_pacing_status'' typedef_u32,
     Fld ''sk_sndtimeo'' (TInt 8),
     Fld ''sk_timer'' struct_timer_list,
     Fld ''sk_priority'' typedef___u32,
     Fld ''sk_mark'' typedef___u32,
     Fld ''sk_pacing_rate'' (TInt 8),
     Fld ''sk_max_pacing_rate'' (TInt 8),
     Fld ''sk_frag'' struct_page_frag,
     Fld ''sk_route_caps'' typedef_netdev_features_t,
     Fld ''sk_gso_type'' (TInt 4),
     Fld ''sk_gso_max_size'' (TInt 4),
     Fld ''sk_allocation'' typedef_gfp_t,
     Fld ''sk_txhash'' typedef___u32,
     Bits ''sk_gso_disabled'' 1 1,
     Bits ''sk_kern_sock'' 1 1,
     Bits ''sk_no_check_tx'' 1 1,
     Bits ''sk_no_check_rx'' 1 1,
     Bits ''sk_userlocks'' 1 4,
     Fld ''sk_pacing_shift'' typedef_u8,
     Fld ''sk_type'' typedef_u16,
     Fld ''sk_protocol'' typedef_u16,
     Fld ''sk_gso_max_segs'' typedef_u16,
     Fld ''sk_lingertime'' (TInt 8),
     Fld ''sk_prot_creator'' TPtr,
     Fld ''sk_callback_lock'' typedef_rwlock_t,
     Fld ''sk_err'' (TInt 4),
     Fld ''sk_err_soft'' (TInt 4),
     Fld ''sk_ack_backlog'' typedef_u32,
     Fld ''sk_max_ack_backlog'' typedef_u32,
     Fld ''sk_uid'' typedef_kuid_t,
     Fld ''sk_txrehash'' typedef_u8,
     Fld ''sk_prefer_busy_poll'' typedef_u8,
     Fld ''sk_busy_poll_budget'' typedef_u16,
     Fld ''sk_peer_lock'' typedef_spinlock_t,
     Fld ''sk_bind_phc'' (TInt 4),
     Fld ''sk_peer_pid'' TPtr,
     Fld ''sk_peer_cred'' TPtr,
     Fld ''sk_rcvtimeo'' (TInt 8),
     Fld ''sk_stamp'' typedef_ktime_t,
     Fld ''sk_tskey'' typedef_atomic_t,
     Fld ''sk_zckey'' typedef_atomic_t,
     Fld ''sk_tsflags'' typedef_u32,
     Fld ''sk_shutdown'' typedef_u8,
     Fld ''sk_clockid'' typedef_u8,
     Bits ''sk_txtime_deadline_mode'' 1 1,
     Bits ''sk_txtime_report_errors'' 1 1,
     Bits ''sk_txtime_unused'' 1 6,
     Fld ''sk_use_task_frag'' typedef_bool,
     Fld ''sk_socket'' TPtr,
     Fld ''sk_user_data'' TPtr,
     Fld ''sk_security'' TPtr,
     Fld ''sk_cgrp_data'' struct_sock_cgroup_data,
     Fld ''sk_memcg'' TPtr,
     Fld ''sk_state_change'' TPtr,
     Fld ''sk_data_ready'' TPtr,
     Fld ''sk_write_space'' TPtr,
     Fld ''sk_error_report'' TPtr,
     Fld ''sk_backlog_rcv'' TPtr,
     Fld ''sk_validate_xmit_skb'' TPtr,
     Fld ''sk_destruct'' TPtr,
     Fld ''sk_reuseport_cb'' TPtr,
     Fld ''sk_bpf_storage'' TPtr,
     Fld ''sk_rcu'' struct_callback_head,
     Fld ''ns_tracker'' typedef_netns_tracker]"

definition struct_sock :: ctype where
  "struct_sock = bstruct struct_sock_members"

definition struct___sk_buff :: ctype where
  "struct___sk_buff = TStruct
    [(''len'', typedef___u32),
     (''pkt_type'', typedef___u32),
     (''mark'', typedef___u32),
     (''queue_mapping'', typedef___u32),
     (''protocol'', typedef___u32),
     (''vlan_present'', typedef___u32),
     (''vlan_tci'', typedef___u32),
     (''vlan_proto'', typedef___u32),
     (''priority'', typedef___u32),
     (''ingress_ifindex'', typedef___u32),
     (''ifindex'', typedef___u32),
     (''tc_index'', typedef___u32),
     (''cb'', TArr typedef___u32 5),
     (''hash'', typedef___u32),
     (''tc_classid'', typedef___u32),
     (''data'', typedef___u32),
     (''data_end'', typedef___u32),
     (''napi_id'', typedef___u32),
     (''family'', typedef___u32),
     (''remote_ip4'', typedef___u32),
     (''local_ip4'', typedef___u32),
     (''remote_ip6'', TArr typedef___u32 4),
     (''local_ip6'', TArr typedef___u32 4),
     (''remote_port'', typedef___u32),
     (''local_port'', typedef___u32),
     (''data_meta'', typedef___u32),
     ('''', TUnion
       [(''flow_keys'', TPtr)]),
     (''tstamp'', typedef___u64),
     (''wire_len'', typedef___u32),
     (''gso_segs'', typedef___u32),
     ('''', TUnion
       [(''sk'', TPtr)]),
     (''gso_size'', typedef___u32),
     (''tstamp_type'', typedef___u8),
     (''hwtstamp'', typedef___u64)]"

definition struct_nf_hook_ops_members :: "member list" where
  "struct_nf_hook_ops_members =
    [Fld ''hook'' TPtr,
     Fld ''dev'' TPtr,
     Fld ''priv'' TPtr,
     Fld ''pf'' typedef_u8,
     Bits ''hook_ops_type'' 4 8,
     Fld ''hooknum'' (TInt 4),
     Fld ''priority'' (TInt 4)]"

definition struct_nf_hook_ops :: ctype where
  "struct_nf_hook_ops = bstruct struct_nf_hook_ops_members"

definition struct_sk_msg_sg :: ctype where
  "struct_sk_msg_sg = TStruct
    [(''start'', typedef_u32),
     (''curr'', typedef_u32),
     (''end'', typedef_u32),
     (''size'', typedef_u32),
     (''copybreak'', typedef_u32),
     (''copy'', TArr (TInt 8) 1),
     (''data'', TArr struct_scatterlist 19)]"

definition struct_sk_msg :: ctype where
  "struct_sk_msg = TStruct
    [(''sg'', struct_sk_msg_sg),
     (''data'', TPtr),
     (''data_end'', TPtr),
     (''apply_bytes'', typedef_u32),
     (''cork_bytes'', typedef_u32),
     (''flags'', typedef_u32),
     (''skb'', TPtr),
     (''sk_redir'', TPtr),
     (''sk'', TPtr),
     (''list'', struct_list_head)]"

definition struct_xdp_buff :: ctype where
  "struct_xdp_buff = TStruct
    [(''data'', TPtr),
     (''data_end'', TPtr),
     (''data_meta'', TPtr),
     (''data_hard_start'', TPtr),
     (''rxq'', TPtr),
     (''txq'', TPtr),
     (''frame_sz'', typedef_u32),
     (''flags'', typedef_u32)]"

definition struct_xdp_md :: ctype where
  "struct_xdp_md = TStruct
    [(''data'', typedef___u32),
     (''data_end'', typedef___u32),
     (''data_meta'', typedef___u32),
     (''ingress_ifindex'', typedef___u32),
     (''rx_queue_index'', typedef___u32),
     (''egress_ifindex'', typedef___u32)]"

definition struct_sk_msg_md :: ctype where
  "struct_sk_msg_md = TStruct
    [('''', TUnion
       [(''data'', TPtr)]),
     ('''', TUnion
       [(''data_end'', TPtr)]),
     (''family'', typedef___u32),
     (''remote_ip4'', typedef___u32),
     (''local_ip4'', typedef___u32),
     (''remote_ip6'', TArr typedef___u32 4),
     (''local_ip6'', TArr typedef___u32 4),
     (''remote_port'', typedef___u32),
     (''local_port'', typedef___u32),
     (''size'', typedef___u32),
     ('''', TUnion
       [(''sk'', TPtr)])]"

definition struct_sk_reuseport_md :: ctype where
  "struct_sk_reuseport_md = TStruct
    [('''', TUnion
       [(''data'', TPtr)]),
     ('''', TUnion
       [(''data_end'', TPtr)]),
     (''len'', typedef___u32),
     (''eth_protocol'', typedef___u32),
     (''ip_protocol'', typedef___u32),
     (''bind_inany'', typedef___u32),
     (''hash'', typedef___u32),
     ('''', TUnion
       [(''sk'', TPtr)]),
     ('''', TUnion
       [(''migrating_sk'', TPtr)])]"

definition struct_sk_reuseport_kern :: ctype where
  "struct_sk_reuseport_kern = TStruct
    [(''skb'', TPtr),
     (''sk'', TPtr),
     (''selected_sk'', TPtr),
     (''migrating_sk'', TPtr),
     (''data_end'', TPtr),
     (''hash'', typedef_u32),
     (''reuseport_id'', typedef_u32),
     (''bind_inany'', typedef_bool)]"

definition struct_bpf_ctx_convert :: ctype where
  "struct_bpf_ctx_convert = TStruct
    [(''BPF_PROG_TYPE_SOCKET_FILTER_prog'', struct___sk_buff),
     (''BPF_PROG_TYPE_SOCKET_FILTER_kern'', struct_sk_buff),
     (''BPF_PROG_TYPE_SCHED_CLS_prog'', struct___sk_buff),
     (''BPF_PROG_TYPE_SCHED_CLS_kern'', struct_sk_buff),
     (''BPF_PROG_TYPE_SCHED_ACT_prog'', struct___sk_buff),
     (''BPF_PROG_TYPE_SCHED_ACT_kern'', struct_sk_buff),
     (''BPF_PROG_TYPE_XDP_prog'', struct_xdp_md),
     (''BPF_PROG_TYPE_XDP_kern'', struct_xdp_buff),
     (''BPF_PROG_TYPE_CGROUP_SKB_prog'', struct___sk_buff),
     (''BPF_PROG_TYPE_CGROUP_SKB_kern'', struct_sk_buff),
     (''BPF_PROG_TYPE_CGROUP_SOCK_prog'', struct_bpf_sock),
     (''BPF_PROG_TYPE_CGROUP_SOCK_kern'', struct_sock),
     (''BPF_PROG_TYPE_CGROUP_SOCK_ADDR_prog'', struct_bpf_sock_addr),
     (''BPF_PROG_TYPE_CGROUP_SOCK_ADDR_kern'', struct_bpf_sock_addr_kern),
     (''BPF_PROG_TYPE_LWT_IN_prog'', struct___sk_buff),
     (''BPF_PROG_TYPE_LWT_IN_kern'', struct_sk_buff),
     (''BPF_PROG_TYPE_LWT_OUT_prog'', struct___sk_buff),
     (''BPF_PROG_TYPE_LWT_OUT_kern'', struct_sk_buff),
     (''BPF_PROG_TYPE_LWT_XMIT_prog'', struct___sk_buff),
     (''BPF_PROG_TYPE_LWT_XMIT_kern'', struct_sk_buff),
     (''BPF_PROG_TYPE_LWT_SEG6LOCAL_prog'', struct___sk_buff),
     (''BPF_PROG_TYPE_LWT_SEG6LOCAL_kern'', struct_sk_buff),
     (''BPF_PROG_TYPE_SOCK_OPS_prog'', struct_bpf_sock_ops),
     (''BPF_PROG_TYPE_SOCK_OPS_kern'', struct_bpf_sock_ops_kern),
     (''BPF_PROG_TYPE_SK_SKB_prog'', struct___sk_buff),
     (''BPF_PROG_TYPE_SK_SKB_kern'', struct_sk_buff),
     (''BPF_PROG_TYPE_SK_MSG_prog'', struct_sk_msg_md),
     (''BPF_PROG_TYPE_SK_MSG_kern'', struct_sk_msg),
     (''BPF_PROG_TYPE_FLOW_DISSECTOR_prog'', struct___sk_buff),
     (''BPF_PROG_TYPE_FLOW_DISSECTOR_kern'', struct_bpf_flow_dissector),
     (''BPF_PROG_TYPE_KPROBE_prog'', typedef_bpf_user_pt_regs_t),
     (''BPF_PROG_TYPE_KPROBE_kern'', struct_pt_regs),
     (''BPF_PROG_TYPE_TRACEPOINT_prog'', typedef___u64),
     (''BPF_PROG_TYPE_TRACEPOINT_kern'', typedef_u64),
     (''BPF_PROG_TYPE_PERF_EVENT_prog'', struct_bpf_perf_event_data),
     (''BPF_PROG_TYPE_PERF_EVENT_kern'', struct_bpf_perf_event_data_kern),
     (''BPF_PROG_TYPE_RAW_TRACEPOINT_prog'', struct_bpf_raw_tracepoint_args),
     (''BPF_PROG_TYPE_RAW_TRACEPOINT_kern'', typedef_u64),
     (''BPF_PROG_TYPE_RAW_TRACEPOINT_WRITABLE_prog'', struct_bpf_raw_tracepoint_args),
     (''BPF_PROG_TYPE_RAW_TRACEPOINT_WRITABLE_kern'', typedef_u64),
     (''BPF_PROG_TYPE_TRACING_prog'', TPtr),
     (''BPF_PROG_TYPE_TRACING_kern'', TPtr),
     (''BPF_PROG_TYPE_CGROUP_DEVICE_prog'', struct_bpf_cgroup_dev_ctx),
     (''BPF_PROG_TYPE_CGROUP_DEVICE_kern'', struct_bpf_cgroup_dev_ctx),
     (''BPF_PROG_TYPE_CGROUP_SYSCTL_prog'', struct_bpf_sysctl),
     (''BPF_PROG_TYPE_CGROUP_SYSCTL_kern'', struct_bpf_sysctl_kern),
     (''BPF_PROG_TYPE_CGROUP_SOCKOPT_prog'', struct_bpf_sockopt),
     (''BPF_PROG_TYPE_CGROUP_SOCKOPT_kern'', struct_bpf_sockopt_kern),
     (''BPF_PROG_TYPE_LIRC_MODE2_prog'', typedef___u32),
     (''BPF_PROG_TYPE_LIRC_MODE2_kern'', typedef_u32),
     (''BPF_PROG_TYPE_SK_REUSEPORT_prog'', struct_sk_reuseport_md),
     (''BPF_PROG_TYPE_SK_REUSEPORT_kern'', struct_sk_reuseport_kern),
     (''BPF_PROG_TYPE_SK_LOOKUP_prog'', struct_bpf_sk_lookup),
     (''BPF_PROG_TYPE_SK_LOOKUP_kern'', struct_bpf_sk_lookup_kern),
     (''BPF_PROG_TYPE_STRUCT_OPS_prog'', TPtr),
     (''BPF_PROG_TYPE_STRUCT_OPS_kern'', TPtr),
     (''BPF_PROG_TYPE_EXT_prog'', TPtr),
     (''BPF_PROG_TYPE_EXT_kern'', TPtr),
     (''BPF_PROG_TYPE_LSM_prog'', TPtr),
     (''BPF_PROG_TYPE_LSM_kern'', TPtr),
     (''BPF_PROG_TYPE_SYSCALL_prog'', TPtr),
     (''BPF_PROG_TYPE_SYSCALL_kern'', TPtr),
     (''BPF_PROG_TYPE_NETFILTER_prog'', struct_bpf_nf_ctx),
     (''BPF_PROG_TYPE_NETFILTER_kern'', struct_bpf_nf_ctx)]"

definition struct_bpf_trace_sample_data :: ctype where
  "struct_bpf_trace_sample_data = TStruct
    [(''sds'', TArr struct_perf_sample_data 3)]"

definition struct_bpf_nf_link :: ctype where
  "struct_bpf_nf_link = TStruct
    [(''link'', struct_bpf_link),
     (''hook_ops'', struct_nf_hook_ops),
     (''net'', TPtr),
     (''dead'', typedef_u32),
     (''defrag_hook'', TPtr)]"

definition struct_bpf_ringbuf_members :: "member list" where
  "struct_bpf_ringbuf_members =
    [Fld ''waitq'' typedef_wait_queue_head_t, Fld ''work'' struct_irq_work, Fld ''mask'' typedef_u64, Fld ''pages'' TPtr, Fld ''nr_pages'' (TInt 4)] @
    replicate 6 (Bits '''' 8 64) @
    [Fld ''spinlock'' typedef_spinlock_t] @
    replicate 7 (Bits '''' 8 64) @
    [Fld ''busy'' typedef_atomic_t] @
    replicate 487 (Bits '''' 8 64) @
    [Fld ''consumer_pos'' (TInt 8)] @
    replicate 511 (Bits '''' 8 64) @
    [Fld ''producer_pos'' (TInt 8)] @
    replicate 511 (Bits '''' 8 64) @
    [Fld ''data'' (TArr (TInt 1) 0)]"

definition struct_bpf_ringbuf :: ctype where
  "struct_bpf_ringbuf = bstruct struct_bpf_ringbuf_members"

definition struct_bpf_iter__udp_members :: "member list" where
  "struct_bpf_iter__udp_members =
    [Fld '''' (TUnion
       [(''meta'', TPtr)]),
     Fld '''' (TUnion
       [(''udp_sk'', TPtr)]),
     Fld ''uid'' typedef_uid_t,
     Bits '''' 8 0,
     Fld ''bucket'' (TInt 4)]"

definition struct_bpf_iter__udp :: ctype where
  "struct_bpf_iter__udp = bstruct struct_bpf_iter__udp_members"

definition struct_bpf_struct_ops_value_members :: "member list" where
  "struct_bpf_struct_ops_value_members =
    [Fld ''refcnt'' typedef_refcount_t,
     Fld ''state'' (enum_ctype enum_bpf_struct_ops_state),
     Bits '''' 8 64,
     Bits '''' 8 64,
     Bits '''' 8 64,
     Bits '''' 8 64,
     Bits '''' 8 64,
     Bits '''' 8 64,
     Bits '''' 8 64,
     Fld ''data'' (TArr (TInt 1) 0)]"

definition struct_bpf_struct_ops_value :: ctype where
  "struct_bpf_struct_ops_value = bstruct struct_bpf_struct_ops_value_members"

definition struct_bpf_struct_ops_map_members :: "member list" where
  "struct_bpf_struct_ops_map_members =
    [Fld ''map'' struct_bpf_map,
     Fld ''rcu'' struct_callback_head,
     Fld ''st_ops'' TPtr,
     Fld ''lock'' struct_mutex,
     Fld ''links'' TPtr,
     Fld ''image'' TPtr,
     Fld ''uvalue'' TPtr,
     Bits '''' 8 64,
     Bits '''' 8 64,
     Bits '''' 8 64,
     Bits '''' 8 64,
     Bits '''' 8 64,
     Bits '''' 8 64,
     Fld ''kvalue'' struct_bpf_struct_ops_value]"

definition struct_bpf_struct_ops_map :: ctype where
  "struct_bpf_struct_ops_map = bstruct struct_bpf_struct_ops_map_members"

end
