(* ===== verification/VmlinuxLayouts.thy ===== *)
theory VmlinuxLayouts
  imports VmlinuxProps VmlinuxSockets
begin

text \<open>
  Layout properties of all modelled kernel types: natural alignment of every field, and the room of
  the opaque objects of BPF programs.
\<close>

section \<open>All types\<close>

definition kernel_types :: "(string \<times> ctype) list" where
  "kernel_types = [
    (''typedef___u8'', typedef___u8), (''typedef___u16'', typedef___u16), (''typedef___u32'', typedef___u32),
    (''typedef___u64'', typedef___u64), (''typedef_u8'', typedef_u8), (''typedef_u16'', typedef_u16),
    (''typedef_u32'', typedef_u32), (''typedef_u64'', typedef_u64),
    (''typedef___kernel_ulong_t'', typedef___kernel_ulong_t),
    (''typedef___kernel_size_t'', typedef___kernel_size_t), (''typedef_bool'', typedef_bool),
    (''typedef_size_t'', typedef_size_t), (''typedef___s32'', typedef___s32),
    (''typedef___s64'', typedef___s64), (''typedef_s32'', typedef_s32), (''typedef_s64'', typedef_s64),
    (''typedef_atomic_t'', typedef_atomic_t), (''typedef_atomic64_t'', typedef_atomic64_t),
    (''struct_list_head'', struct_list_head), (''struct_hlist_head'', struct_hlist_head),
    (''struct_hlist_node'', struct_hlist_node), (''struct_callback_head'', struct_callback_head),
    (''struct_lock_class_key'', struct_lock_class_key), (''struct_qspinlock'', struct_qspinlock),
    (''typedef_arch_spinlock_t'', typedef_arch_spinlock_t), (''struct_raw_spinlock'', struct_raw_spinlock),
    (''typedef_raw_spinlock_t'', typedef_raw_spinlock_t),
    (''struct_refcount_struct'', struct_refcount_struct), (''typedef_refcount_t'', typedef_refcount_t),
    (''typedef_atomic_long_t'', typedef_atomic_long_t),
    (''struct_optimistic_spin_queue'', struct_optimistic_spin_queue), (''struct_mutex'', struct_mutex),
    (''struct_rb_node'', struct_rb_node), (''struct_latch_tree_node'', struct_latch_tree_node),
    (''struct_llist_node'', struct_llist_node), (''struct___call_single_node'', struct___call_single_node),
    (''struct_rb_root'', struct_rb_root), (''struct_spinlock'', struct_spinlock),
    (''typedef_spinlock_t'', typedef_spinlock_t), (''struct_llist_head'', struct_llist_head),
    (''struct_percpu_counter'', struct_percpu_counter), (''typedef_work_func_t'', typedef_work_func_t),
    (''struct_work_struct'', struct_work_struct), (''struct_swait_queue_head'', struct_swait_queue_head),
    (''struct_completion'', struct_completion), (''struct_path'', struct_path),
    (''struct_rcuwait'', struct_rcuwait), (''typedef_local_t'', typedef_local_t),
    (''struct_irq_work'', struct_irq_work), (''typedef_ftrace_func_t'', typedef_ftrace_func_t),
    (''struct_ftrace_ops_hash'', struct_ftrace_ops_hash),
    (''typedef_ftrace_ops_func_t'', typedef_ftrace_ops_func_t), (''struct_ftrace_ops'', struct_ftrace_ops),
    (''struct_rcu_work'', struct_rcu_work), (''struct_percpu_ref'', struct_percpu_ref),
    (''typedef___be16'', typedef___be16), (''typedef___be32'', typedef___be32),
    (''struct_pcpu_freelist_head'', struct_pcpu_freelist_head),
    (''struct_pcpu_freelist'', struct_pcpu_freelist), (''struct_sk_psock_progs'', struct_sk_psock_progs),
    (''struct_fprobe'', struct_fprobe), (''typedef_del_from_htab_func'', typedef_del_from_htab_func),
    (''struct_btf_type'', struct_btf_type), (''struct_btf_param'', struct_btf_param),
    (''union_bpf_attr'', union_bpf_attr), (''struct_bpf_link_info'', struct_bpf_link_info),
    (''struct_bpf_func_info'', struct_bpf_func_info), (''struct_bpf_line_info'', struct_bpf_line_info),
    (''struct_btf_header'', struct_btf_header), (''struct_bpf_flow_keys'', struct_bpf_flow_keys),
    (''struct_bpf_sock'', struct_bpf_sock), (''struct_btf_member'', struct_btf_member),
    (''struct_bpf_cgroup_dev_ctx'', struct_bpf_cgroup_dev_ctx), (''struct_btf_array'', struct_btf_array),
    (''struct_bpf_devmap_val'', struct_bpf_devmap_val), (''struct_btf_var_secinfo'', struct_btf_var_secinfo),
    (''struct_bpf_core_relo'', struct_bpf_core_relo), (''struct_bpf_map_info'', struct_bpf_map_info),
    (''struct_bpf_cpumap_val'', struct_bpf_cpumap_val), (''struct_btf_enum'', struct_btf_enum),
    (''struct_btf_var'', struct_btf_var), (''struct_btf_decl_tag'', struct_btf_decl_tag),
    (''struct_btf_enum64'', struct_btf_enum64), (''struct_bpf_btf_info'', struct_bpf_btf_info),
    (''struct_bpf_sock_addr'', struct_bpf_sock_addr), (''struct_bpf_sock_ops'', struct_bpf_sock_ops),
    (''struct_bpf_sockopt'', struct_bpf_sockopt), (''struct_bpf_sk_lookup'', struct_bpf_sk_lookup),
    (''struct_bpf_perf_event_value'', struct_bpf_perf_event_value), (''struct_btf_ptr'', struct_btf_ptr),
    (''struct_bpf_spin_lock'', struct_bpf_spin_lock),
    (''struct_bpf_stack_build_id'', struct_bpf_stack_build_id),
    (''struct_bpf_tunnel_key'', struct_bpf_tunnel_key), (''struct_bpf_xfrm_state'', struct_bpf_xfrm_state),
    (''struct_bpf_tcp_sock'', struct_bpf_tcp_sock), (''struct_bpf_sock_tuple'', struct_bpf_sock_tuple),
    (''struct_bpf_fib_lookup'', struct_bpf_fib_lookup), (''struct_bpf_redir_neigh'', struct_bpf_redir_neigh),
    (''struct_bpf_timer'', struct_bpf_timer), (''struct_bpf_dynptr'', struct_bpf_dynptr),
    (''struct_bpf_list_head'', struct_bpf_list_head), (''struct_bpf_list_node'', struct_bpf_list_node),
    (''struct_bpf_rb_root'', struct_bpf_rb_root), (''struct_bpf_rb_node'', struct_bpf_rb_node),
    (''struct_bpf_refcount'', struct_bpf_refcount), (''struct_bpf_pidns_info'', struct_bpf_pidns_info),
    (''struct_bpf_map_ops'', struct_bpf_map_ops), (''struct_bpf_map'', struct_bpf_map),
    (''struct_bpf_map_dev_ops'', struct_bpf_map_dev_ops),
    (''struct_bpf_offloaded_map'', struct_bpf_offloaded_map),
    (''struct_bpf_cgroup_storage_key'', struct_bpf_cgroup_storage_key),
    (''struct_bpf_cgroup_storage'', struct_bpf_cgroup_storage),
    (''struct_bpf_array_aux'', struct_bpf_array_aux), (''struct_bpf_array'', struct_bpf_array),
    (''struct_bpf_mem_alloc'', struct_bpf_mem_alloc),
    (''struct_bpf_local_storage_map'', struct_bpf_local_storage_map),
    (''struct_bpf_local_storage_data'', struct_bpf_local_storage_data),
    (''struct_bpf_local_storage_elem'', struct_bpf_local_storage_elem),
    (''struct_bpf_dtab_netdev'', struct_bpf_dtab_netdev), (''struct_bpf_dtab'', struct_bpf_dtab),
    (''struct_bpf_bloom_filter'', struct_bpf_bloom_filter),
    (''struct_bpf_cpu_map_entry'', struct_bpf_cpu_map_entry), (''struct_bpf_cpu_map'', struct_bpf_cpu_map),
    (''struct_bpf_lru_list'', struct_bpf_lru_list), (''struct_bpf_common_lru'', struct_bpf_common_lru),
    (''struct_bpf_lru'', struct_bpf_lru), (''struct_bpf_htab'', struct_bpf_htab),
    (''struct_bpf_stab'', struct_bpf_stab), (''struct_bpf_shtab'', struct_bpf_shtab),
    (''struct_bpf_cgroup_storage_map'', struct_bpf_cgroup_storage_map),
    (''struct_bpf_stack_map'', struct_bpf_stack_map), (''struct_bpf_queue_stack'', struct_bpf_queue_stack),
    (''struct_bpf_mem_cache'', struct_bpf_mem_cache), (''struct_bpf_mem_caches'', struct_bpf_mem_caches),
    (''struct_bpf_ringbuf_map'', struct_bpf_ringbuf_map), (''struct_bpf_run_ctx'', struct_bpf_run_ctx),
    (''typedef_btf_dtor_kfunc_t'', typedef_btf_dtor_kfunc_t),
    (''struct_btf_field_kptr'', struct_btf_field_kptr),
    (''struct_btf_field_graph_root'', struct_btf_field_graph_root), (''struct_btf_field'', struct_btf_field),
    (''struct_btf_record'', struct_btf_record), (''struct_bpf_prog_array_item'', struct_bpf_prog_array_item),
    (''struct_bpf_prog_array'', struct_bpf_prog_array),
    (''struct_bpf_iter_aux_info'', struct_bpf_iter_aux_info), (''struct_btf'', struct_btf),
    (''struct_bpf_ksym'', struct_bpf_ksym), (''struct_bpf_prog_aux'', struct_bpf_prog_aux),
    (''struct_bpf_func_proto'', struct_bpf_func_proto), (''struct_bpf_prog_ops'', struct_bpf_prog_ops),
    (''struct_bpf_prog_offload'', struct_bpf_prog_offload),
    (''struct_btf_func_model'', struct_btf_func_model), (''struct_bpf_tramp_image'', struct_bpf_tramp_image),
    (''struct_bpf_trampoline'', struct_bpf_trampoline),
    (''struct_bpf_jit_poke_descriptor'', struct_bpf_jit_poke_descriptor),
    (''struct_bpf_ctx_arg_aux'', struct_bpf_ctx_arg_aux),
    (''typedef_bpf_iter_attach_target_t'', typedef_bpf_iter_attach_target_t),
    (''typedef_bpf_iter_detach_target_t'', typedef_bpf_iter_detach_target_t),
    (''typedef_bpf_iter_show_fdinfo_t'', typedef_bpf_iter_show_fdinfo_t),
    (''typedef_bpf_iter_fill_link_info_t'', typedef_bpf_iter_fill_link_info_t),
    (''typedef_bpf_iter_get_func_proto_t'', typedef_bpf_iter_get_func_proto_t),
    (''struct_bpf_iter_reg'', struct_bpf_iter_reg), (''struct_bpf_verifier_ops'', struct_bpf_verifier_ops),
    (''struct_bpf_link'', struct_bpf_link), (''struct_bpf_tramp_link'', struct_bpf_tramp_link),
    (''struct_bpf_link_ops'', struct_bpf_link_ops),
    (''struct_bpf_shim_tramp_link'', struct_bpf_shim_tramp_link),
    (''struct_bpf_struct_ops'', struct_bpf_struct_ops), (''struct_bpf_cgroup_link'', struct_bpf_cgroup_link),
    (''struct_bpf_kfunc_desc'', struct_bpf_kfunc_desc),
    (''struct_bpf_kfunc_desc_tab'', struct_bpf_kfunc_desc_tab),
    (''struct_bpf_kfunc_btf'', struct_bpf_kfunc_btf),
    (''struct_bpf_kfunc_btf_tab'', struct_bpf_kfunc_btf_tab),
    (''struct_bpf_iter_link'', struct_bpf_iter_link),
    (''struct_bpf_kprobe_multi_link'', struct_bpf_kprobe_multi_link),
    (''struct_bpf_uprobe_multi_link'', struct_bpf_uprobe_multi_link),
    (''struct_bpf_tracing_link'', struct_bpf_tracing_link),
    (''struct_bpf_raw_tp_link'', struct_bpf_raw_tp_link), (''struct_bpf_perf_link'', struct_bpf_perf_link),
    (''struct_bpf_dispatcher_prog'', struct_bpf_dispatcher_prog),
    (''struct_bpf_dispatcher'', struct_bpf_dispatcher), (''struct_bpf_xdp_link'', struct_bpf_xdp_link),
    (''struct_bpf_netns_link'', struct_bpf_netns_link),
    (''struct_bpf_struct_ops_link'', struct_bpf_struct_ops_link)]"

lemmas kernel_type_defs =
    typedef___u8_def typedef___u16_def typedef___u32_def typedef___u64_def typedef_u8_def typedef_u16_def
    typedef_u32_def typedef_u64_def typedef___kernel_ulong_t_def typedef___kernel_size_t_def typedef_bool_def
    typedef_size_t_def typedef___s32_def typedef___s64_def typedef_s32_def typedef_s64_def
    typedef_atomic_t_def typedef_atomic64_t_def struct_list_head_def struct_hlist_head_def
    struct_hlist_node_def struct_callback_head_def struct_lock_class_key_def struct_qspinlock_def
    typedef_arch_spinlock_t_def struct_raw_spinlock_def typedef_raw_spinlock_t_def struct_refcount_struct_def
    typedef_refcount_t_def typedef_atomic_long_t_def struct_optimistic_spin_queue_def struct_mutex_def
    struct_rb_node_def struct_latch_tree_node_def struct_llist_node_def struct___call_single_node_def
    struct_rb_root_def struct_spinlock_def typedef_spinlock_t_def struct_llist_head_def
    struct_percpu_counter_def typedef_work_func_t_def struct_work_struct_def struct_swait_queue_head_def
    struct_completion_def struct_path_def struct_rcuwait_def typedef_local_t_def struct_irq_work_def
    typedef_ftrace_func_t_def struct_ftrace_ops_hash_def typedef_ftrace_ops_func_t_def struct_ftrace_ops_def
    struct_rcu_work_def struct_percpu_ref_def typedef___be16_def typedef___be32_def
    struct_pcpu_freelist_head_def struct_pcpu_freelist_def struct_sk_psock_progs_def struct_fprobe_def
    typedef_del_from_htab_func_def struct_btf_type_def struct_btf_param_def union_bpf_attr_def
    struct_bpf_link_info_def struct_bpf_func_info_def struct_bpf_line_info_def struct_btf_header_def
    struct_bpf_flow_keys_def struct_bpf_sock_def struct_btf_member_def struct_bpf_cgroup_dev_ctx_def
    struct_btf_array_def struct_bpf_devmap_val_def struct_btf_var_secinfo_def struct_bpf_core_relo_def
    struct_bpf_map_info_def struct_bpf_cpumap_val_def struct_btf_enum_def struct_btf_var_def
    struct_btf_decl_tag_def struct_btf_enum64_def struct_bpf_btf_info_def struct_bpf_sock_addr_def
    struct_bpf_sock_ops_def struct_bpf_sockopt_def struct_bpf_sk_lookup_def struct_bpf_perf_event_value_def
    struct_btf_ptr_def struct_bpf_spin_lock_def struct_bpf_stack_build_id_def struct_bpf_tunnel_key_def
    struct_bpf_xfrm_state_def struct_bpf_tcp_sock_def struct_bpf_sock_tuple_def struct_bpf_fib_lookup_def
    struct_bpf_redir_neigh_def struct_bpf_timer_def struct_bpf_dynptr_def struct_bpf_list_head_def
    struct_bpf_list_node_def struct_bpf_rb_root_def struct_bpf_rb_node_def struct_bpf_refcount_def
    struct_bpf_pidns_info_def struct_bpf_map_ops_def struct_bpf_map_def struct_bpf_map_dev_ops_def
    struct_bpf_offloaded_map_def struct_bpf_cgroup_storage_key_def struct_bpf_cgroup_storage_def
    struct_bpf_array_aux_def struct_bpf_array_def struct_bpf_mem_alloc_def struct_bpf_local_storage_map_def
    struct_bpf_local_storage_data_def struct_bpf_local_storage_elem_def struct_bpf_dtab_netdev_def
    struct_bpf_dtab_def struct_bpf_bloom_filter_def struct_bpf_cpu_map_entry_def struct_bpf_cpu_map_def
    struct_bpf_lru_list_def struct_bpf_common_lru_def struct_bpf_lru_def struct_bpf_htab_def
    struct_bpf_stab_def struct_bpf_shtab_def struct_bpf_cgroup_storage_map_def struct_bpf_stack_map_def
    struct_bpf_queue_stack_def struct_bpf_mem_cache_def struct_bpf_mem_caches_def struct_bpf_ringbuf_map_def
    struct_bpf_run_ctx_def typedef_btf_dtor_kfunc_t_def struct_btf_field_kptr_def
    struct_btf_field_graph_root_def struct_btf_field_def struct_btf_record_def struct_bpf_prog_array_item_def
    struct_bpf_prog_array_def struct_bpf_iter_aux_info_def struct_btf_def struct_bpf_ksym_def
    struct_bpf_prog_aux_def struct_bpf_func_proto_def struct_bpf_prog_ops_def struct_bpf_prog_offload_def
    struct_btf_func_model_def struct_bpf_tramp_image_def struct_bpf_trampoline_def
    struct_bpf_jit_poke_descriptor_def struct_bpf_ctx_arg_aux_def typedef_bpf_iter_attach_target_t_def
    typedef_bpf_iter_detach_target_t_def typedef_bpf_iter_show_fdinfo_t_def
    typedef_bpf_iter_fill_link_info_t_def typedef_bpf_iter_get_func_proto_t_def struct_bpf_iter_reg_def
    struct_bpf_verifier_ops_def struct_bpf_link_def struct_bpf_tramp_link_def struct_bpf_link_ops_def
    struct_bpf_shim_tramp_link_def struct_bpf_struct_ops_def struct_bpf_cgroup_link_def
    struct_bpf_kfunc_desc_def struct_bpf_kfunc_desc_tab_def struct_bpf_kfunc_btf_def
    struct_bpf_kfunc_btf_tab_def struct_bpf_iter_link_def struct_bpf_kprobe_multi_link_def
    struct_bpf_uprobe_multi_link_def struct_bpf_tracing_link_def struct_bpf_raw_tp_link_def
    struct_bpf_perf_link_def struct_bpf_dispatcher_prog_def struct_bpf_dispatcher_def struct_bpf_xdp_link_def
    struct_bpf_netns_link_def struct_bpf_struct_ops_link_def union_bpf_attr_part1_def
    union_bpf_attr_part2_def

definition context_types :: "(string \<times> ctype) list" where
  "context_types = [
    (''typedef___kernel_uid32_t'', typedef___kernel_uid32_t),
    (''typedef___kernel_gid32_t'', typedef___kernel_gid32_t),
    (''typedef___kernel_loff_t'', typedef___kernel_loff_t), (''typedef_umode_t'', typedef_umode_t),
    (''typedef_uid_t'', typedef_uid_t), (''typedef_gid_t'', typedef_gid_t),
    (''typedef_loff_t'', typedef_loff_t), (''typedef_ktime_t'', typedef_ktime_t),
    (''struct_timerqueue_node'', struct_timerqueue_node), (''struct_hrtimer'', struct_hrtimer),
    (''struct_cpumask'', struct_cpumask), (''typedef_cpumask_t'', typedef_cpumask_t),
    (''typedef_kuid_t'', typedef_kuid_t), (''struct_pt_regs'', struct_pt_regs),
    (''struct_bpf_raw_event_map'', struct_bpf_raw_event_map), (''typedef_kgid_t'', typedef_kgid_t),
    (''typedef_local64_t'', typedef_local64_t), (''struct_rhash_head'', struct_rhash_head),
    (''struct_cgroup_bpf'', struct_cgroup_bpf), (''struct_u64_stats_sync'', struct_u64_stats_sync),
    (''struct_trace_entry'', struct_trace_entry), (''union_bpf_iter_link_info'', union_bpf_iter_link_info),
    (''struct_netns_bpf'', struct_netns_bpf), (''typedef_u64_stats_t'', typedef_u64_stats_t),
    (''typedef_bpf_iter_init_seq_priv_t'', typedef_bpf_iter_init_seq_priv_t),
    (''typedef_bpf_iter_fini_seq_priv_t'', typedef_bpf_iter_fini_seq_priv_t),
    (''struct_bpf_iter_seq_info'', struct_bpf_iter_seq_info),
    (''struct_bpf_xdp_entity'', struct_bpf_xdp_entity), (''struct_btf_mod_pair'', struct_btf_mod_pair),
    (''struct_bpf_prog_stats'', struct_bpf_prog_stats), (''struct_bpf_iter_meta'', struct_bpf_iter_meta),
    (''struct_in6_addr'', struct_in6_addr), (''struct_tcp_congestion_ops'', struct_tcp_congestion_ops),
    (''struct_netdev_bpf'', struct_netdev_bpf),
    (''struct_bpf_iter_seq_prog_info'', struct_bpf_iter_seq_prog_info),
    (''struct_bpf_iter__bpf_prog'', struct_bpf_iter__bpf_prog),
    (''typedef_netns_tracker'', typedef_netns_tracker), (''struct_seq_net_private'', struct_seq_net_private),
    (''struct_bpf_iter__netlink'', struct_bpf_iter__netlink),
    (''typedef_xfrm_address_t'', typedef_xfrm_address_t),
    (''struct_bpf_sock_ops_kern'', struct_bpf_sock_ops_kern),
    (''struct_bpf_storage_buffer'', struct_bpf_storage_buffer),
    (''struct_bpf_lpm_trie_key'', struct_bpf_lpm_trie_key), (''struct_ma_state'', struct_ma_state),
    (''struct_bpf_event_entry'', struct_bpf_event_entry),
    (''struct_bpf_iter__bpf_map_elem'', struct_bpf_iter__bpf_map_elem),
    (''struct_bpf_iter_seq_array_map_info'', struct_bpf_iter_seq_array_map_info),
    (''struct_ipv6_bpf_stub'', struct_ipv6_bpf_stub), (''struct_qdisc_skb_cb'', struct_qdisc_skb_cb),
    (''struct_bpf_skb_data_end'', struct_bpf_skb_data_end), (''struct_bpf_lwt_prog'', struct_bpf_lwt_prog),
    (''struct_bpf_lwt'', struct_bpf_lwt), (''struct_vma_iterator'', struct_vma_iterator),
    (''struct_btf_struct_meta'', struct_btf_struct_meta),
    (''struct_bpf_verifier_log'', struct_bpf_verifier_log),
    (''struct_bpf_subprog_arg_info'', struct_bpf_subprog_arg_info),
    (''struct_bpf_id_pair'', struct_bpf_id_pair), (''struct_bpf_idmap'', struct_bpf_idmap),
    (''struct_bpf_idset'', struct_bpf_idset), (''struct_bpf_retval_range'', struct_bpf_retval_range),
    (''struct_bpf_insn_access_aux'', struct_bpf_insn_access_aux),
    (''struct_bpf_tramp_links'', struct_bpf_tramp_links),
    (''struct_bpf_tramp_run_ctx'', struct_bpf_tramp_run_ctx),
    (''struct_bpf_attach_target_info'', struct_bpf_attach_target_info),
    (''struct_bpf_active_lock'', struct_bpf_active_lock),
    (''struct_bpf_reference_state'', struct_bpf_reference_state),
    (''struct_bpf_verifier_state'', struct_bpf_verifier_state),
    (''struct_bpf_verifier_state_list'', struct_bpf_verifier_state_list),
    (''struct_bpf_local_storage'', struct_bpf_local_storage), (''struct_btf_id_set'', struct_btf_id_set),
    (''struct_bpf_trace_run_ctx'', struct_bpf_trace_run_ctx),
    (''struct_bpf_local_storage_map_bucket'', struct_bpf_local_storage_map_bucket),
    (''struct_bpf_local_storage_cache'', struct_bpf_local_storage_cache),
    (''struct_bpf_sk_storage_diag'', struct_bpf_sk_storage_diag),
    (''struct_bpf_iter_seq_sk_storage_map_info'', struct_bpf_iter_seq_sk_storage_map_info),
    (''struct_bpf_iter__bpf_sk_storage_map'', struct_bpf_iter__bpf_sk_storage_map),
    (''struct_btf_id_set8'', struct_btf_id_set8), (''typedef_btf_kfunc_filter_t'', typedef_btf_kfunc_filter_t),
    (''struct_btf_kfunc_id_set'', struct_btf_kfunc_id_set),
    (''struct_bpf_iter_seq_map_info'', struct_bpf_iter_seq_map_info),
    (''struct_bpf_iter__bpf_map'', struct_bpf_iter__bpf_map), (''struct_hid_bpf'', struct_hid_bpf),
    (''struct_hid_bpf_prog_list'', struct_hid_bpf_prog_list),
    (''struct_bpf_storage_blob'', struct_bpf_storage_blob),
    (''struct_bpf_empty_prog_array'', struct_bpf_empty_prog_array), (''struct_bpf_sysctl'', struct_bpf_sysctl),
    (''struct_bpf_link_primer'', struct_bpf_link_primer), (''struct_bpf_cg_run_ctx'', struct_bpf_cg_run_ctx),
    (''struct_bpf_sock_addr_kern'', struct_bpf_sock_addr_kern),
    (''struct_bpf_sysctl_kern'', struct_bpf_sysctl_kern), (''struct_bpf_sockopt_buf'', struct_bpf_sockopt_buf),
    (''struct_bpf_sockopt_kern'', struct_bpf_sockopt_kern), (''struct_bpf_prog_list'', struct_bpf_prog_list),
    (''struct_bpf_iter__ipv6_route'', struct_bpf_iter__ipv6_route),
    (''struct_bpf_sk_lookup_kern'', struct_bpf_sk_lookup_kern),
    (''struct_bpf_nh_params'', struct_bpf_nh_params), (''struct_bpf_redirect_info'', struct_bpf_redirect_info),
    (''struct_bpf_dummy_ops_state'', struct_bpf_dummy_ops_state),
    (''struct_bpf_dummy_ops'', struct_bpf_dummy_ops),
    (''struct_bpf_dummy_ops_test_args'', struct_bpf_dummy_ops_test_args),
    (''struct_bpf_dynptr_kern'', struct_bpf_dynptr_kern), (''struct_bpf_core_ctx'', struct_bpf_core_ctx),
    (''struct_bpf_bprintf_data'', struct_bpf_bprintf_data),
    (''struct_bpf_verifier_stack_elem'', struct_bpf_verifier_stack_elem),
    (''typedef_bpf_insn_print_t'', typedef_bpf_insn_print_t),
    (''typedef_bpf_insn_revmap_call_t'', typedef_bpf_insn_revmap_call_t),
    (''typedef_bpf_insn_print_imm_t'', typedef_bpf_insn_print_imm_t),
    (''struct_bpf_insn_cbs'', struct_bpf_insn_cbs), (''struct_bpf_call_arg_meta'', struct_bpf_call_arg_meta),
    (''struct_bpf_kfunc_call_arg_meta'', struct_bpf_kfunc_call_arg_meta),
    (''struct_bpf_iter_meta__safe_trusted'', struct_bpf_iter_meta__safe_trusted),
    (''struct_bpf_iter__task__safe_trusted'', struct_bpf_iter__task__safe_trusted),
    (''struct_bpf_reg_types'', struct_bpf_reg_types),
    (''struct_bpf_prog_offload_ops'', struct_bpf_prog_offload_ops),
    (''struct_bpf_offload_dev'', struct_bpf_offload_dev),
    (''struct_bpf_offload_netdev'', struct_bpf_offload_netdev),
    (''struct_ns_get_path_bpf_prog_args'', struct_ns_get_path_bpf_prog_args),
    (''struct_ns_get_path_bpf_map_args'', struct_ns_get_path_bpf_map_args),
    (''struct_bpf_iter_num'', struct_bpf_iter_num),
    (''struct_bpf_iter_target_info'', struct_bpf_iter_target_info),
    (''struct_bpf_iter_num_kern'', struct_bpf_iter_num_kern),
    (''struct_bpf_iter_seq_link_info'', struct_bpf_iter_seq_link_info),
    (''struct_bpf_iter__bpf_link'', struct_bpf_iter__bpf_link), (''struct_bpf_mprog_fp'', struct_bpf_mprog_fp),
    (''struct_bpf_mprog_cp'', struct_bpf_mprog_cp), (''struct_bpf_mprog_entry'', struct_bpf_mprog_entry),
    (''struct_bpf_mprog_bundle'', struct_bpf_mprog_bundle), (''struct_bpf_tuple'', struct_bpf_tuple),
    (''struct_bpf_flow_dissector'', struct_bpf_flow_dissector),
    (''struct_bpf_preload_info'', struct_bpf_preload_info),
    (''struct_bpf_preload_ops'', struct_bpf_preload_ops), (''struct_bpf_mount_opts'', struct_bpf_mount_opts),
    (''struct_bpf_raw_tracepoint_args'', struct_bpf_raw_tracepoint_args),
    (''typedef_bpf_user_pt_regs_t'', typedef_bpf_user_pt_regs_t),
    (''struct_bpf_perf_event_data'', struct_bpf_perf_event_data),
    (''struct_btf_id_dtor_kfunc'', struct_btf_id_dtor_kfunc),
    (''struct_btf_struct_metas'', struct_btf_struct_metas),
    (''struct_bpf_perf_event_data_kern'', struct_bpf_perf_event_data_kern),
    (''struct_bpf_nf_ctx'', struct_bpf_nf_ctx), (''struct_bpf_core_cand'', struct_bpf_core_cand),
    (''struct_bpf_core_cand_list'', struct_bpf_core_cand_list),
    (''struct_bpf_core_accessor'', struct_bpf_core_accessor), (''struct_bpf_core_spec'', struct_bpf_core_spec),
    (''struct_bpf_core_relo_res'', struct_bpf_core_relo_res),
    (''struct_btf_kfunc_hook_filter'', struct_btf_kfunc_hook_filter),
    (''struct_btf_kfunc_set_tab'', struct_btf_kfunc_set_tab),
    (''struct_btf_id_dtor_kfunc_tab'', struct_btf_id_dtor_kfunc_tab),
    (''struct_resolve_vertex'', struct_resolve_vertex), (''struct_btf_sec_info'', struct_btf_sec_info),
    (''struct_btf_verifier_env'', struct_btf_verifier_env),
    (''struct_btf_kind_operations'', struct_btf_kind_operations),
    (''struct_btf_field_info'', struct_btf_field_info), (''struct_btf_module'', struct_btf_module),
    (''struct_bpf_cand_cache'', struct_bpf_cand_cache), (''struct_uprobe_consumer'', struct_uprobe_consumer),
    (''struct_hid_bpf_ops'', struct_hid_bpf_ops), (''struct_bpf_iter__ksym'', struct_bpf_iter__ksym),
    (''struct_bpf_lru_node'', struct_bpf_lru_node), (''struct_bpf_lru_locallist'', struct_bpf_lru_locallist),
    (''struct_bpf_iter_seq_hash_map_info'', struct_bpf_iter_seq_hash_map_info),
    (''struct_bpf_key'', struct_bpf_key), (''struct_perf_event_query_bpf'', struct_perf_event_query_bpf),
    (''struct_trace_event_raw_bpf_trace_printk'', struct_trace_event_raw_bpf_trace_printk),
    (''struct_trace_event_data_offsets_bpf_trace_printk'', struct_trace_event_data_offsets_bpf_trace_printk),
    (''struct_bpf_trace_module'', struct_bpf_trace_module),
    (''struct_bpf_nested_pt_regs'', struct_bpf_nested_pt_regs),
    (''struct_bpf_raw_tp_regs'', struct_bpf_raw_tp_regs),
    (''struct_bpf_kprobe_multi_run_ctx'', struct_bpf_kprobe_multi_run_ctx),
    (''struct_bpf_uprobe'', struct_bpf_uprobe),
    (''struct_bpf_uprobe_multi_run_ctx'', struct_bpf_uprobe_multi_run_ctx),
    (''struct_bpf_prog_kstats'', struct_bpf_prog_kstats),
    (''struct_perf_event_header'', struct_perf_event_header),
    (''struct_tcp_iter_state'', struct_tcp_iter_state),
    (''struct_bpf_iter__sockmap'', struct_bpf_iter__sockmap),
    (''struct_bpf_shtab_elem'', struct_bpf_shtab_elem), (''struct_bpf_shtab_bucket'', struct_bpf_shtab_bucket),
    (''struct_bpf_iter__cgroup'', struct_bpf_iter__cgroup), (''struct_bpf_iter_css'', struct_bpf_iter_css),
    (''struct_bpf_iter_css_kern'', struct_bpf_iter_css_kern),
    (''struct_udp_iter_state'', struct_udp_iter_state),
    (''struct_bpf_iter_seq_task_common'', struct_bpf_iter_seq_task_common),
    (''struct_bpf_iter_seq_task_info'', struct_bpf_iter_seq_task_info),
    (''struct_bpf_iter__task'', struct_bpf_iter__task),
    (''struct_bpf_iter_seq_task_file_info'', struct_bpf_iter_seq_task_file_info),
    (''struct_bpf_iter__task_file'', struct_bpf_iter__task_file),
    (''struct_bpf_iter_seq_task_vma_info'', struct_bpf_iter_seq_task_vma_info),
    (''struct_bpf_iter__task_vma'', struct_bpf_iter__task_vma),
    (''struct_bpf_iter_task_vma_kern_data'', struct_bpf_iter_task_vma_kern_data),
    (''struct_bpf_iter_task_vma'', struct_bpf_iter_task_vma),
    (''struct_bpf_iter_task_vma_kern'', struct_bpf_iter_task_vma_kern),
    (''struct_bpf_iter_css_task'', struct_bpf_iter_css_task),
    (''struct_bpf_iter_css_task_kern'', struct_bpf_iter_css_task_kern),
    (''struct_bpf_iter_task'', struct_bpf_iter_task),
    (''struct_bpf_iter_task_kern'', struct_bpf_iter_task_kern), (''struct_bpf_xdp_sock'', struct_bpf_xdp_sock),
    (''struct_seg6_bpf_srh_state'', struct_seg6_bpf_srh_state),
    (''struct_bpf_scratchpad'', struct_bpf_scratchpad), (''struct_bpf_rb_node_kern'', struct_bpf_rb_node_kern),
    (''struct_bpf_list_node_kern'', struct_bpf_list_node_kern),
    (''struct_bpf_bprintf_buffers'', struct_bpf_bprintf_buffers), (''struct_bpf_hrtimer'', struct_bpf_hrtimer),
    (''struct_bpf_timer_kern'', struct_bpf_timer_kern), (''struct_bpf_throw_ctx'', struct_bpf_throw_ctx),
    (''struct_bpf_unix_iter_state'', struct_bpf_unix_iter_state),
    (''struct_bpf_iter__unix'', struct_bpf_iter__unix),
    (''struct_bpf_xfrm_state_opts'', struct_bpf_xfrm_state_opts),
    (''struct_bpf_prog_pack'', struct_bpf_prog_pack), (''struct__bpf_dtab_netdev'', struct__bpf_dtab_netdev),
    (''struct_trace_event_raw_bpf_xdp_link_attach_failed'', struct_trace_event_raw_bpf_xdp_link_attach_failed),
    (''struct_trace_event_data_offsets_bpf_xdp_link_attach_failed'', struct_trace_event_data_offsets_bpf_xdp_link_attach_failed),
    (''struct_hid_bpf_ctx'', struct_hid_bpf_ctx), (''struct_hid_bpf_link'', struct_hid_bpf_link),
    (''struct_hid_bpf_ctx_kern'', struct_hid_bpf_ctx_kern), (''struct_bpf_map_desc'', struct_bpf_map_desc),
    (''struct_bpf_prog_desc'', struct_bpf_prog_desc), (''struct_bpf_loader_ctx'', struct_bpf_loader_ctx),
    (''struct_bpf_load_and_run_opts'', struct_bpf_load_and_run_opts),
    (''struct_entrypoints_bpf'', struct_entrypoints_bpf),
    (''struct_hid_bpf_prog_entry'', struct_hid_bpf_prog_entry),
    (''struct_hid_bpf_jmp_table'', struct_hid_bpf_jmp_table), (''struct_bpf_cpumask'', struct_bpf_cpumask),
    (''struct_bpf_security_struct'', struct_bpf_security_struct),
    (''struct_bpf_ringbuf_hdr'', struct_bpf_ringbuf_hdr),
    (''struct_bpf_udp_iter_state'', struct_bpf_udp_iter_state),
    (''struct_bpf_struct_ops_bpf_dummy_ops'', struct_bpf_struct_ops_bpf_dummy_ops),
    (''struct_bpf_struct_ops_tcp_congestion_ops'', struct_bpf_struct_ops_tcp_congestion_ops),
    (''struct_bpf_tcp_iter_state'', struct_bpf_tcp_iter_state),
    (''struct_bpf_iter__tcp'', struct_bpf_iter__tcp),
    (''struct_trace_event_raw_bpf_test_finish'', struct_trace_event_raw_bpf_test_finish),
    (''struct_trace_event_data_offsets_bpf_test_finish'', struct_trace_event_data_offsets_bpf_test_finish),
    (''struct_bpf_fentry_test_t'', struct_bpf_fentry_test_t),
    (''struct_bpf_raw_tp_test_run_info'', struct_bpf_raw_tp_test_run_info),
    (''struct_btf_anon_stack'', struct_btf_anon_stack), (''struct_perf_bpf_event'', struct_perf_bpf_event)]"

lemmas context_type_defs =
    typedef___kernel_uid32_t_def typedef___kernel_gid32_t_def typedef___kernel_loff_t_def typedef_umode_t_def
    typedef_uid_t_def typedef_gid_t_def typedef_loff_t_def typedef_ktime_t_def struct_timerqueue_node_def
    struct_hrtimer_def struct_cpumask_def typedef_cpumask_t_def typedef_kuid_t_def struct_pt_regs_def
    struct_bpf_raw_event_map_def typedef_kgid_t_def typedef_local64_t_def struct_rhash_head_def
    struct_cgroup_bpf_def struct_u64_stats_sync_def struct_trace_entry_def union_bpf_iter_link_info_def
    struct_netns_bpf_def typedef_u64_stats_t_def typedef_bpf_iter_init_seq_priv_t_def
    typedef_bpf_iter_fini_seq_priv_t_def struct_bpf_iter_seq_info_def struct_bpf_xdp_entity_def
    struct_btf_mod_pair_def struct_bpf_prog_stats_def struct_bpf_iter_meta_def struct_in6_addr_def
    struct_tcp_congestion_ops_def struct_netdev_bpf_def struct_bpf_iter_seq_prog_info_def
    struct_bpf_iter__bpf_prog_def typedef_netns_tracker_def struct_seq_net_private_def
    struct_bpf_iter__netlink_def typedef_xfrm_address_t_def struct_bpf_sock_ops_kern_def
    struct_bpf_storage_buffer_def struct_bpf_lpm_trie_key_def struct_ma_state_def struct_bpf_event_entry_def
    struct_bpf_iter__bpf_map_elem_def struct_bpf_iter_seq_array_map_info_def struct_ipv6_bpf_stub_def
    struct_qdisc_skb_cb_def struct_bpf_skb_data_end_def struct_bpf_lwt_prog_def struct_bpf_lwt_def
    struct_vma_iterator_def struct_btf_struct_meta_def struct_bpf_verifier_log_def
    struct_bpf_subprog_arg_info_def struct_bpf_id_pair_def struct_bpf_idmap_def struct_bpf_idset_def
    struct_bpf_retval_range_def struct_bpf_insn_access_aux_def struct_bpf_tramp_links_def
    struct_bpf_tramp_run_ctx_def struct_bpf_attach_target_info_def struct_bpf_active_lock_def
    struct_bpf_reference_state_def struct_bpf_verifier_state_def struct_bpf_verifier_state_list_def
    struct_bpf_local_storage_def struct_btf_id_set_def struct_bpf_trace_run_ctx_def
    struct_bpf_local_storage_map_bucket_def struct_bpf_local_storage_cache_def struct_bpf_sk_storage_diag_def
    struct_bpf_iter_seq_sk_storage_map_info_def struct_bpf_iter__bpf_sk_storage_map_def struct_btf_id_set8_def
    typedef_btf_kfunc_filter_t_def struct_btf_kfunc_id_set_def struct_bpf_iter_seq_map_info_def
    struct_bpf_iter__bpf_map_def struct_hid_bpf_def struct_hid_bpf_prog_list_def struct_bpf_storage_blob_def
    struct_bpf_empty_prog_array_def struct_bpf_sysctl_def struct_bpf_link_primer_def struct_bpf_cg_run_ctx_def
    struct_bpf_sock_addr_kern_def struct_bpf_sysctl_kern_def struct_bpf_sockopt_buf_def
    struct_bpf_sockopt_kern_def struct_bpf_prog_list_def struct_bpf_iter__ipv6_route_def
    struct_bpf_sk_lookup_kern_def struct_bpf_nh_params_def struct_bpf_redirect_info_def
    struct_bpf_dummy_ops_state_def struct_bpf_dummy_ops_def struct_bpf_dummy_ops_test_args_def
    struct_bpf_dynptr_kern_def struct_bpf_core_ctx_def struct_bpf_bprintf_data_def
    struct_bpf_verifier_stack_elem_def typedef_bpf_insn_print_t_def typedef_bpf_insn_revmap_call_t_def
    typedef_bpf_insn_print_imm_t_def struct_bpf_insn_cbs_def struct_bpf_call_arg_meta_def
    struct_bpf_kfunc_call_arg_meta_def struct_bpf_iter_meta__safe_trusted_def
    struct_bpf_iter__task__safe_trusted_def struct_bpf_reg_types_def struct_bpf_prog_offload_ops_def
    struct_bpf_offload_dev_def struct_bpf_offload_netdev_def struct_ns_get_path_bpf_prog_args_def
    struct_ns_get_path_bpf_map_args_def struct_bpf_iter_num_def struct_bpf_iter_target_info_def
    struct_bpf_iter_num_kern_def struct_bpf_iter_seq_link_info_def struct_bpf_iter__bpf_link_def
    struct_bpf_mprog_fp_def struct_bpf_mprog_cp_def struct_bpf_mprog_entry_def struct_bpf_mprog_bundle_def
    struct_bpf_tuple_def struct_bpf_flow_dissector_def struct_bpf_preload_info_def struct_bpf_preload_ops_def
    struct_bpf_mount_opts_def struct_bpf_raw_tracepoint_args_def typedef_bpf_user_pt_regs_t_def
    struct_bpf_perf_event_data_def struct_btf_id_dtor_kfunc_def struct_btf_struct_metas_def
    struct_bpf_perf_event_data_kern_def struct_bpf_nf_ctx_def struct_bpf_core_cand_def
    struct_bpf_core_cand_list_def struct_bpf_core_accessor_def struct_bpf_core_spec_def
    struct_bpf_core_relo_res_def struct_btf_kfunc_hook_filter_def struct_btf_kfunc_set_tab_def
    struct_btf_id_dtor_kfunc_tab_def struct_resolve_vertex_def struct_btf_sec_info_def
    struct_btf_verifier_env_def struct_btf_kind_operations_def struct_btf_field_info_def struct_btf_module_def
    struct_bpf_cand_cache_def struct_uprobe_consumer_def struct_hid_bpf_ops_def struct_bpf_iter__ksym_def
    struct_bpf_lru_node_def struct_bpf_lru_locallist_def struct_bpf_iter_seq_hash_map_info_def
    struct_bpf_key_def struct_perf_event_query_bpf_def struct_trace_event_raw_bpf_trace_printk_def
    struct_trace_event_data_offsets_bpf_trace_printk_def struct_bpf_trace_module_def
    struct_bpf_nested_pt_regs_def struct_bpf_raw_tp_regs_def struct_bpf_kprobe_multi_run_ctx_def
    struct_bpf_uprobe_def struct_bpf_uprobe_multi_run_ctx_def struct_bpf_prog_kstats_def
    struct_perf_event_header_def struct_tcp_iter_state_def struct_bpf_iter__sockmap_def
    struct_bpf_shtab_elem_def struct_bpf_shtab_bucket_def struct_bpf_iter__cgroup_def struct_bpf_iter_css_def
    struct_bpf_iter_css_kern_def struct_udp_iter_state_def struct_bpf_iter_seq_task_common_def
    struct_bpf_iter_seq_task_info_def struct_bpf_iter__task_def struct_bpf_iter_seq_task_file_info_def
    struct_bpf_iter__task_file_def struct_bpf_iter_seq_task_vma_info_def struct_bpf_iter__task_vma_def
    struct_bpf_iter_task_vma_kern_data_def struct_bpf_iter_task_vma_def struct_bpf_iter_task_vma_kern_def
    struct_bpf_iter_css_task_def struct_bpf_iter_css_task_kern_def struct_bpf_iter_task_def
    struct_bpf_iter_task_kern_def struct_bpf_xdp_sock_def struct_seg6_bpf_srh_state_def
    struct_bpf_scratchpad_def struct_bpf_rb_node_kern_def struct_bpf_list_node_kern_def
    struct_bpf_bprintf_buffers_def struct_bpf_hrtimer_def struct_bpf_timer_kern_def struct_bpf_throw_ctx_def
    struct_bpf_unix_iter_state_def struct_bpf_iter__unix_def struct_bpf_xfrm_state_opts_def
    struct_bpf_prog_pack_def struct__bpf_dtab_netdev_def struct_trace_event_raw_bpf_xdp_link_attach_failed_def
    struct_trace_event_data_offsets_bpf_xdp_link_attach_failed_def struct_hid_bpf_ctx_def
    struct_hid_bpf_link_def struct_hid_bpf_ctx_kern_def struct_bpf_map_desc_def struct_bpf_prog_desc_def
    struct_bpf_loader_ctx_def struct_bpf_load_and_run_opts_def struct_entrypoints_bpf_def
    struct_hid_bpf_prog_entry_def struct_hid_bpf_jmp_table_def struct_bpf_cpumask_def
    struct_bpf_security_struct_def struct_bpf_ringbuf_hdr_def struct_bpf_udp_iter_state_def
    struct_bpf_struct_ops_bpf_dummy_ops_def struct_bpf_struct_ops_tcp_congestion_ops_def
    struct_bpf_tcp_iter_state_def struct_bpf_iter__tcp_def struct_trace_event_raw_bpf_test_finish_def
    struct_trace_event_data_offsets_bpf_test_finish_def struct_bpf_fentry_test_t_def
    struct_bpf_raw_tp_test_run_info_def struct_btf_anon_stack_def struct_perf_bpf_event_def

definition program_types :: "(string \<times> ctype) list" where
  "program_types = [
    (''typedef___s16'', typedef___s16), (''struct_bpf_insn'', struct_bpf_insn),
    (''struct_sock_filter'', struct_sock_filter), (''struct_bpf_prog'', struct_bpf_prog),
    (''struct_bpf_func_info_aux'', struct_bpf_func_info_aux), (''typedef_sockptr_t'', typedef_sockptr_t),
    (''typedef_bpfptr_t'', typedef_bpfptr_t), (''struct_bpf_subprog_info'', struct_bpf_subprog_info),
    (''struct_backtrack_state'', struct_backtrack_state),
    (''struct_bpf_verifier_env'', struct_bpf_verifier_env), (''struct_tnum'', struct_tnum),
    (''struct_bpf_reg_state'', struct_bpf_reg_state), (''struct_bpf_func_state'', struct_bpf_func_state),
    (''struct_bpf_stack_state'', struct_bpf_stack_state),
    (''struct_bpf_jmp_history_entry'', struct_bpf_jmp_history_entry),
    (''struct_bpf_loop_inline_state'', struct_bpf_loop_inline_state),
    (''struct_bpf_insn_aux_data'', struct_bpf_insn_aux_data),
    (''struct_bpf_sanitize_info'', struct_bpf_sanitize_info), (''struct_bpf_prog_info'', struct_bpf_prog_info),
    (''struct_bpf_iter_priv_data'', struct_bpf_iter_priv_data), (''struct_btf_show'', struct_btf_show),
    (''struct_btf_show_snprintf'', struct_btf_show_snprintf),
    (''struct_bpf_binary_header'', struct_bpf_binary_header),
    (''struct_bpf_prog_dummy'', struct_bpf_prog_dummy), (''struct_bpf_test_timer'', struct_bpf_test_timer),
    (''typedef_gfp_t'', typedef_gfp_t), (''struct_qrwlock'', struct_qrwlock),
    (''typedef_arch_rwlock_t'', typedef_arch_rwlock_t), (''struct_page_frag'', struct_page_frag),
    (''struct_timer_list'', struct_timer_list), (''typedef_rwlock_t'', typedef_rwlock_t),
    (''struct_wait_queue_head'', struct_wait_queue_head),
    (''typedef_wait_queue_head_t'', typedef_wait_queue_head_t), (''typedef_dma_addr_t'', typedef_dma_addr_t),
    (''union_perf_mem_data_src'', union_perf_mem_data_src),
    (''union_perf_sample_weight'', union_perf_sample_weight), (''struct_perf_regs'', struct_perf_regs),
    (''struct_perf_sample_data'', struct_perf_sample_data),
    (''struct_hlist_nulls_node'', struct_hlist_nulls_node), (''typedef___wsum'', typedef___wsum),
    (''typedef_sk_buff_data_t'', typedef_sk_buff_data_t), (''struct_sk_buff'', struct_sk_buff),
    (''struct_sk_buff_list'', struct_sk_buff_list), (''struct_sk_buff_head'', struct_sk_buff_head),
    (''typedef_netdev_features_t'', typedef_netdev_features_t),
    (''typedef_possible_net_t'', typedef_possible_net_t), (''struct_scatterlist'', struct_scatterlist),
    (''typedef___addrpair'', typedef___addrpair), (''typedef___portpair'', typedef___portpair),
    (''struct_sock_common'', struct_sock_common), (''typedef_socket_lock_t'', typedef_socket_lock_t),
    (''struct_sock_cgroup_data'', struct_sock_cgroup_data), (''struct_sock'', struct_sock),
    (''struct___sk_buff'', struct___sk_buff), (''struct_nf_hook_ops'', struct_nf_hook_ops),
    (''struct_sk_msg_sg'', struct_sk_msg_sg), (''struct_sk_msg'', struct_sk_msg),
    (''struct_xdp_buff'', struct_xdp_buff), (''struct_xdp_md'', struct_xdp_md),
    (''struct_sk_msg_md'', struct_sk_msg_md), (''struct_sk_reuseport_md'', struct_sk_reuseport_md),
    (''struct_sk_reuseport_kern'', struct_sk_reuseport_kern),
    (''struct_bpf_ctx_convert'', struct_bpf_ctx_convert),
    (''struct_bpf_trace_sample_data'', struct_bpf_trace_sample_data),
    (''struct_bpf_nf_link'', struct_bpf_nf_link), (''struct_bpf_ringbuf'', struct_bpf_ringbuf),
    (''struct_bpf_iter__udp'', struct_bpf_iter__udp),
    (''struct_bpf_struct_ops_value'', struct_bpf_struct_ops_value),
    (''struct_bpf_struct_ops_map'', struct_bpf_struct_ops_map)]"

lemmas program_type_defs =
    typedef___s16_def struct_bpf_insn_def struct_bpf_insn_members_def struct_sock_filter_def
    struct_bpf_prog_def struct_bpf_prog_members_def struct_bpf_func_info_aux_def
    struct_bpf_func_info_aux_members_def typedef_sockptr_t_def typedef_sockptr_t_members_def
    typedef_bpfptr_t_def struct_bpf_subprog_info_def struct_bpf_subprog_info_members_def
    struct_backtrack_state_def struct_bpf_verifier_env_def struct_tnum_def struct_bpf_reg_state_def
    struct_bpf_func_state_def struct_bpf_stack_state_def struct_bpf_jmp_history_entry_def
    struct_bpf_jmp_history_entry_members_def struct_bpf_loop_inline_state_def
    struct_bpf_loop_inline_state_members_def struct_bpf_insn_aux_data_def struct_bpf_sanitize_info_def
    struct_bpf_prog_info_def struct_bpf_prog_info_members_def struct_bpf_iter_priv_data_def
    struct_bpf_iter_priv_data_members_def struct_btf_show_def struct_btf_show_snprintf_def
    struct_bpf_binary_header_def struct_bpf_binary_header_members_def struct_bpf_prog_dummy_def
    struct_bpf_test_timer_def typedef_gfp_t_def struct_qrwlock_def typedef_arch_rwlock_t_def
    struct_page_frag_def struct_timer_list_def typedef_rwlock_t_def struct_wait_queue_head_def
    typedef_wait_queue_head_t_def typedef_dma_addr_t_def union_perf_mem_data_src_def
    union_perf_sample_weight_def struct_perf_regs_def struct_perf_sample_data_def
    struct_perf_sample_data_members_def struct_hlist_nulls_node_def typedef___wsum_def
    typedef_sk_buff_data_t_def struct_sk_buff_def struct_sk_buff_part1_def struct_sk_buff_part2_def
    struct_sk_buff_part3_def struct_sk_buff_members_def struct_sk_buff_list_def struct_sk_buff_head_def
    typedef_netdev_features_t_def typedef_possible_net_t_def struct_scatterlist_def typedef___addrpair_def
    typedef___portpair_def struct_sock_common_def struct_sock_common_members_def typedef_socket_lock_t_def
    struct_sock_cgroup_data_def struct_sock_def struct_sock_members_def struct___sk_buff_def
    struct_nf_hook_ops_def struct_nf_hook_ops_members_def struct_sk_msg_sg_def struct_sk_msg_def
    struct_xdp_buff_def struct_xdp_md_def struct_sk_msg_md_def struct_sk_reuseport_md_def
    struct_sk_reuseport_kern_def struct_bpf_ctx_convert_def struct_bpf_trace_sample_data_def
    struct_bpf_nf_link_def struct_bpf_ringbuf_members_def struct_bpf_ringbuf_def struct_bpf_iter__udp_def
    struct_bpf_iter__udp_members_def struct_bpf_struct_ops_value_def struct_bpf_struct_ops_value_members_def
    struct_bpf_struct_ops_map_def struct_bpf_struct_ops_map_members_def

text \<open>Every integer has one of the widths of the machine.\<close>

fun plain :: "ctype \<Rightarrow> bool" where
  "plain (TInt n) = (n = 1 \<or> n = 2 \<or> n = 4 \<or> n = 8)"
| "plain TPtr = True"
| "plain (TArr t n) = plain t"
| "plain (TStruct fs) = list_all (\<lambda>f. plain (snd f)) fs"
| "plain (TUnion fs) = list_all (\<lambda>f. plain (snd f)) fs"

lemma enum_ctype_plain [simp]: "plain (enum_ctype e)"
  by (simp add: enum_ctype_def)

lemma kernel_types_plain: "list_all (\<lambda>(n, t). plain t) kernel_types"
  by (simp add: kernel_types_def kernel_type_defs)

lemma context_types_plain: "list_all (\<lambda>(n, t). plain t) context_types"
  by (simp add: context_types_def context_type_defs kernel_type_defs)

text \<open>A struct with bit fields is plain when its members are.\<close>

fun plain_member :: "member \<Rightarrow> bool" where
  "plain_member (Fld n t) = plain t"
| "plain_member (Bits n s w) = (s = 1 \<or> s = 2 \<or> s = 4 \<or> s = 8)"

lemma plain_align: "plain t \<Longrightarrow> calign 8 t \<in> {1, 2, 4, 8}"
proof (induction t)
  case (TStruct fs)
  have "foldr (\<lambda>f a. max (calign 8 (snd f)) a) gs 1 \<in> {1, 2, 4, 8::nat}" if "set gs \<subseteq> set fs" for gs
    using that
  proof (induction gs)
    case (Cons g gs)
    then have "calign 8 (snd g) \<in> {1, 2, 4, 8}"
      using TStruct by (cases g) (fastforce simp: list_all_iff snds.simps)
    with Cons show ?case by (auto simp: max_def)
  qed simp
  then show ?case by simp
next
  case (TUnion fs)
  have "foldr (\<lambda>f a. max (calign 8 (snd f)) a) gs 1 \<in> {1, 2, 4, 8::nat}" if "set gs \<subseteq> set fs" for gs
    using that
  proof (induction gs)
    case (Cons g gs)
    then have "calign 8 (snd g) \<in> {1, 2, 4, 8}"
      using TUnion by (cases g) (fastforce simp: list_all_iff snds.simps)
    with Cons show ?case by (auto simp: max_def)
  qed simp
  then show ?case by simp
qed auto

lemma balign_plain: "list_all plain_member ms \<Longrightarrow> balign ms \<in> {1, 2, 4, 8}"
proof (induction ms)
  case (Cons m ms)
  have "member_align m \<in> {1, 2, 4, 8}"
    using Cons.prems plain_align by (cases m) auto
  with Cons show ?case by (auto simp: max_def)
qed simp

lemma plain_bstruct: "list_all plain_member ms \<Longrightarrow> plain (bstruct ms)"
  using balign_plain [of ms] by (auto simp: bstruct_def)

lemma list_all_replicate: "list_all P (replicate k x) \<longleftrightarrow> k = 0 \<or> P x"
  by (induction k) auto

lemma program_types_plain: "list_all (\<lambda>(n, t). plain t) program_types"
  by (simp add: program_types_def program_type_defs context_type_defs kernel_type_defs plain_bstruct
      list_all_replicate)

lemma calign_member: "(f, u) \<in> set fs \<Longrightarrow> calign ma u \<le> calign ma (TStruct fs)"
  by (induction fs) (auto simp: max_def)

lemma pow_dvd: "a \<in> {1, 2, 4, 8::nat} \<Longrightarrow> b \<in> {1, 2, 4, 8} \<Longrightarrow> a \<le> b \<Longrightarrow> a dvd b"
  by auto

lemma link_type_ctype: "enum_ctype enum_bpf_link_type = TInt 4"
  by (simp add: enum_ctype_def enum_bpf_link_type_def)

text \<open>In every structure of the kernel's BPF code that is modelled, each field lies inside the structure, at a
  multiple of its own alignment, and this also holds in every element of an array of such structures, so no
  access to a field is misaligned.\<close>

lemma kernel_fields_aligned:
  assumes "(n, TStruct fs) \<in> set (kernel_types @ context_types @ program_types)" and "(f, off, sz) \<in> set (field_slots 8 fs)"
  shows "\<exists>u. (f, u) \<in> set fs \<and> sz = csize 8 u \<and> off + sz \<le> csize 8 (TStruct fs) \<and>
    (\<forall>i. calign 8 u dvd i * csize 8 (TStruct fs) + off)"
proof -
  from kernel_types_plain context_types_plain program_types_plain have "\<forall>x \<in> set (kernel_types @ context_types @ program_types). plain (snd x)"
    by (auto simp: list_all_iff)
  from bspec [OF this assms(1)] have p: "plain (TStruct fs)" by (simp only: snd_conv)
  from assms(2) obtain u where u: "(f, u) \<in> set fs" "calign 8 u dvd off" "sz = csize 8 u"
    unfolding field_slots_def using place_aligned [of "calign 8"] calign_pos [of 8] by fastforce
  with p have "plain u" by (auto simp: list_all_iff)
  with p u have "calign 8 u dvd calign 8 (TStruct fs)"
    by (intro pow_dvd plain_align calign_member)
  moreover have "calign 8 (TStruct fs) dvd csize 8 (TStruct fs)"
    using pad_up_dvd [OF calign_pos [of 8 "TStruct fs"]] by (simp only: csize.simps zero_less_numeral)
  ultimately have "calign 8 u dvd csize 8 (TStruct fs)" by (rule dvd_trans)
  with u assms(2) slots_ok_bounds [OF field_slots_ok] show ?thesis by (blast intro: dvd_add dvd_mult)
qed

lemma kernel_fields_aligned_witness:
  "\<exists>u. (''ops'', u) \<in> set (fields_of struct_bpf_link) \<and> (\<forall>i. calign 8 u dvd i * csize 8 struct_bpf_link + 16)"
proof -
  obtain fs where fs: "struct_bpf_link = TStruct fs" by (simp add: struct_bpf_link_def)
  have "(''struct_bpf_link'', TStruct fs) \<in> set (kernel_types @ context_types @ program_types)"
    unfolding fs [symmetric] kernel_types_def by simp
  moreover have "field_slots 8 fs = field_slots 8 (fields_of struct_bpf_link)" by (simp add: fs)
  then have "(''ops'', 16, 8) \<in> set (field_slots 8 fs)"
    by (simp add: struct_bpf_link_def field_slots_def pad_up_def link_type_ctype layout del: One_nat_def)
  ultimately have "\<exists>u. (''ops'', u) \<in> set fs \<and> 8 = csize 8 u \<and> 16 + 8 \<le> csize 8 (TStruct fs) \<and>
      (\<forall>i. calign 8 u dvd i * csize 8 (TStruct fs) + 16)"
    by (rule kernel_fields_aligned)
  then show ?thesis unfolding fs by auto
qed

section \<open>Opaque objects\<close>

text \<open>The objects that a BPF program declares as opaque bytes, with the type the kernel uses for their contents.\<close>

definition opaque_objects :: "(string \<times> ctype \<times> ctype) list" where
  "opaque_objects = [
    (''bpf_timer'', struct_bpf_timer, struct_bpf_timer_kern),
    (''bpf_dynptr'', struct_bpf_dynptr, struct_bpf_dynptr_kern),
    (''bpf_list_node'', struct_bpf_list_node, struct_bpf_list_node_kern),
    (''bpf_rb_node'', struct_bpf_rb_node, struct_bpf_rb_node_kern),
    (''bpf_iter_num'', struct_bpf_iter_num, struct_bpf_iter_num_kern),
    (''bpf_iter_css'', struct_bpf_iter_css, struct_bpf_iter_css_kern),
    (''bpf_iter_css_task'', struct_bpf_iter_css_task, struct_bpf_iter_css_task_kern),
    (''bpf_iter_task'', struct_bpf_iter_task, struct_bpf_iter_task_kern),
    (''bpf_iter_task_vma'', struct_bpf_iter_task_vma, struct_bpf_iter_task_vma_kern)]"

lemma opaque_objects_layout:
  "list_all (\<lambda>(n, u, k). csize 8 k = csize 8 u \<and> calign 8 k dvd calign 8 u) opaque_objects"
  by (simp add: opaque_objects_def layout)

text \<open>An object that a program declares opaquely (a timer, a dynamic pointer, a node of a list or tree, an
  iterator) has exactly the room of what the kernel keeps in it, and the alignment the kernel needs: the
  kernel neither writes past the object nor accesses it misaligned, at any aligned address.\<close>

lemma opaque_objects_hold_contents:
  assumes "(n, u, k) \<in> set opaque_objects" and "calign 8 u dvd addr"
  shows "csize 8 k = csize 8 u \<and> calign 8 k dvd addr"
  using opaque_objects_layout assms by (fastforce simp: list_all_iff intro: dvd_trans)

lemma opaque_objects_hold_contents_witness:
  "csize 8 struct_bpf_timer_kern = csize 8 struct_bpf_timer \<and> calign 8 struct_bpf_timer_kern dvd 64"
  by (rule opaque_objects_hold_contents [of "''bpf_timer''"]) (simp_all add: opaque_objects_def layout)

end
