(* ===== verification/VmlinuxBitProps.thy ===== *)
theory VmlinuxBitProps
  imports VmlinuxLayouts
begin

text \<open>
  Properties of the kernel structures with bit fields: access to one field leaves the others alone,
  the encoding of BPF instructions, and the pages of the ring buffer.
\<close>

section \<open>Independence of the fields\<close>

definition bit_structs :: "(string \<times> member list) list" where
  "bit_structs = [
    (''bpf_insn'', struct_bpf_insn_members), (''bpf_prog'', struct_bpf_prog_members),
    (''bpf_func_info_aux'', struct_bpf_func_info_aux_members),
    (''typedef_sockptr_t'', typedef_sockptr_t_members),
    (''bpf_subprog_info'', struct_bpf_subprog_info_members),
    (''bpf_jmp_history_entry'', struct_bpf_jmp_history_entry_members),
    (''bpf_loop_inline_state'', struct_bpf_loop_inline_state_members),
    (''bpf_prog_info'', struct_bpf_prog_info_members),
    (''bpf_iter_priv_data'', struct_bpf_iter_priv_data_members),
    (''bpf_binary_header'', struct_bpf_binary_header_members),
    (''perf_sample_data'', struct_perf_sample_data_members), (''sk_buff'', struct_sk_buff_members),
    (''sock_common'', struct_sock_common_members), (''sock'', struct_sock_members),
    (''nf_hook_ops'', struct_nf_hook_ops_members), (''bpf_ringbuf'', struct_bpf_ringbuf_members),
    (''bpf_iter__udp'', struct_bpf_iter__udp_members),
    (''bpf_struct_ops_value'', struct_bpf_struct_ops_value_members),
    (''bpf_struct_ops_map'', struct_bpf_struct_ops_map_members)]"

text \<open>No bit field is wider than its declared type.\<close>

fun narrow_bits :: "member \<Rightarrow> bool" where
  "narrow_bits (Fld n t) = True"
| "narrow_bits (Bits n s w) = (w \<le> 8 * s)"

lemma bit_structs_narrow: "list_all (\<lambda>(n, ms). list_all narrow_bits ms) bit_structs"
  by (simp add: bit_structs_def program_type_defs list_all_replicate)

lemma bit_slots_start:
  "i < length ms \<Longrightarrow> \<exists>o1. fst (snd (bit_slots off ms ! i)) = member_start o1 (ms ! i)"
proof (induction ms arbitrary: off i)
  case (Cons m ms)
  then show ?case by (cases i) auto
qed simp

text \<open>Writing a field of a kernel structure, bit field or not, stores the value cut to the width of the field,
  keeps every other field and stays inside the structure; a bit field lies in one storage unit of its
  declared type, so the write is one read-modify-write of that unit.\<close>

lemma bit_fields_independent:
  assumes "(name, ms) \<in> set bit_structs" and "i < length ms" and "j < length ms" and "i \<noteq> j"
    and "bit_slots 0 ms ! i = (a, off, w)" and "bit_slots 0 ms ! j = (b, off', w')"
    and "m < 2 ^ (8 * bsize ms)"
  shows "bf_get off w (bf_set off w v m) = take_bit w v \<and>
    bf_get off' w' (bf_set off w v m) = bf_get off' w' m \<and> bf_set off w v m < 2 ^ (8 * bsize ms) \<and>
    (\<forall>s. ms ! i = Bits a s w \<longrightarrow> 0 < w \<longrightarrow> off div (8 * s) = (off + w - 1) div (8 * s))"
proof (intro conjI allI impI)
  note ok = bit_slots_in_struct [of ms]
  show "bf_get off w (bf_set off w v m) = take_bit w v" by (rule bf_get_set_same)
  have "off + w \<le> off' \<or> off' + w' \<le> off"
    using slots_ok_disjoint [OF ok, of i j a off w b off' w'] slots_ok_disjoint [OF ok, of j i b off' w' a off w]
      assms(2-6) by (cases "i < j") auto
  then show "bf_get off' w' (bf_set off w v m) = bf_get off' w' m" by (rule bf_get_set_other)
  have "(a, off, w) \<in> set (bit_slots 0 ms)" using assms(2,5) by (metis length_bit_slots nth_mem)
  from slots_ok_bounds [OF ok this] assms(7) show "bf_set off w v m < 2 ^ (8 * bsize ms)"
    by (intro bf_set_less) simp_all
next
  fix s assume m: "ms ! i = Bits a s w" and w: "0 < w"
  have "list_all narrow_bits ms" using assms(1) bit_structs_narrow by (auto simp: list_all_iff)
  with m assms(2) have "w \<le> 8 * s" by (metis list_all_length narrow_bits.simps(2))
  moreover obtain o1 where "off = member_start o1 (Bits a s w)"
    using bit_slots_start [OF assms(2), of 0] assms(5) m by auto
  ultimately show "off div (8 * s) = (off + w - 1) div (8 * s)" using bits_in_unit [OF w] by metis
qed

section \<open>Instructions\<close>

definition insn_slots :: "(string \<times> nat \<times> nat) list" where
  "insn_slots = bit_slots 0 struct_bpf_insn_members"

lemma insn_slots_eq:
  "insn_slots = [(''code'', 0, 8), (''dst_reg'', 8, 4), (''src_reg'', 12, 4), (''off'', 16, 16), (''imm'', 32, 32)]"
  by (simp add: insn_slots_def struct_bpf_insn_members_def typedef___s16_def layout pad_up_def del: One_nat_def)

lemma bit_fields_independent_witness:
  "bf_get 12 4 (bf_set 8 4 10 0xB7) = bf_get 12 4 0xB7 \<and> bf_get 8 4 (bf_set 8 4 10 0xB7) = 10"
proof -
  have ms: "(''bpf_insn'', struct_bpf_insn_members) \<in> set bit_structs" by (simp add: bit_structs_def)
  have len: "length struct_bpf_insn_members = 5" by (simp add: struct_bpf_insn_members_def)
  have bs: "bsize struct_bpf_insn_members = 8"
    by (simp add: bsize_def struct_bpf_insn_members_def typedef___s16_def layout pad_up_def del: One_nat_def)
  have s: "bit_slots 0 struct_bpf_insn_members ! 1 = (''dst_reg'', 8, 4)"
    "bit_slots 0 struct_bpf_insn_members ! 2 = (''src_reg'', 12, 4)"
    by (simp_all flip: insn_slots_def add: insn_slots_eq)
  from bit_fields_independent [OF ms _ _ _ s, of "0xB7" 10] len bs show ?thesis by simp
qed

text \<open>Reading and writing a field of an instruction by its name.\<close>

definition insn_get :: "string \<Rightarrow> nat \<Rightarrow> nat" where
  "insn_get n m = (case map_of insn_slots n of None \<Rightarrow> 0 | Some (off, w) \<Rightarrow> bf_get off w m)"

definition insn_set :: "string \<Rightarrow> nat \<Rightarrow> nat \<Rightarrow> nat" where
  "insn_set n v m = (case map_of insn_slots n of None \<Rightarrow> m | Some (off, w) \<Rightarrow> bf_set off w v m)"

lemma bf_get_nat: "bf_get off w m = m div 2 ^ off mod 2 ^ w" for m :: nat
  by (simp add: bf_get_def take_bit_eq_mod drop_bit_eq_div)

lemma insn_fields:
  assumes "m < 2 ^ 64"
  shows "insn_get ''code'' m = m mod 2 ^ 8" and "insn_get ''dst_reg'' m = m div 2 ^ 8 mod 2 ^ 4"
    and "insn_get ''src_reg'' m = m div 2 ^ 12 mod 2 ^ 4" and "insn_get ''off'' m = m div 2 ^ 16 mod 2 ^ 16"
    and "insn_get ''imm'' m = m div 2 ^ 32"
  using assms by (simp_all add: insn_get_def insn_slots_eq bf_get_nat)

text \<open>C33: The encoding of instructions. \<open>struct bpf_insn\<close> is one 64-bit word, little endian, with the opcode in
  bits 0-7, the destination register in 8-11, the source register in 12-15, the offset in 16-31 and the
  immediate in 32-63: the fields under these names are those parts of any word, and assigning all five in
  whatever was there before gives the word that is their sum at these positions.\<close>

theorem insn_encoding:
  assumes "m < 2 ^ 64" and "m' < 2 ^ 64"
    and "code < 2 ^ 8" and "dst < 2 ^ 4" and "src < 2 ^ 4" and "offset < 2 ^ 16" and "imm < 2 ^ 32"
  shows "csize 8 struct_bpf_insn = 8 \<and>
    (insn_get ''code'' m = m mod 2 ^ 8 \<and> insn_get ''dst_reg'' m = m div 2 ^ 8 mod 2 ^ 4 \<and>
     insn_get ''src_reg'' m = m div 2 ^ 12 mod 2 ^ 4 \<and> insn_get ''off'' m = m div 2 ^ 16 mod 2 ^ 16 \<and>
     insn_get ''imm'' m = m div 2 ^ 32) \<and>
    insn_set ''code'' code (insn_set ''dst_reg'' dst (insn_set ''src_reg'' src
      (insn_set ''off'' offset (insn_set ''imm'' imm m')))) =
    code + dst * 2 ^ 8 + src * 2 ^ 12 + offset * 2 ^ 16 + imm * 2 ^ 32"
proof (intro conjI)
  have al: "balign struct_bpf_insn_members = 4"
    by (simp add: struct_bpf_insn_members_def typedef___s16_def layout del: One_nat_def)
  show "csize 8 struct_bpf_insn = 8"
    by (simp add: struct_bpf_insn_def bstruct_layout al)
      (simp add: bsize_def al struct_bpf_insn_members_def typedef___s16_def layout pad_up_def del: One_nat_def)
  define x where "x = code + dst * 2 ^ 8 + src * 2 ^ 12 + offset * 2 ^ 16 + imm * 2 ^ 32"
  have x: "x < 2 ^ 64" using assms(3-7) by (simp add: x_def)
  have parts: "x mod 2 ^ 8 = code" "x div 2 ^ 8 mod 2 ^ 4 = dst" "x div 2 ^ 12 mod 2 ^ 4 = src"
    "x div 2 ^ 16 mod 2 ^ 16 = offset" "x div 2 ^ 32 mod 2 ^ 32 = imm"
  proof -
    define y3 where "y3 = offset + imm * 2 ^ 16"
    define y2 where "y2 = src + y3 * 2 ^ 4"
    define y1 where "y1 = dst + y2 * 2 ^ 4"
    have "x = code + y1 * 2 ^ 8" by (simp add: x_def y1_def y2_def y3_def algebra_simps)
    then have x1: "x mod 2 ^ 8 = code" "x div 2 ^ 8 = y1" using assms(3) by simp_all
    have y1: "y1 mod 2 ^ 4 = dst" "y1 div 2 ^ 4 = y2" using assms(4) by (simp_all add: y1_def)
    have y2: "y2 mod 2 ^ 4 = src" "y2 div 2 ^ 4 = y3" using assms(5) by (simp_all add: y2_def)
    have y3: "y3 mod 2 ^ 16 = offset" "y3 div 2 ^ 16 = imm" using assms(6) by (simp_all add: y3_def)
    have d: "x div 2 ^ 12 = x div 2 ^ 8 div 2 ^ 4" "x div 2 ^ 16 = x div 2 ^ 8 div 2 ^ 4 div 2 ^ 4"
      "x div 2 ^ 32 = x div 2 ^ 8 div 2 ^ 4 div 2 ^ 4 div 2 ^ 16" by (simp_all flip: div_mult2_eq)
    show "x mod 2 ^ 8 = code" "x div 2 ^ 8 mod 2 ^ 4 = dst" "x div 2 ^ 12 mod 2 ^ 4 = src"
      "x div 2 ^ 16 mod 2 ^ 16 = offset" "x div 2 ^ 32 mod 2 ^ 32 = imm"
      unfolding d x1 y1 y2 y3 using assms(7) by simp_all
  qed
  have hi: "\<not> bit x k" "\<not> bit m' k" if "64 \<le> k" for k
    using assms(2) x that unfolding less_pow_bits by blast+
  have at: "bit x (off + i) = bit (x div 2 ^ off mod 2 ^ w) i" if "i < w" for off w i
    using that by (simp add: bit_take_bit_iff bit_drop_bit_eq flip: take_bit_eq_mod drop_bit_eq_div)
  have b: "bit code i = bit x i" if "i < 8" for i using at [of i 8 0] that parts(1) by simp
  show "insn_set ''code'' code (insn_set ''dst_reg'' dst (insn_set ''src_reg'' src
      (insn_set ''off'' offset (insn_set ''imm'' imm m')))) =
    code + dst * 2 ^ 8 + src * 2 ^ 12 + offset * 2 ^ 16 + imm * 2 ^ 32"
    unfolding x_def [symmetric]
  proof (rule bit_eqI)
    fix k :: nat
    consider "k < 8" | "8 \<le> k" "k < 12" | "12 \<le> k" "k < 16" | "16 \<le> k" "k < 32" | "32 \<le> k" "k < 64" | "64 \<le> k"
      by linarith
    then show "bit (insn_set ''code'' code (insn_set ''dst_reg'' dst (insn_set ''src_reg'' src
      (insn_set ''off'' offset (insn_set ''imm'' imm m'))))) k = bit x k"
      using b [of k] at [of "k - 8" 4 8] at [of "k - 12" 4 12] at [of "k - 16" 16 16] at [of "k - 32" 32 32] parts
      by cases (simp_all add: insn_set_def insn_slots_eq bit_bf_set hi less_diff_conv2)
  qed
qed (rule insn_fields [OF assms(1)])+

text \<open>\<open>r1 = 1\<close> is \<open>BPF_ALU64 | BPF_MOV | BPF_K\<close> with destination 1 and immediate 1.\<close>

theorem insn_encoding_witness:
  "insn_set ''code'' 0xB7 (insn_set ''dst_reg'' 1 (insn_set ''src_reg'' 0
     (insn_set ''off'' 0 (insn_set ''imm'' 1 0xFFFF)))) = 0x1000001B7 \<and>
   insn_get ''dst_reg'' 0x1000001B7 = 1 \<and> insn_get ''imm'' 0x1000001B7 = 1"
  using insn_encoding [of "0x1000001B7" "0xFFFF" "0xB7" 1 0 0 1] by simp

section \<open>The ring buffer\<close>

definition named_members :: "nat \<Rightarrow> member list \<Rightarrow> (string \<times> nat \<times> nat) list" where
  "named_members off ms = filter (\<lambda>s. fst s \<noteq> []) (bit_slots off ms)"

lemma named_members_pad:
  "named_members off (replicate k (Bits [] 8 64) @ ms) =
     named_members (if k = 0 then off else pad_up off 64 + 64 * k) ms"
proof (induction k arbitrary: off)
  case (Suc k)
  have "member_start off (Bits [] 8 64) = pad_up off 64" by (auto simp: pad_up_def)
  with Suc [of "pad_up off 64 + 64"] pad_up_dvd [of 64 off] show ?case
    by (simp add: named_members_def del: member_start.simps) (simp add: pad_up_def algebra_simps)
qed simp

lemma named_members_Cons:
  "named_members off (m # ms) =
     (if member_name m \<noteq> [] then [(member_name m, member_start off m, member_bits m)] else []) @
     named_members (member_start off m + member_bits m) ms"
  by (simp add: named_members_def)

lemma named_members_Nil: "named_members off [] = []"
  by (simp add: named_members_def)

lemma ringbuf_members:
  "named_members 0 struct_bpf_ringbuf_members =
    [(''waitq'', 0, 192), (''work'', 192, 256), (''mask'', 448, 64), (''pages'', 512, 64), (''nr_pages'', 576, 32),
     (''spinlock'', 1024, 32), (''busy'', 1536, 32), (''consumer_pos'', 32768, 64), (''producer_pos'', 65536, 64),
     (''data'', 98304, 0)]"
  by (simp add: struct_bpf_ringbuf_members_def named_members_pad named_members_Cons named_members_Nil
      typedef_wait_queue_head_t_def struct_wait_queue_head_def layout pad_up_def del: One_nat_def replicate.simps)

lemma bit_end_pad:
  "bit_end off (replicate k (Bits [] 8 64) @ ms) = bit_end (if k = 0 then off else pad_up off 64 + 64 * k) ms"
proof (induction k arbitrary: off)
  case (Suc k)
  have "member_start off (Bits [] 8 64) = pad_up off 64" by (auto simp: pad_up_def)
  with Suc [of "pad_up off 64 + 64"] pad_up_dvd [of 64 off] show ?case
    by (simp del: member_start.simps) (simp add: pad_up_def algebra_simps)
qed simp

lemma ringbuf_size: "csize 8 struct_bpf_ringbuf = 12288"
proof -
  have al: "balign struct_bpf_ringbuf_members = 8"
  proof -
    have pad: "balign (replicate k (Bits [] 8 64) @ ms) = balign ms" for k ms
      by (induction k) (simp_all add: max_def Suc_leI balign_pos)
    show ?thesis
      by (simp add: struct_bpf_ringbuf_members_def pad typedef_wait_queue_head_t_def struct_wait_queue_head_def
          layout pad_up_def del: One_nat_def replicate.simps)
  qed
  have "bit_end 0 struct_bpf_ringbuf_members = 98304"
    by (simp add: struct_bpf_ringbuf_members_def bit_end_pad typedef_wait_queue_head_t_def
        struct_wait_queue_head_def layout pad_up_def del: One_nat_def replicate.simps)
  then show ?thesis by (simp add: struct_bpf_ringbuf_def bstruct_layout al bsize_def pad_up_def)
qed

text \<open>The ring buffer's positions, which user space maps, have pages of their own: beyond the first page of
  \<open>struct bpf_ringbuf\<close> there are only the consumer position at the start of the second page, the producer
  position at the start of the third, and the data after exactly three pages. No lock or other state of the
  kernel shares a page with them.\<close>

lemma ringbuf_pages:
  "csize 8 struct_bpf_ringbuf = 3 * 4096 \<and>
   filter (\<lambda>(n, off, w). 8 * 4096 < off + w) (named_members 0 struct_bpf_ringbuf_members) =
     [(''consumer_pos'', 8 * 4096, 64), (''producer_pos'', 8 * (2 * 4096), 64), (''data'', 8 * (3 * 4096), 0)]"
  by (simp add: ringbuf_size ringbuf_members)

end
