(* ===== verification/GpuHold.thy ===== *)
theory GpuHold
  imports Float64 Prelude
begin

text \<open>
  The CUDA workload \<open>examples/workloads/gpu_hold/gpu_hold.cu\<close>: environment variables, the busy kernel, and
  \<open>main\<close>. The CUDA runtime is a parameter (a record of its calls over a state), as are \<open>strtod\<close>, the
  readings of the clock and the single precision body of the kernel loop. Integers of type \<open>long\<close> are
  HOL integers, as far as \<open>strtol\<close> returns them; conversions to \<open>int\<close> and \<open>size_t\<close> wrap as in C, and
  \<open>double\<close> arithmetic rounds as binary64. The outer loop may run for ever: its result is \<open>None\<close> then.
\<close>

section \<open>The C library\<close>

text \<open>A C string is the list of its characters before the terminating zero.\<close>

definition c_isspace :: "char \<Rightarrow> bool" where
  "c_isspace c \<longleftrightarrow> (of_char c :: nat) = 32 \<or> 9 \<le> (of_char c :: nat) \<and> (of_char c :: nat) \<le> 13"

definition c_isdigit :: "char \<Rightarrow> bool" where
  "c_isdigit c \<longleftrightarrow> 48 \<le> (of_char c :: nat) \<and> (of_char c :: nat) \<le> 57"

definition digit_val :: "char \<Rightarrow> int" where
  "digit_val c = int (of_char c) - 48"

definition digits_val :: "string \<Rightarrow> int" where
  "digits_val ds = fold (\<lambda>c v. 10 * v + digit_val c) ds 0"

definition LONG_MAX :: int where "LONG_MAX = 2 ^ 63 - 1"
definition LONG_MIN :: int where "LONG_MIN = - (2 ^ 63)"

definition clamp_long :: "int \<Rightarrow> int" where
  "clamp_long v = (if v > LONG_MAX then LONG_MAX else if v < LONG_MIN then LONG_MIN else v)"

text \<open>\<open>strtol(s, &end, 10)\<close>: the value and the text from \<open>end\<close> on; without digits \<open>end\<close> is \<open>s\<close>.\<close>

definition strtol :: "string \<Rightarrow> int \<times> string" where
  "strtol s =
     (let t = dropWhile c_isspace s;
          neg = (t \<noteq> [] \<and> hd t = CHR ''-'');
          u = (if t \<noteq> [] \<and> (hd t = CHR ''-'' \<or> hd t = CHR ''+'') then tl t else t);
          ds = takeWhile c_isdigit u
      in if ds = [] then (0, s)
         else (clamp_long (if neg then - digits_val ds else digits_val ds), dropWhile c_isdigit u))"

definition c_tolower :: "char \<Rightarrow> char" where
  "c_tolower c = (if 65 \<le> (of_char c :: nat) \<and> (of_char c :: nat) \<le> 90 then char_of ((of_char c :: nat) + 32) else c)"

definition c_tquot :: "int \<Rightarrow> int \<Rightarrow> int" where
  "c_tquot a b = sgn a * sgn b * (\<bar>a\<bar> div \<bar>b\<bar>)"

definition c_trem :: "int \<Rightarrow> int \<Rightarrow> int" where
  "c_trem a b = a - c_tquot a b * b"

section \<open>Environment variables\<close>

type_synonym cenv = "string \<Rightarrow> string option"

text \<open>The warning on standard error is the name of the variable; \<open>None\<close> is no warning.\<close>

definition env_long :: "cenv \<Rightarrow> string \<Rightarrow> int \<Rightarrow> int \<times> string option" where
  "env_long env name defval =
     (case env name of
        None \<Rightarrow> (defval, None)
      | Some v \<Rightarrow>
          if v = [] then (defval, None)
          else (case strtol v of
                  (out, end) \<Rightarrow>
                    if end = v \<or> end \<noteq> [] then (defval, Some name) else (out, None)))"

definition env_double :: "(string \<Rightarrow> rat \<times> string) \<Rightarrow> cenv \<Rightarrow> string \<Rightarrow> rat \<Rightarrow> rat \<times> string option" where
  "env_double strtod env name defval =
     (case env name of
        None \<Rightarrow> (defval, None)
      | Some v \<Rightarrow>
          if v = [] then (defval, None)
          else (case strtod v of
                  (out, end) \<Rightarrow>
                    if end = v \<or> end \<noteq> [] then (defval, Some name) else (out, None)))"

definition env_bool :: "cenv \<Rightarrow> string \<Rightarrow> bool \<Rightarrow> bool" where
  "env_bool env name defval =
     (case env name of
        None \<Rightarrow> defval
      | Some v \<Rightarrow> \<not> (v = ''0'' \<or> map c_tolower v = ''false'' \<or> v = ''''))"

section \<open>The kernel\<close>

text \<open>One thread with global index \<open>tid\<close>; \<open>body\<close> is one round of the loop. \<open>None\<close> is an access outside the
  buffer, whose effect is undefined.\<close>

definition busy_thread :: "('f \<Rightarrow> 'f) \<Rightarrow> int \<Rightarrow> int \<Rightarrow> int \<Rightarrow> 'f list \<Rightarrow> 'f list option" where
  "busy_thread body n inner_iters tid data =
     (if tid \<ge> n then Some data
      else if tid < 0 \<or> int (length data) \<le> tid then None
      else Some (data[nat tid := (body ^^ nat inner_iters) (data ! nat tid)]))"

text \<open>\<open>blockIdx.x * blockDim.x + threadIdx.x\<close>: unsigned arithmetic, stored in an \<open>int\<close>.\<close>

definition thread_id :: "nat \<Rightarrow> nat \<Rightarrow> nat \<Rightarrow> int" where
  "thread_id blockIdx blockDim threadIdx = sint (of_nat blockIdx * of_nat blockDim + of_nat threadIdx :: 32 word)"

text \<open>A launch runs the threads of the grid in the order \<open>ids\<close> the device chooses.\<close>

definition busy_kernel :: "('f \<Rightarrow> 'f) \<Rightarrow> int \<Rightarrow> int \<Rightarrow> (nat \<times> nat) list \<Rightarrow> nat \<Rightarrow> 'f list \<Rightarrow> 'f list option" where
  "busy_kernel body n inner_iters ids block data =
     fold (\<lambda>(b, t) d. Option.bind d (busy_thread body n inner_iters (thread_id b block t))) ids (Some data)"

definition block_size :: int where "block_size = 256"

definition to_int32 :: "int \<Rightarrow> int" where
  "to_int32 x = sint (word_of_int x :: 32 word)"

definition grid_size :: "int \<Rightarrow> int" where
  "grid_size ksize = to_int32 (c_tquot (ksize + block_size - 1) block_size)"

section \<open>The program\<close>

text \<open>Return codes of the CUDA runtime are numbers, \<open>cudaSuccess\<close> is 0; pointers are numbers, \<open>NULL\<close> is 0.\<close>

record 'g cuda_lib =
  cu_SetDevice :: "'g \<Rightarrow> int \<Rightarrow> nat \<times> 'g"
  cu_GetDeviceProperties :: "'g \<Rightarrow> int \<Rightarrow> (string \<times> nat) \<times> 'g"
  cu_Malloc :: "'g \<Rightarrow> u64 \<Rightarrow> (nat \<times> nat) \<times> 'g"
  cu_Memset :: "'g \<Rightarrow> nat \<Rightarrow> int \<Rightarrow> u64 \<Rightarrow> nat \<times> 'g"
  cu_Launch :: "'g \<Rightarrow> int \<Rightarrow> int \<Rightarrow> nat \<Rightarrow> int \<Rightarrow> int \<Rightarrow> 'g"
  cu_GetLastError :: "'g \<Rightarrow> nat \<times> 'g"
  cu_DeviceSynchronize :: "'g \<Rightarrow> nat \<times> 'g"
  cu_Free :: "'g \<Rightarrow> nat \<Rightarrow> 'g"

datatype hold_event =
    HWarning string
  | HStart int string int int bool int int rat
  | HAllocated u64 nat int
  | HNanosleep int int
  | HSleep int
  | HProgress rat int
  | HCudaError string nat
  | HDone rat int

record 'g hold =
  h_gpu :: 'g
  h_reads :: nat
  h_out :: "hold_event list"

record 'g hold_env =
  he_env :: cenv
  he_strtod :: "string \<Rightarrow> rat \<times> string"
  he_clock :: "nat \<Rightarrow> int \<times> int"
  he_pid :: int
  he_cuda :: "'g cuda_lib"

record hold_params =
  hp_mib :: int
  hp_duration :: int
  hp_compute :: bool
  hp_ksize :: int
  hp_inner :: int
  hp_interval :: rat

definition hold_says :: "hold_event \<Rightarrow> 'g hold \<Rightarrow> 'g hold" where
  "hold_says e s = s\<lparr>h_out := h_out s @ [e]\<rparr>"

text \<open>The \<open>n\<close>-th reading of the clock, in seconds.\<close>

definition clock_reading :: "'g hold_env \<Rightarrow> nat \<Rightarrow> rat" where
  "clock_reading H n =
     (case he_clock H n of (sec, nsec) \<Rightarrow> fadd (rnd (of_int sec)) (fmul (rnd (of_int nsec)) (rnd (1 / 10 ^ 9))))"

definition now_seconds :: "'g hold_env \<Rightarrow> 'g hold \<Rightarrow> rat \<times> 'g hold" where
  "now_seconds H s = (clock_reading H (h_reads s), s\<lparr>h_reads := h_reads s + 1\<rparr>)"

text \<open>\<open>CUDA_CHECK(call)\<close>: the program exits with 1 on an error and goes on with the state otherwise.\<close>

definition CUDA_CHECK ::
  "string \<Rightarrow> nat \<times> 'g \<Rightarrow> 'g hold \<Rightarrow> ('g hold \<Rightarrow> (int \<times> 'g hold) option) \<Rightarrow> (int \<times> 'g hold) option" where
  "CUDA_CHECK call res s k =
     (case res of (err, g) \<Rightarrow>
        if err \<noteq> 0 then Some (1, hold_says (HCudaError call err) (s\<lparr>h_gpu := g\<rparr>))
        else k (s\<lparr>h_gpu := g\<rparr>))"

definition pause :: "rat \<Rightarrow> 'g hold \<Rightarrow> 'g hold" where
  "pause interval s =
     (if interval > 0 then
        let sec = ftrunc interval
        in hold_says (HNanosleep sec (ftrunc (fmul (fadd interval (- rnd (of_int sec))) (10 ^ 9)))) s
      else s)"

definition progress :: "rat \<Rightarrow> int \<Rightarrow> 'g hold \<Rightarrow> 'g hold" where
  "progress elapsed ticks s =
     (if c_trem (ftrunc elapsed) 10 = 0 \<and> c_trem (ftrunc (fmul elapsed 2)) 20 = 0
      then hold_says (HProgress elapsed ticks) s else s)"

text \<open>The loop; \<open>k\<close> is the rest of \<open>main\<close>, which gets the number of launches.\<close>

partial_function (option) hold_loop ::
  "'g hold_env \<Rightarrow> hold_params \<Rightarrow> nat \<Rightarrow> rat \<Rightarrow> (int \<Rightarrow> 'g hold \<Rightarrow> (int \<times> 'g hold) option) \<Rightarrow> int \<Rightarrow> 'g hold
    \<Rightarrow> (int \<times> 'g hold) option" where
  "hold_loop H P kbuf start k ticks s =
     (let L = he_cuda H; t1 = now_seconds H s; s1 = snd t1
      in if \<not> fadd (fst t1) (- start) < rnd (of_int (hp_duration P)) then k ticks s1
         else if hp_compute P then
           let g = cu_Launch L (h_gpu s1) (grid_size (hp_ksize P)) block_size kbuf
                     (to_int32 (hp_ksize P)) (to_int32 (hp_inner P));
               e1 = cu_GetLastError L g; e2 = cu_DeviceSynchronize L (snd e1)
           in if fst e1 \<noteq> 0 then
                Some (1, hold_says (HCudaError ''cudaGetLastError()'' (fst e1)) (s1\<lparr>h_gpu := snd e1\<rparr>))
              else if fst e2 \<noteq> 0 then
                Some (1, hold_says (HCudaError ''cudaDeviceSynchronize()'' (fst e2)) (s1\<lparr>h_gpu := snd e2\<rparr>))
              else
                let t2 = now_seconds H (pause (hp_interval P) (s1\<lparr>h_gpu := snd e2\<rparr>))
                in hold_loop H P kbuf start k (ticks + 1)
                     (progress (fadd (fst t2) (- start)) (ticks + 1) (snd t2))
         else
           let t2 = now_seconds H (hold_says (HSleep 5) s1)
           in hold_loop H P kbuf start k ticks (progress (fadd (fst t2) (- start)) ticks (snd t2)))"

text \<open>The end of \<open>main\<close>.\<close>

definition hold_finish ::
  "'g hold_env \<Rightarrow> nat \<Rightarrow> nat \<Rightarrow> rat \<Rightarrow> int \<Rightarrow> 'g hold \<Rightarrow> (int \<times> 'g hold) option" where
  "hold_finish H kbuf held start ticks s =
     (case now_seconds H s of
        (t, s1) \<Rightarrow>
          let s2 = hold_says (HDone (fadd t (- start)) ticks) s1;
              g1 = (if kbuf \<noteq> 0 then cu_Free (he_cuda H) (h_gpu s2) kbuf else h_gpu s2)
          in Some (0, s2\<lparr>h_gpu := cu_Free (he_cuda H) g1 held\<rparr>))"

definition hold_run ::
  "'g hold_env \<Rightarrow> hold_params \<Rightarrow> nat \<Rightarrow> nat \<Rightarrow> 'g hold \<Rightarrow> (int \<times> 'g hold) option" where
  "hold_run H P held kbuf s =
     (case now_seconds H s of
        (start, s1) \<Rightarrow> hold_loop H P kbuf start (hold_finish H kbuf held start) 0 s1)"

definition hold_params_of :: "'g hold_env \<Rightarrow> hold_params \<times> string option list" where
  "hold_params_of H =
     (let env = he_env H;
          mib = env_long env ''GPU_HOLD_MIB'' 2048;
          duration = env_long env ''GPU_HOLD_SECONDS'' 120;
          compute = env_bool env ''GPU_HOLD_COMPUTE'' True;
          ksize = env_long env ''GPU_HOLD_KERNEL_SIZE'' (1024 * 1024);
          inner = env_long env ''GPU_HOLD_INNER_ITERS'' 4096;
          interval = env_double (he_strtod H) env ''GPU_HOLD_INTERVAL'' (1 / 2)
      in (\<lparr>hp_mib = fst mib, hp_duration = fst duration, hp_compute = compute, hp_ksize = fst ksize,
           hp_inner = fst inner, hp_interval = fst interval\<rparr>,
          [snd mib, snd duration, snd ksize, snd inner, snd interval]))"

text \<open>The buffer of the kernel, and the buffer that is held.\<close>

definition hold_buffer ::
  "'g hold_env \<Rightarrow> hold_params \<Rightarrow> nat \<Rightarrow> 'g hold \<Rightarrow> (int \<times> 'g hold) option" where
  "hold_buffer H P held s =
     (if hp_compute P then
        let L = he_cuda H; bytes = word_of_int (hp_ksize P) * 4; m = cu_Malloc L (h_gpu s) bytes;
            kbuf = fst (fst m)
        in CUDA_CHECK ''cudaMalloc(&kbuf, ksize * sizeof(float))'' (snd (fst m), snd m) s
             (\<lambda>s1. CUDA_CHECK ''cudaMemset(kbuf, 0, ksize * sizeof(float))''
                     (cu_Memset L (h_gpu s1) kbuf 0 bytes) s1
                     (hold_run H P held kbuf))
      else hold_run H P held 0 s)"

definition hold_alloc ::
  "'g hold_env \<Rightarrow> hold_params \<Rightarrow> 'g hold \<Rightarrow> (int \<times> 'g hold) option" where
  "hold_alloc H P s =
     (let L = he_cuda H; hold_bytes = word_of_int (hp_mib P) * 1024 * 1024;
          m = cu_Malloc L (h_gpu s) hold_bytes; held = fst (fst m)
      in CUDA_CHECK ''cudaMalloc(&hold, hold_bytes)'' (snd (fst m), snd m) s
           (\<lambda>s1. hold_buffer H P held (hold_says (HAllocated hold_bytes held 0) s1)))"

definition hold_main :: "'g hold_env \<Rightarrow> 'g \<Rightarrow> (int \<times> 'g hold) option" where
  "hold_main H g0 =
     (let L = he_cuda H; P = fst (hold_params_of H);
          s0 = \<lparr>h_gpu = g0, h_reads = 0, h_out = [HWarning w. Some w \<leftarrow> snd (hold_params_of H)]\<rparr>
      in CUDA_CHECK ''cudaSetDevice(device)'' (cu_SetDevice L g0 0) s0
           (\<lambda>s1. let r = cu_GetDeviceProperties L (h_gpu s1) 0
                 in CUDA_CHECK ''cudaGetDeviceProperties(&prop, device)'' (snd (fst r), snd r) s1
                      (\<lambda>s2. hold_alloc H P (hold_says (HStart (he_pid H) (fst (fst r)) (hp_mib P)
                              (hp_duration P) (hp_compute P) (hp_ksize P) (hp_inner P) (hp_interval P)) s2))))"

section \<open>Printing and parsing numbers\<close>

fun show_nat :: "nat \<Rightarrow> string" where
  "show_nat n = (if n < 10 then [char_of (48 + n)] else show_nat (n div 10) @ [char_of (48 + n mod 10)])"

declare show_nat.simps [simp del]

definition show_int :: "int \<Rightarrow> string" where
  "show_int i = (if i < 0 then CHR ''-'' # show_nat (nat (- i)) else show_nat (nat i))"

lemma digit_char_props:
  assumes "d < 10"
  shows "c_isdigit (char_of (48 + d))" and "digit_val (char_of (48 + d)) = int d"
proof -
  have "(of_char (char_of (48 + d)) :: nat) = 48 + d"
    using assms by (simp add: of_char_of)
  with assms show "c_isdigit (char_of (48 + d))" and "digit_val (char_of (48 + d)) = int d"
    by (simp_all add: c_isdigit_def digit_val_def)
qed

lemma digits_val_snoc: "digits_val (ds @ [c]) = 10 * digits_val ds + digit_val c"
  by (simp add: digits_val_def)

lemma show_nat_props:
  "list_all c_isdigit (show_nat n) \<and> show_nat n \<noteq> [] \<and> digits_val (show_nat n) = int n"
proof (induction n rule: show_nat.induct)
  case (1 n)
  show ?case
  proof (cases "n < 10")
    case True
    then show ?thesis
      by (simp add: show_nat.simps [of n] digit_char_props digits_val_def)
  next
    case False
    with 1 have IH: "list_all c_isdigit (show_nat (n div 10))" "digits_val (show_nat (n div 10)) = int (n div 10)"
      by simp_all
    have "10 * int (n div 10) + int (n mod 10) = int n"
      by (metis mult_div_mod_eq of_nat_add of_nat_mult of_nat_numeral)
    with False IH show ?thesis
      by (simp add: show_nat.simps [of n] digits_val_snoc digit_char_props)
  qed
qed

lemma digit_not_space: "c_isdigit c \<Longrightarrow> \<not> c_isspace c \<and> c \<noteq> CHR ''-'' \<and> c \<noteq> CHR ''+''"
  by (auto simp: c_isdigit_def c_isspace_def)

lemma minus_not_space: "\<not> c_isspace (CHR ''-'')"
  by (simp add: c_isspace_def)

section \<open>Decimal texts\<close>

text \<open>What a decimal text is: blanks, a sign or none, and at least one digit; and the number it stands for.\<close>

definition spells :: "string \<Rightarrow> int \<Rightarrow> bool" where
  "spells s i \<longleftrightarrow>
     (\<exists>sp sg ds. s = sp @ sg @ ds \<and> list_all c_isspace sp \<and> sg \<in> {'''', ''+'', ''-''} \<and>
        ds \<noteq> '''' \<and> list_all c_isdigit ds \<and> i = (if sg = ''-'' then - digits_val ds else digits_val ds))"

lemma spells_nonempty: "spells s i \<Longrightarrow> s \<noteq> ''''"
  by (auto simp: spells_def)

lemma spells_last: "spells s i \<Longrightarrow> c_isdigit (last s)"
  by (auto simp: spells_def list_all_iff)

lemma spells_show_int: "spells (show_int i) i"
proof -
  have "show_int i = [] @ (if i < 0 then ''-'' else '''') @ show_nat (nat \<bar>i\<bar>)" by (simp add: show_int_def)
  with show_nat_props [of "nat \<bar>i\<bar>"] show ?thesis
    unfolding spells_def
    by (intro exI [where x = "[]"] exI [where x = "if i < 0 then ''-'' else ''''"]
        exI [where x = "show_nat (nat \<bar>i\<bar>)"]) auto
qed

lemma digits_only:
  assumes "list_all c_isdigit ds"
  shows "takeWhile c_isdigit ds = ds" and "dropWhile c_isdigit ds = []"
  using assms by (simp_all add: takeWhile_eq_all_conv dropWhile_eq_Nil_conv list_all_iff)

lemma strtol_spells:
  assumes "spells s i"
  shows "strtol s = (clamp_long i, [])"
proof -
  from assms obtain sp sg ds where s: "s = sp @ sg @ ds" and sp: "list_all c_isspace sp"
    and sg: "sg \<in> {'''', ''+'', ''-''}" and ds: "ds \<noteq> ''''" "list_all c_isdigit ds"
    and i: "i = (if sg = ''-'' then - digits_val ds else digits_val ds)"
    by (auto simp: spells_def)
  have "c_isdigit (hd ds)" using ds by (simp add: list_all_iff)
  note nc = digit_not_space [OF this]
  have t: "dropWhile c_isspace (sp @ u) = u" if "u \<noteq> []" "\<not> c_isspace (hd u)" for u
    using that sp by (subst dropWhile_append2) (auto simp: list_all_iff dropWhile_eq_self_iff)
  note d = digits_only [OF ds(2)]
  from sg consider "sg = []" | "sg = ''+''" | "sg = ''-''" by blast
  then show ?thesis
  proof cases
    case 1
    with i nc ds(1) t [of ds] show ?thesis by (simp add: s strtol_def Let_def d)
  next
    case 2
    with i nc ds(1) t [of "sg @ ds"] show ?thesis by (simp add: s strtol_def Let_def c_isspace_def d)
  next
    case 3
    with i nc ds(1) t [of "sg @ ds"] show ?thesis by (simp add: s strtol_def Let_def c_isspace_def d)
  qed
qed

lemma strtol_rest:
  assumes "strtol s = (out, rest)" and "\<forall>i. \<not> spells s i"
  shows "rest = s \<or> rest \<noteq> ''''"
proof (rule ccontr)
  assume "\<not> (rest = s \<or> rest \<noteq> '''')"
  then have r: "rest = ''''" "rest \<noteq> s" by auto
  define t where "t = dropWhile c_isspace s"
  define sg where "sg = (if t \<noteq> [] \<and> (hd t = CHR ''-'' \<or> hd t = CHR ''+'') then [hd t] else [])"
  define u where "u = (if t \<noteq> [] \<and> (hd t = CHR ''-'' \<or> hd t = CHR ''+'') then tl t else t)"
  have "sg @ u = t" by (cases t) (simp_all add: sg_def u_def)
  then have split: "s = takeWhile c_isspace s @ sg @ u" unfolding t_def by simp
  from assms(1) r have ds: "takeWhile c_isdigit u \<noteq> []" "dropWhile c_isdigit u = []"
    by (auto simp: strtol_def Let_def t_def [symmetric] u_def [symmetric] split: if_splits)
  then have all: "list_all c_isdigit u" "u \<noteq> []"
    by (simp_all add: dropWhile_eq_Nil_conv list_all_iff) auto
  have "spells s (if sg = ''-'' then - digits_val u else digits_val u)"
    unfolding spells_def
  proof (intro exI conjI)
    show "s = takeWhile c_isspace s @ sg @ u" by (rule split)
    show "list_all c_isspace (takeWhile c_isspace s)" by (auto simp: list_all_iff dest: set_takeWhileD)
  qed (use all in \<open>auto simp: sg_def\<close>)
  with assms(2) show False by blast
qed

section \<open>The kernel covers its data\<close>

lemma fold_update_each:
  assumes "distinct is"
  shows "length (fold (\<lambda>i d. if i < length d then d[i := f (d ! i)] else d) is data) = length data \<and>
    (\<forall>j < length data. fold (\<lambda>i d. if i < length d then d[i := f (d ! i)] else d) is data ! j =
      (if j \<in> set is then f (data ! j) else data ! j))"
  using assms
proof (induction "is" arbitrary: data)
  case Nil
  then show ?case by simp
next
  case (Cons i is')
  let ?d = "if i < length data then data[i := f (data ! i)] else data"
  from Cons.IH [of ?d] Cons.prems show ?case by (auto simp: nth_list_update)
qed

lemma thread_id_small:
  assumes "b * 256 + t < 2 ^ 31"
  shows "thread_id b 256 t = int (b * 256 + t)"
proof -
  have "(of_nat b * of_nat 256 + of_nat t :: 32 word) = of_nat (b * 256 + t)" by simp
  with assms show ?thesis unfolding thread_id_def
    by (simp add: signed_of_nat signed_take_bit_int_eq_self del: of_nat_add of_nat_mult)
qed

lemma busy_kernel_fold:
  assumes "\<forall>(b, t) \<in> set ids. b * 256 + t < 2 ^ 31" and "length data = nat n" and "0 \<le> n"
  shows "busy_kernel body n inner ids 256 data =
    Some (fold (\<lambda>i d. if i < length d then d[i := (body ^^ nat inner) (d ! i)] else d)
      (map (\<lambda>(b, t). b * 256 + t) ids) data)"
  using assms
proof (induction ids arbitrary: data)
  case Nil
  then show ?case by (simp add: busy_kernel_def)
next
  case (Cons x ids)
  obtain b t where x: "x = (b, t)" by (cases x)
  with Cons.prems(1) have id: "thread_id b 256 t = int (b * 256 + t)" by (intro thread_id_small) simp
  let ?d = "if b * 256 + t < length data
    then data[b * 256 + t := (body ^^ nat inner) (data ! (b * 256 + t))] else data"
  have step: "busy_thread body n inner (thread_id b 256 t) data = Some ?d"
    unfolding id busy_thread_def nat_int using Cons.prems(2,3) by auto
  have "length ?d = nat n" using Cons.prems(2) by simp
  with Cons.IH [of ?d] Cons.prems x show ?case by (simp add: busy_kernel_def step)
qed

lemma to_int32_id: "- (2 ^ 31) \<le> x \<Longrightarrow> x < 2 ^ 31 \<Longrightarrow> to_int32 x = x"
  by (simp add: to_int32_def signed_of_int signed_take_bit_int_eq_self)

lemma grid_size_eq:
  assumes "0 < ksize" and "ksize \<le> 2 ^ 31 - 256"
  shows "grid_size ksize = (ksize + 255) div 256"
proof -
  have "c_tquot (ksize + block_size - 1) block_size = (ksize + 255) div 256"
    using assms by (simp add: c_tquot_def block_size_def)
  moreover have "0 \<le> (ksize + 255) div 256" "(ksize + 255) div 256 < 2 ^ 31" using assms by simp_all
  ultimately show ?thesis by (simp add: grid_size_def to_int32_id)
qed

lemma grid_covers:
  assumes "0 < ksize" and "ksize \<le> 2 ^ 31 - 256" and "set ids = {..<nat (grid_size ksize)} \<times> {..<256}"
  shows "\<forall>(b, t) \<in> set ids. b * 256 + t < 2 ^ 31"
    and "\<And>j. j < nat ksize \<Longrightarrow> j \<in> (\<lambda>(b, t). b * 256 + t) ` set ids"
proof -
  note g = grid_size_eq [OF assms(1,2)]
  have G: "nat (grid_size ksize) * 256 \<le> nat ksize + 255"
    unfolding g using assms(1) by simp
  show "\<forall>(b, t) \<in> set ids. b * 256 + t < 2 ^ 31"
  proof clarify
    fix b t assume "(b, t) \<in> set ids"
    with assms(3) have "b + 1 \<le> nat (grid_size ksize)" "t < 256" by auto
    then have "(b + 1) * 256 \<le> nat (grid_size ksize) * 256" "t < 256" by simp_all
    moreover have "nat ksize + 256 \<le> 2147483648" using assms(1,2) by simp
    ultimately have "b * 256 + t < 2147483648" using G unfolding add_mult_distrib by linarith
    then show "b * 256 + t < 2 ^ 31" by simp
  qed
  fix j assume j: "j < nat ksize"
  have "int (j div 256) < (ksize + 255) div 256" using j by simp
  then have "j div 256 < nat (grid_size ksize)" unfolding g by linarith
  then have "(j div 256, j mod 256) \<in> set ids" using assms(3) by simp
  then show "j \<in> (\<lambda>(b, t). b * 256 + t) ` set ids" by (rule rev_image_eqI) simp
qed

lemma busy_kernel_all:
  assumes k: "0 < ksize" "ksize \<le> 2 ^ 31 - 256" and len: "length data = nat ksize"
    and ids: "distinct ids" "set ids = {..<nat (grid_size ksize)} \<times> {..<256}"
  shows "busy_kernel body (to_int32 ksize) inner ids 256 data = Some (map (body ^^ nat inner) data)"
proof -
  note c = grid_covers [OF k ids(2)]
  have n: "to_int32 ksize = ksize" using k by (intro to_int32_id) simp_all
  have "inj_on (\<lambda>(b, t). b * 256 + t) (set ids)"
  proof (rule inj_onI, clarify)
    fix b t b' t' :: nat
    assume "(b, t) \<in> set ids" "(b', t') \<in> set ids" and e: "b * 256 + t = b' * 256 + t'"
    with ids(2) have "t < 256" "t' < 256" by auto
    then have "(b * 256 + t) div 256 = b" "(b' * 256 + t') div 256 = b'" by simp_all
    with e show "b = b' \<and> t = t'" by simp
  qed
  then have "distinct (map (\<lambda>(b, t). b * 256 + t) ids)" using ids(1) by (simp add: distinct_map)
  note u = fold_update_each [OF this, of "body ^^ nat inner" data]
  show ?thesis
    unfolding n busy_kernel_fold [OF c(1) len order_less_imp_le [OF k(1)]] option.inject
  proof (rule nth_equalityI)
    fix j assume "j < length (fold (\<lambda>i d. if i < length d then d[i := (body ^^ nat inner) (d ! i)] else d)
      (map (\<lambda>(b, t). b * 256 + t) ids) data)"
    with u have j: "j < length data" by simp
    with c(2) [of j] len have "j \<in> set (map (\<lambda>(b, t). b * 256 + t) ids)" by simp
    with u j show "fold (\<lambda>i d. if i < length d then d[i := (body ^^ nat inner) (d ! i)] else d)
      (map (\<lambda>(b, t). b * 256 + t) ids) data ! j = map (body ^^ nat inner) data ! j" by simp
  qed (use u in simp)
qed

section \<open>The loop ends, and main frees what it allocated\<close>

lemma hold_upd_simps [simp]:
  "h_reads (hold_says e s) = h_reads s" "h_gpu (hold_says e s) = h_gpu s"
  "h_reads (pause i s) = h_reads s" "h_gpu (pause i s) = h_gpu s"
  "h_reads (progress i t s) = h_reads s" "h_gpu (progress i t s) = h_gpu s"
  "fst (now_seconds H s) = clock_reading H (h_reads s)"
  "h_reads (snd (now_seconds H s)) = h_reads s + 1" "h_gpu (snd (now_seconds H s)) = h_gpu s"
  by (simp_all add: hold_says_def pause_def progress_def now_seconds_def Let_def)

lemma hold_loop_returns:
  assumes k: "\<And>ticks s. \<exists>r. k ticks s = Some r"
    and late: "\<forall>n \<ge> N. \<not> fadd (clock_reading H n) (- start) < rnd (of_int (hp_duration P))"
  shows "\<exists>r. hold_loop H P kbuf start k ticks s = Some r"
proof (induction "N - h_reads s" arbitrary: ticks s rule: less_induct)
  case less
  show ?case
  proof (cases "fadd (clock_reading H (h_reads s)) (- start) < rnd (of_int (hp_duration P))")
    case False
    with k show ?thesis by (subst hold_loop.simps) (simp add: Let_def)
  next
    case True
    with late have "h_reads s < N" by (meson not_le)
    then have IH: "\<exists>r. hold_loop H P kbuf start k t' s' = Some r" if "h_reads s' = Suc (Suc (h_reads s))" for t' s'
      using that by (intro less.hyps) simp
    show ?thesis
      using True by (subst hold_loop.simps) (simp add: Let_def del: split_paired_Ex add: IH)
  qed
qed

text \<open>
  What CUDA documents of its allocations, \<open>live g\<close> being the allocations of a device: a successful
  \<open>cudaMalloc\<close> returns a pointer to a new one (or \<open>NULL\<close> and none, for no bytes), a failed one changes
  nothing, \<open>cudaFree\<close> of an allocation ends that one and of \<open>NULL\<close> does nothing. Nothing is said of
  freeing any other pointer. No other call allocates or frees.
\<close>

definition cuda_memory :: "'g cuda_lib \<Rightarrow> ('g \<Rightarrow> nat set) \<Rightarrow> bool" where
  "cuda_memory L live \<longleftrightarrow>
     (\<forall>g. 0 \<notin> live g) \<and>
     (\<forall>g d. live (snd (cu_SetDevice L g d)) = live g) \<and>
     (\<forall>g d. live (snd (cu_GetDeviceProperties L g d)) = live g) \<and>
     (\<forall>g n p err g'. cu_Malloc L g n = ((p, err), g') \<longrightarrow>
        (if err = 0 \<and> p \<noteq> 0 then p \<notin> live g \<and> live g' = insert p (live g) else live g' = live g)) \<and>
     (\<forall>g p v n. live (snd (cu_Memset L g p v n)) = live g) \<and>
     (\<forall>g a b p n i. live (cu_Launch L g a b p n i) = live g) \<and>
     (\<forall>g. live (snd (cu_GetLastError L g)) = live g) \<and>
     (\<forall>g. live (snd (cu_DeviceSynchronize L g)) = live g) \<and>
     (\<forall>g p. p \<in> live g \<longrightarrow> live (cu_Free L g p) = live g - {p}) \<and>
     (\<forall>g. live (cu_Free L g 0) = live g)"

text \<open>A device on which every call that the program checks succeeds.\<close>

definition cuda_succeeds :: "'g cuda_lib \<Rightarrow> bool" where
  "cuda_succeeds L \<longleftrightarrow>
     (\<forall>g d. fst (cu_SetDevice L g d) = 0) \<and> (\<forall>g d. snd (fst (cu_GetDeviceProperties L g d)) = 0) \<and>
     (\<forall>g n. snd (fst (cu_Malloc L g n)) = 0) \<and> (\<forall>g p v n. fst (cu_Memset L g p v n) = 0) \<and>
     (\<forall>g. fst (cu_GetLastError L g) = 0) \<and> (\<forall>g. fst (cu_DeviceSynchronize L g) = 0)"

text \<open>An exit with status 1: the last thing the program did was to report the error of a call that failed.\<close>

definition cuda_failed :: "'g cuda_lib \<Rightarrow> int \<times> 'g hold \<Rightarrow> bool" where
  "cuda_failed L r \<longleftrightarrow> \<not> cuda_succeeds L \<and> fst r = 1 \<and>
     (\<exists>out call err. h_out (snd r) = out @ [HCudaError call err] \<and> err \<noteq> 0)"

lemma cuda_failed_says:
  "0 < err \<Longrightarrow> \<not> cuda_succeeds L \<Longrightarrow> cuda_failed L (1, hold_says (HCudaError call err) s)"
  by (simp add: cuda_failed_def hold_says_def)

text \<open>Every result is the exit of a failed call or comes from the continuation, with the same memory live.\<close>

lemma hold_loop_cases:
  assumes c: "cuda_memory (he_cuda H) live" and r: "hold_loop H P kbuf start k ticks s = Some r"
  shows "cuda_failed (he_cuda H) r \<or> (\<exists>ticks' s'. live (h_gpu s') = live (h_gpu s) \<and> k ticks' s' = Some r)"
proof -
  let ?Q = "\<lambda>x r. cuda_memory (he_cuda (fst (fst (fst (fst (fst (fst x))))))) live \<longrightarrow>
      cuda_failed (he_cuda (fst (fst (fst (fst (fst (fst x))))))) r \<or>
      (\<exists>ticks' s'. live (h_gpu s') = live (h_gpu (snd x)) \<and> snd (fst (fst x)) ticks' s' = Some r)"
  have "?Q ((((((H, P), kbuf), start), k), ticks), s) r"
  proof (rule hold_loop.raw_induct [where Pa = ?Q, OF _ r])
    fix loop :: "'a hold_env \<Rightarrow> hold_params \<Rightarrow> nat \<Rightarrow> rat \<Rightarrow> (int \<Rightarrow> 'a hold \<Rightarrow> (int \<times> 'a hold) option) \<Rightarrow> int
      \<Rightarrow> 'a hold \<Rightarrow> (int \<times> 'a hold) option"
    fix H :: "'a hold_env" and P kbuf start k ticks s r
    assume IH: "\<And>H P kbuf start k ticks s r. loop H P kbuf start k ticks s = Some r \<Longrightarrow>
        ?Q ((((((H, P), kbuf), start), k), ticks), s) r"
    assume eq: "(let L = he_cuda H; t1 = now_seconds H s; s1 = snd t1
      in if \<not> fadd (fst t1) (- start) < rnd (of_int (hp_duration P)) then k ticks s1
         else if hp_compute P then
           let g = cu_Launch L (h_gpu s1) (grid_size (hp_ksize P)) block_size kbuf
                     (to_int32 (hp_ksize P)) (to_int32 (hp_inner P));
               e1 = cu_GetLastError L g; e2 = cu_DeviceSynchronize L (snd e1)
           in if fst e1 \<noteq> 0 then
                Some (1, hold_says (HCudaError ''cudaGetLastError()'' (fst e1)) (s1\<lparr>h_gpu := snd e1\<rparr>))
              else if fst e2 \<noteq> 0 then
                Some (1, hold_says (HCudaError ''cudaDeviceSynchronize()'' (fst e2)) (s1\<lparr>h_gpu := snd e2\<rparr>))
              else
                let t2 = now_seconds H (pause (hp_interval P) (s1\<lparr>h_gpu := snd e2\<rparr>))
                in loop H P kbuf start k (ticks + 1)
                     (progress (fadd (fst t2) (- start)) (ticks + 1) (snd t2))
         else
           let t2 = now_seconds H (hold_says (HSleep 5) s1)
           in loop H P kbuf start k ticks (progress (fadd (fst t2) (- start)) ticks (snd t2))) = Some r"
    show "?Q ((((((H, P), kbuf), start), k), ticks), s) r"
    proof
      assume c: "cuda_memory (he_cuda (fst (fst (fst (fst (fst (fst ((((((H, P), kbuf), start), k), ticks), s)))))))) live"
      then have p: "\<And>g a b q n i. live (cu_Launch (he_cuda H) g a b q n i) = live g"
        "\<And>g. live (snd (cu_GetLastError (he_cuda H) g)) = live g"
        "\<And>g. live (snd (cu_DeviceSynchronize (he_cuda H) g)) = live g"
        by (simp_all add: cuda_memory_def)
      have fails: "0 < fst (cu_GetLastError (he_cuda H) g) \<Longrightarrow> cuda_failed (he_cuda H)
            (1, hold_says (HCudaError call (fst (cu_GetLastError (he_cuda H) g))) s')"
        "0 < fst (cu_DeviceSynchronize (he_cuda H) g) \<Longrightarrow> cuda_failed (he_cuda H)
            (1, hold_says (HCudaError call (fst (cu_DeviceSynchronize (he_cuda H) g))) s')" for g call and s' :: "'a hold"
        by (rule cuda_failed_says; force simp: cuda_succeeds_def)+
      have IH': "cuda_failed (he_cuda H) r \<or> (\<exists>ticks' s'. live (h_gpu s') = live (h_gpu s) \<and> k ticks' s' = Some r)"
        if "loop H P kbuf start k t' s1 = Some r" "live (h_gpu s1) = live (h_gpu s)" for t' s1
        using IH [OF that(1)] c that(2) by simp
      have upd: "h_gpu (snd (now_seconds H s)) = h_gpu s" by simp
      have "cuda_failed (he_cuda H) r \<or> (\<exists>ticks' s'. live (h_gpu s') = live (h_gpu s) \<and> k ticks' s' = Some r)"
        using eq upd
        by (auto simp: Let_def p fails split: if_splits dest: IH')
      then show "cuda_failed (he_cuda (fst (fst (fst (fst (fst (fst ((((((H, P), kbuf), start), k), ticks), s)))))))) r \<or>
          (\<exists>ticks' s'. live (h_gpu s') = live (h_gpu (snd ((((((H, P), kbuf), start), k), ticks), s))) \<and>
          snd (fst (fst ((((((H, P), kbuf), start), k), ticks), s))) ticks' s' = Some r)"
        by simp
    qed
  qed
  with c show ?thesis by simp
qed

lemma CUDA_CHECK_Some:
  "CUDA_CHECK call res s k = Some r \<longleftrightarrow>
    (if fst res = 0 then k (s\<lparr>h_gpu := snd res\<rparr>) = Some r
     else r = (1, hold_says (HCudaError call (fst res)) (s\<lparr>h_gpu := snd res\<rparr>)))"
  by (auto simp: CUDA_CHECK_def split: prod.splits)

lemma CUDA_CHECK_returns:
  "(\<And>s'. \<exists>r. k s' = Some r) \<Longrightarrow> \<exists>r. CUDA_CHECK call res s k = Some r"
  by (auto simp: CUDA_CHECK_def split: prod.splits)

text \<open>The end of \<open>main\<close>: what was live is live again but for the two buffers.\<close>

lemma hold_finish_live:
  assumes c: "cuda_memory (he_cuda H) live" and f: "hold_finish H kbuf held start ticks s = Some r"
    and kbuf: "kbuf \<noteq> 0 \<Longrightarrow> kbuf \<in> live (h_gpu s)" and held: "held \<noteq> 0 \<Longrightarrow> held \<in> live (h_gpu s) \<and> held \<noteq> kbuf"
  shows "fst r = 0 \<and> live (h_gpu (snd r)) = live (h_gpu s) - {x \<in> {kbuf, held}. x \<noteq> 0} \<and>
    (\<exists>out t. h_out (snd r) = out @ [HDone t ticks])"
proof -
  from c have free: "\<And>g p. p \<in> live g \<Longrightarrow> live (cu_Free (he_cuda H) g p) = live g - {p}"
    "\<And>g. live (cu_Free (he_cuda H) g 0) = live g" by (simp_all add: cuda_memory_def)
  define g1 where "g1 = (if kbuf \<noteq> 0 then cu_Free (he_cuda H) (h_gpu s) kbuf else h_gpu s)"
  have g1: "live g1 = live (h_gpu s) - {x \<in> {kbuf}. x \<noteq> 0}" using kbuf by (auto simp: g1_def free)
  then have "held \<noteq> 0 \<Longrightarrow> held \<in> live g1" using held by auto
  then have "live (cu_Free (he_cuda H) g1 held) = live g1 - {x \<in> {held}. x \<noteq> 0}"
    by (cases "held = 0") (auto simp: free)
  also have "\<dots> = live (h_gpu s) - {x \<in> {kbuf, held}. x \<noteq> 0}" unfolding g1 by blast
  finally have l: "live (cu_Free (he_cuda H) g1 held) = live (h_gpu s) - {x \<in> {kbuf, held}. x \<noteq> 0}" .
  from f have "fst r = 0" "h_gpu (snd r) = cu_Free (he_cuda H) g1 held" "\<exists>out t. h_out (snd r) = out @ [HDone t ticks]"
    by (auto simp: hold_finish_def now_seconds_def Let_def g1_def hold_says_def)
  with l show ?thesis by simp
qed

definition hold_done :: "int \<times> 'g hold \<Rightarrow> bool" where
  "hold_done r \<longleftrightarrow> fst r = 0 \<and> (\<exists>out t ticks. h_out (snd r) = out @ [HDone t ticks])"

lemma hold_run_live:
  assumes c: "cuda_memory (he_cuda H) live" and r: "hold_run H P held kbuf s = Some r"
    and kbuf: "kbuf \<noteq> 0 \<Longrightarrow> kbuf \<in> live (h_gpu s)" and held: "held \<noteq> 0 \<Longrightarrow> held \<in> live (h_gpu s) \<and> held \<noteq> kbuf"
  shows "cuda_failed (he_cuda H) r \<or>
    hold_done r \<and> live (h_gpu (snd r)) = live (h_gpu s) - {x \<in> {kbuf, held}. x \<noteq> 0}"
proof -
  let ?s1 = "s\<lparr>h_reads := h_reads s + 1\<rparr>" and ?start = "clock_reading H (h_reads s)"
  from r have "hold_loop H P kbuf ?start (hold_finish H kbuf held ?start) 0 ?s1 = Some r"
    by (simp add: hold_run_def now_seconds_def)
  from hold_loop_cases [OF c this] show ?thesis
  proof
    assume "\<exists>ticks' s'. live (h_gpu s') = live (h_gpu ?s1) \<and> hold_finish H kbuf held ?start ticks' s' = Some r"
    then obtain ticks' s' where s': "live (h_gpu s') = live (h_gpu s)"
      and f: "hold_finish H kbuf held ?start ticks' s' = Some r" by auto
    from hold_finish_live [OF c f] kbuf held s' show ?thesis by (auto simp: hold_done_def)
  qed simp
qed

lemma CUDA_CHECK_ok:
  assumes "CUDA_CHECK call res s k = Some r" and "\<not> cuda_failed L r" and "0 < fst res \<Longrightarrow> \<not> cuda_succeeds L"
  shows "fst res = 0" and "k (s\<lparr>h_gpu := snd res\<rparr>) = Some r"
  using assms cuda_failed_says [of "fst res" L] by (auto simp: CUDA_CHECK_Some split: if_splits)

lemma cuda_fails:
  "0 < fst (cu_SetDevice L g d) \<Longrightarrow> \<not> cuda_succeeds L"
  "0 < snd (fst (cu_GetDeviceProperties L g d)) \<Longrightarrow> \<not> cuda_succeeds L"
  "0 < snd (fst (cu_Malloc L g n)) \<Longrightarrow> \<not> cuda_succeeds L"
  "0 < fst (cu_Memset L g p v n) \<Longrightarrow> \<not> cuda_succeeds L"
  by (force simp: cuda_succeeds_def)+

lemma cuda_malloc:
  assumes "cuda_memory L live" and "snd (fst (cu_Malloc L g n)) = 0"
  defines "p \<equiv> fst (fst (cu_Malloc L g n))" and "g' \<equiv> snd (cu_Malloc L g n)"
  shows "live g' - {x \<in> {p}. x \<noteq> 0} = live g" and "p \<noteq> 0 \<Longrightarrow> p \<notin> live g \<and> p \<in> live g'" and "live g \<subseteq> live g'"
proof -
  have "cu_Malloc L g n = ((p, 0), g')" using assms(2) by (simp add: p_def g'_def prod_eq_iff)
  with assms(1) have "if p \<noteq> 0 then p \<notin> live g \<and> live g' = insert p (live g) else live g' = live g"
    by (fastforce simp: cuda_memory_def)
  then show "live g' - {x \<in> {p}. x \<noteq> 0} = live g" "p \<noteq> 0 \<Longrightarrow> p \<notin> live g \<and> p \<in> live g'" "live g \<subseteq> live g'"
    by (auto split: if_splits)
qed

lemma hold_buffer_live:
  assumes c: "cuda_memory (he_cuda H) live" and r: "hold_buffer H P held s = Some r"
    and held: "held \<noteq> 0 \<Longrightarrow> held \<in> live (h_gpu s)"
  shows "cuda_failed (he_cuda H) r \<or> hold_done r \<and> live (h_gpu (snd r)) = live (h_gpu s) - {x \<in> {held}. x \<noteq> 0}"
proof (cases "hp_compute P")
  case False
  with r have "hold_run H P held 0 s = Some r" by (simp add: hold_buffer_def)
  from hold_run_live [OF c this] held show ?thesis by (auto simp: insert_Collect)
next
  case True
  let ?L = "he_cuda H" and ?n = "word_of_int (hp_ksize P) * 4 :: u64"
  define kbuf where "kbuf = fst (fst (cu_Malloc ?L (h_gpu s) ?n))"
  define g where "g = snd (cu_Malloc ?L (h_gpu s) ?n)"
  note r1 = r [unfolded hold_buffer_def Let_def, unfolded if_P [OF True], folded kbuf_def g_def]
  show ?thesis
  proof (rule disjCI)
    assume "\<not> (hold_done r \<and> live (h_gpu (snd r)) = live (h_gpu s) - {x \<in> {held}. x \<noteq> 0})"
    show "cuda_failed ?L r"
    proof (rule ccontr)
      assume ok: "\<not> cuda_failed ?L r"
      have err: "0 < fst (snd (fst (cu_Malloc ?L (h_gpu s) ?n)), g) \<Longrightarrow> \<not> cuda_succeeds ?L"
        using cuda_fails(3) by simp
      note m = CUDA_CHECK_ok(1) [OF r1 ok err, unfolded fst_conv]
      note r2 = CUDA_CHECK_ok(2) [OF r1 ok err, unfolded snd_conv]
      note r3 = CUDA_CHECK_ok(2) [OF r2 ok cuda_fails(4)]
      note live = cuda_malloc [OF c m, folded kbuf_def g_def]
      have ms: "live (h_gpu (s\<lparr>h_gpu := g, h_gpu := snd (cu_Memset ?L (h_gpu (s\<lparr>h_gpu := g\<rparr>)) kbuf 0 ?n)\<rparr>)) = live g"
        using c by (simp add: cuda_memory_def)
      have "held \<noteq> 0 \<Longrightarrow> held \<in> live g \<and> held \<noteq> kbuf" using held live(2,3) by auto
      with hold_run_live [OF c r3, unfolded ms] live(2) ok
      have "hold_done r" "live (h_gpu (snd r)) = live g - {x \<in> {kbuf, held}. x \<noteq> 0}" by auto
      moreover have "live g - {x \<in> {kbuf, held}. x \<noteq> 0} = live (h_gpu s) - {x \<in> {held}. x \<noteq> 0}"
        using live(1) by auto
      ultimately show False
        using \<open>\<not> (hold_done r \<and> live (h_gpu (snd r)) = live (h_gpu s) - {x \<in> {held}. x \<noteq> 0})\<close> by simp
    qed
  qed
qed

lemma hold_alloc_live:
  assumes c: "cuda_memory (he_cuda H) live" and r: "hold_alloc H P s = Some r"
  shows "cuda_failed (he_cuda H) r \<or> hold_done r \<and> live (h_gpu (snd r)) = live (h_gpu s)"
proof (cases "cuda_failed (he_cuda H) r")
  case False
  let ?L = "he_cuda H" and ?n = "word_of_int (hp_mib P) * 1024 * 1024 :: u64"
  define held where "held = fst (fst (cu_Malloc ?L (h_gpu s) ?n))"
  define g where "g = snd (cu_Malloc ?L (h_gpu s) ?n)"
  note r1 = r [unfolded hold_alloc_def Let_def, folded held_def g_def]
  have err: "0 < fst (snd (fst (cu_Malloc ?L (h_gpu s) ?n)), g) \<Longrightarrow> \<not> cuda_succeeds ?L"
    using cuda_fails(3) by simp
  note m = CUDA_CHECK_ok(1) [OF r1 False err, unfolded fst_conv]
  note live = cuda_malloc [OF c m, folded held_def g_def]
  from hold_buffer_live [OF c CUDA_CHECK_ok(2) [OF r1 False err]] live False show ?thesis by auto
qed simp

lemma hold_main_live:
  assumes c: "cuda_memory (he_cuda H) live" and r: "hold_main H g0 = Some r"
  shows "cuda_failed (he_cuda H) r \<or> hold_done r \<and> live (h_gpu (snd r)) = live g0"
proof -
  let ?L = "he_cuda H"
  from c have keep: "\<And>g d. live (snd (cu_SetDevice ?L g d)) = live g"
    "\<And>g d. live (snd (cu_GetDeviceProperties ?L g d)) = live g" by (simp_all add: cuda_memory_def)
  show ?thesis
  proof (cases "cuda_failed ?L r")
    case False
    note r1 = r [unfolded hold_main_def Let_def]
    note r2 = CUDA_CHECK_ok(2) [OF r1 False cuda_fails(1)]
    define g1 where "g1 = snd (cu_SetDevice ?L g0 0)"
    define x where "x = cu_GetDeviceProperties ?L g1 0"
    note r3 = r2 [unfolded hold.select_convs hold.update_convs, folded g1_def, folded x_def]
    have "0 < fst (snd (fst x), snd x) \<Longrightarrow> \<not> cuda_succeeds ?L"
      using cuda_fails(2) [of ?L g1 0] by (simp add: x_def)
    from hold_alloc_live [OF c CUDA_CHECK_ok(2) [OF r3 False this]] False
    have "hold_done r" "live (h_gpu (snd r)) = live (snd x)" by simp_all
    moreover have "live (snd x) = live g0" by (simp add: x_def g1_def keep)
    ultimately show ?thesis by simp
  qed simp
qed

lemma hold_run_returns:
  assumes "\<forall>m n. n \<ge> N \<longrightarrow> m < N0 \<longrightarrow>
      \<not> fadd (clock_reading H n) (- clock_reading H m) < rnd (of_int (hp_duration P))"
    and "h_reads s < N0"
  shows "\<exists>r. hold_run H P held kbuf s = Some r"
proof -
  have "\<exists>r. hold_finish H kbuf held st ticks s' = Some r" for st ticks s'
    by (simp add: hold_finish_def now_seconds_def Let_def)
  from hold_loop_returns [OF this, of N H "clock_reading H (h_reads s)" P] assms show ?thesis
    by (simp add: hold_run_def now_seconds_def)
qed

lemma hold_main_returns:
  assumes late: "\<forall>n \<ge> N. \<not> fadd (clock_reading H n) (- clock_reading H 0) < rnd (of_int (hp_duration (fst (hold_params_of H))))"
  shows "\<exists>r. hold_main H g0 = Some r"
proof -
  let ?P = "fst (hold_params_of H)"
  have run: "\<exists>r. hold_run H ?P held kbuf s = Some r" if "h_reads s = 0" for held kbuf s
    using hold_run_returns [of N 1 H ?P s held kbuf] late that by simp
  have check: "\<exists>r. CUDA_CHECK call res s k = Some r"
    if "h_reads s = 0" "\<And>s'. h_reads s' = 0 \<Longrightarrow> \<exists>r. k s' = Some r" for call res s and k :: "'a hold \<Rightarrow> (int \<times> 'a hold) option"
    using that by (auto simp: CUDA_CHECK_def simp del: split_paired_Ex split: prod.splits)
  have alloc: "\<exists>r. hold_alloc H ?P s = Some r" if "h_reads s = 0" for s
    unfolding hold_alloc_def hold_buffer_def Let_def
    by (intro check, simp add: that, cases "hp_compute ?P") (simp_all del: split_paired_Ex add: run check)
  show ?thesis
    unfolding hold_main_def Let_def by (intro check) (simp_all del: split_paired_Ex add: alloc)
qed

section \<open>Properties\<close>

text \<open>C38: What an environment variable means. A text that is a decimal number, with blanks in front and a sign
  or not, gives that number, cut to the range of a \<open>long\<close>, without a warning; an unset or empty variable
  gives the default without a warning; every other text gives the default and a warning. In particular
  every \<open>long\<close> is read back from its decimal notation.\<close>

theorem env_long_result:
  "(env name = None \<or> env name = Some '''' \<longrightarrow> env_long env name d = (d, None)) \<and>
   (\<forall>v i. env name = Some v \<longrightarrow> spells v i \<longrightarrow> env_long env name d = (clamp_long i, None)) \<and>
   (\<forall>v. env name = Some v \<longrightarrow> v \<noteq> '''' \<longrightarrow> (\<forall>i. \<not> spells v i) \<longrightarrow> env_long env name d = (d, Some name)) \<and>
   (\<forall>i. LONG_MIN \<le> i \<longrightarrow> i \<le> LONG_MAX \<longrightarrow> env name = Some (show_int i) \<longrightarrow> env_long env name d = (i, None))"
proof -
  have spelled: "env_long env name d = (clamp_long i, None)" if "env name = Some v" "spells v i" for v i
    using that strtol_spells [OF that(2)] spells_nonempty [OF that(2)] by (simp add: env_long_def)
  have shown: "env_long env name d = (i, None)"
    if "LONG_MIN \<le> i" "i \<le> LONG_MAX" "env name = Some (show_int i)" for i
    using spelled [OF that(3) spells_show_int] that by (simp add: clamp_long_def)
  have other: "env_long env name d = (d, Some name)"
    if "env name = Some v" "v \<noteq> ''''" "\<forall>i. \<not> spells v i" for v
    using that strtol_rest [of v] by (auto simp: env_long_def split: prod.split)
  show ?thesis using spelled shown other by (auto simp: env_long_def)
qed

theorem env_long_result_witness:
  "env_long ((\<lambda>_. None)(''N'' := Some '' +5'')) ''N'' 7 = (5, None) \<and>
   env_long ((\<lambda>_. None)(''N'' := Some ''12abc'')) ''N'' 7 = (7, Some ''N'') \<and>
   env_long ((\<lambda>_. None)(''N'' := Some (show_int (- 42)))) ''N'' 7 = (- 42, None)"
proof -
  have five: "spells '' +5'' 5"
    unfolding spells_def
    by (rule exI [where x = "'' ''"], rule exI [where x = "''+''"], rule exI [where x = "''5''"])
      (simp add: c_isspace_def c_isdigit_def digits_val_def digit_val_def)
  have abc: "\<not> spells ''12abc'' i" for i
    using spells_last [of "''12abc''" i] by (auto simp: c_isdigit_def)
  show ?thesis
    using env_long_result [of "(\<lambda>_. None)(''N'' := Some '' +5'')" "''N''" 7]
      env_long_result [of "(\<lambda>_. None)(''N'' := Some ''12abc'')" "''N''" 7]
      env_long_result [of "(\<lambda>_. None)(''N'' := Some (show_int (- 42)))" "''N''" 7] five abc
    by (simp add: clamp_long_def LONG_MIN_def LONG_MAX_def)
qed

text \<open>C30: A launch with the grid \<open>main\<close> computes applies the body of the kernel to every element of the buffer the
  same number of times, each exactly once, in whatever order the device runs the threads; threads
  beyond the buffer do nothing, and no thread accesses memory outside of it.\<close>

theorem launch_covers_buffer:
  assumes "0 < ksize" and "ksize \<le> 2 ^ 31 - 256" and "length data = nat ksize"
    and "distinct ids" and "set ids = {..<nat (grid_size ksize)} \<times> {..<256}"
  shows "busy_kernel body (to_int32 ksize) inner ids 256 data = Some (map (body ^^ nat inner) data)"
  by (rule busy_kernel_all [OF assms])

theorem launch_covers_buffer_witness:
  "busy_kernel (\<lambda>x. x + 2) (to_int32 3) 5 (map (\<lambda>t. (0, t)) [0..<256]) 256 [1, 2, 3 :: nat] =
    Some (map ((\<lambda>x. x + 2) ^^ 5) [1, 2, 3])"
proof -
  let ?ids = "map (\<lambda>t. (0 :: nat, t)) [0..<256]"
  have "distinct ?ids" by (simp add: distinct_map inj_on_def)
  moreover have "set ?ids = {..<nat (grid_size 3)} \<times> {..<256}" using grid_size_eq [of 3] by auto
  ultimately show ?thesis using launch_covers_buffer [of 3 "[1, 2, 3 :: nat]" ?ids "\<lambda>x. x + 2" 5] by simp
qed

text \<open>C29: Once the clock stays past the duration, the program ends in one of two ways: with status 0 after its
  final report, with exactly the device memory allocated that was when it started, so both of its buffers
  are freed; or with status 1 right after reporting the error of a CUDA call that failed. On a device where
  every call succeeds it ends with status 0.\<close>

theorem hold_main_ends:
  assumes "cuda_memory (he_cuda H) live"
    and "\<forall>n \<ge> N. \<not> fadd (clock_reading H n) (- clock_reading H 0) < rnd (of_int (hp_duration (fst (hold_params_of H))))"
  shows "\<exists>code s. hold_main H g0 = Some (code, s) \<and>
    (if code = 0 then live (h_gpu s) = live g0 \<and> (\<exists>out t ticks. h_out s = out @ [HDone t ticks])
     else code = 1 \<and> \<not> cuda_succeeds (he_cuda H) \<and>
       (\<exists>out call err. h_out s = out @ [HCudaError call err] \<and> err \<noteq> 0))"
proof -
  from hold_main_returns [OF assms(2)] obtain code s where m: "hold_main H g0 = Some (code, s)" by force
  from hold_main_live [OF assms(1) m] m show ?thesis by (auto simp: cuda_failed_def hold_done_def)
qed

text \<open>A device for the witness, whose state is the list of its allocations; the clock jumps past the duration
  at once.\<close>

definition demo_cuda :: "nat list cuda_lib" where
  "demo_cuda = \<lparr>cu_SetDevice = (\<lambda>g d. (0, g)), cu_GetDeviceProperties = (\<lambda>g d. ((''one'', 0), g)),
     cu_Malloc = (\<lambda>g n. ((Suc (sum_list g), 0), Suc (sum_list g) # g)), cu_Memset = (\<lambda>g p v n. (0, g)),
     cu_Launch = (\<lambda>g a b p n i. g), cu_GetLastError = (\<lambda>g. (0, g)), cu_DeviceSynchronize = (\<lambda>g. (0, g)),
     cu_Free = (\<lambda>g p. if p \<noteq> 0 then removeAll p g else g)\<rparr>"

definition demo_live :: "nat list \<Rightarrow> nat set" where
  "demo_live g = set g - {0}"

lemma demo_cuda_memory: "cuda_memory demo_cuda demo_live"
proof -
  have "Suc (sum_list g) \<notin> set g" for g :: "nat list" using member_le_sum_list [of _ g] by fastforce
  then show ?thesis by (auto simp: cuda_memory_def demo_cuda_def demo_live_def)
qed

definition demo_hold :: "nat list hold_env" where
  "demo_hold = \<lparr>he_env = (\<lambda>_. None), he_strtod = (\<lambda>s. (0, s)), he_clock = (\<lambda>n. if n = 0 then (0, 0) else (200, 0)),
     he_pid = 42, he_cuda = demo_cuda\<rparr>"

theorem hold_main_ends_witness:
  "\<exists>s out t ticks. hold_main demo_hold [] = Some (0, s) \<and> demo_live (h_gpu s) = {} \<and> h_out s = out @ [HDone t ticks]"
proof -
  have c: "cuda_memory (he_cuda demo_hold) demo_live" and ok: "cuda_succeeds (he_cuda demo_hold)"
    using demo_cuda_memory by (simp_all add: demo_hold_def cuda_succeeds_def demo_cuda_def)
  have r: "rnd 200 = 200" "rnd 120 = 120" "rnd 0 = 0"
    using rnd_of_int [of 200] rnd_of_int [of 120] rnd_of_int [of 0] by simp_all
  have "clock_reading demo_hold n = (if n = 0 then 0 else 200)" for n
    by (simp add: clock_reading_def demo_hold_def r fadd_def fmul_def)
  moreover have "hp_duration (fst (hold_params_of demo_hold)) = 120"
    by (simp add: hold_params_of_def demo_hold_def env_long_def Let_def)
  ultimately have "\<forall>n \<ge> 1. \<not> fadd (clock_reading demo_hold n) (- clock_reading demo_hold 0)
      < rnd (of_int (hp_duration (fst (hold_params_of demo_hold))))"
    by (simp add: r fadd_def)
  from hold_main_ends [OF c this, of "[]"] ok show ?thesis by (auto simp: demo_live_def split: if_splits)
qed

end
