(* ===== verification/Spec2Isabelle.thy ===== *)
theory Spec2Isabelle
  imports ConsumerProps MapsProps BackendProps Cli VmlinuxBitProps GpuHold
begin

text \<open>
  \<^bold>\<open>The program.\<close> gpu-ebpf-bridge is a daemon that polls GPU telemetry and publishes it in four BPF maps
  pinned on bpffs, for eBPF consumers to read. \<open>include/gpu_types.h\<close> is the contract of the maps,
  \<open>internal/maps/bpf/gpu_types.bpf.c\<close> declares them, \<open>internal/maps\<close> opens, updates, closes and unpins them,
  \<open>internal/nvml\<close> has the interface of a telemetry source with a mock and a real backend,
  \<open>internal/poller\<close> is the loop, \<open>cmd/gpu-ebpf-bridge\<close> the command with its dump mode, and
  \<open>examples/workloads/gpu_hold/gpu_hold.cu\<close> a CUDA program that produces load.

  \<^bold>\<open>Theories.\<close>
  \<^item> Prelude, GoRuntime, CLayout, CBitFields, Float64: association lists and folds, Go errors and
    \<open>filepath.Join\<close>, the layout of C aggregates in bytes and of bit fields in bits, binary64 arithmetic on rationals.
  \<^item> GpuTypes (\<open>gpu_types.h\<close>, generated Go structs, \<open>types.go\<close>) and BpfObject (\<open>gpu_types.bpf.c\<close>). The locale
    \<open>abi_mirror\<close> relates a C struct and its Go mirror, field by field under their names, and is interpreted for
    the four structs on both word sizes.
  \<^item> Kernel: the interface to BPF maps and bpffs that cilium/ebpf and the kernel provide, a record of
    operations over a state of their own with the laws of the locales \<open>bpf_map\<close> and \<open>bpf_kernel\<close>. RefKernel
    interprets them on a concrete kernel, so every theorem with the hypothesis \<open>bpf_kernel K\<close> has an instance.
  \<^item> Bridge (\<open>maps.go\<close>, \<open>gputypes_x86_bpfel.go\<close>): every method as a function on the kernel state, and what it does
    to \<open>bview\<close>, the contents of the four maps as partial functions.
  \<^item> Nvml (\<open>nvml.go\<close>): snapshots, samples, the interface as a record of functions, and its contract, the
    locale \<open>nvml_backend\<close>. RealNvml (\<open>real.go\<close>) and MockNvml (\<open>mock.go\<close>) model the backends and interpret it;
    RealWindow follows the sampling window of the real one through a run.
  \<^item> PollerAgg (the aggregation of \<open>tick\<close>, its helpers, and the records specified), Poller (\<open>New\<close>, \<open>tick\<close>, \<open>Run\<close>),
    PollerSpec (what a tick promises of the maps and that it keeps it), PollerTrace (the calls of a
    tick), PollerRun (the loop as a step relation, its invariants), PollerLive (runs that
    are not cancelled), PollerOrigin (where the records in the maps come from), PollerBackend (the loop over a
    backend that keeps its contract).
  \<^item> Consumer: the consumer that \<open>README.md\<close> documents, \<open>enrich_with_gpu\<close>, on the bytes of the maps; the
    CO-RE macros of libbpf, which are not in the repository, are a parameter. ConsumerProps: what it gets from the daemon.
  \<^item> Dump (\<open>dump.go\<close>) and Cli (\<open>main.go\<close>, \<open>real.go\<close>, \<open>real_stub.go\<close>): flags, choice of the source, \<open>run\<close>.
  \<^item> VmlinuxEnums, VmlinuxTypes, VmlinuxUapi, VmlinuxMaps, VmlinuxProgs, VmlinuxContexts, VmlinuxVerifier,
    VmlinuxSockets: the BPF part of the kernel types in \<open>internal/maps/bpf/vmlinux.h\<close>, which the BPF object is
    compiled against, as tables of enumerators and layout descriptors, one per declaration: every
    declaration that names BPF or BTF and everything these contain by value. VmlinuxProps: what they say of
    the creation of the maps of the bridge, and the widths, values and padding of the enumerations and
    records of the interface. VmlinuxLayouts: alignment of every field, and the room of opaque objects. VmlinuxBitProps:
    bit fields, the encoding of instructions, the pages of the ring buffer.
  \<^item> GpuHold: the CUDA program.
  \<^item> Demo: a machine and a source for witnesses; PollerProps, ConsumerProps, MapsProps, BackendProps, VmlinuxProps,
    VmlinuxLayouts, VmlinuxBitProps, the end of GpuHold and this theory: the properties.

  \<^bold>\<open>State.\<close> The world of the loop is a record of the kernel state, the state of the source and a log of the
  calls and warnings. A Go function with an error result returns \<open>goerr option\<close>, one with a value or an
  error a sum. Integers are words of their Go width; time stamps wrap as in Go. A Go map is an
  association list, and the order of every \<open>range\<close> over one is a parameter, a permutation that may
  differ from loop to loop. The events \<open>select\<close> sees are a list; the loop is total on it and returns
  \<open>None\<close> when the list has no cancellation. The loop of the CUDA program is a partial function whose
  end is a theorem.

  \<^bold>\<open>What is shown.\<close> A tick refines its specification of the maps, also when updates fail; the aggregation
  loops equal their specification for every iteration order; every run keeps the maps well formed, the
  pins in place and the life cycle of the source in order; the bridge opens, updates and unpins
  as documented and the dump prints the maps; C and Go agree on where every field is; the real backend reports
  what NVML answers, with balanced references, and the mock plausible values; flags and
  environment variables parse back; a run with and without \<open>--keep-pins\<close> leaves what it should. A
  run that is never cancelled keeps its metadata fresh as long as its backend answers. The two per-pid maps
  agree, every record in them comes from the samples of a tick, what NVML answers reaches the device map and
  the detail map unchanged, and the documented consumer gets from them what the samples say. Five properties show
  defects: \<open>consumer_never_trusts_daemon\<close> (the consumer compares the wall clock of the metadata with the time
  since boot), \<open>device_count_wraps\<close> (the \<open>uint8\<close> count of the devices of a pid),
  \<open>real_run_keeps_reference\<close> (the library is initialised twice and shut down once),
  \<open>utilisation_lost_after_first_sample\<close> (the window mixes nanoseconds and microseconds) and
  \<open>dump_misses_default_pins\<close> (an empty pin directory means one thing to the daemon and another to the dump).

  \<^bold>\<open>Hypotheses.\<close> \<open>bpf_kernel K\<close>: the laws of the map operations, of pins and of loading the object;
  \<open>orders_ok\<close>, \<open>is_range\<close>: an iteration visits every entry once; \<open>counts_refs\<close>: NVML counts successful
  initialisations and shutdowns; \<open>micro_stamps\<close>: NVML answers with samples newer than asked, stamped in
  microseconds; \<open>sine_like\<close>: the range of \<open>math.Sin\<close>; \<open>cuda_memory\<close>: which
  memory \<open>cudaMalloc\<close> allocates and \<open>cudaFree\<close> frees; \<open>core_laws\<close>: a CO-RE access finds a field by name where the
  type information it is relocated against has it, here the declarations of the bridge's own object. That a
  loader has this type information is an assumption on the consumer's side: the bridge does not provide it
  other than in its object.

  \<^bold>\<open>Not modelled.\<close> Log texts and the formatting of the dump, signal delivery, mutexes (the methods run in
  one goroutine), the period of the ticker, the arm64 copy of the bindings, the tests, the Python workload,
  and the declarations of \<open>vmlinux.h\<close> without relation to BPF, to which nothing in the repository refers. In
  the CUDA program, overflow of \<open>long\<close>, infinite and not-a-number doubles and the single precision
  arithmetic of the kernel body are left open.
\<close>

section \<open>A concrete environment\<close>

text \<open>The environment of the witnesses: the reference kernel, the library with one GPU, a constant clock, a
  binary built with the tag \<open>nvml\<close>, run as pid 99; every duration parses as 100 ms.\<close>

definition demo_env :: "(ref_world, nat) environ" where
  "demo_env = \<lparr>en_kernel = ref_kernel, en_nvml = one_gpu, en_sin = (\<lambda>x. 0), en_clock = (\<lambda>n. 5),
     en_nvml_tag = True, en_duration = (\<lambda>s. Some 100000000), en_memlock = None, en_pid = 99,
     en_first = demo_orders, en_first_now = 5\<rparr>"

lemma demo_env_simps [simp]:
  "en_kernel demo_env = ref_kernel" "en_nvml demo_env = one_gpu" "en_sin demo_env = (\<lambda>x. 0)"
  "en_clock demo_env = (\<lambda>n. 5)" "en_nvml_tag demo_env = True" "en_memlock demo_env = None"
  "en_pid demo_env = 99" "en_first demo_env = demo_orders" "en_first_now demo_env = 5" "en_first_now demo_env = 5" "en_duration demo_env = (\<lambda>s. Some 100000000)"
  by (simp_all add: demo_env_def)

text \<open>The options of the witnesses, and a start with them in the mode \<open>mode\<close>.\<close>

definition demo_options :: "string \<Rightarrow> bool \<Rightarrow> options" where
  "demo_options mode keep = default_options\<lparr>opt_mode := mode, opt_keepPins := keep\<rparr>"

lemma demo_parse:
  assumes "mode \<in> {''auto'', ''real'', ''mock''}"
  shows "parseFlags (en_duration demo_env) (show_args ''100ms'' (demo_options mode keep)) =
    Inr (demo_options mode keep)"
  using parse_show_args [of "en_duration demo_env" "''100ms''" "demo_options mode keep" default_options] assms
  by (auto simp: parseFlags_def demo_options_def default_options_def)

lemma demo_open_default: "Open ref_kernel DefaultPinDir empty_world = (Inr demo_bridge, demo_machine)"
  using demo_open by (simp add: Open_def DefaultPinDir_def)

lemma demo_started:
  assumes "mode \<in> {''auto'', ''real'', ''mock''}"
    and "chooseSource demo_env mode 0 = (Inr (src, nm), l1)"
  shows "started demo_env (show_args ''100ms'' (demo_options mode keep)) empty_world 0
    (demo_options mode keep) src l1 demo_bridge demo_machine"
  using demo_parse [OF assms(1), of keep] demo_open_default assms(2)
  by (auto simp: started_def demo_options_def default_options_def)

lemma demo_real: "chooseSource demo_env ''real'' 0 = (Inr (RealSource one_gpu_real, ''real''), 1)"
  using one_gpu_init
  by (simp add: chooseSource_def tryReal_def newRealPoller_def newRealPoller_real_def one_gpu_real_def)

lemma demo_real_started:
  "started demo_env (show_args ''100ms'' (demo_options ''real'' keep)) empty_world 0
    (demo_options ''real'' keep) (RealSource one_gpu_real) 1 demo_bridge demo_machine"
  by (rule demo_started [OF _ demo_real]) simp

lemma demo_returns:
  "\<exists>oc. run demo_env (es @ [CtxDone]) (show_args ''100ms'' (demo_options ''real'' keep)) empty_world 0 = Some oc"
  using run_returns [OF demo_real_started, of "es @ [CtxDone]" keep] by simp

section \<open>Flags and sources\<close>

text \<open>The command line that \<open>README.md\<close> gives for mock mode is refused: there is no flag \<open>mock-config\<close>.\<close>

lemma readme_mock_command_refused:
  "parseFlags dur [''--mode=mock'', ''--mock-config=./mock-config.yaml''] =
     Inl (Errorf ''flag provided but not defined: -mock-config'')"
  by (simp add: parseFlags_def classify_arg_def is_bool_flag_def is_value_flag_def set_value_def Let_def
      default_options_def)

text \<open>C37: Every option record with a valid mode is what \<open>parseFlags\<close> makes of the arguments that spell it out;
  without arguments it returns the defaults, and it never returns a mode other than auto, real and
  mock.\<close>

theorem parseFlags_round_trip:
  assumes "dur iv = Some (opt_pollInterval opt)" and "opt_mode opt \<in> {''auto'', ''real'', ''mock''}"
  shows "parseFlags dur (show_args iv opt) = Inr opt \<and> parseFlags dur [] = Inr default_options \<and>
    (\<forall>args opt'. parseFlags dur args = Inr opt' \<longrightarrow> opt_mode opt' \<in> {''auto'', ''real'', ''mock''})"
  using parse_show_args [of dur iv opt default_options] assms parseFlags_mode [of dur]
  by (auto simp: parseFlags_def default_options_def)

theorem parseFlags_round_trip_witness:
  "parseFlags (\<lambda>s. Some 5) (show_args ''5ns'' (default_options\<lparr>opt_pollInterval := 5, opt_dump := True\<rparr>)) =
    Inr (default_options\<lparr>opt_pollInterval := 5, opt_dump := True\<rparr>)"
  using parseFlags_round_trip [of "\<lambda>s. Some 5" "''5ns''" "default_options\<lparr>opt_pollInterval := 5, opt_dump := True\<rparr>"]
  by (simp add: default_options_def)

text \<open>C28: Which source \<open>--mode\<close> yields. The real backend is usable when the binary has it and its
  initialisation succeeds: then \<open>real\<close> and \<open>auto\<close> both yield it, initialised, named ``real'', with one more
  reference on the NVML library. Otherwise \<open>real\<close> fails with the error of the initialisation and \<open>auto\<close> yields
  a started mock named ``mock''; \<open>mock\<close> always yields the mock. Unless the real backend is returned NVML
  keeps the references it had, and it is not called at all for \<open>mock\<close> or in a binary without it.\<close>

theorem chooseSource_result:
  assumes "counts_refs (en_nvml E) refs" and "chooseSource E mode l = (res, l')"
  shows "(mode \<in> {''auto'', ''real''} \<longrightarrow> real_usable E l \<longrightarrow>
       (case Real_Init (en_nvml E) (NewReal l) of (err, q) \<Rightarrow>
          res = Inr (RealSource q, ''real'') \<and> rl_initialized q \<and> l' = rl_lib q \<and> refs l' = refs l + 1)) \<and>
    (mode = ''real'' \<longrightarrow> \<not> real_usable E l \<longrightarrow>
       (\<exists>e. res = Inl (Wrapf ''real NVML backend requested but unavailable'' e) \<and>
          (en_nvml_tag E \<longrightarrow> fst (Real_Init (en_nvml E) (NewReal l)) = Some e)) \<and> refs l' = refs l) \<and>
    (mode = ''mock'' \<or> mode = ''auto'' \<and> \<not> real_usable E l \<longrightarrow>
       (case Mock_Init (NewMock (en_clock E)) of (err, m) \<Rightarrow>
          err = None \<and> mock_inv m \<and> res = Inr (MockSource m, ''mock'')) \<and> refs l' = refs l) \<and>
    (mode = ''mock'' \<or> \<not> en_nvml_tag E \<longrightarrow> l' = l)"
proof -
  note c = chooseSource_cases [OF assms]
  obtain m where "Mock_Init (NewMock (en_clock E)) = (None, m)" "mock_inv m" using Mock_Init_ok by blast
  with c show ?thesis by (auto split: prod.splits)
qed

theorem chooseSource_result_witness:
  "\<exists>r m. chooseSource demo_env ''auto'' 0 = (Inr (RealSource r, ''real''), 1) \<and>
     chooseSource (demo_env\<lparr>en_nvml_tag := False\<rparr>) ''auto'' 0 = (Inr (MockSource m, ''mock''), 0)"
proof -
  have refs: "counts_refs (en_nvml demo_env) (\<lambda>l. l)" "counts_refs (en_nvml (demo_env\<lparr>en_nvml_tag := False\<rparr>)) (\<lambda>l. l)"
    using one_gpu_refs by simp_all
  obtain res l' where c: "chooseSource demo_env ''auto'' 0 = (res, l')" by fastforce
  obtain res2 l2 where c2: "chooseSource (demo_env\<lparr>en_nvml_tag := False\<rparr>) ''auto'' 0 = (res2, l2)" by fastforce
  have u: "real_usable demo_env 0" "\<not> real_usable (demo_env\<lparr>en_nvml_tag := False\<rparr>) 0"
    using one_gpu_init by (simp_all add: real_usable_def)
  from chooseSource_result [OF refs(1) c] chooseSource_result [OF refs(2) c2] c c2 u show ?thesis
    by (auto split: prod.splits)
qed

section \<open>The loop on the chosen source\<close>

text \<open>C13: A tick on any source the command can choose fills the device map by position: slot \<open>i\<close> holds the record
  of device \<open>i\<close> for every device of the source below \<open>GPU_MAX_DEVICES\<close>, no other slot changes, and the
  metadata counts all devices of the source, also those without a slot.\<close>

theorem tick_fills_slots:
  assumes "bpf_kernel K" and "orders_ok ro" and "pl_source p = source_poller L msin"
    and "source_inv (wd_src wd0)" and "source_ndev (wd_src wd0) \<le> 2 ^ 32"
    and "np_Devices (source_poller L msin) (wd_src wd0) = ((devs, None), src1)"
    and "wview K (pl_bridge p) wd0 = Some v" and "tick K ro now p wd0 = (r, p', wd')"
  shows "\<exists>v'. wview K (pl_bridge p) wd' = Some v' \<and>
    v_meta v' 0 = Some (meta_record devs now (pl_helper p)) \<and> length devs = source_ndev (wd_src wd0) \<and>
    (\<forall>idx. v_device v' idx =
       (if unat idx < source_ndev (wd_src wd0) \<and> unat idx < GPU_MAX_DEVICES
        then Some (deviceSnapshotToMap (devs ! unat idx)) else v_device v idx))"
  by (rule source.tick_slots [OF assms])

theorem tick_fills_slots_witness:
  "\<exists>v' d. wview ref_kernel demo_bridge (snd (snd (tick ref_kernel demo_orders 5
       (daemon demo_env default_options demo_bridge)
       \<lparr>wd_kern = demo_machine, wd_src = RealSource one_gpu_real, wd_log = []\<rparr>))) = Some v' \<and>
     v_device v' 0 = Some d \<and> v_device v' 1 = v_device demo_view 1"
proof -
  let ?p = "daemon demo_env default_options demo_bridge"
  let ?wd = "\<lparr>wd_kern = demo_machine, wd_src = RealSource one_gpu_real, wd_log = []\<rparr>"
  obtain r p' wd' where t: "tick ref_kernel demo_orders 5 ?p ?wd = (r, p', wd')" by (metis prod.exhaust)
  obtain devs e src1 where d: "np_Devices (source_poller one_gpu (\<lambda>x. 0)) (RealSource one_gpu_real) = ((devs, e), src1)"
    by (metis prod.exhaust)
  then have "e = None" by (auto simp: Real_Devices_result)
  with tick_fills_slots [OF refk.bpf_kernel_axioms demo_orders_ok, of ?p one_gpu "\<lambda>x. 0" ?wd devs src1 demo_view 5]
    d t demo_bview show ?thesis
    by (auto simp: wview_def one_gpu_real_def GPU_MAX_DEVICES_def)
qed

section \<open>Whole runs of the command\<close>

text \<open>C12: With \<open>--keep-pins\<close> a daemon that returns leaves the four maps behind for others: all pins are as they
  were after start-up, and the maps behind them are open, well formed and hold exactly what the loop left in
  them. A dump of that directory that reports no error prints exactly these contents, and a daemon that
  starts again with the same option finds them in its maps.\<close>

theorem keep_pins_leaves_maps:
  assumes "bpf_kernel (en_kernel E)" and "started E args w l opt src l1 b w1" and "opt_keepPins opt"
    and "orders_ok (en_first E)" and "list_all ev_ok evs"
    and "bview (en_kernel E) b w1 = Some v" and "view_ok (word_of_int (en_pid E)) v"
    and "run E evs args w l = Some oc"
  shows "k_fs (en_kernel E) (oc_kern oc) = k_fs (en_kernel E) w1 \<and>
    (\<exists>r p' wd v'. Run (en_kernel E) (en_first E) (en_first_now E) evs (daemon E opt b)
        \<lparr>wd_kern = w1, wd_src = src, wd_log = []\<rparr> = Some (r, p', wd) \<and>
       bview (en_kernel E) b (wd_kern wd) = Some v' \<and> view_ok (word_of_int (en_pid E)) v' \<and>
       pinned_in (en_kernel E) b (br_pinDir b) v' (oc_kern oc) \<and>
       (\<forall>out w2. runDump (en_kernel E) (br_pinDir b) (oc_kern oc) = (out, None, w2) \<longrightarrow>
          data_lines out = dump_spec v') \<and>
       (\<forall>b2 w2. Open (en_kernel E) (opt_pinDir opt) (oc_kern oc) = (Inr b2, w2) \<longrightarrow>
          bview (en_kernel E) b2 w2 = Some v'))"
proof -
  let ?K = "en_kernel E"
  note c = bpf_kernel.run_keeps_contents [OF assms(1) refl assms(2-8)]
  then obtain r p' wd v' where R: "Run ?K (en_first E) (en_first_now E) evs (daemon E opt b)
        \<lparr>wd_kern = w1, wd_src = src, wd_log = []\<rparr> = Some (r, p', wd)"
      "bview ?K b (wd_kern wd) = Some v'" "view_ok (word_of_int (en_pid E)) v'"
    and pinned: "pinned_in ?K b (br_pinDir b) v' (oc_kern oc)" by blast
  from assms(2) have "Open ?K (opt_pinDir opt) w = (Inr b, w1)" by (simp add: started_def)
  from bpf_kernel.reopen_view [OF assms(1) pinned bpf_kernel.Open_view(2) [OF assms(1) this]]
  have "bview ?K b2 w2 = Some v'" if "Open ?K (opt_pinDir opt) (oc_kern oc) = (Inr b2, w2)" for b2 w2
    using that by blast
  with c R pinned bpf_kernel.runDump_view [OF assms(1) pinned] show ?thesis by blast
qed

theorem keep_pins_leaves_maps_witness:
  "\<exists>oc r p' wd v'. run demo_env [TickerC demo_orders 6, CtxDone]
      (show_args ''100ms'' (demo_options ''real'' True)) empty_world 0 = Some oc \<and>
     k_fs ref_kernel (oc_kern oc) = k_fs ref_kernel demo_machine \<and>
     Run ref_kernel demo_orders 5 [TickerC demo_orders 6, CtxDone] (daemon demo_env (demo_options ''real'' True) demo_bridge)
       \<lparr>wd_kern = demo_machine, wd_src = RealSource one_gpu_real, wd_log = []\<rparr> = Some (r, p', wd) \<and>
     bview ref_kernel demo_bridge (wd_kern wd) = Some v' \<and>
     pinned_in ref_kernel demo_bridge ''/sys/fs/bpf'' v' (oc_kern oc) \<and>
     (\<forall>out w2. runDump ref_kernel ''/sys/fs/bpf'' (oc_kern oc) = (out, None, w2) \<longrightarrow> data_lines out = dump_spec v') \<and>
     (\<forall>b2 w2. Open ref_kernel ''/sys/fs/bpf'' (oc_kern oc) = (Inr b2, w2) \<longrightarrow> bview ref_kernel b2 w2 = Some v')"
proof -
  obtain oc where oc: "run demo_env [TickerC demo_orders 6, CtxDone]
      (show_args ''100ms'' (demo_options ''real'' True)) empty_world 0 = Some oc"
    using demo_returns [of "[TickerC demo_orders 6]" True] by auto
  have b: "bpf_kernel (en_kernel demo_env)" using refk.bpf_kernel_axioms by simp
  have d: "br_pinDir demo_bridge = ''/sys/fs/bpf''" "opt_pinDir (demo_options ''real'' True) = ''/sys/fs/bpf''"
    by (simp_all add: demo_bridge_def demo_options_def default_options_def DefaultPinDir_def)
  from keep_pins_leaves_maps [OF b demo_real_started _ _ _ _ _ oc, of demo_view, unfolded d]
    demo_bview demo_view_ok demo_orders_ok
  show ?thesis using oc by (simp add: demo_options_def) metis
qed

text \<open>C21: Without \<open>--keep-pins\<close> a daemon that returns has removed its four pins, unless it logged that it could
  not.\<close>

theorem shutdown_removes_pins:
  assumes "bpf_kernel (en_kernel E)" and "started E args w l opt src l1 b w1" and "\<not> opt_keepPins opt"
    and "run E evs args w l = Some oc"
  shows "unpin_warned (oc_log oc) \<or> (\<forall>p \<in> pin_paths (br_pinDir b). \<not> k_exists (en_kernel E) (oc_kern oc) p)"
  by (rule bpf_kernel.run_unpins [OF assms(1) refl assms(2-4)])

theorem shutdown_removes_pins_witness:
  "\<exists>oc. run demo_env [CtxDone] (show_args ''100ms'' (demo_options ''real'' False)) empty_world 0 = Some oc \<and>
     (unpin_warned (oc_log oc) \<or> \<not> k_exists ref_kernel (oc_kern oc) ''/sys/fs/bpf/gpu_meta'')"
proof -
  obtain oc where oc: "run demo_env [CtxDone] (show_args ''100ms'' (demo_options ''real'' False)) empty_world 0 = Some oc"
    using demo_returns [of "[]" False] by auto
  have b: "bpf_kernel (en_kernel demo_env)" using refk.bpf_kernel_axioms by simp
  have "''/sys/fs/bpf/gpu_meta'' \<in> pin_paths (br_pinDir demo_bridge)"
    by (simp add: pin_paths_def demo_bridge_def map_name_defs demo_join)
  with shutdown_removes_pins [OF b demo_real_started _ oc] oc show ?thesis
    by (auto simp: demo_options_def)
qed

text \<open>C27: A daemon on the real backend initialises NVML twice and shuts it down at most once: whenever it returns,
  the library holds one reference more than before.\<close>

theorem real_run_keeps_reference:
  assumes "counts_refs (en_nvml E) refs" and "started E args w l opt (RealSource q) l1 b w1"
    and "run E evs args w l = Some oc"
  shows "refs (oc_lib oc) = refs l + 1"
  by (rule run_real_refs [OF assms])

theorem real_run_keeps_reference_witness:
  "\<exists>oc. run demo_env [CtxDone] (show_args ''100ms'' (demo_options ''real'' False)) empty_world 0 = Some oc \<and>
     oc_lib oc = 1"
proof -
  obtain oc where oc: "run demo_env [CtxDone] (show_args ''100ms'' (demo_options ''real'' False)) empty_world 0 = Some oc"
    using demo_returns [of "[]" False] by auto
  from real_run_keeps_reference [OF _ demo_real_started oc, of "\<lambda>l. l"] one_gpu_refs oc show ?thesis by simp
qed

section \<open>An empty pin directory\<close>

lemma empty_join: "file_join '''' MapNameMeta = ''gpu_meta''"
  by (simp add: file_join_def file_clean_def clean_elem_def Let_def MapNameMeta_def)

text \<open>C26: A defect: with an empty \<open>--pin-dir\<close> the daemon pins its maps in the default directory, but a dump with the
  same option looks for \<open>gpu_meta\<close> in the working directory. Unless a file of that name happens to be there,
  the dump prints nothing and the process exits with status 1, although the maps are pinned.\<close>

theorem dump_misses_default_pins:
  assumes "bpf_kernel (en_kernel E)" and "started E args w l opt src l1 b w1" and "opt_pinDir opt = ''''"
    and "orders_ok (en_first E)" and "list_all ev_ok evs"
    and "bview (en_kernel E) b w1 = Some v" and "view_ok (word_of_int (en_pid E)) v"
    and "opt_keepPins opt" and "run E evs args w l = Some oc"
    and "parseFlags (en_duration E) dargs = Inr dopt" and "opt_dump dopt" and "\<not> opt_showVersion dopt"
    and "opt_pinDir dopt = opt_pinDir opt" and "\<not> k_exists (en_kernel E) w1 ''gpu_meta''"
  shows "k_exists (en_kernel E) (oc_kern oc) (file_join DefaultPinDir MapNameMeta) \<and>
    (\<exists>oc2. main E evs2 dargs (oc_kern oc) l2 = Some (1, oc2) \<and> oc_dump oc2 = [] \<and>
       (\<exists>e. oc_err oc2 = Some e \<and> errors_is e ErrNotExist))"
proof -
  let ?K = "en_kernel E"
  from assms(2) have o: "Open ?K '''' w = (Inr b, w1)" by (simp add: started_def assms(3))
  from bpf_kernel.Open_view [OF assms(1) o] have "k_pin ?K w1 (file_join DefaultPinDir MapNameMeta) =
      Some (fd_GpuMeta (br_objs b))" by simp
  then have ex: "k_exists ?K w1 (file_join DefaultPinDir MapNameMeta)" by (rule bpf_kernel.pin_exists [OF assms(1)])
  have "k_fs ?K (oc_kern oc) = k_fs ?K w1"
    by (rule bpf_kernel.run_keeps_pins [OF assms(1) refl assms(2,8,4-7,9)])
  then have fs: "k_exists ?K (oc_kern oc) = k_exists ?K w1" by (simp add: k_fs_def)
  from assms(14) fs have "\<not> k_exists ?K (oc_kern oc) (file_join '''' MapNameMeta)"
    by (simp add: empty_join)
  from bpf_kernel.runDump_missing [OF assms(1) this] obtain e where
    "runDump ?K '''' (oc_kern oc) = ([], Some e, oc_kern oc)" "errors_is e ErrNotExist" by blast
  with assms(3,10-13) ex fs show ?thesis by (simp add: main_def run_def ended_def Let_def)
qed

theorem dump_misses_default_pins_witness:
  "\<exists>oc oc2. run demo_env [TickerC demo_orders 6, CtxDone]
      (show_args ''100ms'' (demo_options ''real'' True\<lparr>opt_pinDir := ''''\<rparr>)) empty_world 0 = Some oc \<and>
    main demo_env [] (show_args ''100ms'' (demo_options ''real'' True\<lparr>opt_pinDir := '''', opt_dump := True\<rparr>))
      (oc_kern oc) 0 = Some (1, oc2)"
proof -
  let ?opt = "demo_options ''real'' True\<lparr>opt_pinDir := ''''\<rparr>" and ?dopt = "demo_options ''real'' True\<lparr>opt_pinDir := '''', opt_dump := True\<rparr>"
  have parse: "parseFlags (en_duration demo_env) (show_args ''100ms'' x) = Inr x"
    if "opt_mode x = ''real''" "opt_pollInterval x = 100000000" for x
    using parse_show_args [of "en_duration demo_env" "''100ms''" x default_options] that
    by (simp add: parseFlags_def)
  have st: "started demo_env (show_args ''100ms'' ?opt) empty_world 0 ?opt (RealSource one_gpu_real) 1 demo_bridge demo_machine"
    using parse [of ?opt] demo_real demo_open by (simp add: started_def demo_options_def default_options_def)
  obtain oc where oc: "run demo_env [TickerC demo_orders 6, CtxDone] (show_args ''100ms'' ?opt) empty_world 0 = Some oc"
    using run_returns [OF st, of "[TickerC demo_orders 6, CtxDone]"] by auto
  have b: "bpf_kernel (en_kernel demo_env)" using refk.bpf_kernel_axioms by simp
  have "\<not> k_exists ref_kernel demo_machine ''gpu_meta''" by (simp add: demo_machine_def)
  with dump_misses_default_pins [OF b st _ _ _ _ _ _ oc parse [of ?dopt], of demo_view "[]" 0]
    demo_bview demo_view_ok demo_orders_ok oc show ?thesis
    by (simp add: demo_options_def default_options_def) blast
qed

end
